(* ===== verification/Prelude.thy ===== *)
theory Prelude
  imports Main "HOL-Library.Word"
begin

text \<open>
  Shared vocabulary of the development: the machine integer types of the drivers, the C macros
  of the kernel headers they compute with (\<open>BIT\<close>, \<open>GENMASK\<close>, \<open>ALIGN\<close>, \<open>clamp_t\<close>,
  \<open>DIV_ROUND_CLOSEST\<close> and so on, at their width, wrap-around included), the error numbers, the
  ways a kernel function can fault instead of returning, and the generic lemmas on words and
  lists that the component theories share.
\<close>

unbundle bit_operations_syntax

section \<open>Types\<close>

type_synonym u8 = "8 word"
type_synonym u16 = "16 word"
type_synonym u32 = "32 word"
type_synonym u64 = "64 word"

text \<open>
  A C \<open>int\<close> is an \<open>int\<close> here; where the code converts between \<open>int\<close> and an unsigned type the
  conversion is written out: \<open>s32\<close> and \<open>u32\<close> below, and \<open>sext64\<close> for an \<open>int\<close> handed to a
  \<open>u64\<close> parameter.
\<close>

definition u32_of_int :: "int \<Rightarrow> u32" where
  "u32_of_int i = word_of_int i"

definition s32_of_u32 :: "u32 \<Rightarrow> int" where
  "s32_of_u32 w = sint w"

definition sext64 :: "int \<Rightarrow> u64" where
  "sext64 i = word_of_int i"

definition zext64 :: "u32 \<Rightarrow> u64" where
  "zext64 w = ucast w"

text \<open>A fault: the kernel does not return from the call, it oopses.\<close>

datatype fault = Div_by_zero | Null_deref | Buffer_overflow | Out_of_bounds

section \<open>Error numbers\<close>

definition ENOMEM :: int where "ENOMEM = 12"
definition EBUSY :: int where "EBUSY = 16"
definition ENODEV :: int where "ENODEV = 19"
definition EINVAL :: int where "EINVAL = 22"
definition ENOSPC :: int where "ENOSPC = 28"
definition ERANGE :: int where "ERANGE = 34"
definition E2BIG :: int where "E2BIG = 7"
definition EPROBE_DEFER :: int where "EPROBE_DEFER = 517"

lemmas errno_defs = ENOMEM_def EBUSY_def ENODEV_def EINVAL_def ENOSPC_def ERANGE_def E2BIG_def
  EPROBE_DEFER_def

section \<open>Macros of the kernel headers\<close>

definition BIT :: "nat \<Rightarrow> 'a::len word" where
  "BIT n = push_bit n 1"

definition GENMASK :: "nat \<Rightarrow> nat \<Rightarrow> 'a::len word" where
  "GENMASK h l = push_bit l (mask (Suc h - l))"

text \<open>\<open>FIELD_GET(GENMASK(h, l), v)\<close>.\<close>

definition FIELD_GET :: "nat \<Rightarrow> nat \<Rightarrow> 'a::len word \<Rightarrow> 'a word" where
  "FIELD_GET h l v = drop_bit l (v AND GENMASK h l)"

text \<open>\<open>ALIGN(x, a)\<close> for a power of two: \<open>(x + (a - 1)) & ~(a - 1)\<close>, wrapping at the type.\<close>

definition ALIGN :: "'a::len word \<Rightarrow> 'a word \<Rightarrow> 'a word" where
  "ALIGN x a = (x + (a - 1)) AND NOT (a - 1)"

definition ALIGN_DOWN :: "'a::len word \<Rightarrow> 'a word \<Rightarrow> 'a word" where
  "ALIGN_DOWN x a = ALIGN (x - (a - 1)) a"

text \<open>\<open>clamp_t(type, val, lo, hi)\<close>: the upper bound is tested first.\<close>

definition clamp_t :: "'a::linorder \<Rightarrow> 'a \<Rightarrow> 'a \<Rightarrow> 'a" where
  "clamp_t v lo hi = (if hi \<le> v then hi else if v \<le> lo then lo else v)"

definition rounddown :: "u32 \<Rightarrow> u32 \<Rightarrow> u32" where
  "rounddown x y = x - x mod y"

text \<open>The divisor of the two macros below is never zero where they are used.\<close>

definition DIV_ROUND_CLOSEST :: "u32 \<Rightarrow> u32 \<Rightarrow> u32" where
  "DIV_ROUND_CLOSEST x d = (x + d div 2) div d"

definition DIV_ROUND_UP :: "u32 \<Rightarrow> u32 \<Rightarrow> u32" where
  "DIV_ROUND_UP n d = (n + d - 1) div d"

section \<open>Collections of rules\<close>

named_theorems ov5693_regs "the register constants of the OV5693"
named_theorems ov7251_regs "the register constants of the OV7251"
named_theorems frame "what an operation leaves unchanged"

section \<open>Words\<close>

lemma unat_plus_small:
  "unat a + unat b < 2 ^ LENGTH('a) \<Longrightarrow> unat (a + b :: 'a::len word) = unat a + unat b"
  by (simp add: unat_word_ariths)

lemma unat_minus_small:
  "b \<le> a \<Longrightarrow> unat (a - b :: 'a::len word) = unat a - unat b"
  by (simp add: unat_sub)

lemma unat_mult_small:
  "unat a * unat b < 2 ^ LENGTH('a) \<Longrightarrow> unat (a * b :: 'a::len word) = unat a * unat b"
  by (simp add: unat_word_ariths)

lemma and_not_mask_shift: "x AND NOT (mask n) = push_bit n (drop_bit n x)"
  for x :: "'a::len word"
  by (rule bit_word_eqI) (auto simp: bit_simps)

lemma unat_and_not_1: "unat (x AND NOT 1 :: 'a::len word) = 2 * (unat x div 2)"
proof -
  have "unat x < 2 ^ LENGTH('a)" by simp
  then have small: "2 * (unat x div 2) < 2 ^ LENGTH('a)" by linarith
  have "x AND NOT 1 = push_bit 1 (drop_bit 1 x)"
    using and_not_mask_shift [of x 1] by simp
  then show ?thesis
    using small by (auto simp: push_bit_eq_mult unat_word_ariths unat_drop_bit_eq drop_bit_Suc
      mult.commute)
qed

lemma clamp_t_bounds:
  assumes "lo \<le> hi"
  shows "lo \<le> clamp_t v lo hi" and "clamp_t v lo hi \<le> hi"
  using assms by (auto simp: clamp_t_def)

lemma clamp_t_id: "lo \<le> v \<Longrightarrow> v \<le> hi \<Longrightarrow> clamp_t v lo hi = v"
  by (auto simp: clamp_t_def)

lemma unat_clamp_t: "unat (clamp_t v lo hi) = clamp_t (unat v) (unat lo) (unat hi)"
  for v :: "'a::len word"
  by (auto simp: clamp_t_def word_le_nat_alt)

lemma u32_u64_u32: "(ucast (ucast x :: u64) :: u32) = x"
  by (rule bit_word_eqI) (simp add: bit_simps)

lemma s32_small: "unat w < 2 ^ 31 \<Longrightarrow> s32_of_u32 w = int (unat w)"
proof -
  assume small: "unat w < 2 ^ 31"
  obtain n where n: "unat w = n" by simp
  then have u: "uint w = int n" by auto
  have "signed_take_bit 31 (int n) = int n"
    using small n by (intro signed_take_bit_int_eq_self) simp_all
  with n u show ?thesis by (simp add: s32_of_u32_def sint_uint)
qed

lemma s32_of_int:
  assumes "- 2147483648 \<le> i" and "i < 2147483648"
  shows "s32_of_u32 (word_of_int i) = i"
proof -
  have "signed_take_bit 31 i = i"
    using assms by (intro signed_take_bit_int_eq_self) simp_all
  then show ?thesis by (simp add: s32_of_u32_def sint_sbintrunc')
qed

lemma unat_u32_of_int: "0 \<le> i \<Longrightarrow> i < 4294967296 \<Longrightarrow> unat (u32_of_int i) = nat i"
  by (simp add: u32_of_int_def unat_eq_nat_uint uint_word_of_int)

lemma word_of_int_sum:
  fixes w :: u32
  assumes "l = int (unat w) + v - k" and "K = word_of_int k"
  shows "w + u32_of_int v - K = word_of_int l"
proof -
  have "w = word_of_int (int (unat w))" by simp
  then show ?thesis
    unfolding u32_of_int_def assms by (metis wi_hom_add wi_hom_sub)
qed

end
