(* ===== verification/Kernel.thy ===== *)
theory Kernel
  imports Prelude
begin

text \<open>
  The kernel as the sensor drivers see it. None of its code is in the repository, so nothing here
  says what a kernel service computes: a call is recorded in the \<open>trace\<close> of the device with the
  result the environment gave, and the environment \<open>env\<close> is a parameter of every operation that
  makes a call. Its answer may depend on the whole history of calls, so a theorem over all
  environments covers every pattern of bus errors, clock failures and PM states.

  Four services call back into the driver (the three control functions that end in the driver's
  \<open>s_ctrl\<close>, and \<open>pm_runtime_resume_and_get\<close>, which may run its resume callback). They are the
  fields of \<open>services\<close>, again a parameter; the locale \<open>ctrl_core\<close> states what the documentation
  of the control framework promises of them.
\<close>

section \<open>Calls and the trace\<close>

text \<open>A register of the CCI helpers: its address and its width in bytes.\<close>

datatype reg = CCI_REG8 u16 | CCI_REG16 u16 | CCI_REG24 u16

datatype regulator = Vdddo | Vddd | Vdda

instantiation regulator :: enum
begin

definition "enum_regulator = [Vdddo, Vdda, Vddd]"
definition "enum_all_regulator P \<longleftrightarrow> P Vdddo \<and> P Vdda \<and> P Vddd"
definition "enum_ex_regulator P \<longleftrightarrow> P Vdddo \<or> P Vdda \<or> P Vddd"

instance
proof
  fix P :: "regulator \<Rightarrow> bool"
  show all: "(UNIV :: regulator set) = set enum_class.enum"
    using regulator.exhaust by (auto simp: enum_regulator_def)
  show "distinct (enum_class.enum :: regulator list)" by (simp add: enum_regulator_def)
  show "enum_class.enum_all P \<longleftrightarrow> Ball UNIV P" "enum_class.enum_ex P \<longleftrightarrow> Bex UNIV P"
    unfolding all by (simp_all add: enum_regulator_def enum_all_regulator_def enum_ex_regulator_def)
qed

end

datatype gpio = Gpio_reset | Gpio_powerdown | Gpio_enable

datatype bus =
    Cci_write reg u64
  | Cci_read reg
  | Cci_update_bits reg u64 u64
  | Cci_multi_reg_write "(reg \<times> u64) list"
  | I2c_master_send "u8 list"
  | I2c_master_recv nat

datatype rail =
    Clk_prepare_enable
  | Clk_disable_unprepare
  | Regulator_enable regulator
  | Regulator_disable regulator
  | Regulator_bulk_enable
  | Regulator_bulk_disable
  | Gpiod_set gpio int
  | Usleep_range nat nat

datatype pm =
    Pm_resume_and_get
  | Pm_get_if_in_use
  | Pm_put
  | Pm_put_noidle
  | Pm_put_autosuspend
  | Pm_set_active
  | Pm_get_noresume
  | Pm_enable
  | Pm_disable
  | Pm_set_suspended
  | Pm_status_suspended
  | Pm_use_autosuspend nat

text \<open>Controls by their V4L2 identifier.\<close>

datatype cid =
    V4L2_CID_EXPOSURE
  | V4L2_CID_ANALOGUE_GAIN
  | V4L2_CID_DIGITAL_GAIN
  | V4L2_CID_HFLIP
  | V4L2_CID_VFLIP
  | V4L2_CID_VBLANK
  | V4L2_CID_HBLANK
  | V4L2_CID_TEST_PATTERN
  | V4L2_CID_LINK_FREQ
  | V4L2_CID_PIXEL_RATE
  | V4L2_CID_EXPOSURE_ABSOLUTE
  | V4L2_CID_AUTOGAIN

datatype init_call =
    Devm_kzalloc
  | Devm_cci_regmap_init_i2c
  | Fwnode_graph_get_next_endpoint
  | Fwnode_handle_put
  | V4l2_fwnode_endpoint_alloc_parse
  | V4l2_fwnode_endpoint_free
  | Mutex_init
  | Mutex_destroy
  | V4l2_i2c_subdev_init
  | Devm_v4l2_sensor_clk_get
  | Clk_get_rate
  | Devm_gpiod_get gpio
  | Devm_regulator_get regulator
  | Devm_regulator_bulk_get
  | V4l2_ctrl_handler_init
  | V4l2_ctrl_handler_free
  | V4l2_ctrl_new cid
  | V4l2_fwnode_device_parse
  | V4l2_ctrl_new_fwnode_properties
  | Media_entity_pads_init
  | Media_entity_cleanup
  | V4l2_async_register_subdev
  | V4l2_async_unregister_subdev

datatype ev =
    Bus bus
  | Rail rail
  | Pm pm
  | Mutex_lock
  | Mutex_unlock
  | Init init_call

type_synonym trace = "(ev \<times> int) list"

text \<open>
  The environment: the return code of a call and the value it stores through an out parameter,
  given everything called before.
\<close>

record env =
  ret_of :: "trace \<Rightarrow> ev \<Rightarrow> int"
  val_of :: "trace \<Rightarrow> ev \<Rightarrow> u64"

text \<open>A control as the drivers read it through its \<open>struct v4l2_ctrl\<close>.\<close>

record ctrl =
  minimum :: int
  maximum :: int
  step :: int
  default_value :: int
  val :: int
  read_only :: bool

text \<open>
  The part of the device state both sensor drivers share: the calls made so far, the controls of
  the handler, and whether the driver's pointer to a control is set (\<open>v4l2_ctrl_new_std\<close> returns
  NULL when it fails).
\<close>

record kdev =
  trace :: trace
  ctrls :: "cid \<Rightarrow> ctrl"
  ctrl_ptr :: "cid \<Rightarrow> bool"
  rpm_active :: bool

text \<open>A call with a result, a call that also stores a value, and a \<open>void\<close> call.\<close>

definition kcall :: "env \<Rightarrow> ev \<Rightarrow> 'a kdev_scheme \<Rightarrow> int \<times> 'a kdev_scheme" where
  "kcall E e d = (let r = ret_of E (trace d) e in (r, d\<lparr>trace := trace d @ [(e, r)]\<rparr>))"

definition kread :: "env \<Rightarrow> ev \<Rightarrow> 'a kdev_scheme \<Rightarrow> int \<times> u64 \<times> 'a kdev_scheme" where
  "kread E e d = (let r = ret_of E (trace d) e
     in (r, val_of E (trace d) e, d\<lparr>trace := trace d @ [(e, r)]\<rparr>))"

definition kdo :: "ev \<Rightarrow> 'a kdev_scheme \<Rightarrow> 'a kdev_scheme" where
  "kdo e d = d\<lparr>trace := trace d @ [(e, 0)]\<rparr>"

text \<open>A call whose result is computed elsewhere (a service that called back into the driver).\<close>

definition klog :: "ev \<Rightarrow> int \<Rightarrow> 'a kdev_scheme \<Rightarrow> 'a kdev_scheme" where
  "klog e r d = d\<lparr>trace := trace d @ [(e, r)]\<rparr>"

text \<open>The device without its trace: what a plain call leaves unchanged.\<close>

definition quiet :: "'a kdev_scheme \<Rightarrow> 'a kdev_scheme" where
  "quiet d = d\<lparr>trace := []\<rparr>"

lemma kcall_trace [simp]: "trace (snd (kcall E e d)) = trace d @ [(e, fst (kcall E e d))]"
  by (simp add: kcall_def Let_def)

lemma kcall_fst [simp]: "fst (kcall E e d) = ret_of E (trace d) e"
  by (simp add: kcall_def Let_def)

lemma kcall_quiet [simp]: "quiet (snd (kcall E e d)) = quiet d"
  by (simp add: kcall_def quiet_def Let_def)

lemma kread_simps [simp]:
  "fst (kread E e d) = ret_of E (trace d) e"
  "fst (snd (kread E e d)) = val_of E (trace d) e"
  "trace (snd (snd (kread E e d))) = trace d @ [(e, ret_of E (trace d) e)]"
  "quiet (snd (snd (kread E e d))) = quiet d"
  by (simp_all add: kread_def Let_def quiet_def)

lemma kdo_trace [simp]: "trace (kdo e d) = trace d @ [(e, 0)]"
  by (simp add: kdo_def)

lemma kdo_quiet [simp]: "quiet (kdo e d) = quiet d"
  by (simp add: kdo_def quiet_def)

lemma quiet_eqI: "quiet d = quiet d' \<Longrightarrow> trace d = trace d' \<Longrightarrow> d = d'"
  by (cases d, cases d') (simp add: quiet_def)

lemma quiet_fields:
  assumes "quiet d = quiet d'"
  shows "ctrls d = ctrls d'" "ctrl_ptr d = ctrl_ptr d'" "rpm_active d = rpm_active d'"
    "kdev.more d = kdev.more d'"
  using assms by (cases d, cases d', simp add: quiet_def)+

lemma kcall_frame [simp]:
  "ctrls (snd (kcall E e d)) = ctrls d" "ctrl_ptr (snd (kcall E e d)) = ctrl_ptr d"
  "rpm_active (snd (kcall E e d)) = rpm_active d" "kdev.more (snd (kcall E e d)) = kdev.more d"
  by (simp_all add: kcall_def Let_def)

lemma kdo_frame [simp]:
  "ctrls (kdo e d) = ctrls d" "ctrl_ptr (kdo e d) = ctrl_ptr d"
  "rpm_active (kdo e d) = rpm_active d" "kdev.more (kdo e d) = kdev.more d"
  by (simp_all add: kdo_def)

text \<open>The services that call back into the driver.\<close>

record 'd services =
  modify_range :: "cid \<Rightarrow> int \<Rightarrow> int \<Rightarrow> int \<Rightarrow> int \<Rightarrow> 'd \<Rightarrow> int \<times> 'd"
  set_ctrl :: "cid \<Rightarrow> int \<Rightarrow> 'd \<Rightarrow> int \<times> 'd"
  handler_setup :: "'d \<Rightarrow> int \<times> 'd"
  resume_and_get :: "'d \<Rightarrow> int \<times> 'd"

text \<open>Services that refuse everything, for the callbacks that never use them.\<close>

definition no_services :: "'d services" where
  "no_services = \<lparr>modify_range = (\<lambda>_ _ _ _ _ d. (- EINVAL, d)), set_ctrl = (\<lambda>_ _ d. (- EINVAL, d)),
     handler_setup = (\<lambda>d. (- EINVAL, d)), resume_and_get = (\<lambda>d. (- EINVAL, d))\<rparr>"

section \<open>Sequences of register writes\<close>

text \<open>
  Both drivers program the sensor by sequences of writes that stop at the first error: a loop that
  returns (\<open>ov7251_set_register_array\<close>), or calls chained through the \<open>int *err\<close> argument of the
  CCI helpers, by which a helper called with an error already set does nothing and leaves it.
\<close>

fun seq_until :: "(int \<Rightarrow> bool) \<Rightarrow> ('e \<Rightarrow> 'd \<Rightarrow> int \<times> 'd) \<Rightarrow> 'e list \<Rightarrow> 'd \<Rightarrow> int \<times> 'd" where
  "seq_until bad wr [] d = (0, d)"
| "seq_until bad wr (e # es) d =
     (let (r, d') = wr e d in if bad r then (r, d') else seq_until bad wr es d')"

lemma seq_until_append:
  assumes "\<not> bad 0"
  shows "seq_until bad f (xs @ ys) d =
    (let (r, d') = seq_until bad f xs d in if bad r then (r, d') else seq_until bad f ys d')"
proof (induction xs arbitrary: d)
  case Nil
  then show ?case using assms by simp
next
  case (Cons x xs)
  then show ?case by (cases "f x d") (simp add: Let_def)
qed

lemma seq_until_zero: "seq_until (\<lambda>r. r \<noteq> 0) f xs d = (r, d') \<Longrightarrow> (\<And>x d. fst (f x d) \<le> 0) \<Longrightarrow> r \<le> 0"
proof (induction xs arbitrary: d)
  case (Cons x xs)
  obtain q y where q: "f x d = (q, y)" by fastforce
  with Cons.prems(2) [of x d] have "q \<le> 0" by simp
  with Cons q show ?case by (auto split: if_splits)
qed simp

lemma seq_until_inv: "(\<And>x d. P d \<Longrightarrow> P (snd (f x d))) \<Longrightarrow> P d \<Longrightarrow> P (snd (seq_until bad f xs d))"
  by (induction xs arbitrary: d) (auto simp: Let_def case_prod_beta)

definition cci :: "env \<Rightarrow> bus \<Rightarrow> int \<times> 'a kdev_scheme \<Rightarrow> int \<times> 'a kdev_scheme" where
  "cci E b s = (if fst s \<noteq> 0 then s else kcall E (Bus b) (snd s))"

definition cci_write ::
    "env \<Rightarrow> reg \<Rightarrow> u64 \<Rightarrow> int \<times> 'a kdev_scheme \<Rightarrow> int \<times> 'a kdev_scheme" where
  "cci_write E r v = cci E (Cci_write r v)"

definition cci_update_bits ::
    "env \<Rightarrow> reg \<Rightarrow> u64 \<Rightarrow> u64 \<Rightarrow> int \<times> 'a kdev_scheme \<Rightarrow> int \<times> 'a kdev_scheme" where
  "cci_update_bits E r m v = cci E (Cci_update_bits r m v)"

definition cci_multi_reg_write ::
    "env \<Rightarrow> (reg \<times> u64) list \<Rightarrow> int \<times> 'a kdev_scheme \<Rightarrow> int \<times> 'a kdev_scheme" where
  "cci_multi_reg_write E rs = cci E (Cci_multi_reg_write rs)"

lemmas cci_defs = cci_write_def cci_update_bits_def cci_multi_reg_write_def

text \<open>The chained calls are a sequence that stops at the first non-zero result.\<close>

lemma fold_cci_stuck: "r \<noteq> 0 \<Longrightarrow> fold (cci E) es (r, d) = (r, d)"
  by (induction es) (simp_all add: cci_def)

lemma fold_cci: "fold (cci E) es (0, d) = seq_until (\<lambda>r. r \<noteq> 0) (\<lambda>b. kcall E (Bus b)) es d"
proof (induction es arbitrary: d)
  case Nil
  then show ?case by simp
next
  case (Cons b bs)
  obtain r d' where eq: "kcall E (Bus b) d = (r, d')" by (cases "kcall E (Bus b) d")
  show ?case
  proof (cases "r = 0")
    case True
    then show ?thesis using eq Cons.IH [of d'] by (simp add: cci_def)
  next
    case False
    then have "fold (cci E) bs (r, d') = (r, d')" by (rule fold_cci_stuck)
    with False show ?thesis using eq by (simp add: cci_def [of E b])
  qed
qed

text \<open>
  The contract of one write: it either has its effect and is logged, or fails, and touches nothing
  else. A driver that keeps to it gets the sequence lemmas below.
\<close>

locale write_seq =
  fixes wr :: "'e \<Rightarrow> 'd \<Rightarrow> int \<times> 'd"
    and bad :: "int \<Rightarrow> bool"
    and log :: "'d \<Rightarrow> 'e list"
    and rest :: "'d \<Rightarrow> 'r"
  assumes good_zero: "\<not> bad 0"
    and log_wr: "wr e d = (r, d') \<Longrightarrow> log d' = (if bad r then log d else log d @ [e])"
    and rest_wr: "wr e d = (r, d') \<Longrightarrow> rest d' = rest d"
begin

lemma seq_rest: "seq_until bad wr es d = (r, d') \<Longrightarrow> rest d' = rest d"
proof (induction es arbitrary: d)
  case Nil
  then show ?case by simp
next
  case (Cons e es)
  then show ?case
    by (auto simp: Let_def split: prod.splits if_splits dest: rest_wr)
qed

lemma seq_ok: "seq_until bad wr es d = (r, d') \<Longrightarrow> \<not> bad r \<Longrightarrow> r = 0 \<and> log d' = log d @ es"
proof (induction es arbitrary: d)
  case Nil
  then show ?case by simp
next
  case (Cons e es)
  obtain q d1 where wr: "wr e d = (q, d1)" by (cases "wr e d")
  with Cons.prems have q: "\<not> bad q" and rec: "seq_until bad wr es d1 = (r, d')"
    by (auto split: if_splits)
  from Cons.IH [OF rec Cons.prems(2)] log_wr [OF wr] q show ?case by simp
qed

lemma seq_fail:
  "seq_until bad wr es d = (r, d') \<Longrightarrow> bad r \<Longrightarrow> \<exists>n < length es. log d' = log d @ take n es"
proof (induction es arbitrary: d)
  case Nil
  then show ?case using good_zero by simp
next
  case (Cons e es)
  obtain q d1 where wr: "wr e d = (q, d1)" by (cases "wr e d")
  show ?case
  proof (cases "bad q")
    case True
    with wr Cons.prems have "d' = d1" by simp
    with True log_wr [OF wr] show ?thesis by (intro exI [of _ 0]) simp
  next
    case False
    with wr Cons.prems have "seq_until bad wr es d1 = (r, d')" by simp
    from Cons.IH [OF this Cons.prems(2)] obtain n
      where "n < length es" and "log d' = log d1 @ take n es" by blast
    with False log_wr [OF wr] show ?thesis by (intro exI [of _ "Suc n"]) simp
  qed
qed

end

text \<open>The bus transfers that succeeded, in order.\<close>

definition bus_done :: "trace \<Rightarrow> bus list" where
  "bus_done tr = List.map_filter (\<lambda>(e, r). case e of Bus b \<Rightarrow> if r = 0 then Some b else None | _ \<Rightarrow> None) tr"

lemma bus_done_simps [simp]:
  "bus_done [] = []"
  "bus_done ((Bus b, r) # tr) = (if r = 0 then b # bus_done tr else bus_done tr)"
  "bus_done ((Rail a, r) # tr) = bus_done tr"
  "bus_done ((Pm p, r) # tr) = bus_done tr"
  "bus_done ((Mutex_lock, r) # tr) = bus_done tr"
  "bus_done ((Mutex_unlock, r) # tr) = bus_done tr"
  "bus_done ((Init x, r) # tr) = bus_done tr"
  by (simp_all add: bus_done_def List.map_filter_simps)

lemma bus_done_append [simp]: "bus_done (xs @ ys) = bus_done xs @ bus_done ys"
  by (induction xs) (auto simp: bus_done_def List.map_filter_def)

interpretation cci_seq: write_seq "\<lambda>b. kcall E (Bus b)" "\<lambda>r. r \<noteq> 0" "\<lambda>d. bus_done (trace d)" quiet
  for E
  by unfold_locales (auto simp: kcall_def Let_def quiet_def)

lemma cci_okD:
  assumes "cci E b s = (0, d')"
  shows "fst s = 0" "bus_done (trace d') = bus_done (trace (snd s)) @ [b]" "quiet d' = quiet (snd s)"
proof -
  from assms show 0: "fst s = 0" by (auto simp: cci_def split: if_splits)
  with assms have eq: "kcall E (Bus b) (snd s) = (0, d')" by (simp add: cci_def)
  show "bus_done (trace d') = bus_done (trace (snd s)) @ [b]"
    using cci_seq.log_wr [OF eq] by simp
  show "quiet d' = quiet (snd s)"
    using cci_seq.rest_wr [OF eq] .
qed

lemma fold_cci_ok:
  assumes "fold (cci E) bs (0, d) = (0, d')"
  shows "bus_done (trace d') = bus_done (trace d) @ bs" "quiet d' = quiet d"
  using assms cci_seq.seq_ok [of E bs d 0 d'] cci_seq.seq_rest [of E bs d 0 d']
  by (simp_all add: fold_cci)

section \<open>Creating controls\<close>

text \<open>
  \<open>v4l2_ctrl_new_std\<close> and its variants: the first failure is kept in \<open>handler->error\<close> (here the
  first component), after which they return NULL without doing anything.
\<close>

definition v4l2_ctrl_new ::
    "env \<Rightarrow> cid \<Rightarrow> ctrl \<Rightarrow> int \<times> 'a kdev_scheme \<Rightarrow> int \<times> 'a kdev_scheme" where
  "v4l2_ctrl_new E c k s =
     (let (err, d) = s
      in if err \<noteq> 0 then (err, d\<lparr>ctrl_ptr := (ctrl_ptr d)(c := False)\<rparr>)
         else
           (let (r, d) = kcall E (Init (V4l2_ctrl_new c)) d
            in if r \<noteq> 0 then (r, d\<lparr>ctrl_ptr := (ctrl_ptr d)(c := False)\<rparr>)
               else (0, d\<lparr>ctrls := (ctrls d)(c := k), ctrl_ptr := (ctrl_ptr d)(c := True)\<rparr>)))"

text \<open>A control of step \<open>st\<close> that starts at its default; \<open>if (ctrl) ctrl->flags |= READ_ONLY\<close>.\<close>

definition std_ctrl :: "int \<Rightarrow> int \<Rightarrow> int \<Rightarrow> int \<Rightarrow> ctrl" where
  "std_ctrl lo hi st df = \<lparr>minimum = lo, maximum = hi, step = st, default_value = df, val = df,
     read_only = False\<rparr>"

definition set_read_only :: "cid \<Rightarrow> int \<times> 'a kdev_scheme \<Rightarrow> int \<times> 'a kdev_scheme" where
  "set_read_only c s =
     (if ctrl_ptr (snd s) c
      then (fst s, (snd s)\<lparr>ctrls := (ctrls (snd s))(c := (ctrls (snd s) c)\<lparr>read_only := True\<rparr>)\<rparr>)
      else s)"

section \<open>Reading a trace\<close>

text \<open>A quantity summed along a trace, and the three the drivers have to keep in balance.\<close>

definition weigh :: "('e \<Rightarrow> int \<Rightarrow> int) \<Rightarrow> ('e \<times> int) list \<Rightarrow> int" where
  "weigh f tr = (\<Sum>(e, r) \<leftarrow> tr. f e r)"

lemma weigh_simps [simp]:
  "weigh f [] = 0"
  "weigh f ((e, r) # tr) = f e r + weigh f tr"
  "weigh f (xs @ ys) = weigh f xs + weigh f ys"
  by (simp_all add: weigh_def)

lemma v4l2_ctrl_new_weigh:
  assumes "\<And>r. f (Init (V4l2_ctrl_new c)) r = 0"
  shows "weigh f (trace (snd (v4l2_ctrl_new E c k s))) = weigh f (trace (snd s))"
  using assms by (simp add: v4l2_ctrl_new_def Let_def case_prod_beta)

lemma set_read_only_trace [simp]: "trace (snd (set_read_only c s)) = trace (snd s)"
  by (simp add: set_read_only_def)

text \<open>The runtime PM usage count the driver holds: a \<open>get\<close> that failed takes no reference.\<close>

fun pm_weight :: "ev \<Rightarrow> int \<Rightarrow> int" where
  "pm_weight (Pm Pm_resume_and_get) r = (if 0 \<le> r then 1 else 0)"
| "pm_weight (Pm Pm_get_if_in_use) r = (if 0 < r then 1 else 0)"
| "pm_weight (Pm Pm_get_noresume) r = 1"
| "pm_weight (Pm Pm_put) r = - 1"
| "pm_weight (Pm Pm_put_noidle) r = - 1"
| "pm_weight (Pm Pm_put_autosuspend) r = - 1"
| "pm_weight _ r = 0"

definition pm_usage :: "trace \<Rightarrow> int" where
  "pm_usage tr = weigh pm_weight tr"

lemma pm_usage_simps [simp]:
  "pm_usage (tr @ tr') = pm_usage tr + pm_usage tr'"
  "pm_usage [] = 0"
  "pm_usage (x # tr) = pm_weight (fst x) (snd x) + pm_usage tr"
  by (simp_all add: pm_usage_def case_prod_beta weigh_def)

fun clk_weight :: "ev \<Rightarrow> int \<Rightarrow> int" where
  "clk_weight (Rail Clk_prepare_enable) r = (if r = 0 then 1 else 0)"
| "clk_weight (Rail Clk_disable_unprepare) r = - 1"
| "clk_weight _ r = 0"

fun supply_weight :: "regulator \<Rightarrow> ev \<Rightarrow> int \<Rightarrow> int" where
  "supply_weight s (Rail (Regulator_enable q)) r = (if q = s \<and> r = 0 then 1 else 0)"
| "supply_weight s (Rail (Regulator_disable q)) r = (if q = s then - 1 else 0)"
| "supply_weight s _ r = 0"

fun bulk_weight :: "ev \<Rightarrow> int \<Rightarrow> int" where
  "bulk_weight (Rail Regulator_bulk_enable) r = (if r = 0 then 1 else 0)"
| "bulk_weight (Rail Regulator_bulk_disable) r = - 1"
| "bulk_weight _ r = 0"

text \<open>What a probe acquires: the handler, the media entity, runtime PM, the endpoint, the subdevice.\<close>

fun handler_weight :: "ev \<Rightarrow> int \<Rightarrow> int" where
  "handler_weight (Init V4l2_ctrl_handler_init) r = (if r = 0 then 1 else 0)"
| "handler_weight (Init V4l2_ctrl_handler_free) r = - 1"
| "handler_weight _ r = 0"

fun media_weight :: "ev \<Rightarrow> int \<Rightarrow> int" where
  "media_weight (Init Media_entity_pads_init) r = (if r = 0 then 1 else 0)"
| "media_weight (Init Media_entity_cleanup) r = - 1"
| "media_weight _ r = 0"

fun rpm_weight :: "ev \<Rightarrow> int \<Rightarrow> int" where
  "rpm_weight (Pm Pm_enable) r = 1"
| "rpm_weight (Pm Pm_disable) r = - 1"
| "rpm_weight _ r = 0"

fun endpoint_weight :: "ev \<Rightarrow> int \<Rightarrow> int" where
  "endpoint_weight (Init V4l2_fwnode_endpoint_alloc_parse) r = (if r = 0 then 1 else 0)"
| "endpoint_weight (Init V4l2_fwnode_endpoint_free) r = - 1"
| "endpoint_weight _ r = 0"

fun subdev_weight :: "ev \<Rightarrow> int \<Rightarrow> int" where
  "subdev_weight (Init V4l2_async_register_subdev) r = (if r = 0 then 1 else 0)"
| "subdev_weight (Init V4l2_async_unregister_subdev) r = - 1"
| "subdev_weight _ r = 0"

text \<open>
  The mutex: \<open>Some held\<close>, or \<open>None\<close> once it was taken while held (a deadlock) or released while
  free.
\<close>

fun lock_step :: "ev \<times> int \<Rightarrow> bool option \<Rightarrow> bool option" where
  "lock_step (Mutex_lock, r) s = (if s = Some False then Some True else None)"
| "lock_step (Mutex_unlock, r) s = (if s = Some True then Some False else None)"
| "lock_step _ s = s"

definition lock_run :: "trace \<Rightarrow> bool option \<Rightarrow> bool option" where
  "lock_run tr = fold lock_step tr"

lemma lock_run_simps [simp]:
  "lock_run [] s = s"
  "lock_run (x # tr) s = lock_run tr (lock_step x s)"
  "lock_run (xs @ ys) s = lock_run ys (lock_run xs s)"
  by (simp_all add: lock_run_def)

text \<open>Steps that make bus transfers only: no other call, no other change of the device.\<close>

definition bus_step :: "'a kdev_scheme \<Rightarrow> 'a kdev_scheme \<Rightarrow> bool" where
  "bus_step d d' \<longleftrightarrow> quiet d' = quiet d \<and>
     (\<exists>tr. trace d' = trace d @ tr \<and> (\<forall>x \<in> set tr. \<exists>b. fst x = Bus b))"

lemma bus_step_refl [simp]: "bus_step d d"
  by (simp add: bus_step_def)

lemma bus_step_quiet: "bus_step d d' \<Longrightarrow> quiet d' = quiet d"
  by (simp add: bus_step_def)

lemma bus_step_trans: "bus_step d d' \<Longrightarrow> bus_step d' d'' \<Longrightarrow> bus_step d d''"
  unfolding bus_step_def by (auto simp: ball_Un)

lemma bus_step_kcall [simp]: "bus_step d (snd (kcall E (Bus b) d))"
  by (simp add: bus_step_def)

lemma bus_step_cci: "bus_step d (snd s) \<Longrightarrow> bus_step d (snd (cci E b s))"
  by (auto simp: cci_def intro: bus_step_trans)

lemma bus_step_fold: "bus_step d (snd s) \<Longrightarrow> bus_step d (snd (fold (cci E) bs s))"
  by (induction bs arbitrary: s) (simp_all add: bus_step_cci)

lemma bus_step_cci_ops:
  "bus_step d (snd s) \<Longrightarrow> bus_step d (snd (cci_write E r v s))"
  "bus_step d (snd s) \<Longrightarrow> bus_step d (snd (cci_update_bits E r k v s))"
  "bus_step d (snd s) \<Longrightarrow> bus_step d (snd (cci_multi_reg_write E rs s))"
  by (simp_all add: cci_defs bus_step_cci)

lemma weigh_bus:
  assumes "bus_step d d'" and "\<And>b r. f (Bus b) r = 0"
  shows "weigh f (trace d') = weigh f (trace d)"
proof -
  obtain tr where tr: "trace d' = trace d @ tr" "\<forall>x \<in> set tr. \<exists>b. fst x = Bus b"
    using assms(1) by (auto simp: bus_step_def)
  from tr(2) have "weigh f tr = 0"
    using assms(2) by (induction tr) auto
  with tr(1) show ?thesis by simp
qed

lemma lock_bus:
  assumes "bus_step d d'"
  shows "lock_run (trace d') s = lock_run (trace d) s"
proof -
  obtain tr where tr: "trace d' = trace d @ tr" "\<forall>x \<in> set tr. \<exists>b. fst x = Bus b"
    using assms by (auto simp: bus_step_def)
  from tr(2) have "lock_run tr q = q" for q
    by (induction tr arbitrary: q) auto
  with tr(1) show ?thesis by simp
qed

section \<open>The control framework\<close>

text \<open>
  What the drivers rely on of \<open>__v4l2_ctrl_modify_range\<close> and \<open>__v4l2_ctrl_s_ctrl\<close>: an invalid range is refused and changes nothing; a valid one is stored
  even if the driver then fails to program a clamped value; the mutex and what the driver never
  changes when it applies a control (\<open>keep\<close>) are left alone; and no other control changes, save
  that a changed VBLANK makes the driver move the upper end of the exposure range.
\<close>

definition low_ok :: "ctrl \<Rightarrow> bool" where
  "low_ok c \<longleftrightarrow> minimum c \<le> val c"

locale ctrl_core =
  fixes S :: "'a kdev_scheme services" and keep :: "'a kdev_scheme \<Rightarrow> 'k"
  assumes range_ok: "0 < st \<Longrightarrow> lo \<le> df \<Longrightarrow> df \<le> hi \<Longrightarrow>
      modify_range S c lo hi st df d = (r, d') \<Longrightarrow>
      minimum (ctrls d' c) = lo \<and> maximum (ctrls d' c) = hi \<and> step (ctrls d' c) = st \<and>
      default_value (ctrls d' c) = df"
    and range_bad: "\<not> (0 < st \<and> lo \<le> df \<and> df \<le> hi) \<Longrightarrow>
      modify_range S c lo hi st df d = (- ERANGE, d)"
    and range_other: "modify_range S c lo hi st df d = (r, d') \<Longrightarrow> q \<noteq> c \<Longrightarrow>
      q \<noteq> V4L2_CID_EXPOSURE \<Longrightarrow> ctrls d' q = ctrls d q"
    and range_exposure: "modify_range S c lo hi st df d = (r, d') \<Longrightarrow> c \<noteq> V4L2_CID_EXPOSURE \<Longrightarrow>
      minimum (ctrls d' V4L2_CID_EXPOSURE) = minimum (ctrls d V4L2_CID_EXPOSURE) \<and>
      step (ctrls d' V4L2_CID_EXPOSURE) = step (ctrls d V4L2_CID_EXPOSURE)"
    and range_frame: "modify_range S c lo hi st df d = (r, d') \<Longrightarrow>
      ctrl_ptr d' = ctrl_ptr d \<and> keep d' = keep d \<and>
      lock_run (trace d') x = lock_run (trace d) x"
    and set_ranges: "set_ctrl S c v d = (r, d') \<Longrightarrow> q \<noteq> V4L2_CID_EXPOSURE \<or> c = q \<Longrightarrow>
      minimum (ctrls d' q) = minimum (ctrls d q) \<and> maximum (ctrls d' q) = maximum (ctrls d q) \<and>
      step (ctrls d' q) = step (ctrls d q) \<and> default_value (ctrls d' q) = default_value (ctrls d q)"
    and set_exposure: "set_ctrl S c v d = (r, d') \<Longrightarrow>
      minimum (ctrls d' V4L2_CID_EXPOSURE) = minimum (ctrls d V4L2_CID_EXPOSURE) \<and>
      step (ctrls d' V4L2_CID_EXPOSURE) = step (ctrls d V4L2_CID_EXPOSURE)"
    and set_frame: "set_ctrl S c v d = (r, d') \<Longrightarrow>
      ctrl_ptr d' = ctrl_ptr d \<and> keep d' = keep d \<and>
      lock_run (trace d') x = lock_run (trace d) x"
    and range_low: "low_ok (ctrls d V4L2_CID_EXPOSURE) \<Longrightarrow>
      modify_range S c lo hi st df d = (r, d') \<Longrightarrow>
      c \<noteq> V4L2_CID_EXPOSURE \<or> lo = minimum (ctrls d V4L2_CID_EXPOSURE) \<Longrightarrow>
      low_ok (ctrls d' V4L2_CID_EXPOSURE)"
    and set_low: "low_ok (ctrls d V4L2_CID_EXPOSURE) \<Longrightarrow>
      set_ctrl S c v d = (r, d') \<Longrightarrow> c \<noteq> V4L2_CID_EXPOSURE \<Longrightarrow>
      low_ok (ctrls d' V4L2_CID_EXPOSURE)"
begin

text \<open>The call both drivers make for a changed VBLANK: only the upper end moves, or nothing does.\<close>

lemma follow_range:
  assumes "modify_range S c (minimum (ctrls d c)) mx (step (ctrls d c)) df d = (r, d')"
  shows "minimum (ctrls d' c) = minimum (ctrls d c) \<and> step (ctrls d' c) = step (ctrls d c)"
proof (cases "0 < step (ctrls d c) \<and> minimum (ctrls d c) \<le> df \<and> df \<le> mx")
  case True
  then show ?thesis using range_ok [OF _ _ _ assms] by simp
next
  case False
  then show ?thesis using range_bad [OF False, of c d] assms by simp
qed

end

text \<open>
  The documented behaviour as functions of the driver's \<open>s_ctrl\<close> callback: store the range, clamp
  the value into it, and hand a changed value to the driver, keeping the old one when the driver
  reports an error.
\<close>

type_synonym 'd s_ctrl_op = "cid \<Rightarrow> int \<Rightarrow> 'd \<Rightarrow> int \<times> 'd"

definition v4l2_apply ::
    "'a kdev_scheme s_ctrl_op \<Rightarrow> cid \<Rightarrow> int \<Rightarrow> 'a kdev_scheme \<Rightarrow> int \<times> 'a kdev_scheme" where
  "v4l2_apply cb c v d =
     (let (r, d) = cb c v d
      in if r \<noteq> 0 then (r, d) else (0, d\<lparr>ctrls := (ctrls d)(c := (ctrls d c)\<lparr>val := v\<rparr>)\<rparr>))"

definition v4l2_modify_range :: "'a kdev_scheme s_ctrl_op \<Rightarrow> cid \<Rightarrow> int \<Rightarrow> int \<Rightarrow> int \<Rightarrow> int \<Rightarrow>
    'a kdev_scheme \<Rightarrow> int \<times> 'a kdev_scheme" where
  "v4l2_modify_range cb c lo hi st df d =
     (if \<not> (0 < st \<and> lo \<le> df \<and> df \<le> hi) then (- ERANGE, d)
      else
        (let old = val (ctrls d c);
             d = d\<lparr>ctrls := (ctrls d)(c := (ctrls d c)\<lparr>minimum := lo, maximum := hi, step := st,
                   default_value := df\<rparr>)\<rparr>;
             new = clamp_t old lo hi
         in if new = old then (0, d) else v4l2_apply cb c new d))"

definition v4l2_set_ctrl ::
    "'a kdev_scheme s_ctrl_op \<Rightarrow> cid \<Rightarrow> int \<Rightarrow> 'a kdev_scheme \<Rightarrow> int \<times> 'a kdev_scheme" where
  "v4l2_set_ctrl cb c v d =
     (let new = clamp_t v (minimum (ctrls d c)) (maximum (ctrls d c))
      in if new = val (ctrls d c) then (0, d) else v4l2_apply cb c new d)"

definition v4l2_handler_setup ::
    "'a kdev_scheme s_ctrl_op \<Rightarrow> cid list \<Rightarrow> 'a kdev_scheme \<Rightarrow> int \<times> 'a kdev_scheme" where
  "v4l2_handler_setup cb cs d = seq_until (\<lambda>r. r \<noteq> 0) (\<lambda>c d. cb c (val (ctrls d c)) d) cs d"

text \<open>What every call of the driver keeps of the trace, the core keeps.\<close>

lemma v4l2_keeps:
  assumes "\<And>c v d. f (trace (snd (cb c v d))) = f (trace d)"
  shows "f (trace (snd (v4l2_modify_range cb c lo hi st df d))) = f (trace d)"
    and "f (trace (snd (v4l2_set_ctrl cb c v d))) = f (trace d)"
    and "f (trace (snd (v4l2_handler_setup cb cs d))) = f (trace d)"
proof -
  have a: "f (trace (snd (v4l2_apply cb c v d))) = f (trace d)" for c v d
    by (simp add: v4l2_apply_def Let_def case_prod_beta assms)
  show "f (trace (snd (v4l2_modify_range cb c lo hi st df d))) = f (trace d)"
    "f (trace (snd (v4l2_set_ctrl cb c v d))) = f (trace d)"
    by (simp_all add: v4l2_modify_range_def v4l2_set_ctrl_def Let_def a)
  show "f (trace (snd (v4l2_handler_setup cb cs d))) = f (trace d)"
    unfolding v4l2_handler_setup_def
    by (induction cs arbitrary: d) (simp_all add: Let_def case_prod_beta assms)
qed

text \<open>
  What a driver's \<open>s_ctrl\<close> callback has to keep for the documented core to honour the contract: it
  changes no range but that of EXPOSURE, and that one only for VBLANK and only at its upper end.
\<close>

locale ctrl_driver =
  fixes cb :: "'a kdev_scheme s_ctrl_op" and S :: "'a kdev_scheme services"
    and keep :: "'a kdev_scheme \<Rightarrow> 'k"
  assumes modify_def: "modify_range S = v4l2_modify_range cb"
    and set_def: "set_ctrl S = v4l2_set_ctrl cb"
    and keep_ctrls: "keep (d\<lparr>ctrls := cs\<rparr>) = keep d"
    and cb_frame: "cb c v d = (r, d') \<Longrightarrow> ctrl_ptr d' = ctrl_ptr d \<and> keep d' = keep d \<and>
      lock_run (trace d') x = lock_run (trace d) x"
    and cb_ctrls: "cb c v d = (r, d') \<Longrightarrow> q \<noteq> V4L2_CID_EXPOSURE \<or> c \<noteq> V4L2_CID_VBLANK \<Longrightarrow>
      ctrls d' q = ctrls d q"
    and cb_exposure: "cb c v d = (r, d') \<Longrightarrow>
      minimum (ctrls d' V4L2_CID_EXPOSURE) = minimum (ctrls d V4L2_CID_EXPOSURE) \<and>
      step (ctrls d' V4L2_CID_EXPOSURE) = step (ctrls d V4L2_CID_EXPOSURE)"
    and cb_low: "low_ok (ctrls d V4L2_CID_EXPOSURE) \<Longrightarrow> cb c v d = (r, d') \<Longrightarrow>
      low_ok (ctrls d' V4L2_CID_EXPOSURE)"
begin

text \<open>Both operations end in \<open>v4l2_apply\<close>, on a device whose trace is the old one.\<close>

lemma apply_result:
  assumes "v4l2_apply cb c v d = (r, d')"
  obtains d1 where "cb c v d = (r, d1)"
    and "d' = (if r \<noteq> 0 then d1 else d1\<lparr>ctrls := (ctrls d1)(c := (ctrls d1 c)\<lparr>val := v\<rparr>)\<rparr>)"
  using assms by (auto simp: v4l2_apply_def Let_def split: prod.splits if_splits)

lemma modify_cases:
  assumes "v4l2_modify_range cb c lo hi st df d = (r, d')"
  defines "d0 \<equiv> d\<lparr>ctrls := (ctrls d)(c := (ctrls d c)\<lparr>minimum := lo, maximum := hi, step := st,
    default_value := df\<rparr>)\<rparr>"
  obtains "d' = d" and "r = - ERANGE" and "\<not> (0 < st \<and> lo \<le> df \<and> df \<le> hi)"
  | "d' = d0" and "lo \<le> df" "df \<le> hi" "lo \<le> val (ctrls d c)"
  | "lo \<le> df" "df \<le> hi" and "v4l2_apply cb c (clamp_t (val (ctrls d c)) lo hi) d0 = (r, d')"
proof (cases "0 < st \<and> lo \<le> df \<and> df \<le> hi")
  case False
  then show ?thesis using assms that(1) by (simp add: v4l2_modify_range_def)
next
  case True
  then show ?thesis
    using assms that(2,3) clamp_t_bounds(1) [of lo hi "val (ctrls d c)"]
    by (auto simp: v4l2_modify_range_def Let_def split: if_splits)
qed

end

context ctrl_driver
begin

lemma apply_laws:
  assumes "v4l2_apply cb c v d = (r, d')"
  shows "ctrl_ptr d' = ctrl_ptr d" "keep d' = keep d"
    "lock_run (trace d') x = lock_run (trace d) x"
    "q \<noteq> c \<Longrightarrow> q \<noteq> V4L2_CID_EXPOSURE \<Longrightarrow> ctrls d' q = ctrls d q"
    "q \<noteq> V4L2_CID_EXPOSURE \<or> c = q \<Longrightarrow> minimum (ctrls d' q) = minimum (ctrls d q) \<and>
      maximum (ctrls d' q) = maximum (ctrls d q) \<and> step (ctrls d' q) = step (ctrls d q) \<and>
      default_value (ctrls d' q) = default_value (ctrls d q)"
    "minimum (ctrls d' V4L2_CID_EXPOSURE) = minimum (ctrls d V4L2_CID_EXPOSURE)"
    "step (ctrls d' V4L2_CID_EXPOSURE) = step (ctrls d V4L2_CID_EXPOSURE)"
  by (rule apply_result [OF assms]; use cb_frame cb_ctrls cb_exposure keep_ctrls in
      \<open>fastforce split: if_splits\<close>)+

lemma apply_low:
  assumes "v4l2_apply cb c v d = (r, d')" and low: "low_ok (ctrls d V4L2_CID_EXPOSURE)"
    and "c = V4L2_CID_EXPOSURE \<Longrightarrow> minimum (ctrls d V4L2_CID_EXPOSURE) \<le> v"
  shows "low_ok (ctrls d' V4L2_CID_EXPOSURE)"
proof (rule apply_result [OF assms(1)])
  fix d1
  assume cb: "cb c v d = (r, d1)"
    and d': "d' = (if r \<noteq> 0 then d1 else d1\<lparr>ctrls := (ctrls d1)(c := (ctrls d1 c)\<lparr>val := v\<rparr>)\<rparr>)"
  from cb_low [OF low cb] cb_exposure [OF cb] assms(3) show ?thesis
    by (cases "c = V4L2_CID_EXPOSURE") (simp_all add: d' low_ok_def)
qed

lemma modify_laws:
  assumes "v4l2_modify_range cb c lo hi st df d = (r, d')"
  shows "ctrl_ptr d' = ctrl_ptr d" "keep d' = keep d"
    "lock_run (trace d') x = lock_run (trace d) x"
    "q \<noteq> c \<Longrightarrow> q \<noteq> V4L2_CID_EXPOSURE \<Longrightarrow> ctrls d' q = ctrls d q"
    "c \<noteq> V4L2_CID_EXPOSURE \<Longrightarrow>
      minimum (ctrls d' V4L2_CID_EXPOSURE) = minimum (ctrls d V4L2_CID_EXPOSURE)"
    "c \<noteq> V4L2_CID_EXPOSURE \<Longrightarrow> step (ctrls d' V4L2_CID_EXPOSURE) = step (ctrls d V4L2_CID_EXPOSURE)"
  using assms
  by (rule modify_cases; auto simp: keep_ctrls dest: apply_laws(1,2,6,7)
      apply_laws(3) [where x = x] apply_laws(4) [where q = q])+

lemma modify_low:
  assumes "v4l2_modify_range cb c lo hi st df d = (r, d')" and "low_ok (ctrls d V4L2_CID_EXPOSURE)"
    and "c \<noteq> V4L2_CID_EXPOSURE \<or> lo = minimum (ctrls d V4L2_CID_EXPOSURE)"
  shows "low_ok (ctrls d' V4L2_CID_EXPOSURE)"
  using assms(1)
proof (rule modify_cases)
  assume le: "lo \<le> df" "df \<le> hi"
    and ap: "v4l2_apply cb c (clamp_t (val (ctrls d c)) lo hi) (d\<lparr>ctrls := (ctrls d)(c := (ctrls d c)
      \<lparr>minimum := lo, maximum := hi, step := st, default_value := df\<rparr>)\<rparr>) = (r, d')"
  show ?thesis
    by (rule apply_low [OF ap])
      (use assms(2,3) le clamp_t_bounds(1) [of lo hi] in \<open>auto simp: low_ok_def\<close>)
qed (use assms(2,3) in \<open>auto simp: low_ok_def\<close>)

lemma set_laws:
  assumes "v4l2_set_ctrl cb c v d = (r, d')"
  shows "ctrl_ptr d' = ctrl_ptr d" "keep d' = keep d"
    "lock_run (trace d') x = lock_run (trace d) x"
    "q \<noteq> V4L2_CID_EXPOSURE \<or> c = q \<Longrightarrow> minimum (ctrls d' q) = minimum (ctrls d q) \<and>
      maximum (ctrls d' q) = maximum (ctrls d q) \<and> step (ctrls d' q) = step (ctrls d q) \<and>
      default_value (ctrls d' q) = default_value (ctrls d q)"
    "minimum (ctrls d' V4L2_CID_EXPOSURE) = minimum (ctrls d V4L2_CID_EXPOSURE)"
    "step (ctrls d' V4L2_CID_EXPOSURE) = step (ctrls d V4L2_CID_EXPOSURE)"
  using assms apply_laws by (auto simp: v4l2_set_ctrl_def Let_def split: if_splits)

lemma set_keeps_low:
  assumes "v4l2_set_ctrl cb c v d = (r, d')" and "low_ok (ctrls d V4L2_CID_EXPOSURE)"
    and "c \<noteq> V4L2_CID_EXPOSURE"
  shows "low_ok (ctrls d' V4L2_CID_EXPOSURE)"
  using assms apply_low [OF _ assms(2)]
  by (auto simp: v4l2_set_ctrl_def Let_def split: if_splits)

end

sublocale ctrl_driver \<subseteq> ctrl_core S keep
proof unfold_locales
  fix lo df hi st c d r d'
  assume le: "0 < st" "lo \<le> df" "df \<le> hi" and m: "modify_range S c lo hi st df d = (r, d')"
  from m [unfolded modify_def] show "minimum (ctrls d' c) = lo \<and> maximum (ctrls d' c) = hi \<and>
      step (ctrls d' c) = st \<and> default_value (ctrls d' c) = df"
    by (rule modify_cases) (use le apply_laws(5) [of c _ _ r d' c] in auto)
next
  fix lo df hi st :: int and c and d :: "'a kdev_scheme"
  assume "\<not> (0 < st \<and> lo \<le> df \<and> df \<le> hi)"
  then show "modify_range S c lo hi st df d = (- ERANGE, d)"
    by (auto simp: modify_def v4l2_modify_range_def)
qed (simp_all only: modify_def set_def modify_laws modify_low set_laws set_keeps_low simp_thms)

text \<open>
  A core that also leaves alone every control a call is not about, VBLANK excepted, and the value of
  a control that is inside its new range.
\<close>

locale ctrl_frame = ctrl_core S keep
  for S :: "'a kdev_scheme services" and keep :: "'a kdev_scheme \<Rightarrow> 'k" +
  assumes range_only: "modify_range S c lo hi st df d = (r, d') \<Longrightarrow> c \<noteq> V4L2_CID_VBLANK \<Longrightarrow> q \<noteq> c \<Longrightarrow>
      ctrls d' q = ctrls d q"
    and set_only: "set_ctrl S c v d = (r, d') \<Longrightarrow> c \<noteq> V4L2_CID_VBLANK \<Longrightarrow> q \<noteq> c \<Longrightarrow>
      ctrls d' q = ctrls d q"
    and range_inside: "0 < st \<Longrightarrow> lo \<le> df \<Longrightarrow> df \<le> hi \<Longrightarrow> lo \<le> val (ctrls d c) \<Longrightarrow>
      val (ctrls d c) \<le> hi \<Longrightarrow> modify_range S c lo hi st df d = (0, d\<lparr>ctrls := (ctrls d)(c :=
        (ctrls d c)\<lparr>minimum := lo, maximum := hi, step := st, default_value := df\<rparr>)\<rparr>)"

context ctrl_driver
begin

lemma apply_only:
  assumes "v4l2_apply cb c v d = (r, d')" and "c \<noteq> V4L2_CID_VBLANK" and "q \<noteq> c"
  shows "ctrls d' q = ctrls d q"
  by (rule apply_result [OF assms(1)]) (use cb_ctrls assms(2,3) in \<open>auto split: if_splits\<close>)

end

sublocale ctrl_driver \<subseteq> ctrl_frame S keep
proof unfold_locales
  fix lo df hi st c d r d' q
  assume c: "c \<noteq> V4L2_CID_VBLANK" "q \<noteq> c" and m: "modify_range S c lo hi st df d = (r, d')"
  from m [unfolded modify_def] show "ctrls d' q = ctrls d q"
    by (rule modify_cases) (use c apply_only [OF _ c] in auto)
next
  fix c v d r d' q
  assume "set_ctrl S c v d = (r, d')" and c: "c \<noteq> V4L2_CID_VBLANK" "q \<noteq> c"
  then show "ctrls d' q = ctrls d q"
    using apply_only [OF _ c] by (auto simp: set_def v4l2_set_ctrl_def Let_def split: if_splits)
qed (simp add: modify_def v4l2_modify_range_def clamp_t_id)

section \<open>Starting a stream\<close>

text \<open>
  What the start of a stream relies on: \<open>pm_runtime_resume_and_get\<close>, called with the driver's mutex
  \<open>held\<close> or free, takes a reference exactly when it succeeds, never returns a positive value and
  leaves the mutex as it was; applying the controls leaves the reference count and the mutex alone.
\<close>

locale stream_core =
  fixes S :: "'a kdev_scheme services" and held :: bool
  assumes resume_law: "resume_and_get S d = (r, d') \<Longrightarrow> r \<le> 0 \<and>
      pm_usage (trace d') = pm_usage (trace d) + (if r = 0 then 1 else 0) \<and>
      (lock_run (trace d) (Some False) = Some held \<longrightarrow> lock_run (trace d') (Some False) = Some held)"
    and setup_law: "handler_setup S d = (r, d') \<Longrightarrow> pm_usage (trace d') = pm_usage (trace d) \<and>
      lock_run (trace d') x = lock_run (trace d) x"
begin

lemma resumed:
  assumes "resume_and_get S d = (0, d')" and "lock_run (trace d) (Some False) = Some held"
  shows "pm_usage (trace d') = pm_usage (trace d) + 1" "lock_run (trace d') (Some False) = Some held"
  using resume_law [OF assms(1)] assms(2) by simp_all

lemma not_resumed:
  assumes "resume_and_get S d = (r, d')" and "r \<noteq> 0" and "lock_run (trace d) (Some False) = Some held"
  shows "r < 0" "pm_usage (trace d') = pm_usage (trace d)" "lock_run (trace d') (Some False) = Some held"
  using resume_law [OF assms(1)] assms(2,3) by auto

end

text \<open>An environment in which runtime PM is enabled: \<open>pm_runtime_get_if_in_use\<close> never fails.\<close>

definition pm_on_env :: "env \<Rightarrow> env" where
  "pm_on_env E = E\<lparr>ret_of := (\<lambda>tr e. if e = Pm Pm_get_if_in_use then max 0 (ret_of E tr e) else ret_of E tr e)\<rparr>"

lemma pm_on_env_nonneg: "0 \<le> ret_of (pm_on_env E) tr (Pm Pm_get_if_in_use)"
  by (simp add: pm_on_env_def)

end
