(* ===== verification/V4l2.thy ===== *)
theory V4l2
  imports Kernel
begin

text \<open>
  The arguments both sensor drivers exchange with the V4L2 core: rectangles, media bus formats, the
  \<open>TRY\<close> state of a pad, selections, and the parsed endpoint of the firmware graph. The format type
  of a pad is a parameter: the OV7251 also stores the colour description.
\<close>

section \<open>Rectangles and formats\<close>

record v4l2_rect =
  r_left :: int
  r_top :: int
  r_width :: u32
  r_height :: u32

record v4l2_mbus_framefmt =
  f_width :: u32
  f_height :: u32
  f_code :: u32

section \<open>Arguments of the pad operations\<close>

datatype whence = V4L2_SUBDEV_FORMAT_TRY | V4L2_SUBDEV_FORMAT_ACTIVE | Which_other u32

text \<open>The state of the one pad of the sensor that the \<open>TRY\<close> variants work on.\<close>

record 'f pad_state =
  st_format :: 'f
  st_crop :: v4l2_rect

record 'f pad_format =
  sf_which :: whence
  sf_format :: 'f

datatype sel_target =
    V4L2_SEL_TGT_CROP
  | V4L2_SEL_TGT_CROP_DEFAULT
  | V4L2_SEL_TGT_CROP_BOUNDS
  | V4L2_SEL_TGT_NATIVE_SIZE
  | Sel_other u32

record subdev_selection =
  sel_which :: whence
  target :: sel_target
  sel_r :: v4l2_rect

text \<open>What \<open>v4l2_fwnode_endpoint_alloc_parse\<close> finds in the firmware graph.\<close>

record bus_cfg =
  num_data_lanes :: nat
  link_frequencies :: "u64 list"

end
