(* ===== verification/Regmap.thy ===== *)
theory Regmap
  imports V4l2
begin

text \<open>
  What the register accesses mean to the chip: a byte-addressed register memory, big-endian
  registers of one to three bytes, and the contents after a list of successful transfers. The
  drivers do not keep this memory; it is the specification their register programming is stated
  against. The locale \<open>cci_device\<close> is the contract of a bus whose reads return what was written,
  and \<open>sim_env\<close> is an environment that keeps it, with an arbitrary schedule of failing calls.
\<close>

section \<open>Register memory\<close>

type_synonym regmem = "u16 \<Rightarrow> u8"

fun reg_get :: "regmem \<Rightarrow> reg \<Rightarrow> u64" where
  "reg_get m (CCI_REG8 a) = ucast (m a)"
| "reg_get m (CCI_REG16 a) = push_bit 8 (ucast (m a)) OR ucast (m (a + 1))"
| "reg_get m (CCI_REG24 a) =
     push_bit 16 (ucast (m a)) OR (push_bit 8 (ucast (m (a + 1))) OR ucast (m (a + 2)))"

fun reg_put :: "regmem \<Rightarrow> reg \<Rightarrow> u64 \<Rightarrow> regmem" where
  "reg_put m (CCI_REG8 a) v = m(a := ucast v)"
| "reg_put m (CCI_REG16 a) v = m(a := ucast (drop_bit 8 v), a + 1 := ucast v)"
| "reg_put m (CCI_REG24 a) v =
     m(a := ucast (drop_bit 16 v), a + 1 := ucast (drop_bit 8 v), a + 2 := ucast v)"

fun reg_bits :: "reg \<Rightarrow> nat" where
  "reg_bits (CCI_REG8 a) = 8"
| "reg_bits (CCI_REG16 a) = 16"
| "reg_bits (CCI_REG24 a) = 24"

fun reg_bytes :: "reg \<Rightarrow> u16 set" where
  "reg_bytes (CCI_REG8 a) = {a}"
| "reg_bytes (CCI_REG16 a) = {a, a + 1}"
| "reg_bytes (CCI_REG24 a) = {a, a + 1, a + 2}"

lemma u16_succ_neq: "a \<noteq> a + 1" "a \<noteq> a + 2" "a + 1 \<noteq> a + 2" "a + 1 \<noteq> a" "a + 2 \<noteq> a" "a + 2 \<noteq> a + 1"
  for a :: u16
proof -
  have *: "a \<noteq> a + k" if "k \<noteq> 0" for k :: u16 using that by simp
  show "a \<noteq> a + 1" "a \<noteq> a + 2" by (rule *, simp)+
  then show "a + 1 \<noteq> a" "a + 2 \<noteq> a" by metis+
  show "a + 1 \<noteq> a + 2" "a + 2 \<noteq> a + 1" by simp_all
qed

text \<open>A register reads back what was written, cut to its width.\<close>

lemma low_byte: "ucast (ucast v :: u8) = v AND mask 8"
  for v :: u64
  by (rule bit_word_eqI) (auto simp: bit_simps)

lemma mask_join: "push_bit k (drop_bit k v AND mask j) OR (v AND mask k) = v AND mask (k + j)"
  for v :: u64
proof (rule bit_word_eqI)
  fix n
  assume "n < LENGTH(64)"
  then show "bit (push_bit k (drop_bit k v AND mask j) OR (v AND mask k)) n \<longleftrightarrow>
      bit (v AND mask (k + j)) n"
    by (cases "n < k") (auto simp: bit_simps)
qed

lemma reg_get_put: "reg_get (reg_put m r v) r = take_bit (reg_bits r) v"
proof -
  have "reg_get (reg_put m r v) r = v AND mask (reg_bits r)"
    using mask_join [of 8 v 8] mask_join [of 16 v 8]
    by (cases r) (simp_all add: low_byte u16_succ_neq)
  then show ?thesis by (simp only: take_bit_eq_mask)
qed

lemma reg_put_other: "a \<notin> reg_bytes r \<Longrightarrow> reg_put m r v a = m a"
  by (cases r) auto

lemma reg_get_cong: "(\<And>a. a \<in> reg_bytes r \<Longrightarrow> m a = m' a) \<Longrightarrow> reg_get m r = reg_get m' r"
  by (cases r) auto

lemma reg_get_put_other:
  "reg_bytes r \<inter> reg_bytes q = {} \<Longrightarrow> reg_get (reg_put m q v) r = reg_get m r"
  by (rule reg_get_cong) (auto intro: reg_put_other)

declare reg_get.simps [simp del] reg_put.simps [simp del]

lemmas reg_mem = reg_get_put reg_get_put_other

text \<open>The register memory after one successful transfer, and after a list of them.\<close>

fun bus_effect :: "bus \<Rightarrow> regmem \<Rightarrow> regmem" where
  "bus_effect (Cci_write r v) m = reg_put m r v"
| "bus_effect (Cci_update_bits r k v) m =
     reg_put m r ((reg_get m r AND NOT k) OR (v AND k))"
| "bus_effect (Cci_multi_reg_write rs) m = fold (\<lambda>(r, v) m. reg_put m r v) rs m"
| "bus_effect (Cci_read r) m = m"
| "bus_effect (I2c_master_send bs) m =
     (case bs of
        hi # lo # vs \<Rightarrow>
          (let a = push_bit 8 (ucast hi) OR ucast lo
           in fold (\<lambda>(i, v) m. m(a + word_of_nat i := v)) (zip [0..<length vs] vs) m)
      | _ \<Rightarrow> m)"
| "bus_effect (I2c_master_recv n) m = m"

declare bus_effect.simps(3) [simp del]

definition regs_after :: "regmem \<Rightarrow> bus list \<Rightarrow> regmem" where
  "regs_after m bs = fold bus_effect bs m"

lemma regs_after_simps [simp]:
  "regs_after m [] = m"
  "regs_after m (b # bs) = regs_after (bus_effect b m) bs"
  "regs_after m (bs @ bs') = regs_after (regs_after m bs) bs'"
  by (simp_all add: regs_after_def)

text \<open>The registers of a chip that held \<open>m\<close> when the trace began.\<close>

definition chip :: "regmem \<Rightarrow> 'a kdev_scheme \<Rightarrow> regmem" where
  "chip m d = regs_after m (bus_done (trace d))"

lemma chip_cci:
  assumes "cci E b s = (0, d')"
  shows "chip m d' = bus_effect b (chip m (snd s))"
  using cci_okD [OF assms] by (simp add: chip_def)

lemma cci_write_okD:
  assumes "cci_write E r v (0, d) = (0, d')"
  shows "bus_done (trace d') = bus_done (trace d) @ [Cci_write r v]" "quiet d' = quiet d"
    "chip m d' = reg_put (chip m d) r v"
  using cci_okD [OF assms [unfolded cci_write_def]] chip_cci [OF assms [unfolded cci_write_def]]
  by simp_all

text \<open>A read-modify-write of an eight-bit register.\<close>

lemma byte_update:
  "take_bit 8 ((take_bit 8 old AND NOT k) OR (v AND k)) AND take_bit 8 k = take_bit 8 (v AND k)"
  "take_bit 8 ((take_bit 8 old AND NOT k) OR (v AND k)) AND NOT k = take_bit 8 old AND NOT k"
  for old k v :: u64
  by (rule bit_word_eqI; auto simp: bit_simps)+

lemma reg_get_byte: "reg_get m (CCI_REG8 a) = take_bit 8 (reg_get m (CCI_REG8 a))"
  by (rule bit_word_eqI) (auto simp: reg_get.simps bit_simps dest: bit_imp_le_length)

lemma update_bits_reg:
  assumes "cci_update_bits E (CCI_REG8 a) k v (0, d) = (0, d')"
  shows "reg_get (chip m d') (CCI_REG8 a) AND take_bit 8 k = take_bit 8 (v AND k)"
    and "reg_get (chip m d') (CCI_REG8 a) AND NOT k = reg_get (chip m d) (CCI_REG8 a) AND NOT k"
    and "chip m d' = reg_put (chip m d) (CCI_REG8 a) ((reg_get (chip m d) (CCI_REG8 a) AND NOT k) OR (v AND k))"
    and "quiet d' = quiet d"
proof -
  note upd = assms [unfolded cci_update_bits_def]
  show c: "chip m d' = reg_put (chip m d) (CCI_REG8 a) ((reg_get (chip m d) (CCI_REG8 a) AND NOT k) OR (v AND k))"
    using chip_cci [OF upd, of m] by simp
  show "quiet d' = quiet d" using cci_okD(3) [OF upd] by simp
  show "reg_get (chip m d') (CCI_REG8 a) AND take_bit 8 k = take_bit 8 (v AND k)"
    using byte_update(1) [of "reg_get (chip m d) (CCI_REG8 a)" k v]
    by (simp add: c reg_get_put reg_get_byte [symmetric])
  show "reg_get (chip m d') (CCI_REG8 a) AND NOT k = reg_get (chip m d) (CCI_REG8 a) AND NOT k"
    using byte_update(2) [of "reg_get (chip m d) (CCI_REG8 a)" k v]
    by (simp add: c reg_get_put reg_get_byte [symmetric])
qed

text \<open>Environments for examples: every call succeeds; the first call named fails.\<close>

definition all_ok :: "trace \<Rightarrow> ev \<Rightarrow> int" where
  "all_ok tr e = 0"

definition fails_on :: "ev \<Rightarrow> int \<Rightarrow> trace \<Rightarrow> ev \<Rightarrow> int" where
  "fails_on bad r tr e = (if e = bad then r else 0)"

section \<open>A bus whose reads return what was written\<close>

locale cci_device =
  fixes E :: env and m :: regmem
  assumes read_law:
    "val_of E tr (Bus (Cci_read r)) = reg_get (regs_after m (bus_done tr)) r"
begin

text \<open>A write that succeeds is read back by the next read of the register.\<close>

lemma read_back:
  assumes "bus_done (trace d') = bus_done (trace d) @ [Cci_write r v]"
  shows "fst (snd (kread E (Bus (Cci_read r)) d')) = take_bit (reg_bits r) v"
  using assms by (simp add: kread_def Let_def read_law reg_get_put)

end

definition sim_env :: "regmem \<Rightarrow> (trace \<Rightarrow> ev \<Rightarrow> int) \<Rightarrow> env" where
  "sim_env m f = \<lparr>ret_of = f,
     val_of = (\<lambda>tr e. case e of
       Bus b \<Rightarrow> (case b of Cci_read r \<Rightarrow> reg_get (regs_after m (bus_done tr)) r | _ \<Rightarrow> 0)
     | _ \<Rightarrow> 0)\<rparr>"

text \<open>A chip of zeroed registers on a bus that never fails.\<close>

definition sample_env :: env where
  "sample_env = sim_env (\<lambda>_. 0) all_ok"

lemma sample_env_ok [simp]: "ret_of sample_env tr e = 0"
  by (simp add: sample_env_def sim_env_def all_ok_def)

interpretation sim: cci_device "sim_env m f" m for m f
  by unfold_locales (simp add: sim_env_def)

lemma sample_device: "cci_device sample_env (\<lambda>_. 0)"
  unfolding sample_env_def by (rule sim.cci_device_axioms)

end
