(* ===== verification/Ov5693_Regs.thy ===== *)
theory Ov5693_Regs
  imports Regmap
begin

text \<open>
  The constants of \<open>dkms/ov5693-surface/ov5693.c\<close>: register addresses with their widths, field
  masks, limits of the pixel array and of the timing, and the three register tables (the global
  initialisation and the two per-readout-mode lists), in the order the source has them. The lemmas
  at the end say what the tables program.
\<close>

section \<open>Registers\<close>

definition OV5693_SW_RESET_REG :: reg where [ov5693_regs]:
  "OV5693_SW_RESET_REG = CCI_REG8 0x0103"

definition OV5693_SW_STREAM_REG :: reg where [ov5693_regs]:
  "OV5693_SW_STREAM_REG = CCI_REG8 0x0100"

definition OV5693_REG_CHIP_ID :: reg where [ov5693_regs]:
  "OV5693_REG_CHIP_ID = CCI_REG16 0x300a"

definition OV5693_EXPOSURE_CTRL_REG :: reg where [ov5693_regs]:
  "OV5693_EXPOSURE_CTRL_REG = CCI_REG24 0x3500"

definition OV5693_GAIN_CTRL_REG :: reg where [ov5693_regs]:
  "OV5693_GAIN_CTRL_REG = CCI_REG16 0x350a"

definition OV5693_MWB_RED_GAIN_REG :: reg where [ov5693_regs]:
  "OV5693_MWB_RED_GAIN_REG = CCI_REG16 0x3400"

definition OV5693_MWB_GREEN_GAIN_REG :: reg where [ov5693_regs]:
  "OV5693_MWB_GREEN_GAIN_REG = CCI_REG16 0x3402"

definition OV5693_MWB_BLUE_GAIN_REG :: reg where [ov5693_regs]:
  "OV5693_MWB_BLUE_GAIN_REG = CCI_REG16 0x3404"

definition OV5693_CROP_START_X_REG :: reg where [ov5693_regs]:
  "OV5693_CROP_START_X_REG = CCI_REG16 0x3800"

definition OV5693_CROP_START_Y_REG :: reg where [ov5693_regs]:
  "OV5693_CROP_START_Y_REG = CCI_REG16 0x3802"

definition OV5693_CROP_END_X_REG :: reg where [ov5693_regs]:
  "OV5693_CROP_END_X_REG = CCI_REG16 0x3804"

definition OV5693_CROP_END_Y_REG :: reg where [ov5693_regs]:
  "OV5693_CROP_END_Y_REG = CCI_REG16 0x3806"

definition OV5693_OUTPUT_SIZE_X_REG :: reg where [ov5693_regs]:
  "OV5693_OUTPUT_SIZE_X_REG = CCI_REG16 0x3808"

definition OV5693_OUTPUT_SIZE_Y_REG :: reg where [ov5693_regs]:
  "OV5693_OUTPUT_SIZE_Y_REG = CCI_REG16 0x380a"

definition OV5693_TIMING_HTS_REG :: reg where [ov5693_regs]:
  "OV5693_TIMING_HTS_REG = CCI_REG16 0x380c"

definition OV5693_TIMING_VTS_REG :: reg where [ov5693_regs]:
  "OV5693_TIMING_VTS_REG = CCI_REG16 0x380e"

definition OV5693_OFFSET_START_X_REG :: reg where [ov5693_regs]:
  "OV5693_OFFSET_START_X_REG = CCI_REG16 0x3810"

definition OV5693_OFFSET_START_Y_REG :: reg where [ov5693_regs]:
  "OV5693_OFFSET_START_Y_REG = CCI_REG16 0x3812"

definition OV5693_SUB_INC_X_REG :: reg where [ov5693_regs]:
  "OV5693_SUB_INC_X_REG = CCI_REG8 0x3814"

definition OV5693_SUB_INC_Y_REG :: reg where [ov5693_regs]:
  "OV5693_SUB_INC_Y_REG = CCI_REG8 0x3815"

definition OV5693_FORMAT1_REG :: reg where [ov5693_regs]:
  "OV5693_FORMAT1_REG = CCI_REG8 0x3820"

definition OV5693_FORMAT2_REG :: reg where [ov5693_regs]:
  "OV5693_FORMAT2_REG = CCI_REG8 0x3821"

definition OV5693_ISP_CTRL2_REG :: reg where [ov5693_regs]:
  "OV5693_ISP_CTRL2_REG = CCI_REG8 0x5002"

definition OV5693_MIPI_CTRL00_REG :: reg where [ov5693_regs]:
  "OV5693_MIPI_CTRL00_REG = CCI_REG8 0x4800"

definition OV5693_TEST_PATTERN_REG :: reg where [ov5693_regs]:
  "OV5693_TEST_PATTERN_REG = CCI_REG8 0x5e00"

section \<open>Values, masks and limits\<close>

named_theorems ov5693_consts "numeric constants of the OV5693 driver"

definition OV5693_START_STREAMING :: u64 where [ov5693_regs]:
  "OV5693_START_STREAMING = 0x01"

definition OV5693_STOP_STREAMING :: u64 where [ov5693_regs]:
  "OV5693_STOP_STREAMING = 0x00"

definition OV5693_SW_RESET :: u64 where [ov5693_regs]:
  "OV5693_SW_RESET = 0x01"

definition OV5693_CHIP_ID :: u64 where [ov5693_regs]:
  "OV5693_CHIP_ID = 0x5690"

definition OV5693_MIPI_CTRL00_IPU6 :: u64 where [ov5693_regs]:
  "OV5693_MIPI_CTRL00_IPU6 = 0x2d"

definition OV5693_EXPOSURE_CTRL_MASK :: u32 where [ov5693_consts]:
  "OV5693_EXPOSURE_CTRL_MASK = GENMASK 19 4"

definition OV5693_GAIN_CTRL_MASK :: u32 where [ov5693_consts]:
  "OV5693_GAIN_CTRL_MASK = GENMASK 10 4"

definition OV5693_MWB_GAIN_MASK :: u32 where [ov5693_consts]:
  "OV5693_MWB_GAIN_MASK = GENMASK 11 0"

definition OV5693_FORMAT1_FLIP_VERT_ISP_EN :: "'a::len word" where [ov5693_consts]:
  "OV5693_FORMAT1_FLIP_VERT_ISP_EN = BIT 6"

definition OV5693_FORMAT1_FLIP_VERT_SENSOR_EN :: "'a::len word" where [ov5693_consts]:
  "OV5693_FORMAT1_FLIP_VERT_SENSOR_EN = BIT 1"

definition OV5693_FORMAT1_VBIN_EN :: "'a::len word" where [ov5693_consts]:
  "OV5693_FORMAT1_VBIN_EN = BIT 0"

definition OV5693_FORMAT2_FLIP_HORZ_ISP_EN :: "'a::len word" where [ov5693_consts]:
  "OV5693_FORMAT2_FLIP_HORZ_ISP_EN = BIT 2"

definition OV5693_FORMAT2_FLIP_HORZ_SENSOR_EN :: "'a::len word" where [ov5693_consts]:
  "OV5693_FORMAT2_FLIP_HORZ_SENSOR_EN = BIT 1"

definition OV5693_FORMAT2_HBIN_EN :: "'a::len word" where [ov5693_consts]:
  "OV5693_FORMAT2_HBIN_EN = BIT 0"

definition OV5693_TEST_PATTERN_ENABLE :: "'a::len word" where [ov5693_consts]:
  "OV5693_TEST_PATTERN_ENABLE = BIT 7"

definition OV5693_TEST_PATTERN_ROLLING :: "'a::len word" where [ov5693_consts]:
  "OV5693_TEST_PATTERN_ROLLING = BIT 6"

definition OV5693_TEST_PATTERN_RANDOM :: u8 where [ov5693_consts]:
  "OV5693_TEST_PATTERN_RANDOM = 0x01"

definition OV5693_TEST_PATTERN_BARS :: u8 where [ov5693_consts]:
  "OV5693_TEST_PATTERN_BARS = 0x00"

definition MEDIA_BUS_FMT_SBGGR10_1X10 :: u32 where [ov5693_consts]:
  "MEDIA_BUS_FMT_SBGGR10_1X10 = 0x3007"

definition OV5693_INTEGRATION_TIME_MARGIN :: "'a::numeral" where [ov5693_consts]:
  "OV5693_INTEGRATION_TIME_MARGIN = 8"

definition OV5693_EXPOSURE_MIN :: "'a::numeral" where [ov5693_consts]:
  "OV5693_EXPOSURE_MIN = 1"

definition OV5693_EXPOSURE_STEP :: "'a::numeral" where [ov5693_consts]:
  "OV5693_EXPOSURE_STEP = 1"

definition OV5693_GAIN_MIN :: "'a::numeral" where [ov5693_consts]:
  "OV5693_GAIN_MIN = 1"

definition OV5693_GAIN_MAX :: "'a::numeral" where [ov5693_consts]:
  "OV5693_GAIN_MAX = 127"

definition OV5693_GAIN_DEF :: "'a::numeral" where [ov5693_consts]:
  "OV5693_GAIN_DEF = 8"

definition OV5693_GAIN_STEP :: "'a::numeral" where [ov5693_consts]:
  "OV5693_GAIN_STEP = 1"

definition OV5693_DIGITAL_GAIN_MIN :: "'a::numeral" where [ov5693_consts]:
  "OV5693_DIGITAL_GAIN_MIN = 1"

definition OV5693_DIGITAL_GAIN_MAX :: "'a::numeral" where [ov5693_consts]:
  "OV5693_DIGITAL_GAIN_MAX = 4095"

definition OV5693_DIGITAL_GAIN_DEF :: "'a::numeral" where [ov5693_consts]:
  "OV5693_DIGITAL_GAIN_DEF = 1024"

definition OV5693_DIGITAL_GAIN_STEP :: "'a::numeral" where [ov5693_consts]:
  "OV5693_DIGITAL_GAIN_STEP = 1"

definition OV5693_FIXED_PPL :: "'a::numeral" where [ov5693_consts]:
  "OV5693_FIXED_PPL = 2688"

definition OV5693_TIMING_MAX_VTS :: "'a::numeral" where [ov5693_consts]:
  "OV5693_TIMING_MAX_VTS = 0xffff"

definition OV5693_TIMING_MIN_VTS :: "'a::numeral" where [ov5693_consts]:
  "OV5693_TIMING_MIN_VTS = 0x04"

definition OV5693_NATIVE_WIDTH :: "'a::numeral" where [ov5693_consts]:
  "OV5693_NATIVE_WIDTH = 2624"

definition OV5693_NATIVE_HEIGHT :: "'a::numeral" where [ov5693_consts]:
  "OV5693_NATIVE_HEIGHT = 1956"

definition OV5693_NATIVE_START_LEFT :: "'a::zero" where [ov5693_consts]:
  "OV5693_NATIVE_START_LEFT = 0"

definition OV5693_NATIVE_START_TOP :: "'a::zero" where [ov5693_consts]:
  "OV5693_NATIVE_START_TOP = 0"

definition OV5693_ACTIVE_WIDTH :: "'a::numeral" where [ov5693_consts]:
  "OV5693_ACTIVE_WIDTH = 2592"

definition OV5693_ACTIVE_HEIGHT :: "'a::numeral" where [ov5693_consts]:
  "OV5693_ACTIVE_HEIGHT = 1944"

definition OV5693_ACTIVE_START_LEFT :: "'a::numeral" where [ov5693_consts]:
  "OV5693_ACTIVE_START_LEFT = 16"

definition OV5693_ACTIVE_START_TOP :: "'a::numeral" where [ov5693_consts]:
  "OV5693_ACTIVE_START_TOP = 6"

definition OV5693_MIN_CROP_WIDTH :: "'a::numeral" where [ov5693_consts]:
  "OV5693_MIN_CROP_WIDTH = 2"

definition OV5693_MIN_CROP_HEIGHT :: "'a::numeral" where [ov5693_consts]:
  "OV5693_MIN_CROP_HEIGHT = 2"

definition OV5693_XVCLK_FREQ :: "'a::numeral" where [ov5693_consts]:
  "OV5693_XVCLK_FREQ = 19200000"

definition OV5693_LINK_FREQ_419_2MHZ :: "'a::numeral" where [ov5693_consts]:
  "OV5693_LINK_FREQ_419_2MHZ = 419200000"

definition OV5693_PIXEL_RATE :: "'a::numeral" where [ov5693_consts]:
  "OV5693_PIXEL_RATE = 167680000"

section \<open>Register tables\<close>

definition ov5693_global_regs :: "(reg \<times> u64) list" where
  "ov5693_global_regs = [
    (CCI_REG8 0x3016, 0xf0), (CCI_REG8 0x3017, 0xf0), (CCI_REG8 0x3018, 0xf0), (CCI_REG8 0x3022, 0x01),
    (CCI_REG8 0x3028, 0x44), (CCI_REG8 0x3098, 0x02), (CCI_REG8 0x3099, 0x19), (CCI_REG8 0x309a, 0x02),
    (CCI_REG8 0x309b, 0x01), (CCI_REG8 0x309c, 0x00), (CCI_REG8 0x30a0, 0xd2), (CCI_REG8 0x30a2, 0x01),
    (CCI_REG8 0x30b2, 0x00), (CCI_REG8 0x30b3, 0x83), (CCI_REG8 0x30b4, 0x03), (CCI_REG8 0x30b5, 0x04),
    (CCI_REG8 0x30b6, 0x01), (CCI_REG8 0x3080, 0x01), (CCI_REG8 0x3104, 0x21), (CCI_REG8 0x3106, 0x00),
    (CCI_REG8 0x3406, 0x01), (CCI_REG8 0x3503, 0x07), (CCI_REG8 0x350b, 0x40), (CCI_REG8 0x3601, 0x0a),
    (CCI_REG8 0x3602, 0x38), (CCI_REG8 0x3612, 0x80), (CCI_REG8 0x3620, 0x54), (CCI_REG8 0x3621, 0xc7),
    (CCI_REG8 0x3622, 0x0f), (CCI_REG8 0x3625, 0x10), (CCI_REG8 0x3630, 0x55), (CCI_REG8 0x3631, 0xf4),
    (CCI_REG8 0x3632, 0x00), (CCI_REG8 0x3633, 0x34), (CCI_REG8 0x3634, 0x02), (CCI_REG8 0x364d, 0x0d),
    (CCI_REG8 0x364f, 0xdd), (CCI_REG8 0x3660, 0x04), (CCI_REG8 0x3662, 0x10), (CCI_REG8 0x3663, 0xf1),
    (CCI_REG8 0x3665, 0x00), (CCI_REG8 0x3666, 0x20), (CCI_REG8 0x3667, 0x00), (CCI_REG8 0x366a, 0x80),
    (CCI_REG8 0x3680, 0xe0), (CCI_REG8 0x3681, 0x00), (CCI_REG8 0x3700, 0x42), (CCI_REG8 0x3701, 0x14),
    (CCI_REG8 0x3702, 0xa0), (CCI_REG8 0x3703, 0xd8), (CCI_REG8 0x3704, 0x78), (CCI_REG8 0x3705, 0x02),
    (CCI_REG8 0x370a, 0x00), (CCI_REG8 0x370b, 0x20), (CCI_REG8 0x370c, 0x0c), (CCI_REG8 0x370d, 0x11),
    (CCI_REG8 0x370e, 0x00), (CCI_REG8 0x370f, 0x40), (CCI_REG8 0x3710, 0x00), (CCI_REG8 0x371a, 0x1c),
    (CCI_REG8 0x371b, 0x05), (CCI_REG8 0x371c, 0x01), (CCI_REG8 0x371e, 0xa1), (CCI_REG8 0x371f, 0x0c),
    (CCI_REG8 0x3721, 0x00), (CCI_REG8 0x3724, 0x10), (CCI_REG8 0x3726, 0x00), (CCI_REG8 0x372a, 0x01),
    (CCI_REG8 0x3730, 0x10), (CCI_REG8 0x3738, 0x22), (CCI_REG8 0x3739, 0xe5), (CCI_REG8 0x373a, 0x50),
    (CCI_REG8 0x373b, 0x02), (CCI_REG8 0x373c, 0x41), (CCI_REG8 0x373f, 0x02), (CCI_REG8 0x3740, 0x42),
    (CCI_REG8 0x3741, 0x02), (CCI_REG8 0x3742, 0x18), (CCI_REG8 0x3743, 0x01), (CCI_REG8 0x3744, 0x02),
    (CCI_REG8 0x3747, 0x10), (CCI_REG8 0x374c, 0x04), (CCI_REG8 0x3751, 0xf0), (CCI_REG8 0x3752, 0x00),
    (CCI_REG8 0x3753, 0x00), (CCI_REG8 0x3754, 0xc0), (CCI_REG8 0x3755, 0x00), (CCI_REG8 0x3756, 0x1a),
    (CCI_REG8 0x3758, 0x00), (CCI_REG8 0x3759, 0x0f), (CCI_REG8 0x376b, 0x44), (CCI_REG8 0x375c, 0x04),
    (CCI_REG8 0x3774, 0x10), (CCI_REG8 0x3776, 0x00), (CCI_REG8 0x377f, 0x08), (CCI_REG8 0x3780, 0x22),
    (CCI_REG8 0x3781, 0x0c), (CCI_REG8 0x3784, 0x2c), (CCI_REG8 0x3785, 0x1e), (CCI_REG8 0x378f, 0xf5),
    (CCI_REG8 0x3791, 0xb0), (CCI_REG8 0x3795, 0x00), (CCI_REG8 0x3796, 0x64), (CCI_REG8 0x3797, 0x11),
    (CCI_REG8 0x3798, 0x30), (CCI_REG8 0x3799, 0x41), (CCI_REG8 0x379a, 0x07), (CCI_REG8 0x379b, 0xb0),
    (CCI_REG8 0x379c, 0x0c), (CCI_REG8 0x3a04, 0x06), (CCI_REG8 0x3a05, 0x14), (CCI_REG8 0x3e07, 0x20),
    (CCI_REG8 0x4000, 0x08), (CCI_REG8 0x4001, 0x04), (CCI_REG8 0x4004, 0x08), (CCI_REG8 0x4006, 0x20),
    (CCI_REG8 0x4008, 0x24), (CCI_REG8 0x4009, 0x10), (CCI_REG8 0x4058, 0x00), (CCI_REG8 0x4101, 0xb2),
    (CCI_REG8 0x4307, 0x31), (CCI_REG8 0x4511, 0x05), (CCI_REG8 0x4512, 0x01), (CCI_REG8 0x481f, 0x30),
    (CCI_REG8 0x4826, 0x2c), (CCI_REG8 0x4d02, 0xfd), (CCI_REG8 0x4d03, 0xf5), (CCI_REG8 0x4d04, 0x0c),
    (CCI_REG8 0x4d05, 0xcc), (CCI_REG8 0x4837, 0x0a), (CCI_REG8 0x5003, 0x20), (CCI_REG8 0x5013, 0x00),
    (CCI_REG8 0x5842, 0x01), (CCI_REG8 0x5843, 0x2b), (CCI_REG8 0x5844, 0x01), (CCI_REG8 0x5845, 0x92),
    (CCI_REG8 0x5846, 0x01), (CCI_REG8 0x5847, 0x8f), (CCI_REG8 0x5848, 0x01), (CCI_REG8 0x5849, 0x0c),
    (CCI_REG8 0x5e10, 0x0c), (CCI_REG8 0x3820, 0x00), (CCI_REG8 0x3821, 0x1e), (CCI_REG8 0x5041, 0x14)]"

definition ov5693_mode_full_regs :: "(reg \<times> u64) list" where
  "ov5693_mode_full_regs = [
    (CCI_REG8 0x30b3, 0x83), (CCI_REG8 0x3620, 0x54), (CCI_REG8 0x3621, 0xc7), (CCI_REG8 0x3622, 0x0f),
    (CCI_REG8 0x3708, 0xe2), (CCI_REG8 0x3709, 0xc3), (CCI_REG8 0x371f, 0x0c)]"

definition ov5693_mode_binned_regs :: "(reg \<times> u64) list" where
  "ov5693_mode_binned_regs = [
    (CCI_REG8 0x30b3, 0x70), (CCI_REG8 0x3600, 0xbc), (CCI_REG8 0x3620, 0x44), (CCI_REG8 0x3621, 0xb5),
    (CCI_REG8 0x3622, 0x0c), (CCI_REG8 0x3708, 0xe6), (CCI_REG8 0x3709, 0xc7), (CCI_REG8 0x371f, 0x1f)]"

definition ov5693_test_pattern_menu :: "string list" where
  "ov5693_test_pattern_menu = [''Disabled'', ''Random Data'', ''Colour Bars'',
     ''Colour Bars with Rolling Bar'']"

text \<open>The test pattern register value of each entry of the test pattern menu.\<close>

definition ov5693_test_pattern_bits :: "u8 list" where
  "ov5693_test_pattern_bits = [
     0,
     OV5693_TEST_PATTERN_ENABLE OR OV5693_TEST_PATTERN_RANDOM,
     OV5693_TEST_PATTERN_ENABLE OR OV5693_TEST_PATTERN_BARS,
     OV5693_TEST_PATTERN_ENABLE OR OV5693_TEST_PATTERN_BARS OR OV5693_TEST_PATTERN_ROLLING]"

section \<open>What the tables program\<close>

text \<open>The registers a table writes, and the value it leaves in one of them.\<close>

definition table_regs :: "(reg \<times> u64) list \<Rightarrow> reg set" where
  "table_regs t = fst ` set t"

lemma multi_reg_write_other:
  "\<forall>q \<in> table_regs t. reg_bytes r \<inter> reg_bytes q = {} \<Longrightarrow>
   reg_get (bus_effect (Cci_multi_reg_write t) m) r = reg_get m r"
proof (induction t arbitrary: m)
  case Nil
  then show ?case by (simp add: bus_effect.simps)
next
  case (Cons p t)
  obtain q v where p: "p = (q, v)" by (cases p)
  from Cons.prems p have "reg_get (reg_put m q v) r = reg_get m r"
    by (intro reg_get_put_other) (auto simp: table_regs_def)
  moreover from Cons.prems have "\<forall>q \<in> table_regs t. reg_bytes r \<inter> reg_bytes q = {}"
    by (auto simp: table_regs_def)
  ultimately show ?case using Cons.IH [of "reg_put m q v"] p
    by (simp add: bus_effect.simps)
qed

end
