(* ===== verification/Ov5693_Ctrl.thy ===== *)
theory Ov5693_Ctrl
  imports Ov5693_Regs
begin

text \<open>
  The OV5693 device and its control operations (\<open>ov5693.c\<close>, "V4L2 Controls Functions" and
  \<open>ov5693_mode_configure\<close>): the state the driver keeps, one definition per function, then what
  each leaves in the registers of the sensor.
\<close>

section \<open>The device\<close>

record ov5693_mode =
  m_crop :: v4l2_rect
  m_format :: v4l2_mbus_framefmt
  binning_x :: bool
  binning_y :: bool
  inc_x_odd :: u32
  inc_y_odd :: u32
  vts :: u32

text \<open>\<open>binned_y_offset\<close> is the module parameter, a global of the C file that may change at run time.\<close>

record ov5693 = kdev +
  mode :: ov5693_mode
  binned_y_offset :: int

lemma kcall_mode [simp]:
  "mode (snd (kcall E e d)) = mode d" "binned_y_offset (snd (kcall E e d)) = binned_y_offset d"
  by (simp_all add: kcall_def Let_def)

lemma kdo_mode [simp]:
  "mode (kdo e d) = mode d" "binned_y_offset (kdo e d) = binned_y_offset d"
  by (simp_all add: kdo_def)

lemma quiet_mode:
  assumes "quiet d = quiet d'"
  shows "mode d = mode d'" "ctrls d = ctrls d'" "ctrl_ptr d = ctrl_ptr d'"
    "rpm_active d = rpm_active d'" "binned_y_offset d = binned_y_offset d'"
  using assms by (cases d, cases d', simp add: quiet_def)+

section \<open>Control operations\<close>

definition ov5693_flip_vert_bits :: "ov5693 \<Rightarrow> u8" where
  "ov5693_flip_vert_bits d =
     (if binning_y (mode d) then OV5693_FORMAT1_FLIP_VERT_SENSOR_EN
      else OV5693_FORMAT1_FLIP_VERT_ISP_EN OR OV5693_FORMAT1_FLIP_VERT_SENSOR_EN)"

definition ov5693_flip_vert_configure :: "env \<Rightarrow> bool \<Rightarrow> ov5693 \<Rightarrow> int \<times> ov5693" where
  "ov5693_flip_vert_configure E enable d =
     (let msk = (OV5693_FORMAT1_FLIP_VERT_ISP_EN OR OV5693_FORMAT1_FLIP_VERT_SENSOR_EN :: u8);
          (ret, d) = cci_update_bits E OV5693_FORMAT1_REG (ucast msk)
            (if enable then ucast (ov5693_flip_vert_bits d) else 0) (0, d)
      in if ret \<noteq> 0 then (ret, d) else (0, d))"

definition ov5693_offset_start_x :: "ov5693 \<Rightarrow> bool \<Rightarrow> u16" where
  "ov5693_offset_start_x d hflip =
     (if binning_x (mode d) \<or> binning_y (mode d) then 8 else if hflip then 1 else 0)"

definition ov5693_flip_horz_configure :: "env \<Rightarrow> bool \<Rightarrow> ov5693 \<Rightarrow> int \<times> ov5693" where
  "ov5693_flip_horz_configure E enable d =
     (let bits = (OV5693_FORMAT2_FLIP_HORZ_ISP_EN OR OV5693_FORMAT2_FLIP_HORZ_SENSOR_EN :: u8);
          (ret, d) = cci_update_bits E OV5693_FORMAT2_REG (ucast bits)
            (if enable then 0 else ucast bits) (0, d)
      in if ret \<noteq> 0 then (ret, d)
         else
           (let (ret, d) = cci_write E OV5693_OFFSET_START_X_REG
                  (ucast (ov5693_offset_start_x d enable)) (0, d)
            in if ret \<noteq> 0 then (ret, d) else (0, d)))"

text \<open>
  The two read functions return the result code, the value stored through their out parameter
  (\<open>None\<close> when they return before storing it) and the device.
\<close>

definition ov5693_get_exposure :: "env \<Rightarrow> ov5693 \<Rightarrow> int \<times> int option \<times> ov5693" where
  "ov5693_get_exposure E d =
     (let (ret, exposure, d) = kread E (Bus (Cci_read OV5693_EXPOSURE_CTRL_REG)) d
      in if ret \<noteq> 0 then (ret, None, d)
         else (0, Some (s32_of_u32 (ucast (drop_bit 4 exposure))), d))"

definition ov5693_exposure_configure :: "env \<Rightarrow> u32 \<Rightarrow> ov5693 \<Rightarrow> int \<times> ov5693" where
  "ov5693_exposure_configure E exposure d =
     cci_write E OV5693_EXPOSURE_CTRL_REG
       (zext64 (push_bit 4 exposure AND OV5693_EXPOSURE_CTRL_MASK)) (0, d)"

definition ov5693_get_gain :: "env \<Rightarrow> ov5693 \<Rightarrow> int \<times> u32 option \<times> ov5693" where
  "ov5693_get_gain E d =
     (let (ret, v, d) = kread E (Bus (Cci_read OV5693_GAIN_CTRL_REG)) d
      in if ret \<noteq> 0 then (ret, None, d) else (ret, Some (ucast (drop_bit 4 v)), d))"

definition ov5693_digital_gain_configure :: "env \<Rightarrow> u32 \<Rightarrow> ov5693 \<Rightarrow> int \<times> ov5693" where
  "ov5693_digital_gain_configure E gain d =
     (let gain = gain AND OV5693_MWB_GAIN_MASK;
          s = (0, d);
          s = cci_write E OV5693_MWB_RED_GAIN_REG (zext64 gain) s;
          s = cci_write E OV5693_MWB_GREEN_GAIN_REG (zext64 gain) s;
          s = cci_write E OV5693_MWB_BLUE_GAIN_REG (zext64 gain) s
      in s)"

definition ov5693_analog_gain_configure :: "env \<Rightarrow> u32 \<Rightarrow> ov5693 \<Rightarrow> int \<times> ov5693" where
  "ov5693_analog_gain_configure E gain d =
     cci_write E OV5693_GAIN_CTRL_REG (zext64 (push_bit 4 gain AND OV5693_GAIN_CTRL_MASK)) (0, d)"

definition ov5693_vts_configure :: "env \<Rightarrow> u32 \<Rightarrow> ov5693 \<Rightarrow> int \<times> ov5693" where
  "ov5693_vts_configure E vblank d =
     (let vts = (ucast (f_height (m_format (mode d)) + vblank) :: u16)
      in cci_write E OV5693_TIMING_VTS_REG (ucast vts) (0, d))"

text \<open>An index past the menu would read past the array of pattern values.\<close>

definition ov5693_test_pattern_configure ::
    "env \<Rightarrow> u32 \<Rightarrow> ov5693 \<Rightarrow> fault + (int \<times> ov5693)" where
  "ov5693_test_pattern_configure E idx d =
     (if unat idx < length ov5693_test_pattern_bits
      then Inr (cci_write E OV5693_TEST_PATTERN_REG
             (ucast (ov5693_test_pattern_bits ! unat idx)) (0, d))
      else Inl Out_of_bounds)"

text \<open>
  \<open>ov5693_s_ctrl\<close>: \<open>ci\<close> and \<open>v\<close> are the control's \<open>id\<close> and its new \<open>val\<close>. A changed VBLANK moves
  the exposure limit first, powered or not; everything else happens only while the device is in
  use.
\<close>

definition ov5693_follow_vblank :: "ov5693 services \<Rightarrow> int \<Rightarrow> ov5693 \<Rightarrow> ov5693" where
  "ov5693_follow_vblank S v d =
     (let exposure_max = s32_of_u32 (f_height (m_format (mode d)) + u32_of_int v
            - OV5693_INTEGRATION_TIME_MARGIN);
          ex = ctrls d V4L2_CID_EXPOSURE
      in snd (modify_range S V4L2_CID_EXPOSURE (minimum ex) exposure_max (step ex)
           (min (val ex) exposure_max) d))"

text \<open>The \<open>switch\<close> of \<open>ov5693_s_ctrl\<close>.\<close>

definition ov5693_apply_ctrl :: "env \<Rightarrow> cid \<Rightarrow> int \<Rightarrow> ov5693 \<Rightarrow> fault + (int \<times> ov5693)" where
  "ov5693_apply_ctrl E ci v d =
     (case ci of
        V4L2_CID_EXPOSURE \<Rightarrow> Inr (ov5693_exposure_configure E (u32_of_int v) d)
      | V4L2_CID_ANALOGUE_GAIN \<Rightarrow> Inr (ov5693_analog_gain_configure E (u32_of_int v) d)
      | V4L2_CID_DIGITAL_GAIN \<Rightarrow> Inr (ov5693_digital_gain_configure E (u32_of_int v) d)
      | V4L2_CID_HFLIP \<Rightarrow> Inr (ov5693_flip_horz_configure E (v \<noteq> 0) d)
      | V4L2_CID_VFLIP \<Rightarrow> Inr (ov5693_flip_vert_configure E (v \<noteq> 0) d)
      | V4L2_CID_VBLANK \<Rightarrow> Inr (ov5693_vts_configure E (u32_of_int v) d)
      | V4L2_CID_TEST_PATTERN \<Rightarrow> ov5693_test_pattern_configure E (u32_of_int v) d
      | _ \<Rightarrow> Inr (- EINVAL, d))"

definition ov5693_s_ctrl ::
    "ov5693 services \<Rightarrow> env \<Rightarrow> cid \<Rightarrow> int \<Rightarrow> ov5693 \<Rightarrow> fault + (int \<times> ov5693)" where
  "ov5693_s_ctrl S E ci v d =
     (let d = (if ci = V4L2_CID_VBLANK then ov5693_follow_vblank S v d else d);
          (in_use, d) = kcall E (Pm Pm_get_if_in_use) d
      in if in_use = 0 then Inr (0, d)
         else
           (case ov5693_apply_ctrl E ci v d of
              Inl f \<Rightarrow> Inl f
            | Inr (ret, d) \<Rightarrow> Inr (ret, kdo (Pm Pm_put) d)))"

definition ov5693_g_volatile_ctrl :: "env \<Rightarrow> cid \<Rightarrow> ov5693 \<Rightarrow> int \<times> int option \<times> ov5693" where
  "ov5693_g_volatile_ctrl E ci d =
     (case ci of
        V4L2_CID_EXPOSURE_ABSOLUTE \<Rightarrow> ov5693_get_exposure E d
      | V4L2_CID_AUTOGAIN \<Rightarrow>
          (let (ret, g, d) = ov5693_get_gain E d in (ret, map_option s32_of_u32 g, d))
      | _ \<Rightarrow> (- EINVAL, None, d))"

section \<open>Programming the readout mode\<close>

definition ov5693_mode_configure :: "env \<Rightarrow> ov5693 \<Rightarrow> int \<times> ov5693" where
  "ov5693_mode_configure E d =
     (let m = mode d;
          binned = (binning_x m \<or> binning_y m);
          s = (0, d);
          s = cci_write E OV5693_CROP_START_X_REG
                (if binned then 0 else sext64 (r_left (m_crop m))) s;
          s = cci_write E OV5693_OFFSET_START_X_REG
                (ucast (ov5693_offset_start_x d
                   (ctrl_ptr d V4L2_CID_HFLIP \<and> val (ctrls d V4L2_CID_HFLIP) \<noteq> 0))) s;
          s = cci_write E OV5693_OUTPUT_SIZE_X_REG (zext64 (f_width (m_format m))) s;
          s = cci_write E OV5693_CROP_END_X_REG
                (zext64 (if binned then OV5693_NATIVE_WIDTH - 1
                         else u32_of_int (r_left (m_crop m)) + r_width (m_crop m))) s;
          s = cci_write E OV5693_TIMING_HTS_REG OV5693_FIXED_PPL s;
          s = cci_write E OV5693_CROP_START_Y_REG
                (if binned then 0 else sext64 (r_top (m_crop m))) s;
          s = cci_write E OV5693_OFFSET_START_Y_REG
                (if binned then sext64 (binned_y_offset d) else 0) s;
          s = cci_write E OV5693_OUTPUT_SIZE_Y_REG (zext64 (f_height (m_format m))) s;
          s = cci_write E OV5693_CROP_END_Y_REG
                (zext64 (if binned then OV5693_NATIVE_HEIGHT - 1
                         else u32_of_int (r_top (m_crop m)) + r_height (m_crop m))) s;
          s = cci_write E OV5693_SUB_INC_X_REG
                (zext64 ((push_bit 4 (inc_x_odd m) AND 0xf0) OR 0x01)) s;
          s = cci_write E OV5693_SUB_INC_Y_REG
                (zext64 ((push_bit 4 (inc_y_odd m) AND 0xf0) OR 0x01)) s;
          s = cci_update_bits E OV5693_FORMAT1_REG OV5693_FORMAT1_VBIN_EN
                (if binning_y m then OV5693_FORMAT1_VBIN_EN else 0) s;
          s = cci_update_bits E OV5693_FORMAT2_REG OV5693_FORMAT2_HBIN_EN
                (if binning_x m then OV5693_FORMAT2_HBIN_EN else 0) s;
          s = (if ctrl_ptr d V4L2_CID_VFLIP \<and> val (ctrls d V4L2_CID_VFLIP) \<noteq> 0
               then cci_update_bits E OV5693_FORMAT1_REG
                 (OV5693_FORMAT1_FLIP_VERT_ISP_EN OR OV5693_FORMAT1_FLIP_VERT_SENSOR_EN)
                 (ucast (ov5693_flip_vert_bits d)) s
               else s);
          s = (if binning_x m \<or> binning_y m
               then cci_multi_reg_write E ov5693_mode_binned_regs s
               else cci_multi_reg_write E ov5693_mode_full_regs s)
      in s)"

section \<open>What the operations leave in the sensor\<close>

text \<open>The transfers \<open>ov5693_mode_configure\<close> makes, as a list.\<close>

definition ov5693_mode_writes :: "ov5693 \<Rightarrow> bus list" where
  "ov5693_mode_writes d =
     (let m = mode d; binned = (binning_x m \<or> binning_y m)
      in [Cci_write OV5693_CROP_START_X_REG (if binned then 0 else sext64 (r_left (m_crop m))),
          Cci_write OV5693_OFFSET_START_X_REG
            (ucast (ov5693_offset_start_x d
               (ctrl_ptr d V4L2_CID_HFLIP \<and> val (ctrls d V4L2_CID_HFLIP) \<noteq> 0))),
          Cci_write OV5693_OUTPUT_SIZE_X_REG (zext64 (f_width (m_format m))),
          Cci_write OV5693_CROP_END_X_REG
            (zext64 (if binned then OV5693_NATIVE_WIDTH - 1
                     else u32_of_int (r_left (m_crop m)) + r_width (m_crop m))),
          Cci_write OV5693_TIMING_HTS_REG OV5693_FIXED_PPL,
          Cci_write OV5693_CROP_START_Y_REG (if binned then 0 else sext64 (r_top (m_crop m))),
          Cci_write OV5693_OFFSET_START_Y_REG
            (if binned then sext64 (binned_y_offset d) else 0),
          Cci_write OV5693_OUTPUT_SIZE_Y_REG (zext64 (f_height (m_format m))),
          Cci_write OV5693_CROP_END_Y_REG
            (zext64 (if binned then OV5693_NATIVE_HEIGHT - 1
                     else u32_of_int (r_top (m_crop m)) + r_height (m_crop m))),
          Cci_write OV5693_SUB_INC_X_REG
            (zext64 ((push_bit 4 (inc_x_odd m) AND 0xf0) OR 0x01)),
          Cci_write OV5693_SUB_INC_Y_REG
            (zext64 ((push_bit 4 (inc_y_odd m) AND 0xf0) OR 0x01)),
          Cci_update_bits OV5693_FORMAT1_REG OV5693_FORMAT1_VBIN_EN
            (if binning_y m then OV5693_FORMAT1_VBIN_EN else 0),
          Cci_update_bits OV5693_FORMAT2_REG OV5693_FORMAT2_HBIN_EN
            (if binning_x m then OV5693_FORMAT2_HBIN_EN else 0)] @
         (if ctrl_ptr d V4L2_CID_VFLIP \<and> val (ctrls d V4L2_CID_VFLIP) \<noteq> 0
          then [Cci_update_bits OV5693_FORMAT1_REG
                  (OV5693_FORMAT1_FLIP_VERT_ISP_EN OR OV5693_FORMAT1_FLIP_VERT_SENSOR_EN)
                  (ucast (ov5693_flip_vert_bits d))]
          else []) @
         [Cci_multi_reg_write (if binned then ov5693_mode_binned_regs else ov5693_mode_full_regs)])"

lemma mode_configure_fold:
  "ov5693_mode_configure E d = fold (cci E) (ov5693_mode_writes d) (0, d)"
  by (simp add: ov5693_mode_configure_def ov5693_mode_writes_def cci_defs Let_def)


lemma mode_configure_okD:
  assumes "ov5693_mode_configure E d = (0, d')"
  shows "bus_done (trace d') = bus_done (trace d) @ ov5693_mode_writes d" "quiet d' = quiet d"
    "chip m d' = regs_after (chip m d) (ov5693_mode_writes d)"
  using fold_cci_ok [OF assms [unfolded mode_configure_fold]] by (simp_all add: chip_def)

lemma mode_tables_elsewhere:
  assumes "r \<in> {OV5693_CROP_START_X_REG, OV5693_CROP_START_Y_REG, OV5693_CROP_END_X_REG,
    OV5693_CROP_END_Y_REG, OV5693_OUTPUT_SIZE_X_REG, OV5693_OUTPUT_SIZE_Y_REG,
    OV5693_TIMING_HTS_REG, OV5693_OFFSET_START_X_REG, OV5693_OFFSET_START_Y_REG,
    OV5693_SUB_INC_X_REG, OV5693_SUB_INC_Y_REG, OV5693_FORMAT1_REG, OV5693_FORMAT2_REG}"
  shows "reg_get (bus_effect (Cci_multi_reg_write ov5693_mode_full_regs) m) r = reg_get m r"
    and "reg_get (bus_effect (Cci_multi_reg_write ov5693_mode_binned_regs) m) r = reg_get m r"
  using assms
  by (intro multi_reg_write_other; auto simp: table_regs_def ov5693_mode_full_regs_def
      ov5693_mode_binned_regs_def ov5693_regs)+


lemma exposure_field:
  "drop_bit 4 (take_bit 24 (zext64 (push_bit 4 e AND OV5693_EXPOSURE_CTRL_MASK)))
     = (ucast (take_bit 16 e) :: u64)"
  by (rule bit_word_eqI) (auto simp: bit_simps zext64_def OV5693_EXPOSURE_CTRL_MASK_def GENMASK_def)

lemma gain_field:
  "drop_bit 4 (take_bit 16 (zext64 (push_bit 4 g AND OV5693_GAIN_CTRL_MASK)))
     = (ucast (take_bit 7 g) :: u64)"
  by (rule bit_word_eqI) (auto simp: bit_simps zext64_def OV5693_GAIN_CTRL_MASK_def GENMASK_def)

text \<open>
  C24: On a bus whose reads return what was written, reading the exposure back gives the exposure
  written, modulo 65536.
\<close>

theorem exposure_roundtrip:
  assumes bus: "cci_device E m"
    and conf: "ov5693_exposure_configure E e d = (0, d1)"
    and get: "ov5693_get_exposure E d1 = (0, v, d2)"
  shows "v = Some (int (unat e mod 65536))"
proof -
  let ?w = "zext64 (push_bit 4 e AND OV5693_EXPOSURE_CTRL_MASK)"
  have "fst (snd (kread E (Bus (Cci_read OV5693_EXPOSURE_CTRL_REG)) d1)) = take_bit 24 ?w"
    using cci_device.read_back [OF bus cci_write_okD(1) [OF conf [unfolded ov5693_exposure_configure_def]]]
    by (simp add: OV5693_EXPOSURE_CTRL_REG_def)
  then have "v = Some (s32_of_u32 (ucast (ucast (take_bit 16 e) :: u64)))"
    using get by (auto simp: ov5693_get_exposure_def exposure_field case_prod_beta Let_def split: if_splits)
  moreover have "unat (ucast (ucast (take_bit 16 e) :: u64) :: u32) = unat e mod 65536"
    by (simp add: unsigned_ucast_eq unsigned_take_bit_eq take_bit_eq_mod [where 'a = nat]
        mod_mod_cancel)
  moreover have "unat e mod 65536 < 2 ^ 31"
    by (rule less_trans [of _ 65536]) simp_all
  ultimately show ?thesis by (simp add: s32_small)
qed

theorem gain_roundtrip:
  assumes bus: "cci_device E m"
    and conf: "ov5693_analog_gain_configure E g d = (0, d1)"
    and get: "ov5693_get_gain E d1 = (0, v, d2)"
  shows "v = Some (take_bit 7 g)"
proof -
  let ?w = "zext64 (push_bit 4 g AND OV5693_GAIN_CTRL_MASK)"
  have "fst (snd (kread E (Bus (Cci_read OV5693_GAIN_CTRL_REG)) d1)) = take_bit 16 ?w"
    using cci_device.read_back [OF bus cci_write_okD(1) [OF conf [unfolded ov5693_analog_gain_configure_def]]]
    by (simp add: OV5693_GAIN_CTRL_REG_def)
  then show ?thesis
    using get by (auto simp: ov5693_get_gain_def gain_field u32_u64_u32 case_prod_beta Let_def split: if_splits)
qed

lemma digital_gain_fold:
  "ov5693_digital_gain_configure E g d =
     fold (cci E) (map (\<lambda>r. Cci_write r (zext64 (g AND OV5693_MWB_GAIN_MASK)))
       [OV5693_MWB_RED_GAIN_REG, OV5693_MWB_GREEN_GAIN_REG, OV5693_MWB_BLUE_GAIN_REG]) (0, d)"
  by (simp add: ov5693_digital_gain_configure_def cci_defs Let_def)

lemma digital_field: "take_bit 16 (zext64 (g AND OV5693_MWB_GAIN_MASK)) = (ucast (take_bit 12 g) :: u64)"
  by (rule bit_word_eqI) (auto simp: bit_simps zext64_def OV5693_MWB_GAIN_MASK_def GENMASK_def)

theorem digital_gain_channels:
  assumes "ov5693_digital_gain_configure E g d = (0, d')"
  shows "reg_get (chip m d') OV5693_MWB_RED_GAIN_REG = ucast (take_bit 12 g) \<and>
    reg_get (chip m d') OV5693_MWB_GREEN_GAIN_REG = ucast (take_bit 12 g) \<and>
    reg_get (chip m d') OV5693_MWB_BLUE_GAIN_REG = ucast (take_bit 12 g)"
  using fold_cci_ok(1) [OF assms [unfolded digital_gain_fold]]
  by (simp add: chip_def reg_mem ov5693_regs digital_field)

theorem vts_register:
  assumes "ov5693_vts_configure E vblank d = (0, d')"
  shows "reg_get (chip m d') OV5693_TIMING_VTS_REG =
    word_of_nat ((unat (f_height (m_format (mode d))) + unat vblank) mod 65536)"
proof -
  have *: "take_bit 16 (ucast (ucast (a + b) :: u16) :: u64)
      = word_of_nat ((unat a + unat b) mod 65536)" for a b :: u32
    by (rule word_unat_eq_iff [THEN iffD2])
      (simp add: unsigned_take_bit_eq unsigned_ucast_eq unat_word_ariths unat_of_nat take_bit_eq_mod
        mod_mod_cancel)
  show ?thesis
    using cci_write_okD(3) [OF assms [unfolded ov5693_vts_configure_def Let_def], of m]
    by (simp add: reg_mem OV5693_TIMING_VTS_REG_def *)
qed
theorem flip_vert_bits:
  assumes "ov5693_flip_vert_configure E enable d = (0, d')"
  shows "reg_get (chip m d') OV5693_FORMAT1_REG AND
      (OV5693_FORMAT1_FLIP_VERT_ISP_EN OR OV5693_FORMAT1_FLIP_VERT_SENSOR_EN) =
      (if \<not> enable then 0
       else if binning_y (mode d) then OV5693_FORMAT1_FLIP_VERT_SENSOR_EN
       else OV5693_FORMAT1_FLIP_VERT_ISP_EN OR OV5693_FORMAT1_FLIP_VERT_SENSOR_EN)
    \<and> reg_get (chip m d') OV5693_FORMAT1_REG AND
        NOT (OV5693_FORMAT1_FLIP_VERT_ISP_EN OR OV5693_FORMAT1_FLIP_VERT_SENSOR_EN) =
      reg_get (chip m d) OV5693_FORMAT1_REG AND
        NOT (OV5693_FORMAT1_FLIP_VERT_ISP_EN OR OV5693_FORMAT1_FLIP_VERT_SENSOR_EN)"
proof -
  have "cci_update_bits E OV5693_FORMAT1_REG
      (OV5693_FORMAT1_FLIP_VERT_ISP_EN OR OV5693_FORMAT1_FLIP_VERT_SENSOR_EN)
      (if enable then ucast (ov5693_flip_vert_bits d) else 0) (0, d) = (0, d')"
    using assms by (simp add: ov5693_flip_vert_configure_def Let_def ov5693_consts BIT_def split: prod.splits if_splits)
  note upd = update_bits_reg [OF this [unfolded OV5693_FORMAT1_REG_def]]
  show ?thesis
    using upd(1,2) [where m = m]
    by (simp add: OV5693_FORMAT1_REG_def ov5693_consts BIT_def ov5693_flip_vert_bits_def)
qed
text \<open>
  A successful ov5693_flip_horz_configure clears both FLIP_HORZ bits to mirror and sets them not
  to, and writes the X offset of the readout.
\<close>

theorem flip_horz_registers:
  assumes "ov5693_flip_horz_configure E enable d = (0, d')"
  shows "reg_get (chip m d') OV5693_FORMAT2_REG AND
      (OV5693_FORMAT2_FLIP_HORZ_ISP_EN OR OV5693_FORMAT2_FLIP_HORZ_SENSOR_EN) =
      (if enable then 0 else OV5693_FORMAT2_FLIP_HORZ_ISP_EN OR OV5693_FORMAT2_FLIP_HORZ_SENSOR_EN)
    \<and> reg_get (chip m d') OV5693_OFFSET_START_X_REG =
      (if binning_x (mode d) \<or> binning_y (mode d) then 8 else if enable then 1 else 0)"
proof -
  let ?bits = "OV5693_FORMAT2_FLIP_HORZ_ISP_EN OR OV5693_FORMAT2_FLIP_HORZ_SENSOR_EN :: u64"
  obtain d1 where upd: "cci_update_bits E OV5693_FORMAT2_REG ?bits (if enable then 0 else ?bits) (0, d) = (0, d1)"
    and wr: "cci_write E OV5693_OFFSET_START_X_REG (ucast (ov5693_offset_start_x d1 enable)) (0, d1) = (0, d')"
    using assms by (auto simp: ov5693_flip_horz_configure_def Let_def ov5693_consts BIT_def
        split: prod.splits if_splits)
  note u = update_bits_reg [OF upd [unfolded OV5693_FORMAT2_REG_def]]
  note w = cci_write_okD(3) [OF wr, of m]
  have "reg_get (chip m d') OV5693_FORMAT2_REG = reg_get (chip m d1) OV5693_FORMAT2_REG"
    unfolding w by (rule reg_get_put_other) (simp add: ov5693_regs)
  moreover have "reg_get (chip m d1) OV5693_FORMAT2_REG AND ?bits = (if enable then 0 else ?bits)"
    using u(1) [where m = m] by (simp add: OV5693_FORMAT2_REG_def ov5693_consts BIT_def)
  moreover have "mode d1 = mode d" by (rule quiet_mode(1) [OF u(4)])
  ultimately show ?thesis
    by (simp add: w reg_get_put OV5693_OFFSET_START_X_REG_def ov5693_offset_start_x_def)
qed

lemma control_bus_step:
  "bus_step d (snd (ov5693_exposure_configure E e d))"
  "bus_step d (snd (ov5693_analog_gain_configure E g d))"
  "bus_step d (snd (ov5693_digital_gain_configure E g d))"
  "bus_step d (snd (ov5693_vts_configure E vb d))"
  "bus_step d (snd (ov5693_flip_vert_configure E b d))"
  "bus_step d (snd (ov5693_mode_configure E d))"
  "ov5693_test_pattern_configure E i d = Inr p \<Longrightarrow> bus_step d (snd p)"
  using bus_step_cci_ops(2) [of d "(0, d)" E OV5693_FORMAT1_REG]
  by (auto simp: ov5693_exposure_configure_def ov5693_analog_gain_configure_def
       ov5693_digital_gain_configure_def ov5693_vts_configure_def ov5693_flip_vert_configure_def
       ov5693_test_pattern_configure_def mode_configure_fold bus_step_fold bus_step_cci_ops
       Let_def case_prod_beta split: if_splits)

lemma flip_horz_bus_step: "bus_step d (snd (ov5693_flip_horz_configure E b d))"
proof -
  have 1: "bus_step d (snd (cci_update_bits E OV5693_FORMAT2_REG k v (0, d)))" for k v
    by (simp add: bus_step_cci_ops)
  have 2: "bus_step d1 (snd (cci_write E OV5693_OFFSET_START_X_REG v (0, d1)))" for d1 :: ov5693 and v
    by (simp add: bus_step_cci_ops)
  show ?thesis
    using 1 bus_step_trans [OF 1 2] by (simp add: ov5693_flip_horz_configure_def Let_def case_prod_beta)
qed

section \<open>The control core on the driver's callback\<close>

text \<open>
  The control core validates a menu index before it calls the driver, so the fault of
  \<open>ov5693_test_pattern_configure\<close> is never seen; it is mapped to a refused value. Setting VBLANK
  moves the exposure range, which may set EXPOSURE, which moves nothing: two levels are enough.
\<close>

definition ov5693_op :: "ov5693 services \<Rightarrow> env \<Rightarrow> ov5693 s_ctrl_op" where
  "ov5693_op S E c v d = (case ov5693_s_ctrl S E c v d of Inl _ \<Rightarrow> (- EINVAL, d) | Inr p \<Rightarrow> p)"

definition ov5693_inner_services :: "env \<Rightarrow> ov5693 services" where
  "ov5693_inner_services E =
     no_services\<lparr>modify_range := v4l2_modify_range (ov5693_op no_services E),
       set_ctrl := v4l2_set_ctrl (ov5693_op no_services E)\<rparr>"

definition ov5693_setup_order :: "cid list" where
  "ov5693_setup_order = [V4L2_CID_EXPOSURE, V4L2_CID_ANALOGUE_GAIN, V4L2_CID_DIGITAL_GAIN,
     V4L2_CID_HFLIP, V4L2_CID_VFLIP, V4L2_CID_VBLANK, V4L2_CID_TEST_PATTERN]"

definition ov5693_ctrl_services :: "env \<Rightarrow> ov5693 services" where
  "ov5693_ctrl_services E =
     (let op = ov5693_op (ov5693_inner_services E) E
      in no_services\<lparr>modify_range := v4l2_modify_range op, set_ctrl := v4l2_set_ctrl op,
           handler_setup := v4l2_handler_setup op ov5693_setup_order\<rparr>)"

lemma apply_ctrl_bus_step: "ov5693_apply_ctrl E ci v d = Inr p \<Longrightarrow> bus_step d (snd p)"
  by (cases ci) (auto simp: ov5693_apply_ctrl_def control_bus_step flip_horz_bus_step)

lemma apply_ctrl_fault:
  "(\<exists>f. ov5693_apply_ctrl E ci v d = Inl f) \<longleftrightarrow>
     ci = V4L2_CID_TEST_PATTERN \<and> 4 \<le> unat (u32_of_int v)"
  by (cases ci) (auto simp: ov5693_apply_ctrl_def ov5693_test_pattern_configure_def
      ov5693_test_pattern_bits_def)

lemma s_ctrl_pm_usage:
  assumes "ov5693_s_ctrl S E ci v d = Inr (ret, d')"
  defines "d0 \<equiv> (if ci = V4L2_CID_VBLANK then ov5693_follow_vblank S v d else d)"
  shows "pm_usage (trace d') = pm_usage (trace d0) +
    (if ret_of E (trace d0) (Pm Pm_get_if_in_use) < 0 then - 1 else 0)"
proof -
  have s: "ov5693_s_ctrl S E ci v d =
      (let (in_use, d) = kcall E (Pm Pm_get_if_in_use) d0 in if in_use = 0 then Inr (0, d)
       else (case ov5693_apply_ctrl E ci v d of
              Inl f \<Rightarrow> Inl f
            | Inr (ret, d) \<Rightarrow> Inr (ret, kdo (Pm Pm_put) d)))"
    by (simp add: ov5693_s_ctrl_def Let_def d0_def)
  show ?thesis
    using assms(1) weigh_bus [OF apply_ctrl_bus_step, of E ci v]
    by (auto simp: s Let_def case_prod_beta pm_usage_def split: if_splits sum.splits)
qed

text \<open>
  Applying a control leaves the PM usage count as it was unless pm_runtime_get_if_in_use reported
  an error, which costs a reference.
\<close>

theorem s_ctrl_pm_balance:
  assumes "ov5693_s_ctrl S E ci v d = Inr (ret, d')"
  defines "d0 \<equiv> (if ci = V4L2_CID_VBLANK then ov5693_follow_vblank S v d else d)"
  shows "pm_usage (trace d') = pm_usage (trace d0) +
    (if ret_of E (trace d0) (Pm Pm_get_if_in_use) < 0 then - 1 else 0)"
  unfolding d0_def by (rule s_ctrl_pm_usage [OF assms(1)])

text \<open>
  Applying a control reads out of bounds exactly for a test pattern index past the menu on a
  device in use.
\<close>

theorem s_ctrl_fault_iff:
  "(\<exists>f. ov5693_s_ctrl S E ci v d = Inl f) \<longleftrightarrow>
     ci = V4L2_CID_TEST_PATTERN \<and> ret_of E (trace d) (Pm Pm_get_if_in_use) \<noteq> 0 \<and>
     4 \<le> unat (u32_of_int v)"
proof (cases "ci = V4L2_CID_TEST_PATTERN")
  case True
  then show ?thesis
    using apply_ctrl_fault [of E ci v "snd (kcall E (Pm Pm_get_if_in_use) d)"]
    by (auto simp: ov5693_s_ctrl_def Let_def case_prod_beta split: if_splits sum.splits)
next
  case False
  then have ok: "\<exists>p. ov5693_apply_ctrl E ci v x = Inr p" for x
    using apply_ctrl_fault [of E ci v x] by (cases "ov5693_apply_ctrl E ci v x") auto
  have "\<exists>p. ov5693_s_ctrl S E ci v d = Inr p"
    using ok [of "snd (kcall E (Pm Pm_get_if_in_use) d)"]
      ok [of "snd (kcall E (Pm Pm_get_if_in_use) (ov5693_follow_vblank S v d))"]
    by (auto simp: ov5693_s_ctrl_def Let_def case_prod_beta)
  with False show ?thesis by auto
qed

text \<open>
  C19: When VBLANK is set to a non-negative value whose frame length fits 31 bits and is at least
  8 lines above the lower end of the EXPOSURE range, whose step is 1, the upper end of that range
  becomes the frame length minus 8 and the lower end is kept, under the contract of the control
  core.
\<close>

theorem vblank_moves_exposure_limit:
  assumes core: "ctrl_core S kdev.more"
    and ok: "ov5693_s_ctrl S E V4L2_CID_VBLANK v d = Inr (ret, d')"
    and ex: "low_ok (ctrls d V4L2_CID_EXPOSURE)" "step (ctrls d V4L2_CID_EXPOSURE) = 1"
    and len: "l = int (unat (f_height (m_format (mode d)))) + v" "0 \<le> v" "l < 2 ^ 31"
    and room: "minimum (ctrls d V4L2_CID_EXPOSURE) + 8 \<le> l"
  shows "maximum (ctrls d' V4L2_CID_EXPOSURE) = l - 8 \<and>
    minimum (ctrls d' V4L2_CID_EXPOSURE) = minimum (ctrls d V4L2_CID_EXPOSURE)"
proof -
  let ?d0 = "ov5693_follow_vblank S v d"
  let ?ex = "ctrls d V4L2_CID_EXPOSURE"
  have wrap: "s32_of_u32 (f_height (m_format (mode d)) + u32_of_int v - 8) = l - 8"
  proof -
    have eq: "f_height (m_format (mode d)) + u32_of_int v - 8 = word_of_int (l - 8)"
      by (rule word_of_int_sum [where k = 8]) (simp_all add: len(1))
    have "0 \<le> l" using len by simp
    then show ?thesis unfolding eq using len(3) by (intro s32_of_int) simp_all
  qed
  obtain r where mr: "modify_range S V4L2_CID_EXPOSURE (minimum ?ex) (l - 8) 1 (min (val ?ex) (l - 8)) d = (r, ?d0)"
    by (cases "modify_range S V4L2_CID_EXPOSURE (minimum ?ex) (l - 8) 1 (min (val ?ex) (l - 8)) d")
      (simp add: ov5693_follow_vblank_def Let_def wrap ex OV5693_INTEGRATION_TIME_MARGIN_def)
  have "minimum (ctrls ?d0 V4L2_CID_EXPOSURE) = minimum ?ex \<and> maximum (ctrls ?d0 V4L2_CID_EXPOSURE) = l - 8"
    using ctrl_core.range_ok [OF core _ _ _ mr] ex(1) room by (simp add: low_ok_def)
  moreover have "ctrls d' = ctrls ?d0"
    using ok bus_step_quiet [OF apply_ctrl_bus_step, of E V4L2_CID_VBLANK v "snd (kcall E (Pm Pm_get_if_in_use) ?d0)"]
    by (auto simp: ov5693_s_ctrl_def Let_def case_prod_beta split: if_splits sum.splits dest: quiet_mode)
  ultimately show ?thesis by simp
qed

text \<open>What \<open>ov5693_s_ctrl\<close> leaves of the device, whatever the services it calls.\<close>

lemma op_after:
  assumes "ov5693_op S E c v d = (r, d')"
  defines "d0 \<equiv> (if c = V4L2_CID_VBLANK then ov5693_follow_vblank S v d else d)"
  shows "d' = d \<or> (quiet d' = quiet d0 \<and> (\<forall>x. lock_run (trace d') x = lock_run (trace d0) x))"
proof -
  let ?d1 = "snd (kcall E (Pm Pm_get_if_in_use) d0)"
  have "d' = d \<or> d' = ?d1 \<or> (\<exists>p. ov5693_apply_ctrl E c v ?d1 = Inr p \<and> d' = kdo (Pm Pm_put) (snd p))"
    using assms(1) by (auto simp: ov5693_op_def ov5693_s_ctrl_def Let_def case_prod_beta d0_def
      split: sum.splits if_splits)
  then show ?thesis
  proof (elim disjE exE conjE)
    fix p
    assume p: "ov5693_apply_ctrl E c v ?d1 = Inr p" and d': "d' = kdo (Pm Pm_put) (snd p)"
    show ?thesis
      using bus_step_quiet [OF apply_ctrl_bus_step [OF p]] lock_bus [OF apply_ctrl_bus_step [OF p]]
      by (simp add: d')
  qed simp_all
qed

lemma op_laws:
  assumes core: "ctrl_core S kdev.more" and op: "ov5693_op S E c v d = (r, d')"
  shows "ctrl_ptr d' = ctrl_ptr d" "kdev.more d' = kdev.more d"
    "lock_run (trace d') x = lock_run (trace d) x"
    "q \<noteq> V4L2_CID_EXPOSURE \<or> c \<noteq> V4L2_CID_VBLANK \<Longrightarrow> ctrls d' q = ctrls d q"
    "minimum (ctrls d' V4L2_CID_EXPOSURE) = minimum (ctrls d V4L2_CID_EXPOSURE)"
    "step (ctrls d' V4L2_CID_EXPOSURE) = step (ctrls d V4L2_CID_EXPOSURE)"
    "low_ok (ctrls d V4L2_CID_EXPOSURE) \<Longrightarrow> low_ok (ctrls d' V4L2_CID_EXPOSURE)"
proof -
  let ?ex = "ctrls d V4L2_CID_EXPOSURE"
  let ?mx = "s32_of_u32 (f_height (m_format (mode d)) + u32_of_int v - OV5693_INTEGRATION_TIME_MARGIN)"
  let ?f = "ov5693_follow_vblank S v d"
  obtain r1 where mr: "modify_range S V4L2_CID_EXPOSURE (minimum ?ex) ?mx (step ?ex)
      (min (val ?ex) ?mx) d = (r1, ?f)"
    by (simp add: ov5693_follow_vblank_def Let_def prod_eq_iff)
  have lohi: "minimum (ctrls ?f V4L2_CID_EXPOSURE) = minimum ?ex \<and> step (ctrls ?f V4L2_CID_EXPOSURE) = step ?ex"
    by (rule ctrl_core.follow_range [OF core mr])
  note fr = ctrl_core.range_frame [OF core mr] ctrl_core.range_low [OF core _ mr]
    ctrl_core.range_other [OF core mr]
  note aft = op_after [OF op]
  have c: "ctrls d' = ctrls (if c = V4L2_CID_VBLANK then ?f else d) \<or> d' = d"
    and p: "ctrl_ptr d' = ctrl_ptr d" "kdev.more d' = kdev.more d"
    using aft fr(1) by (auto dest: quiet_fields split: if_splits)
  show "ctrl_ptr d' = ctrl_ptr d" "kdev.more d' = kdev.more d" by fact+
  show "lock_run (trace d') x = lock_run (trace d) x"
    using aft fr(1) [of x] by (auto split: if_splits)
  show "q \<noteq> V4L2_CID_EXPOSURE \<or> c \<noteq> V4L2_CID_VBLANK \<Longrightarrow> ctrls d' q = ctrls d q"
    using c fr(3) [of q] by (auto split: if_splits)
  show "minimum (ctrls d' V4L2_CID_EXPOSURE) = minimum ?ex" "step (ctrls d' V4L2_CID_EXPOSURE) = step ?ex"
    using c lohi by (auto split: if_splits)
  show "low_ok ?ex \<Longrightarrow> low_ok (ctrls d' V4L2_CID_EXPOSURE)"
    using c fr(2) by (auto split: if_splits)
qed

interpretation ov5693_inner: ctrl_driver "ov5693_op no_services E" "ov5693_inner_services E" kdev.more for E
proof unfold_locales
  have q: "quiet d' = quiet d" and l: "lock_run (trace d') x = lock_run (trace d) x"
    if "ov5693_op no_services E c v d = (r, d')" for c v d r d' x
    using op_after [OF that] by (auto simp: ov5693_follow_vblank_def no_services_def Let_def split: if_splits)
  fix c v d r d' x q
  assume op: "ov5693_op no_services E c v d = (r, d')"
  note f = quiet_fields [OF q [OF op]] l [OF op]
  show "ctrl_ptr d' = ctrl_ptr d \<and> kdev.more d' = kdev.more d \<and> lock_run (trace d') x = lock_run (trace d) x"
    "ctrls d' q = ctrls d q"
    "minimum (ctrls d' V4L2_CID_EXPOSURE) = minimum (ctrls d V4L2_CID_EXPOSURE) \<and>
      step (ctrls d' V4L2_CID_EXPOSURE) = step (ctrls d V4L2_CID_EXPOSURE)"
    "low_ok (ctrls d V4L2_CID_EXPOSURE) \<Longrightarrow> low_ok (ctrls d' V4L2_CID_EXPOSURE)"
    using f by simp_all
qed (simp_all add: ov5693_inner_services_def no_services_def)

interpretation ov5693_core: ctrl_driver "ov5693_op (ov5693_inner_services E) E" "ov5693_ctrl_services E" kdev.more for E
  by unfold_locales
    (use op_laws [OF ov5693_inner.ctrl_core_axioms] in
      \<open>simp_all add: ov5693_ctrl_services_def Let_def no_services_def\<close>)

section \<open>The mode registers\<close>

text \<open>
  C17: After a successful ov5693_mode_configure the window registers of the sensor hold the output
  size, HTS 2688, and the whole pixel array with X offset 8 in the binned readout, or the crop
  rectangle with its end at start plus size at full resolution.
\<close>

theorem mode_configure_geometry:
  assumes "ov5693_mode_configure E d = (0, d')"
  defines "mo \<equiv> mode d" and "binned \<equiv> binning_x (mode d) \<or> binning_y (mode d)"
  shows "reg_get (chip m d') OV5693_OUTPUT_SIZE_X_REG = take_bit 16 (zext64 (f_width (m_format mo))) \<and>
    reg_get (chip m d') OV5693_OUTPUT_SIZE_Y_REG = take_bit 16 (zext64 (f_height (m_format mo))) \<and>
    reg_get (chip m d') OV5693_TIMING_HTS_REG = 2688 \<and>
    (if binned then
       reg_get (chip m d') OV5693_CROP_START_X_REG = 0 \<and>
       reg_get (chip m d') OV5693_CROP_START_Y_REG = 0 \<and>
       reg_get (chip m d') OV5693_CROP_END_X_REG = 2623 \<and>
       reg_get (chip m d') OV5693_CROP_END_Y_REG = 1955 \<and>
       reg_get (chip m d') OV5693_OFFSET_START_X_REG = 8
     else
       reg_get (chip m d') OV5693_CROP_START_X_REG = take_bit 16 (sext64 (r_left (m_crop mo))) \<and>
       reg_get (chip m d') OV5693_CROP_START_Y_REG = take_bit 16 (sext64 (r_top (m_crop mo))) \<and>
       reg_get (chip m d') OV5693_CROP_END_X_REG =
         take_bit 16 (zext64 (u32_of_int (r_left (m_crop mo)) + r_width (m_crop mo))) \<and>
       reg_get (chip m d') OV5693_CROP_END_Y_REG =
         take_bit 16 (zext64 (u32_of_int (r_top (m_crop mo)) + r_height (m_crop mo))) \<and>
       reg_get (chip m d') OV5693_OFFSET_START_Y_REG = 0)"
proof -
  note img = mode_configure_okD(3) [OF assms(1), of m]
  show ?thesis
    unfolding binned_def mo_def img
    by (cases "binning_x (mode d) \<or> binning_y (mode d)";
        simp add: ov5693_mode_writes_def Let_def reg_mem mode_tables_elsewhere ov5693_regs
          ov5693_consts ov5693_offset_start_x_def zext64_def)
qed

theorem s_ctrl_unused:
  assumes "ci \<noteq> V4L2_CID_VBLANK" and "ret_of E (trace d) (Pm Pm_get_if_in_use) = 0"
  shows "\<exists>d'. ov5693_s_ctrl S E ci v d = Inr (0, d') \<and> quiet d' = quiet d \<and> chip m d' = chip m d"
  using assms by (simp add: ov5693_s_ctrl_def Let_def kcall_def quiet_def chip_def)

section \<open>A device for the examples\<close>

definition ov5693_sample :: ov5693 where
  "ov5693_sample = \<lparr>trace = [],
     ctrls = (\<lambda>c. if c = V4L2_CID_EXPOSURE then std_ctrl 1 2070 1 2070
                  else if c = V4L2_CID_VBLANK then std_ctrl 4 63591 1 134
                  else std_ctrl 0 4095 1 0),
     ctrl_ptr = (\<lambda>_. True), rpm_active = False,
     mode = \<lparr>m_crop = \<lparr>r_left = 16, r_top = 6, r_width = 2592, r_height = 1944\<rparr>,
       m_format = \<lparr>f_width = 2592, f_height = 1944, f_code = 0x3007\<rparr>,
       binning_x = False, binning_y = False, inc_x_odd = 1, inc_y_odd = 1, vts = 2078\<rparr>,
     binned_y_offset = 3\<rparr>"

lemma sample_cci [simp]:
  "fst (cci sample_env b s) = fst s"
  "fst (cci_write sample_env r v s) = fst s"
  "fst (cci_update_bits sample_env r k v s) = fst s"
  "fst (cci_multi_reg_write sample_env rs s) = fst s"
  "fst (fold (cci sample_env) bs s) = fst s"
proof -
  show 1: "fst (cci sample_env b s) = fst s" for b s by (simp add: cci_def)
  then show "fst (cci_write sample_env r v s) = fst s" "fst (cci_update_bits sample_env r k v s) = fst s"
    "fst (cci_multi_reg_write sample_env rs s) = fst s" by (simp_all add: cci_defs)
  show "fst (fold (cci sample_env) bs s) = fst s" by (induction bs arbitrary: s) (simp_all add: 1)
qed

lemma zero_split: "fst p = 0 \<Longrightarrow> p = (0, snd p)"
  by (simp add: prod_eq_iff)

lemma exposure_roundtrip_witness:
  "fst (snd (ov5693_get_exposure sample_env (snd (ov5693_exposure_configure sample_env 70000 ov5693_sample))))
     = Some 4464"
proof -
  let ?c = "ov5693_exposure_configure sample_env 70000 ov5693_sample"
  let ?g = "ov5693_get_exposure sample_env (snd ?c)"
  have c: "?c = (0, snd ?c)" by (rule zero_split) (simp add: ov5693_exposure_configure_def)
  have g: "?g = (0, fst (snd ?g), snd (snd ?g))"
    by (simp add: ov5693_get_exposure_def kread_def Let_def)
  show ?thesis using exposure_roundtrip [OF sample_device c g] by simp
qed

lemma gain_roundtrip_witness:
  "fst (snd (ov5693_get_gain sample_env (snd (ov5693_analog_gain_configure sample_env 200 ov5693_sample))))
     = Some 72"
proof -
  let ?c = "ov5693_analog_gain_configure sample_env 200 ov5693_sample"
  let ?g = "ov5693_get_gain sample_env (snd ?c)"
  have c: "?c = (0, snd ?c)" by (rule zero_split) (simp add: ov5693_analog_gain_configure_def)
  have g: "?g = (0, fst (snd ?g), snd (snd ?g))"
    by (simp add: ov5693_get_gain_def kread_def Let_def)
  show ?thesis using gain_roundtrip [OF sample_device c g] by simp
qed

lemma digital_gain_channels_witness:
  "reg_get (chip (\<lambda>_. 0) (snd (ov5693_digital_gain_configure sample_env 1024 ov5693_sample)))
     OV5693_MWB_RED_GAIN_REG = 1024"
proof -
  let ?c = "ov5693_digital_gain_configure sample_env 1024 ov5693_sample"
  have c: "?c = (0, snd ?c)" by (rule zero_split) (simp add: digital_gain_fold)
  show ?thesis using digital_gain_channels [OF c] by simp
qed

lemma vts_register_witness:
  "reg_get (chip (\<lambda>_. 0) (snd (ov5693_vts_configure sample_env 134 ov5693_sample)))
     OV5693_TIMING_VTS_REG = 2078"
proof -
  let ?c = "ov5693_vts_configure sample_env 134 ov5693_sample"
  have c: "?c = (0, snd ?c)" by (rule zero_split) (simp add: ov5693_vts_configure_def Let_def)
  show ?thesis using vts_register [OF c] by (simp add: ov5693_sample_def)
qed

lemma flip_vert_bits_witness:
  "reg_get (chip (\<lambda>_. 0) (snd (ov5693_flip_vert_configure sample_env True ov5693_sample)))
     OV5693_FORMAT1_REG AND 0x42 = 0x42"
proof -
  let ?c = "ov5693_flip_vert_configure sample_env True ov5693_sample"
  have c: "?c = (0, snd ?c)"
    by (rule zero_split) (simp add: ov5693_flip_vert_configure_def Let_def case_prod_beta)
  show ?thesis using flip_vert_bits [OF c, of "\<lambda>_. 0"]
    by (simp add: ov5693_sample_def ov5693_consts BIT_def)
qed

lemma flip_horz_registers_witness:
  "reg_get (chip (\<lambda>_. 0) (snd (ov5693_flip_horz_configure sample_env True ov5693_sample)))
     OV5693_OFFSET_START_X_REG = 1"
proof -
  let ?c = "ov5693_flip_horz_configure sample_env True ov5693_sample"
  have c: "?c = (0, snd ?c)"
    by (rule zero_split) (simp add: ov5693_flip_horz_configure_def Let_def case_prod_beta)
  show ?thesis using flip_horz_registers [OF c, of "\<lambda>_. 0"] by (simp add: ov5693_sample_def)
qed

lemma mode_configure_geometry_witness:
  "reg_get (chip (\<lambda>_. 0) (snd (ov5693_mode_configure sample_env ov5693_sample)))
     OV5693_CROP_END_X_REG = 2608"
proof -
  let ?c = "ov5693_mode_configure sample_env ov5693_sample"
  have c: "?c = (0, snd ?c)" by (rule zero_split) (simp add: mode_configure_fold)
  show ?thesis using mode_configure_geometry [OF c, of "\<lambda>_. 0"]
    by (simp add: ov5693_sample_def zext64_def u32_of_int_def)
qed

lemma s_ctrl_unused_witness:
  "\<exists>d'. ov5693_s_ctrl no_services sample_env V4L2_CID_EXPOSURE 100 ov5693_sample = Inr (0, d') \<and>
     chip (\<lambda>_. 0) d' = chip (\<lambda>_. 0) ov5693_sample"
  using s_ctrl_unused [of V4L2_CID_EXPOSURE sample_env ov5693_sample no_services 100 "\<lambda>_. 0"] by auto

text \<open>Runtime PM disabled: \<open>pm_runtime_get_if_in_use\<close> answers \<open>-EINVAL\<close>.\<close>

definition pm_off_env :: env where
  "pm_off_env = sim_env (\<lambda>_. 0) (fails_on (Pm Pm_get_if_in_use) (- 22))"

lemma s_ctrl_pm_balance_witness:
  "\<exists>ret d'. ov5693_s_ctrl no_services pm_off_env V4L2_CID_EXPOSURE 100 ov5693_sample = Inr (ret, d') \<and>
     pm_usage (trace d') = - 1"
proof -
  obtain ret d' where r: "ov5693_s_ctrl no_services pm_off_env V4L2_CID_EXPOSURE 100 ov5693_sample = Inr (ret, d')"
    by (simp add: ov5693_s_ctrl_def ov5693_apply_ctrl_def Let_def case_prod_beta pm_off_env_def
        sim_env_def fails_on_def)
  show ?thesis
    using r s_ctrl_pm_balance [OF r]
    by (auto simp: pm_off_env_def sim_env_def fails_on_def ov5693_sample_def pm_usage_def)
qed

lemma vblank_moves_exposure_limit_witness:
  "\<exists>ret d'. ov5693_s_ctrl (ov5693_ctrl_services sample_env) sample_env V4L2_CID_VBLANK 1000 ov5693_sample
       = Inr (ret, d') \<and> maximum (ctrls d' V4L2_CID_EXPOSURE) = 2936"
proof -
  let ?S = "ov5693_ctrl_services sample_env"
  obtain ret d' where r: "ov5693_s_ctrl ?S sample_env V4L2_CID_VBLANK 1000 ov5693_sample = Inr (ret, d')"
    by (simp add: ov5693_s_ctrl_def ov5693_apply_ctrl_def Let_def case_prod_beta)
  have "maximum (ctrls d' V4L2_CID_EXPOSURE) = 2944 - 8 \<and>
      minimum (ctrls d' V4L2_CID_EXPOSURE) = minimum (ctrls ov5693_sample V4L2_CID_EXPOSURE)"
    by (rule vblank_moves_exposure_limit [OF ov5693_core.ctrl_core_axioms r])
      (simp_all add: ov5693_sample_def std_ctrl_def low_ok_def)
  with r show ?thesis by auto
qed

end
