(* ===== verification/Ov5693_Format.thy ===== *)
theory Ov5693_Format
  imports Ov5693_Ctrl
begin

text \<open>
  Formats, crop rectangles and frame intervals of the OV5693 (\<open>ov5693.c\<close>, "V4L2 Framework
  callbacks"). A function that divides by zero or follows a NULL pointer on some input returns that
  \<open>fault\<close>.
\<close>

type_synonym sd_state = "v4l2_mbus_framefmt pad_state"
type_synonym subdev_format = "v4l2_mbus_framefmt pad_format"

section \<open>Timing\<close>

definition ov5693_calc_vts :: "u32 \<Rightarrow> fault + u32" where
  "ov5693_calc_vts height =
     (if height = 0 then Inl Div_by_zero
      else
        (let tgt_fps = rounddown (OV5693_PIXEL_RATE div OV5693_FIXED_PPL div height) 30;
             tgt_fps = min tgt_fps 30
         in if tgt_fps = 0 then Inl Div_by_zero
            else Inr (ALIGN_DOWN (OV5693_PIXEL_RATE div OV5693_FIXED_PPL div tgt_fps) 2)))"

section \<open>Formats\<close>

definition ov5693_get_pad_format :: "ov5693 \<Rightarrow> sd_state \<Rightarrow> whence \<Rightarrow> v4l2_mbus_framefmt option" where
  "ov5693_get_pad_format d st which =
     (case which of
        V4L2_SUBDEV_FORMAT_TRY \<Rightarrow> Some (st_format st)
      | V4L2_SUBDEV_FORMAT_ACTIVE \<Rightarrow> Some (m_format (mode d))
      | _ \<Rightarrow> None)"

definition ov5693_get_pad_crop :: "ov5693 \<Rightarrow> sd_state \<Rightarrow> whence \<Rightarrow> v4l2_rect option" where
  "ov5693_get_pad_crop d st which =
     (case which of
        V4L2_SUBDEV_FORMAT_TRY \<Rightarrow> Some (st_crop st)
      | V4L2_SUBDEV_FORMAT_ACTIVE \<Rightarrow> Some (m_crop (mode d))
      | _ \<Rightarrow> None)"

text \<open>Stores through the pointers the two functions above return.\<close>

definition store_format ::
    "whence \<Rightarrow> v4l2_mbus_framefmt \<Rightarrow> ov5693 \<times> sd_state \<Rightarrow> ov5693 \<times> sd_state" where
  "store_format which f ds =
     (case which of
        V4L2_SUBDEV_FORMAT_TRY \<Rightarrow> (fst ds, (snd ds)\<lparr>st_format := f\<rparr>)
      | V4L2_SUBDEV_FORMAT_ACTIVE \<Rightarrow> ((fst ds)\<lparr>mode := (mode (fst ds))\<lparr>m_format := f\<rparr>\<rparr>, snd ds)
      | _ \<Rightarrow> ds)"

definition store_crop :: "whence \<Rightarrow> v4l2_rect \<Rightarrow> ov5693 \<times> sd_state \<Rightarrow> ov5693 \<times> sd_state" where
  "store_crop which c ds =
     (case which of
        V4L2_SUBDEV_FORMAT_TRY \<Rightarrow> (fst ds, (snd ds)\<lparr>st_crop := c\<rparr>)
      | V4L2_SUBDEV_FORMAT_ACTIVE \<Rightarrow> ((fst ds)\<lparr>mode := (mode (fst ds))\<lparr>m_crop := c\<rparr>\<rparr>, snd ds)
      | _ \<Rightarrow> ds)"

definition ov5693_get_fmt :: "ov5693 \<Rightarrow> subdev_format \<Rightarrow> int \<times> subdev_format" where
  "ov5693_get_fmt d f = (0, f\<lparr>sf_format := m_format (mode d)\<rparr>)"

text \<open>
  The part of \<open>ov5693_set_fmt\<close> that computes the output size: the request aligned to two and clamped
  into the crop rectangle, the ratio of each dimension, and the crop divided by it.
\<close>

definition ov5693_fmt_ratio :: "u32 \<Rightarrow> u32 \<Rightarrow> u32 \<Rightarrow> fault + u32" where
  "ov5693_fmt_ratio crop_size req min_crop =
     (let size = clamp_t (ALIGN req 2) min_crop crop_size
      in if size = 0 then Inl Div_by_zero
         else Inr (clamp_t (DIV_ROUND_CLOSEST crop_size size) 1 2))"

text \<open>Its end: the blanking and exposure ranges moved to the new format and frame length.\<close>

definition ov5693_retime :: "ov5693 services \<Rightarrow> ov5693 \<Rightarrow> ov5693" where
  "ov5693_retime S d =
     (let fmt = m_format (mode d);
          d = snd (modify_range S V4L2_CID_VBLANK OV5693_TIMING_MIN_VTS
                (uint (OV5693_TIMING_MAX_VTS - f_height fmt)) 1
                (uint (vts (mode d) - f_height fmt)) d);
          d = snd (set_ctrl S V4L2_CID_VBLANK (s32_of_u32 (vts (mode d) - f_height fmt)) d);
          hblank = uint (OV5693_FIXED_PPL - f_width fmt);
          d = snd (modify_range S V4L2_CID_HBLANK hblank hblank 1 hblank d);
          exposure_max = s32_of_u32 (vts (mode d) - OV5693_INTEGRATION_TIME_MARGIN);
          ex = ctrls d V4L2_CID_EXPOSURE
      in snd (modify_range S V4L2_CID_EXPOSURE (minimum ex) exposure_max (step ex)
           (min (val ex) exposure_max) d))"

definition ov5693_set_fmt :: "ov5693 services \<Rightarrow> ov5693 \<Rightarrow> sd_state \<Rightarrow> subdev_format \<Rightarrow>
    fault + (int \<times> ov5693 \<times> sd_state \<times> subdev_format)" where
  "ov5693_set_fmt S d st f =
     (case ov5693_get_pad_crop d st (sf_which f) of
        None \<Rightarrow> Inl Null_deref
      | Some crop \<Rightarrow>
     (case ov5693_fmt_ratio (r_width crop) (f_width (sf_format f)) OV5693_MIN_CROP_WIDTH of
        Inl e \<Rightarrow> Inl e
      | Inr hratio \<Rightarrow>
     (case ov5693_fmt_ratio (r_height crop) (f_height (sf_format f)) OV5693_MIN_CROP_HEIGHT of
        Inl e \<Rightarrow> Inl e
      | Inr vratio \<Rightarrow>
     (case ov5693_get_pad_format d st (sf_which f) of
        None \<Rightarrow> Inl Null_deref
      | Some fmt \<Rightarrow>
        (let fmt = fmt\<lparr>f_width := r_width crop div hratio, f_height := r_height crop div vratio,
                       f_code := MEDIA_BUS_FMT_SBGGR10_1X10\<rparr>;
             (d, st) = store_format (sf_which f) fmt (d, st);
             f = f\<lparr>sf_format := fmt\<rparr>
         in if sf_which f = V4L2_SUBDEV_FORMAT_TRY then Inr (0, d, st, f)
            else
              (let d = kdo Mutex_lock d;
                   d = d\<lparr>mode := (mode d)\<lparr>binning_x := hratio > 1,
                         inc_x_odd := (if hratio > 1 then 3 else 1),
                         binning_y := vratio > 1,
                         inc_y_odd := (if vratio > 1 then 3 else 1)\<rparr>\<rparr>
               in case ov5693_calc_vts (f_height fmt) of
                    Inl e \<Rightarrow> Inl e
                  | Inr v \<Rightarrow>
                    (let d = ov5693_retime S (d\<lparr>mode := (mode d)\<lparr>vts := v\<rparr>\<rparr>)
                     in Inr (0, kdo Mutex_unlock d, st, f))))))))"

section \<open>Selections\<close>

definition ov5693_get_selection ::
    "ov5693 \<Rightarrow> sd_state \<Rightarrow> subdev_selection \<Rightarrow> fault + (int \<times> ov5693 \<times> subdev_selection)" where
  "ov5693_get_selection d st sel =
     (case target sel of
        V4L2_SEL_TGT_CROP \<Rightarrow>
          (let d = kdo Mutex_lock d
           in case ov5693_get_pad_crop d st (sel_which sel) of
                None \<Rightarrow> Inl Null_deref
              | Some r \<Rightarrow> Inr (0, kdo Mutex_unlock d, sel\<lparr>sel_r := r\<rparr>))
      | V4L2_SEL_TGT_NATIVE_SIZE \<Rightarrow>
          Inr (0, d, sel\<lparr>sel_r := \<lparr>r_left = 0, r_top = 0, r_width = OV5693_NATIVE_WIDTH,
            r_height = OV5693_NATIVE_HEIGHT\<rparr>\<rparr>)
      | V4L2_SEL_TGT_CROP_BOUNDS \<Rightarrow>
          Inr (0, d, sel\<lparr>sel_r := \<lparr>r_left = OV5693_ACTIVE_START_LEFT,
            r_top = OV5693_ACTIVE_START_TOP, r_width = OV5693_ACTIVE_WIDTH,
            r_height = OV5693_ACTIVE_HEIGHT\<rparr>\<rparr>)
      | V4L2_SEL_TGT_CROP_DEFAULT \<Rightarrow>
          Inr (0, d, sel\<lparr>sel_r := \<lparr>r_left = OV5693_ACTIVE_START_LEFT,
            r_top = OV5693_ACTIVE_START_TOP, r_width = OV5693_ACTIVE_WIDTH,
            r_height = OV5693_ACTIVE_HEIGHT\<rparr>\<rparr>)
      | _ \<Rightarrow> Inr (- EINVAL, d, sel))"

text \<open>
  The rectangle \<open>ov5693_set_selection\<close> makes of the request. \<open>ALIGN\<close> on the signed \<open>left\<close> and \<open>top\<close>
  is computed in 32 bits.
\<close>

definition ov5693_clamp_rect :: "v4l2_rect \<Rightarrow> v4l2_rect" where
  "ov5693_clamp_rect r =
     (let left = clamp_t (s32_of_u32 (ALIGN (u32_of_int (r_left r)) 2))
                   OV5693_NATIVE_START_LEFT OV5693_NATIVE_WIDTH;
          top = clamp_t (s32_of_u32 (ALIGN (u32_of_int (r_top r)) 2))
                  OV5693_NATIVE_START_TOP OV5693_NATIVE_HEIGHT;
          width = clamp_t (ALIGN (r_width r) 2) OV5693_MIN_CROP_WIDTH OV5693_NATIVE_WIDTH;
          height = clamp_t (ALIGN (r_height r) 2) OV5693_MIN_CROP_HEIGHT OV5693_NATIVE_HEIGHT;
          width = min width (u32_of_int (OV5693_NATIVE_WIDTH - left));
          height = min height (u32_of_int (OV5693_NATIVE_HEIGHT - top))
      in \<lparr>r_left = left, r_top = top, r_width = width, r_height = height\<rparr>)"

definition ov5693_set_selection :: "ov5693 \<Rightarrow> sd_state \<Rightarrow> subdev_selection \<Rightarrow>
    fault + (int \<times> ov5693 \<times> sd_state \<times> subdev_selection)" where
  "ov5693_set_selection d st sel =
     (if target sel \<noteq> V4L2_SEL_TGT_CROP then Inr (- EINVAL, d, st, sel)
      else
        (let rect = ov5693_clamp_rect (sel_r sel)
         in case (ov5693_get_pad_crop d st (sel_which sel),
                  ov5693_get_pad_format d st (sel_which sel)) of
              (Some crop, Some fmt) \<Rightarrow>
                (let (d, st) =
                   (if r_width rect \<noteq> r_width crop \<or> r_height rect \<noteq> r_height crop
                    then store_format (sel_which sel)
                      (fmt\<lparr>f_width := r_width rect, f_height := r_height rect\<rparr>) (d, st)
                    else (d, st));
                     (d, st) = store_crop (sel_which sel) rect (d, st)
                 in Inr (0, d, st, sel\<lparr>sel_r := rect\<rparr>))
            | _ \<Rightarrow> Inl Null_deref))"

section \<open>Frame interval and enumeration\<close>

text \<open>The interval is 1/\<open>fps\<close>; the frame size is an \<open>unsigned int\<close> product and may wrap to 0.\<close>

definition ov5693_get_frame_interval :: "ov5693 \<Rightarrow> whence \<Rightarrow> fault + (int \<times> (u32 \<times> u32) option)" where
  "ov5693_get_frame_interval d which =
     (let framesize = OV5693_FIXED_PPL *
            (f_height (m_format (mode d)) + u32_of_int (val (ctrls d V4L2_CID_VBLANK)))
      in if framesize = 0 then Inl Div_by_zero
         else
           (let fps = DIV_ROUND_CLOSEST OV5693_PIXEL_RATE framesize
            in if which \<noteq> V4L2_SUBDEV_FORMAT_ACTIVE then Inr (- EINVAL, None)
               else Inr (0, Some (1, fps))))"

definition ov5693_enum_mbus_code :: "u32 \<Rightarrow> int \<times> u32 option" where
  "ov5693_enum_mbus_code index =
     (if index > 0 then (- EINVAL, None) else (0, Some MEDIA_BUS_FMT_SBGGR10_1X10))"


section \<open>Timing\<close>

lemma unat_ALIGN_2: "unat (ALIGN x 2 :: u32) = 2 * ((unat x + 1) mod 4294967296 div 2)"
proof -
  have "(2 - 1 :: u32) = 1" by simp
  then show ?thesis unfolding ALIGN_def by (simp only: unat_and_not_1) (simp add: unat_word_ariths)
qed

lemma ALIGN_2_even: "even (unat (ALIGN x 2 :: u32))"
  by (simp add: unat_ALIGN_2)

lemma calc_vts_value:
  "ov5693_calc_vts h = (if h = 0 \<or> 2079 < unat h then Inl Div_by_zero else Inr 2078)"
proof (cases "h = 0")
  case True
  then show ?thesis by (simp add: ov5693_calc_vts_def)
next
  case False
  define q where "q = 62380 div h"
  have uq: "unat q = 62380 div unat h" by (simp add: q_def unat_div)
  have h0: "0 < unat h" using False by (simp add: unat_gt_0)
  have rate: "(167680000 div 2688 :: u32) = 62380" by simp
  have rd: "unat (rounddown q 30) = unat q - unat q mod 30"
    by (simp add: rounddown_def unat_sub word_le_nat_alt unat_mod)
  have mod30: "30 \<le> n - n mod 30" if "30 \<le> n" for n :: nat
  proof -
    have "1 \<le> n div 30" using that by (simp add: less_eq_div_iff_mult_less_eq)
    then show ?thesis by (simp add: minus_mod_eq_mult_div)
  qed
  show ?thesis
  proof (cases "unat h \<le> 2079")
    case True
    have "30 * unat h \<le> 62380" using True by simp
    then have "30 \<le> 62380 div unat h" using h0 by (simp add: less_eq_div_iff_mult_less_eq)
    then have "30 \<le> unat (rounddown q 30)" unfolding rd uq by (rule mod30)
    then have "min (rounddown q 30) 30 = 30" by (simp add: min_def word_le_nat_alt word_unat_eq_iff)
    then show ?thesis using True False
      by (simp add: ov5693_calc_vts_def ov5693_consts rate q_def [symmetric] Let_def ALIGN_DOWN_def ALIGN_def)
  next
    case F: False
    have "62380 div unat h < 30" using F by (intro div_less_iff_less_mult [THEN iffD2] h0) simp
    then have "unat (rounddown q 30) = 0" unfolding rd uq by simp
    then have "rounddown q 30 = 0" by (simp add: unat_eq_0)
    then show ?thesis using F False
      by (simp add: ov5693_calc_vts_def ov5693_consts rate q_def [symmetric] Let_def)
  qed
qed

text \<open>
  The frame length computed for a height is 2078 lines for every height from 1 to 2079 and a
  division by zero for every other height.
\<close>

theorem calc_vts:
  "ov5693_calc_vts h = (if h = 0 \<or> 2079 < unat h then Inl Div_by_zero else Inr 2078)"
  by (rule calc_vts_value)

section \<open>Crop rectangles\<close>

text \<open>Even coordinates, inside the pixel array.\<close>

definition crop_in_array :: "v4l2_rect \<Rightarrow> bool" where
  "crop_in_array r \<longleftrightarrow>
     0 \<le> r_left r \<and> even (r_left r) \<and> r_left r + int (unat (r_width r)) \<le> 2624 \<and>
     0 \<le> r_top r \<and> even (r_top r) \<and> r_top r + int (unat (r_height r)) \<le> 1956 \<and>
     even (unat (r_width r)) \<and> even (unat (r_height r))"

lemma clamp_coord:
  fixes hi i :: int
  assumes "hi = 2 * k" "0 \<le> k" "hi < 2 ^ 31"
  defines "c \<equiv> clamp_t (s32_of_u32 (ALIGN (u32_of_int i) 2)) 0 hi"
  shows "0 \<le> c" "c \<le> hi" "even c"
proof -
  let ?w = "ALIGN (u32_of_int i) 2 :: u32"
  have e: "even (s32_of_u32 ?w)"
    using ALIGN_2_even [of "u32_of_int i"] bit_sint_iff [of ?w 0] bit_unsigned_iff [of ?w 0, where 'a = nat]
    by (simp add: s32_of_u32_def bit_0)
  show "0 \<le> c" "c \<le> hi" using clamp_t_bounds [of 0 hi] assms by auto
  show "even c" using e assms(1) by (auto simp: c_def clamp_t_def)
qed

lemma clamp_size:
  fixes hi l :: int and q N :: u32
  assumes "0 \<le> l" "l \<le> hi" "even l" "even hi" "hi < 2 ^ 31" "N = word_of_int hi" "2 \<le> hi"
  defines "w \<equiv> min (clamp_t (ALIGN q 2) 2 N) (u32_of_int (hi - l))"
  shows "l + int (unat w) \<le> hi" "even (unat w)" "w = 0 \<longleftrightarrow> l = hi"
proof -
  have u: "unat (u32_of_int (hi - l)) = nat (hi - l)"
    using assms(1,2,5) by (simp add: unat_u32_of_int)
  have N: "unat N = nat hi" using assms(5,6,7) unat_u32_of_int [of hi] by (simp add: u32_of_int_def)
  have w: "unat w = min (clamp_t (unat (ALIGN q 2)) 2 (nat hi)) (nat (hi - l))"
    unfolding w_def u [symmetric] N [symmetric] by (simp add: min_def word_le_nat_alt unat_clamp_t)
  have c: "2 \<le> clamp_t (unat (ALIGN q 2)) 2 (nat hi)" "even (clamp_t (unat (ALIGN q 2)) 2 (nat hi))"
    using clamp_t_bounds(1) [of 2 "nat hi"] assms(4,7) ALIGN_2_even [of q]
    by (simp_all add: clamp_t_def even_nat_iff)
  show "l + int (unat w) \<le> hi" unfolding w using assms(1,2) by linarith
  have "even (nat (hi - l))" using assms(2,3,4) by (simp add: even_nat_iff)
  then show "even (unat w)" unfolding w using c(2) by (simp add: min_def)
  have "w = 0 \<longleftrightarrow> unat w = 0" by (simp add: unat_eq_0)
  then show "w = 0 \<longleftrightarrow> l = hi" using c(1) assms(1,2) unfolding w by linarith
qed

lemma clamp_rect_array:
  "crop_in_array (ov5693_clamp_rect q) \<and>
   (r_width (ov5693_clamp_rect q) = 0 \<longleftrightarrow> r_left (ov5693_clamp_rect q) = 2624) \<and>
   (r_height (ov5693_clamp_rect q) = 0 \<longleftrightarrow> r_top (ov5693_clamp_rect q) = 1956)"
proof -
  let ?r = "ov5693_clamp_rect q"
  have l: "0 \<le> r_left ?r" "r_left ?r \<le> 2624" "even (r_left ?r)"
    using clamp_coord [of 2624 1312 "r_left q"] by (simp_all add: ov5693_clamp_rect_def Let_def ov5693_consts)
  have t: "0 \<le> r_top ?r" "r_top ?r \<le> 1956" "even (r_top ?r)"
    using clamp_coord [of 1956 978 "r_top q"] by (simp_all add: ov5693_clamp_rect_def Let_def ov5693_consts)
  have w: "r_width ?r = min (clamp_t (ALIGN (r_width q) 2) 2 2624) (u32_of_int (2624 - r_left ?r))"
    and h: "r_height ?r = min (clamp_t (ALIGN (r_height q) 2) 2 1956) (u32_of_int (1956 - r_top ?r))"
    by (simp_all add: ov5693_clamp_rect_def Let_def ov5693_consts)
  from clamp_size [OF l, of 2624 "r_width q"] clamp_size [OF t, of 1956 "r_height q"] l t
  show ?thesis unfolding crop_in_array_def w h by simp
qed

text \<open>
  C21: For every requested rectangle, also with negative or huge coordinates, the one
  ov5693_set_selection makes of it has even coordinates and lies inside the pixel array; it is
  empty exactly when it starts at the far edge.
\<close>

theorem clamp_rect_in_array:
  "crop_in_array (ov5693_clamp_rect q) \<and>
   (r_width (ov5693_clamp_rect q) = 0 \<longleftrightarrow> r_left (ov5693_clamp_rect q) = 2624) \<and>
   (r_height (ov5693_clamp_rect q) = 0 \<longleftrightarrow> r_top (ov5693_clamp_rect q) = 1956)"
  by (rule clamp_rect_array)

section \<open>Output sizes\<close>

text \<open>
  The specification of \<open>ov5693_set_fmt\<close>: the aligned and clamped request, and the ratio 2 exactly when
  half of the crop is at least as near to it as the crop.
\<close>

definition request_size :: "u32 \<Rightarrow> u32 \<Rightarrow> nat" where
  "request_size c req = clamp_t (2 * ((unat req + 1) mod 4294967296 div 2)) 2 (unat c)"

definition scale_of :: "u32 \<Rightarrow> u32 \<Rightarrow> nat" where
  "scale_of c req = (if 3 * request_size c req \<le> 2 * unat c then 2 else 1)"

lemma request_size:
  assumes "2 \<le> unat c" "even (unat c)"
  shows "2 \<le> request_size c req" "request_size c req \<le> unat c" "even (request_size c req)"
  using clamp_t_bounds [of 2 "unat c"] assms by (auto simp: request_size_def) (simp add: clamp_t_def)

lemma fmt_ratio_0: "ov5693_fmt_ratio 0 req 2 = Inl Div_by_zero"
  by (simp add: ov5693_fmt_ratio_def clamp_t_def)

lemma fmt_ratio:
  assumes c: "2 \<le> unat c" "even (unat c)" "unat c < 2 ^ 16"
  shows "ov5693_fmt_ratio c req 2 = Inr (of_nat (scale_of c req))"
proof -
  define s where "s = clamp_t (ALIGN req 2) 2 c"
  have us: "unat s = request_size c req"
    by (simp add: s_def unat_clamp_t unat_ALIGN_2 request_size_def)
  note sz = request_size [OF c(1,2), of req, folded us]
  have s0: "s \<noteq> 0" using sz(1) by auto
  have sum: "unat (c + s div 2) = unat c + unat s div 2"
    using sz(2) c(3) by (subst unat_plus_small) (simp_all add: unat_div)
  let ?d = "DIV_ROUND_CLOSEST c s"
  have ud: "unat ?d = (unat c + unat s div 2) div unat s"
    by (simp add: DIV_ROUND_CLOSEST_def unat_div sum)
  have "1 \<le> unat ?d" unfolding ud using sz by (simp add: less_eq_div_iff_mult_less_eq)
  moreover have "2 \<le> unat ?d \<longleftrightarrow> 3 * unat s \<le> 2 * unat c"
  proof -
    obtain k where k: "unat s = 2 * k" using sz(3) by (rule evenE)
    have "2 \<le> (unat c + k) div (2 * k) \<longleftrightarrow> 2 * (2 * k) \<le> unat c + k"
      using sz(1) k by (intro less_eq_div_iff_mult_less_eq) simp
    then show ?thesis unfolding ud k by auto
  qed
  ultimately have "clamp_t ?d 1 2 = of_nat (scale_of c req)"
    by (auto simp: clamp_t_def word_le_nat_alt scale_of_def us word_unat_eq_iff)
  then show ?thesis using s0 by (simp add: ov5693_fmt_ratio_def Let_def flip: s_def)
qed

section \<open>Setting a format\<close>

definition crop_ok :: "v4l2_rect \<Rightarrow> bool" where
  "crop_ok r \<longleftrightarrow> crop_in_array r \<and> r_width r \<noteq> 0 \<and> r_height r \<noteq> 0"

definition scaled_fmt :: "v4l2_rect \<Rightarrow> v4l2_mbus_framefmt \<Rightarrow> v4l2_mbus_framefmt" where
  "scaled_fmt c f = \<lparr>f_width = r_width c div of_nat (scale_of (r_width c) (f_width f)),
     f_height = r_height c div of_nat (scale_of (r_height c) (f_height f)),
     f_code = MEDIA_BUS_FMT_SBGGR10_1X10\<rparr>"

lemma crop_okD:
  assumes "crop_ok c"
  shows "2 \<le> unat (r_width c)" "even (unat (r_width c))" "unat (r_width c) \<le> 2624"
    "2 \<le> unat (r_height c)" "even (unat (r_height c))" "unat (r_height c) \<le> 1956"
proof -
  have "unat (r_width c) \<noteq> 0" "unat (r_height c) \<noteq> 0"
    using assms by (simp_all add: crop_ok_def unat_eq_0)
  moreover from assms show "even (unat (r_width c))" "even (unat (r_height c))"
    "unat (r_width c) \<le> 2624" "unat (r_height c) \<le> 1956"
    unfolding crop_ok_def crop_in_array_def by (elim conjE; linarith)+
  ultimately show "2 \<le> unat (r_width c)" "2 \<le> unat (r_height c)"
    by (metis One_nat_def Suc_1 Suc_leI even_plus_one_iff le_neq_implies_less less_one not_less odd_one)+
qed

lemma crop_ratios:
  assumes "crop_ok c"
  shows "ov5693_fmt_ratio (r_width c) q OV5693_MIN_CROP_WIDTH = Inr (of_nat (scale_of (r_width c) q))"
    "ov5693_fmt_ratio (r_height c) q OV5693_MIN_CROP_HEIGHT = Inr (of_nat (scale_of (r_height c) q))"
  using crop_okD [OF assms] by (simp_all add: ov5693_consts fmt_ratio)

lemma scaled_height:
  assumes "crop_ok c"
  shows "f_height (scaled_fmt c q) \<noteq> 0" "unat (f_height (scaled_fmt c q)) \<le> 1956"
    "unat (f_width (scaled_fmt c q)) \<le> 2624" "f_width (scaled_fmt c q) \<noteq> 0"
proof -
  note ok = crop_okD [OF assms]
  have u: "unat (x div of_nat (scale_of y z)) = unat x div scale_of y z" for x y z :: u32
    by (simp add: unat_div scale_of_def)
  have "unat (f_height (scaled_fmt c q)) \<noteq> 0" "unat (f_width (scaled_fmt c q)) \<noteq> 0"
    using ok by (auto simp: scaled_fmt_def unat_div scale_of_def div_eq_0_iff)
  then show "f_height (scaled_fmt c q) \<noteq> 0" "f_width (scaled_fmt c q) \<noteq> 0" by auto
  show "unat (f_height (scaled_fmt c q)) \<le> 1956" "unat (f_width (scaled_fmt c q)) \<le> 2624"
    using ok by (simp_all add: scaled_fmt_def u) (meson div_le_dividend le_trans)+
qed

lemma set_fmt_try:
  assumes "sf_which f = V4L2_SUBDEV_FORMAT_TRY" and "crop_ok (st_crop st)"
  shows "ov5693_set_fmt S d st f = Inr (0, d, st\<lparr>st_format := scaled_fmt (st_crop st) (sf_format f)\<rparr>,
    f\<lparr>sf_format := scaled_fmt (st_crop st) (sf_format f)\<rparr>)"
  using assms
  by (simp add: ov5693_set_fmt_def ov5693_get_pad_crop_def ov5693_get_pad_format_def crop_ratios
      store_format_def scaled_fmt_def Let_def)

lemma set_fmt_active:
  assumes "sf_which f = V4L2_SUBDEV_FORMAT_ACTIVE" and ok: "crop_ok (m_crop (mode d))"
  defines "c \<equiv> m_crop (mode d)"
  defines "fmt \<equiv> scaled_fmt c (sf_format f)"
  defines "sx \<equiv> scale_of (r_width c) (f_width (sf_format f))"
    and "sy \<equiv> scale_of (r_height c) (f_height (sf_format f))"
  shows "ov5693_set_fmt S d st f = Inr (0, kdo Mutex_unlock (ov5693_retime S
      ((kdo Mutex_lock d)\<lparr>mode := \<lparr>m_crop = c, m_format = fmt, binning_x = sx = 2, binning_y = sy = 2,
         inc_x_odd = (if sx = 2 then 3 else 1), inc_y_odd = (if sy = 2 then 3 else 1), vts = 2078\<rparr>\<rparr>)),
    st, f\<lparr>sf_format := fmt\<rparr>)"
proof -
  have v: "ov5693_calc_vts (f_height fmt) = Inr 2078"
    using scaled_height [OF ok, of "sf_format f"] by (simp add: calc_vts_value fmt_def c_def)
  have f: "(m_format (mode d))\<lparr>f_width := r_width c div of_nat sx, f_height := r_height c div of_nat sy,
      f_code := MEDIA_BUS_FMT_SBGGR10_1X10\<rparr> = fmt"
    by (simp add: fmt_def scaled_fmt_def sx_def sy_def)
  have b: "(1 < (of_nat (scale_of x y) :: u32)) = (scale_of x y = 2)" for x y
    by (simp add: scale_of_def)
  have m: "(mode d)\<lparr>m_format := fmt, binning_x := bx, inc_x_odd := ix, binning_y := by', inc_y_odd := iy,
      vts := t\<rparr> = \<lparr>m_crop = m_crop (mode d), m_format = fmt, binning_x = bx, binning_y = by',
      inc_x_odd = ix, inc_y_odd = iy, vts = t\<rparr>" for bx by' ix iy t
    by (cases "mode d") simp
  have k: "(kdo e (d\<lparr>mode := mo\<rparr>))\<lparr>mode := mo'\<rparr> = (kdo e d)\<lparr>mode := mo'\<rparr>" for e mo mo'
    by (simp add: kdo_def)
  show ?thesis
    using assms(1) f v crop_ratios [OF ok]
    by (simp add: ov5693_set_fmt_def ov5693_get_pad_crop_def ov5693_get_pad_format_def
        store_format_def Let_def b c_def sx_def sy_def m k)
qed

lemma word_sub_int:
  fixes x :: u32
  assumes "K = word_of_int k" and "uint x \<le> k" and "k < 2147483648"
  shows "uint (K - x) = k - uint x" "s32_of_u32 (K - x) = k - uint x"
proof -
  have e: "K - x = word_of_int (k - uint x)"
    by (simp add: assms(1) wi_hom_sub [symmetric] del: of_int_diff wi_hom_sub)
  have b: "k - uint x < 2147483648" using assms(3) uint_ge_0 [of x] by linarith
  show "uint (K - x) = k - uint x" unfolding e uint_word_of_int
    using assms(2) b by (intro mod_pos_pos_trivial) simp_all
  show "s32_of_u32 (K - x) = k - uint x" unfolding e
    using assms(2) b by (intro s32_of_int) simp_all
qed

lemma more_mode: "kdev.more d' = kdev.more d \<Longrightarrow> mode d' = mode d"
  by (cases d, cases d') simp

lemma timing_words:
  fixes hh ww :: u32
  assumes "unat hh \<le> 1956" "unat ww \<le> 2624"
  defines "h \<equiv> int (unat hh)" and "w \<equiv> int (unat ww)"
  shows "uint (65535 - hh) = 65535 - h" "uint (2078 - hh) = 2078 - h" "s32_of_u32 (2078 - hh) = 2078 - h"
    "uint (2688 - ww) = 2688 - w"
proof -
  have i: "uint x = int (unat x)" for x :: u32 by simp
  have hw: "uint hh \<le> 1956" "uint ww \<le> 2624" unfolding i using assms(1,2) by linarith+
  show "uint (65535 - hh) = 65535 - h" "uint (2078 - hh) = 2078 - h" "s32_of_u32 (2078 - hh) = 2078 - h"
    "uint (2688 - ww) = 2688 - w"
    unfolding h_def w_def i [symmetric]
    by (rule word_sub_int(1), simp, use hw(1) in linarith, simp)
      (rule word_sub_int, simp, use hw(1,2) in linarith, simp)+
qed

text \<open>The ranges after the four control calls, for every core that keeps its contract.\<close>

lemma retime:
  assumes core: "ctrl_core S kdev.more"
    and ex: "low_ok (ctrls d V4L2_CID_EXPOSURE)" "0 < step (ctrls d V4L2_CID_EXPOSURE)"
      "minimum (ctrls d V4L2_CID_EXPOSURE) \<le> 2070"
    and len: "vts (mode d) = 2078"
    and size: "unat (f_height (m_format (mode d))) \<le> 1956" "unat (f_width (m_format (mode d))) \<le> 2624"
  defines "h \<equiv> int (unat (f_height (m_format (mode d))))"
    and "w \<equiv> int (unat (f_width (m_format (mode d))))"
    and "d' \<equiv> ov5693_retime S d"
  shows "minimum (ctrls d' V4L2_CID_VBLANK) = 4" "maximum (ctrls d' V4L2_CID_VBLANK) = 65535 - h"
    "default_value (ctrls d' V4L2_CID_VBLANK) = 2078 - h"
    "minimum (ctrls d' V4L2_CID_HBLANK) = 2688 - w" "maximum (ctrls d' V4L2_CID_HBLANK) = 2688 - w"
    "minimum (ctrls d' V4L2_CID_EXPOSURE) = minimum (ctrls d V4L2_CID_EXPOSURE)"
    "maximum (ctrls d' V4L2_CID_EXPOSURE) = 2070"
    "mode d' = mode d" "lock_run (trace d') x = lock_run (trace d) x"
proof -
  note wd = timing_words [OF size, folded h_def w_def]
  have wd5: "s32_of_u32 (2078 - 8) = 2070" by (simp add: s32_of_u32_def)
  have h: "0 \<le> h" "h \<le> 1956" unfolding h_def using size by linarith+
  obtain r1 d1 where m1: "modify_range S V4L2_CID_VBLANK 4 (65535 - h) 1 (2078 - h) d = (r1, d1)" by fastforce
  obtain r2 d2 where m2: "set_ctrl S V4L2_CID_VBLANK (2078 - h) d1 = (r2, d2)" by fastforce
  obtain r3 d3 where m3: "modify_range S V4L2_CID_HBLANK (2688 - w) (2688 - w) 1 (2688 - w) d2 = (r3, d3)" by fastforce
  let ?e = "ctrls d3 V4L2_CID_EXPOSURE"
  obtain r4 d4 where m4: "modify_range S V4L2_CID_EXPOSURE (minimum ?e) 2070 (step ?e) (min (val ?e) 2070) d3 = (r4, d4)"
    by fastforce
  note fr = ctrl_core.range_frame [OF core m1] ctrl_core.set_frame [OF core m2]
    ctrl_core.range_frame [OF core m3] ctrl_core.range_frame [OF core m4]
  have md: "mode d1 = mode d" "mode d2 = mode d" "mode d3 = mode d" "mode d4 = mode d"
    using fr by (metis more_mode)+
  have d': "d' = d4"
    using m1 m2 m3 m4 md wd wd5 len by (simp add: d'_def ov5693_retime_def Let_def ov5693_consts)
  have e1: "minimum ?e = minimum (ctrls d V4L2_CID_EXPOSURE)" "step ?e = step (ctrls d V4L2_CID_EXPOSURE)"
    using ctrl_core.range_exposure [OF core m1] ctrl_core.set_exposure [OF core m2]
      ctrl_core.range_exposure [OF core m3] by simp_all
  have "low_ok ?e"
    using ctrl_core.range_low [OF core ex(1) m1] ctrl_core.set_low [OF core _ m2]
      ctrl_core.range_low [OF core _ m3] by simp
  then have ex4: "minimum ?e \<le> min (val ?e) 2070" using ex(3) e1 by (simp add: low_ok_def)
  note v = ctrl_core.range_ok [OF core _ _ _ m1] ctrl_core.set_ranges [OF core m2, of V4L2_CID_VBLANK]
    ctrl_core.range_other [OF core m3, of V4L2_CID_VBLANK] ctrl_core.range_other [OF core m4, of V4L2_CID_VBLANK]
  show "minimum (ctrls d' V4L2_CID_VBLANK) = 4" "maximum (ctrls d' V4L2_CID_VBLANK) = 65535 - h"
    "default_value (ctrls d' V4L2_CID_VBLANK) = 2078 - h"
    using v h by (simp_all add: d')
  show "minimum (ctrls d' V4L2_CID_HBLANK) = 2688 - w" "maximum (ctrls d' V4L2_CID_HBLANK) = 2688 - w"
    using ctrl_core.range_ok [OF core _ _ _ m3] ctrl_core.range_other [OF core m4, of V4L2_CID_HBLANK]
    by (simp_all add: d')
  show "minimum (ctrls d' V4L2_CID_EXPOSURE) = minimum (ctrls d V4L2_CID_EXPOSURE)"
    "maximum (ctrls d' V4L2_CID_EXPOSURE) = 2070"
    using ctrl_core.range_ok [OF core _ ex4 _ m4] ex(2) e1 by (simp_all add: d')
  show "mode d' = mode d" using md by (simp add: d')
  show "lock_run (trace d') x = lock_run (trace d) x" using fr [of x] by (simp add: d')
qed

lemma scale_range: "scale_of c q = 1 \<or> scale_of c q = 2"
  by (simp add: scale_of_def)

lemma pad_crop_store:
  "w \<in> {V4L2_SUBDEV_FORMAT_TRY, V4L2_SUBDEV_FORMAT_ACTIVE} \<Longrightarrow>
   ov5693_get_pad_crop d st w = Some (if w = V4L2_SUBDEV_FORMAT_TRY then st_crop st else m_crop (mode d))"
  by (auto simp: ov5693_get_pad_crop_def)

lemma retime_mode:
  assumes core: "ctrl_core S kdev.more"
  shows "mode (ov5693_retime S d) = mode d"
proof -
  have m: "mode (snd (modify_range S c lo hi st df x)) = mode x" for c lo hi st df x
    by (metis ctrl_core.range_frame [OF core] more_mode prod.collapse)
  have s: "mode (snd (set_ctrl S c v x)) = mode x" for c v x
    by (metis ctrl_core.set_frame [OF core] more_mode prod.collapse)
  show ?thesis by (simp add: ov5693_retime_def Let_def m s)
qed


text \<open>
  C14: After an ACTIVE ov5693_set_fmt, under the contract of the control core, the frame length is
  2078 lines, the VBLANK, HBLANK and EXPOSURE ranges are those of the new format, and the mutex is
  free again.
\<close>

theorem set_fmt_timing:
  assumes core: "ctrl_core S kdev.more"
    and act: "sf_which f = V4L2_SUBDEV_FORMAT_ACTIVE" and crop: "crop_ok (m_crop (mode d))"
    and ex: "low_ok (ctrls d V4L2_CID_EXPOSURE)" "0 < step (ctrls d V4L2_CID_EXPOSURE)"
      "minimum (ctrls d V4L2_CID_EXPOSURE) \<le> 2070"
    and free: "lock_run (trace d) (Some False) = Some False"
    and res: "ov5693_set_fmt S d st f = Inr (ret, d', st', f')"
  shows "vts (mode d') = 2078 \<and>
    minimum (ctrls d' V4L2_CID_VBLANK) = 4 \<and>
    maximum (ctrls d' V4L2_CID_VBLANK) = 65535 - int (unat (f_height (m_format (mode d')))) \<and>
    default_value (ctrls d' V4L2_CID_VBLANK) = 2078 - int (unat (f_height (m_format (mode d')))) \<and>
    minimum (ctrls d' V4L2_CID_HBLANK) = 2688 - int (unat (f_width (m_format (mode d')))) \<and>
    maximum (ctrls d' V4L2_CID_HBLANK) = minimum (ctrls d' V4L2_CID_HBLANK) \<and>
    minimum (ctrls d' V4L2_CID_EXPOSURE) = minimum (ctrls d V4L2_CID_EXPOSURE) \<and>
    maximum (ctrls d' V4L2_CID_EXPOSURE) = 2078 - 8 \<and>
    lock_run (trace d') (Some False) = Some False"
proof -
  let ?c = "m_crop (mode d)" and ?q = "sf_format f"
  let ?sx = "scale_of (r_width ?c) (f_width ?q)" and ?sy = "scale_of (r_height ?c) (f_height ?q)"
  let ?d = "(kdo Mutex_lock d)\<lparr>mode := \<lparr>m_crop = ?c, m_format = scaled_fmt ?c ?q, binning_x = ?sx = 2,
      binning_y = ?sy = 2, inc_x_odd = (if ?sx = 2 then 3 else 1), inc_y_odd = (if ?sy = 2 then 3 else 1),
      vts = 2078\<rparr>\<rparr>"
  define d2 where "d2 = ?d"
  have d': "d' = kdo Mutex_unlock (ov5693_retime S d2)"
    using res set_fmt_active [OF act crop] by (simp add: d2_def)
  have c: "ctrls d2 = ctrls d" "lock_run (trace d2) (Some False) = Some True" "vts (mode d2) = 2078"
    "m_format (mode d2) = scaled_fmt ?c ?q"
    by (simp_all add: free d2_def)
  note sz = scaled_height [OF crop, of ?q, folded c(4)]
  show ?thesis
    using retime(1-8) [OF core, of d2] retime(9) [OF core, where d = d2 and x = "Some False"] ex sz
    by (simp add: d' c(1-3))
qed

lemma fmt_fault:
  assumes crop: "ov5693_get_pad_crop d st (sf_which f) = Some c" "crop_in_array c"
  shows "ov5693_set_fmt S d st f = Inl Div_by_zero \<longleftrightarrow> r_width c = 0 \<or> r_height c = 0"
proof -
  have r: "ov5693_fmt_ratio x q 2 = (if x = 0 then Inl Div_by_zero else Inr (of_nat (scale_of x q)))"
    if "even (unat x)" "unat x \<le> 2624" for x q
  proof (cases "x = 0")
    case False
    then have "unat x \<noteq> 0" by (simp add: unat_eq_0)
    with that(1) have "2 \<le> unat x" by (cases "unat x = 1") auto
    with False that show ?thesis by (simp add: fmt_ratio)
  qed (simp add: fmt_ratio_0)
  have sz: "even (unat (r_width c))" "even (unat (r_height c))"
    "unat (r_width c) \<le> 2624" "unat (r_height c) \<le> 2624"
    using crop(2) unfolding crop_in_array_def by (elim conjE; linarith)+
  note rw = r [OF sz(1,3)] r [OF sz(2,4)]
  show ?thesis
  proof (cases "r_width c = 0 \<or> r_height c = 0")
    case True
    then show ?thesis using crop(1) by (auto simp: ov5693_set_fmt_def ov5693_consts rw)
  next
    case False
    with crop(2) have ok: "crop_ok c" by (simp add: crop_ok_def)
    show ?thesis
    proof (cases "sf_which f")
      case V4L2_SUBDEV_FORMAT_TRY
      then show ?thesis using False crop(1) ok by (simp add: set_fmt_try ov5693_get_pad_crop_def)
    next
      case V4L2_SUBDEV_FORMAT_ACTIVE
      then show ?thesis using False crop(1) ok by (simp add: set_fmt_active ov5693_get_pad_crop_def)
    next
      case (Which_other x)
      then show ?thesis using crop(1) by (simp add: ov5693_get_pad_crop_def)
    qed
  qed
qed

text \<open>The division by zero of \<open>ov5693_set_fmt\<close>, for a crop rectangle in the array.\<close>

theorem set_fmt_fault:
  assumes crop: "ov5693_get_pad_crop d st (sf_which f) = Some c" "crop_in_array c"
  shows "ov5693_set_fmt S d st f = Inl Div_by_zero \<longleftrightarrow> r_width c = 0 \<or> r_height c = 0"
  by (rule fmt_fault [OF crop])

text \<open>\<open>ALIGN\<close> on a signed coordinate wraps for the greatest \<open>int\<close> alone.\<close>

lemma ALIGN_2_int:
  fixes i :: int
  assumes "- 2147483648 \<le> i" "i < 2147483648"
  defines "j \<equiv> if i = 2147483647 then - 2147483648 else i + i mod 2"
  shows "s32_of_u32 (ALIGN (u32_of_int i) 2) = j"
proof -
  let ?w = "ALIGN (u32_of_int i) 2 :: u32"
  have u: "int (unat (u32_of_int i)) = i mod 4294967296"
    by (simp add: u32_of_int_def uint_word_of_int)
  have "int (unat ?w) = 2 * ((i mod 4294967296 + 1) mod 4294967296 div 2)"
    unfolding unat_ALIGN_2 by (simp only: of_nat_mult of_nat_numeral zdiv_int zmod_int of_nat_add u of_nat_1)
  also have "\<dots> = j mod 4294967296"
  proof -
    have p: "2 * ((x + 1) div 2) = x + x mod 2" for x :: int by presburger
    consider "i = 2147483647" | "i = - 1" | "0 \<le> i" "i < 2147483647" | "i < - 1" using assms(2) by linarith
    then show ?thesis
    proof cases
      case 3
      have "(i mod 4294967296 + 1) mod 4294967296 = i + 1" using 3 by simp
      moreover have "0 \<le> i + i mod 2" "i + i mod 2 < 4294967296" using 3 pos_mod_bound [of 2 i] by simp_all
      ultimately show ?thesis using 3 p [of i] by (simp add: j_def mod_pos_pos_trivial)
    next
      case 4
      have "(i + 4294967296) mod 4294967296 = i + 4294967296" using 4 assms(1) by (intro mod_pos_pos_trivial) linarith+
      then have m: "i mod 4294967296 = i + 4294967296" by simp
      have a: "(i mod 4294967296 + 1) mod 4294967296 = i + 4294967296 + 1"
        unfolding m using 4 assms(1) by (intro mod_pos_pos_trivial) simp_all
      have b: "(i + i mod 2) mod 4294967296 = i + i mod 2 + 4294967296"
      proof -
        have "i + i mod 2 < 0" "- 4294967296 \<le> i + i mod 2"
          using 4 assms(1) pos_mod_bound [of 2 i] pos_mod_sign [of 2 i] by linarith+
        then have "(i + i mod 2 + 4294967296) mod 4294967296 = i + i mod 2 + 4294967296"
          by (intro mod_pos_pos_trivial) linarith+
        then show ?thesis by (simp only: mod_add_self2)
      qed
      have c: "(i + 4294967296) mod 2 = i mod 2" by presburger
      have j: "j = i + i mod 2" using 4 by (simp add: j_def)
      show ?thesis unfolding a p j b c by linarith
    qed (simp_all add: j_def)
  qed
  finally have "uint ?w = uint (word_of_int j :: u32)" by (simp add: uint_word_of_int)
  then have "?w = word_of_int j" by (simp only: word_uint_eq_iff)
  moreover have "- 2147483648 \<le> j" "j < 2147483648"
    unfolding j_def using assms(1,2) by presburger+
  ultimately show ?thesis by (simp add: s32_of_int)
qed

text \<open>
  C22: For a TRY or ACTIVE crop selection with any int as left edge: it is accepted and stored,
  and its width is zero exactly when the left edge is from 2623 to the greatest int minus one (the
  greatest int wraps to the left edge 0); with width zero the next ov5693_set_fmt of that state
  divides by zero, in the horizontal ratio.
\<close>

theorem selection_then_format_faults:
  assumes tgt: "target sel = V4L2_SEL_TGT_CROP"
    and which: "sel_which sel \<in> {V4L2_SUBDEV_FORMAT_TRY, V4L2_SUBDEV_FORMAT_ACTIVE}" "sf_which f = sel_which sel"
    and left: "- 2147483648 \<le> r_left (sel_r sel)" "r_left (sel_r sel) < 2147483648"
  shows "\<exists>d' st' sel'. ov5693_set_selection d st sel = Inr (0, d', st', sel') \<and>
    ov5693_get_pad_crop d' st' (sf_which f) = Some (sel_r sel') \<and>
    (r_width (sel_r sel') = 0 \<longleftrightarrow> 2623 \<le> r_left (sel_r sel) \<and> r_left (sel_r sel) < 2147483647) \<and>
    (r_width (sel_r sel') = 0 \<longrightarrow>
       ov5693_fmt_ratio (r_width (sel_r sel')) (f_width (sf_format f)) OV5693_MIN_CROP_WIDTH = Inl Div_by_zero \<and>
       ov5693_set_fmt S d' st' f = Inl Div_by_zero)"
proof -
  let ?r = "ov5693_clamp_rect (sel_r sel)" and ?i = "r_left (sel_r sel)"
  have "r_left ?r = clamp_t (if ?i = 2147483647 then - 2147483648 else ?i + ?i mod 2) 0 2624"
    unfolding ALIGN_2_int [OF left, symmetric] by (simp add: ov5693_clamp_rect_def Let_def ov5693_consts)
  moreover have "2624 \<le> ?i + ?i mod 2 \<longleftrightarrow> 2623 \<le> ?i" by presburger
  ultimately have l: "r_left ?r = 2624 \<longleftrightarrow> 2623 \<le> ?i \<and> ?i < 2147483647"
    using left by (auto simp: clamp_t_def)
  have w: "r_width ?r = 0 \<longleftrightarrow> 2623 \<le> ?i \<and> ?i < 2147483647" "crop_in_array ?r"
    using clamp_rect_array [of "sel_r sel"] l by auto
  have "\<exists>d' st' sel'. ov5693_set_selection d st sel = Inr (0, d', st', sel') \<and> sel_r sel' = ?r \<and>
      ov5693_get_pad_crop d' st' (sf_which f) = Some ?r"
    using tgt which
    by (auto simp: ov5693_set_selection_def ov5693_get_pad_crop_def ov5693_get_pad_format_def
        store_format_def store_crop_def Let_def case_prod_beta)
  then obtain d' st' sel' where s: "ov5693_set_selection d st sel = Inr (0, d', st', sel')" "sel_r sel' = ?r"
    "ov5693_get_pad_crop d' st' (sf_which f) = Some ?r" by blast
  have "r_width ?r = 0 \<Longrightarrow> ov5693_set_fmt S d' st' f = Inl Div_by_zero"
    using fmt_fault [OF s(3) w(2), of S] by simp
  then show ?thesis using s w(1) by (auto simp: fmt_ratio_0 ov5693_consts)
qed

section \<open>Enumerated sizes\<close>

lemma scale_own_size:
  assumes "2 \<le> unat c" "even (unat c)" "unat c \<le> 2624"
  shows "scale_of c c = 1"
    and "4 \<le> unat c \<Longrightarrow> scale_of c (c div 2) = 2"
proof -
  from assms(2) obtain k where k: "unat c = 2 * k" by (rule evenE)
  show "scale_of c c = 1"
    using assms(1,3) by (simp add: scale_of_def request_size_def clamp_t_def k)
  assume "4 \<le> unat c"
  with k assms(3) show "scale_of c (c div 2) = 2"
    by (auto simp: scale_of_def request_size_def clamp_t_def unat_div)
qed

text \<open>
  Setting the format that ov5693_set_fmt returned sets the same format again.
\<close>

theorem set_fmt_idempotent:
  assumes crop: "crop_ok (st_crop st)" "unat (r_width (st_crop st)) \<noteq> 2" "unat (r_height (st_crop st)) \<noteq> 2"
    and tr: "sf_which f = V4L2_SUBDEV_FORMAT_TRY"
    and first: "ov5693_set_fmt S d st f = Inr (ret, d', st', f')"
  shows "ov5693_set_fmt S d' st' f' = Inr (0, d', st', f')"
proof -
  let ?c = "st_crop st" and ?q = "sf_format f"
  note ok = crop_okD [OF crop(1)]
  have four: "4 \<le> unat (r_width ?c)" "4 \<le> unat (r_height ?c)"
    using ok crop(2,3) by (auto elim!: evenE)
  have fst: "d' = d" "st' = st\<lparr>st_format := scaled_fmt ?c ?q\<rparr>" "f' = f\<lparr>sf_format := scaled_fmt ?c ?q\<rparr>"
    using first set_fmt_try [OF tr crop(1)] by simp_all
  have twice: "x div of_nat (scale_of x (x div of_nat (scale_of x q))) = x div of_nat (scale_of x q)"
    if "x = r_width ?c \<or> x = r_height ?c" for x q
  proof -
    from that have "2 \<le> unat x" "even (unat x)" "unat x \<le> 2624" "4 \<le> unat x"
      using ok four by auto
    then show ?thesis using scale_own_size [of x] scale_range [of x q] by auto
  qed
  have "scaled_fmt ?c (scaled_fmt ?c ?q) = scaled_fmt ?c ?q"
    using twice by (simp add: scaled_fmt_def)
  with set_fmt_try [of f' st' S d'] tr crop(1) show ?thesis by (simp add: fst)
qed


section \<open>The stored geometry\<close>

text \<open>A non-empty crop in the array, and a format that is the crop or half of it in each dimension.\<close>

definition geometry_ok :: "v4l2_rect \<Rightarrow> v4l2_mbus_framefmt \<Rightarrow> bool" where
  "geometry_ok c f \<longleftrightarrow> crop_ok c \<and> (f_width f = r_width c \<or> f_width f = r_width c div 2) \<and>
     (f_height f = r_height c \<or> f_height f = r_height c div 2)"

text \<open>
  C20: An ACTIVE ov5693_set_selection with room for the rectangle keeps the stored crop in the
  array and the format the crop or half of it, stores the rectangle it returns, and leaves binning
  and frame length alone.
\<close>

theorem set_selection_geometry:
  assumes inv: "geometry_ok (m_crop (mode d)) (m_format (mode d))"
    and sel: "ov5693_set_selection d st sel = Inr (ret, d', st', sel')"
    and act: "sel_which sel = V4L2_SUBDEV_FORMAT_ACTIVE"
    and room: "r_left (ov5693_clamp_rect (sel_r sel)) < 2624" "r_top (ov5693_clamp_rect (sel_r sel)) < 1956"
  shows "geometry_ok (m_crop (mode d')) (m_format (mode d')) \<and>
    (target sel = V4L2_SEL_TGT_CROP \<longrightarrow> m_crop (mode d') = sel_r sel') \<and>
    binning_x (mode d') = binning_x (mode d) \<and> binning_y (mode d') = binning_y (mode d) \<and>
    vts (mode d') = vts (mode d) \<and> trace d' = trace d"
proof -
  let ?r = "ov5693_clamp_rect (sel_r sel)"
  have ok: "crop_ok ?r" using clamp_rect_array [of "sel_r sel"] room by (auto simp: crop_ok_def)
  show ?thesis
    using inv sel act ok
    by (auto simp: ov5693_set_selection_def ov5693_get_pad_crop_def ov5693_get_pad_format_def
      store_format_def store_crop_def Let_def geometry_ok_def split: if_splits)
qed

text \<open>
  ov5693_set_fmt keeps the stored crop in the array and the stored format the crop or half of it,
  for every request.
\<close>

theorem set_fmt_geometry:
  assumes core: "ctrl_core S kdev.more"
    and inv: "geometry_ok (m_crop (mode d)) (m_format (mode d))"
    and res: "ov5693_set_fmt S d st f = Inr (ret, d', st', f')"
  shows "geometry_ok (m_crop (mode d')) (m_format (mode d'))"
proof (cases "sf_which f")
  case V4L2_SUBDEV_FORMAT_TRY
  then show ?thesis
    using res inv by (auto simp: ov5693_set_fmt_def Let_def store_format_def split: option.splits sum.splits)
next
  case V4L2_SUBDEV_FORMAT_ACTIVE
  have ok: "crop_ok (m_crop (mode d))" using inv by (simp add: geometry_ok_def)
  show ?thesis
    using res set_fmt_active [OF V4L2_SUBDEV_FORMAT_ACTIVE ok, of S st] ok
      scale_range [of "r_width (m_crop (mode d))" "f_width (sf_format f)"]
      scale_range [of "r_height (m_crop (mode d))" "f_height (sf_format f)"]
    by (auto simp: retime_mode [OF core] geometry_ok_def scaled_fmt_def)
next
  case (Which_other x)
  then show ?thesis using res by (simp add: ov5693_set_fmt_def ov5693_get_pad_crop_def)
qed

section \<open>Frame interval\<close>

text \<open>
  The frame interval reported is one over the pixel rate divided by the frame size, rounded to
  nearest, for every frame length the VTS register can hold.
\<close>

theorem frame_interval:
  assumes len: "unat (f_height (m_format (mode d))) + v = n" "val (ctrls d V4L2_CID_VBLANK) = int v"
    and n: "0 < n" "n \<le> 65535"
  shows "ov5693_get_frame_interval d V4L2_SUBDEV_FORMAT_ACTIVE =
    Inr (0, Some (1, of_nat ((167680000 + 2688 * n div 2) div (2688 * n))))"
proof -
  define fs where "fs = 2688 * (f_height (m_format (mode d)) + u32_of_int (int v))"
  have s: "f_height (m_format (mode d)) + u32_of_int (int v) = of_nat n"
    by (simp add: u32_of_int_def len(1) [symmetric])
  have un: "unat fs = 2688 * n"
    using n by (simp add: fs_def s unat_mult_small unat_of_nat)
  then have nz: "fs \<noteq> 0" using n by auto
  have u: "unat (DIV_ROUND_CLOSEST 167680000 fs) = (167680000 + 2688 * n div 2) div (2688 * n)"
  proof -
    have "unat (167680000 + fs div 2) = 167680000 + 2688 * n div 2"
      using n by (subst unat_plus_small) (simp_all add: unat_div un)
    then show ?thesis by (simp add: DIV_ROUND_CLOSEST_def unat_div un)
  qed
  then have "DIV_ROUND_CLOSEST 167680000 fs = of_nat ((167680000 + 2688 * n div 2) div (2688 * n))"
    unfolding u [symmetric] by simp
  then show ?thesis
    unfolding ov5693_get_frame_interval_def Let_def ov5693_consts len(2) fs_def [symmetric]
    using nz by simp
qed

section \<open>Witnesses\<close>

definition sample_state :: sd_state where
  "sample_state = \<lparr>st_format = m_format (mode ov5693_sample), st_crop = m_crop (mode ov5693_sample)\<rparr>"

definition sample_fmt :: "whence \<Rightarrow> u32 \<Rightarrow> u32 \<Rightarrow> subdev_format" where
  "sample_fmt wh w h = \<lparr>sf_which = wh, sf_format = \<lparr>f_width = w, f_height = h, f_code = 0\<rparr>\<rparr>"

definition sample_sel :: "whence \<Rightarrow> int \<Rightarrow> subdev_selection" where
  "sample_sel wh l = \<lparr>sel_which = wh, target = V4L2_SEL_TGT_CROP,
     sel_r = \<lparr>r_left = l, r_top = 100, r_width = 1280, r_height = 720\<rparr>\<rparr>"

lemma sample_crop_ok: "crop_ok (m_crop (mode ov5693_sample))"
  by (simp add: crop_ok_def crop_in_array_def ov5693_sample_def)


lemma set_fmt_timing_witness:
  "\<exists>d' st' f'. ov5693_set_fmt (ov5693_ctrl_services sample_env) ov5693_sample sample_state
       (sample_fmt V4L2_SUBDEV_FORMAT_ACTIVE 1280 960) = Inr (0, d', st', f') \<and>
     maximum (ctrls d' V4L2_CID_EXPOSURE) = 2070 \<and> lock_run (trace d') (Some False) = Some False"
proof -
  let ?S = "ov5693_ctrl_services sample_env" and ?f = "sample_fmt V4L2_SUBDEV_FORMAT_ACTIVE 1280 960"
  have f: "sf_which ?f = V4L2_SUBDEV_FORMAT_ACTIVE" by (simp add: sample_fmt_def)
  obtain d' st' f' where r: "ov5693_set_fmt ?S ov5693_sample sample_state ?f = Inr (0, d', st', f')"
    using set_fmt_active [OF f sample_crop_ok] by simp
  have "low_ok (ctrls ov5693_sample V4L2_CID_EXPOSURE)" "0 < step (ctrls ov5693_sample V4L2_CID_EXPOSURE)"
    "minimum (ctrls ov5693_sample V4L2_CID_EXPOSURE) \<le> 2070"
    "lock_run (trace ov5693_sample) (Some False) = Some False"
    by (simp_all add: ov5693_sample_def std_ctrl_def low_ok_def)
  from set_fmt_timing [OF ov5693_core.ctrl_core_axioms f sample_crop_ok this r] r show ?thesis by auto
qed

lemma set_fmt_fault_witness:
  "ov5693_set_fmt no_services ov5693_sample
     (sample_state\<lparr>st_crop := \<lparr>r_left = 2624, r_top = 0, r_width = 0, r_height = 1956\<rparr>\<rparr>)
     (sample_fmt V4L2_SUBDEV_FORMAT_TRY 1280 960) = Inl Div_by_zero"
proof -
  let ?c = "\<lparr>r_left = 2624, r_top = 0, r_width = 0, r_height = 1956\<rparr>"
  have "ov5693_get_pad_crop ov5693_sample (sample_state\<lparr>st_crop := ?c\<rparr>)
      (sf_which (sample_fmt V4L2_SUBDEV_FORMAT_TRY 1280 960)) = Some ?c"
    by (simp add: ov5693_get_pad_crop_def sample_fmt_def)
  moreover have "crop_in_array ?c" by (simp add: crop_in_array_def)
  ultimately show ?thesis using set_fmt_fault by simp
qed

lemma selection_then_format_faults_witness:
  "\<exists>d' st' sel'. ov5693_set_selection ov5693_sample sample_state (sample_sel V4L2_SUBDEV_FORMAT_ACTIVE 3000)
       = Inr (0, d', st', sel') \<and> r_width (sel_r sel') = 0 \<and>
     ov5693_set_fmt no_services d' st' (sample_fmt V4L2_SUBDEV_FORMAT_ACTIVE 1280 960) = Inl Div_by_zero"
  using selection_then_format_faults [of "sample_sel V4L2_SUBDEV_FORMAT_ACTIVE 3000"
      "sample_fmt V4L2_SUBDEV_FORMAT_ACTIVE 1280 960" ov5693_sample sample_state no_services]
  by (auto simp: sample_sel_def sample_fmt_def)

lemma set_fmt_idempotent_witness:
  "\<exists>d' st' f'. ov5693_set_fmt no_services ov5693_sample sample_state
       (sample_fmt V4L2_SUBDEV_FORMAT_TRY 1280 960) = Inr (0, d', st', f') \<and>
     ov5693_set_fmt no_services d' st' f' = Inr (0, d', st', f')"
proof -
  have f: "sf_which (sample_fmt V4L2_SUBDEV_FORMAT_TRY 1280 960) = V4L2_SUBDEV_FORMAT_TRY"
    by (simp add: sample_fmt_def)
  have c: "crop_ok (st_crop sample_state)" using sample_crop_ok by (simp add: sample_state_def)
  note r = set_fmt_try [OF f c, of no_services ov5693_sample]
  have "unat (r_width (st_crop sample_state)) \<noteq> 2" "unat (r_height (st_crop sample_state)) \<noteq> 2"
    by (simp_all add: sample_state_def ov5693_sample_def)
  from set_fmt_idempotent [OF c this f r] r show ?thesis by blast
qed

lemma set_selection_geometry_witness:
  "\<exists>d' st' sel'. ov5693_set_selection ov5693_sample sample_state (sample_sel V4L2_SUBDEV_FORMAT_ACTIVE 200)
       = Inr (0, d', st', sel') \<and> geometry_ok (m_crop (mode d')) (m_format (mode d'))"
proof -
  let ?sel = "sample_sel V4L2_SUBDEV_FORMAT_ACTIVE 200"
  obtain d' st' sel' where r: "ov5693_set_selection ov5693_sample sample_state ?sel = Inr (0, d', st', sel')"
    by (simp add: ov5693_set_selection_def ov5693_get_pad_crop_def ov5693_get_pad_format_def sample_sel_def
        Let_def case_prod_beta)
  have "geometry_ok (m_crop (mode ov5693_sample)) (m_format (mode ov5693_sample))"
    using sample_crop_ok by (simp add: geometry_ok_def) (simp add: ov5693_sample_def)
  from set_selection_geometry [OF this r] r show ?thesis
    by (auto simp: sample_sel_def ov5693_clamp_rect_def Let_def clamp_t_def s32_of_u32_def ALIGN_def
        u32_of_int_def ov5693_consts)
qed

lemma set_fmt_geometry_witness:
  "\<exists>d' st' f'. ov5693_set_fmt (ov5693_ctrl_services sample_env) ov5693_sample sample_state
       (sample_fmt V4L2_SUBDEV_FORMAT_ACTIVE 1280 960) = Inr (0, d', st', f') \<and>
     geometry_ok (m_crop (mode d')) (m_format (mode d'))"
proof -
  let ?S = "ov5693_ctrl_services sample_env" and ?f = "sample_fmt V4L2_SUBDEV_FORMAT_ACTIVE 1280 960"
  have f: "sf_which ?f = V4L2_SUBDEV_FORMAT_ACTIVE" by (simp add: sample_fmt_def)
  obtain d' st' f' where r: "ov5693_set_fmt ?S ov5693_sample sample_state ?f = Inr (0, d', st', f')"
    using set_fmt_active [OF f sample_crop_ok] by simp
  have "geometry_ok (m_crop (mode ov5693_sample)) (m_format (mode ov5693_sample))"
    using sample_crop_ok by (simp add: geometry_ok_def) (simp add: ov5693_sample_def)
  from set_fmt_geometry [OF ov5693_core.ctrl_core_axioms this r] r show ?thesis by auto
qed

lemma frame_interval_witness:
  "ov5693_get_frame_interval ov5693_sample V4L2_SUBDEV_FORMAT_ACTIVE = Inr (0, Some (1, 30))"
  using frame_interval [of ov5693_sample 134 2078] by (simp add: ov5693_sample_def std_ctrl_def)

end
