(* ===== verification/Ov5693_Power.thy ===== *)
theory Ov5693_Power
  imports Ov5693_Format
begin

text \<open>
  Power, streaming, probe and remove of the OV5693 (\<open>ov5693.c\<close>, "System Control Functions" and
  "Sensor and Driver Configuration Functions"), and the control and PM services tied to the driver's
  own callbacks.
\<close>

section \<open>System control\<close>

definition ov5693_enable_streaming :: "env \<Rightarrow> bool \<Rightarrow> ov5693 \<Rightarrow> int \<times> ov5693" where
  "ov5693_enable_streaming E enable d =
     (let s = (0, d);
          s = (if enable then cci_write E OV5693_MIPI_CTRL00_REG OV5693_MIPI_CTRL00_IPU6 s else s);
          s = cci_write E OV5693_SW_STREAM_REG
                (if enable then OV5693_START_STREAMING else OV5693_STOP_STREAMING) s
      in s)"

definition ov5693_sw_reset :: "env \<Rightarrow> ov5693 \<Rightarrow> int \<times> ov5693" where
  "ov5693_sw_reset E d = cci_write E OV5693_SW_RESET_REG OV5693_SW_RESET (0, d)"

definition ov5693_sensor_init :: "env \<Rightarrow> ov5693 \<Rightarrow> int \<times> ov5693" where
  "ov5693_sensor_init E d =
     (let (ret, d) = ov5693_sw_reset E d
      in if ret \<noteq> 0 then (ret, d)
         else
     (let (ret, d) = cci_multi_reg_write E ov5693_global_regs (0, d)
      in if ret \<noteq> 0 then (ret, d)
         else
     (let (ret, d) = ov5693_mode_configure E d
      in if ret \<noteq> 0 then (ret, d) else ov5693_enable_streaming E False d)))"

definition ov5693_sensor_powerdown :: "ov5693 \<Rightarrow> ov5693" where
  "ov5693_sensor_powerdown d =
     (let d = kdo (Rail (Gpiod_set Gpio_reset 1)) d;
          d = kdo (Rail (Gpiod_set Gpio_powerdown 1)) d;
          d = kdo (Rail Regulator_bulk_disable) d
      in kdo (Rail Clk_disable_unprepare) d)"

definition ov5693_sensor_powerup :: "env \<Rightarrow> ov5693 \<Rightarrow> int \<times> ov5693" where
  "ov5693_sensor_powerup E d =
     (let d = kdo (Rail (Gpiod_set Gpio_reset 1)) d;
          d = kdo (Rail (Gpiod_set Gpio_powerdown 1)) d;
          (ret, d) = kcall E (Rail Clk_prepare_enable) d
      in if ret \<noteq> 0 then (ret, ov5693_sensor_powerdown d)
         else
     (let (ret, d) = kcall E (Rail Regulator_bulk_enable) d
      in if ret \<noteq> 0 then (ret, ov5693_sensor_powerdown d)
         else
     (let d = kdo (Rail (Gpiod_set Gpio_powerdown 0)) d;
          d = kdo (Rail (Gpiod_set Gpio_reset 0)) d;
          d = kdo (Rail (Usleep_range 5000 7500)) d
      in (0, d))))"

definition ov5693_sensor_suspend :: "ov5693 \<Rightarrow> int \<times> ov5693" where
  "ov5693_sensor_suspend d = (0, ov5693_sensor_powerdown d)"

definition ov5693_sensor_resume :: "env \<Rightarrow> ov5693 \<Rightarrow> int \<times> ov5693" where
  "ov5693_sensor_resume E d =
     (let d = kdo Mutex_lock d;
          (ret, d) = ov5693_sensor_powerup E d
      in if ret \<noteq> 0 then (ret, kdo Mutex_unlock d)
         else
     (let (ret, d) = ov5693_sensor_init E d
      in if ret \<noteq> 0 then (ret, kdo Mutex_unlock (ov5693_sensor_powerdown d))
         else (ret, kdo Mutex_unlock d)))"

definition ov5693_detect :: "env \<Rightarrow> ov5693 \<Rightarrow> int \<times> ov5693" where
  "ov5693_detect E d =
     (let (ret, i, d) = kread E (Bus (Cci_read OV5693_REG_CHIP_ID)) d
      in if ret \<noteq> 0 then (ret, d)
         else if i \<noteq> OV5693_CHIP_ID then (- ENODEV, d)
         else (0, d))"

section \<open>Streaming\<close>

definition ov5693_s_stream :: "ov5693 services \<Rightarrow> env \<Rightarrow> bool \<Rightarrow> ov5693 \<Rightarrow> int \<times> ov5693" where
  "ov5693_s_stream S E enable d =
     (if enable then
        (let (ret, d) = resume_and_get S d
         in if ret \<noteq> 0 then (ret, d)
            else
              (let d = kdo Mutex_lock d;
                   (ret, d) = handler_setup S d
               in if ret \<noteq> 0 then (ret, kdo (Pm Pm_put_noidle) (kdo Mutex_unlock d))
                  else
                    (let (ret, d) = ov5693_enable_streaming E True d;
                         d = kdo Mutex_unlock d
                     in if ret \<noteq> 0 then (ret, kdo (Pm Pm_put_noidle) d) else (0, d))))
      else
        (let d = kdo Mutex_lock d;
             (ret, d) = ov5693_enable_streaming E False d;
             d = kdo Mutex_unlock d
         in if ret \<noteq> 0 then (ret, kdo (Pm Pm_put_noidle) d) else (0, kdo (Pm Pm_put) d)))"

section \<open>Probe and remove\<close>

definition ov5693_init_controls :: "env \<Rightarrow> ov5693 \<Rightarrow> int \<times> ov5693" where
  "ov5693_init_controls E d =
     (let (ret, d) = kcall E (Init V4l2_ctrl_handler_init) d
      in if ret \<noteq> 0 then (ret, d)
         else
           (let h = f_height (m_format (mode d));
                s = (0, d);
                s = v4l2_ctrl_new E V4L2_CID_LINK_FREQ (std_ctrl 0 0 1 0) s;
                s = set_read_only V4L2_CID_LINK_FREQ s;
                s = v4l2_ctrl_new E V4L2_CID_PIXEL_RATE
                      (std_ctrl 0 OV5693_PIXEL_RATE 1 OV5693_PIXEL_RATE) s;
                exposure_max = s32_of_u32 (vts (mode d) - OV5693_INTEGRATION_TIME_MARGIN);
                s = v4l2_ctrl_new E V4L2_CID_EXPOSURE
                      (std_ctrl OV5693_EXPOSURE_MIN exposure_max OV5693_EXPOSURE_STEP exposure_max) s;
                s = v4l2_ctrl_new E V4L2_CID_ANALOGUE_GAIN
                      (std_ctrl OV5693_GAIN_MIN OV5693_GAIN_MAX OV5693_GAIN_STEP OV5693_GAIN_DEF) s;
                s = v4l2_ctrl_new E V4L2_CID_DIGITAL_GAIN
                      (std_ctrl OV5693_DIGITAL_GAIN_MIN OV5693_DIGITAL_GAIN_MAX
                         OV5693_DIGITAL_GAIN_STEP OV5693_DIGITAL_GAIN_DEF) s;
                s = v4l2_ctrl_new E V4L2_CID_HFLIP (std_ctrl 0 1 1 0) s;
                s = v4l2_ctrl_new E V4L2_CID_VFLIP (std_ctrl 0 1 1 0) s;
                hblank = s32_of_u32 (OV5693_FIXED_PPL - f_width (m_format (mode d)));
                s = v4l2_ctrl_new E V4L2_CID_HBLANK (std_ctrl hblank hblank 1 hblank) s;
                s = set_read_only V4L2_CID_HBLANK s;
                vblank_max = s32_of_u32 (OV5693_TIMING_MAX_VTS - h);
                vblank_def = s32_of_u32 (vts (mode d) - h);
                s = v4l2_ctrl_new E V4L2_CID_VBLANK
                      (std_ctrl OV5693_TIMING_MIN_VTS vblank_max 1 vblank_def) s;
                s = v4l2_ctrl_new E V4L2_CID_TEST_PATTERN
                      (std_ctrl 0 (int (length ov5693_test_pattern_menu) - 1) 1 0) s;
                (err, d) = s
            in if err \<noteq> 0 then (err, kdo (Init V4l2_ctrl_handler_free) d)
               else
                 (let (ret, d) = kcall E (Init V4l2_fwnode_device_parse) d
                  in if ret \<noteq> 0 then (ret, kdo (Init V4l2_ctrl_handler_free) d)
                     else
                       (let (ret, d) = kcall E (Init V4l2_ctrl_new_fwnode_properties) d
                        in if ret \<noteq> 0 then (ret, kdo (Init V4l2_ctrl_handler_free) d)
                           else (0, d)))))"

text \<open>A pointer-returning call gives a negative number for an \<open>ERR_PTR\<close>.\<close>

definition ov5693_configure_gpios :: "env \<Rightarrow> ov5693 \<Rightarrow> int \<times> ov5693" where
  "ov5693_configure_gpios E d =
     (let (r, d) = kcall E (Init (Devm_gpiod_get Gpio_reset)) d
      in if r < 0 then (r, d)
         else
           (let (r, d) = kcall E (Init (Devm_gpiod_get Gpio_powerdown)) d
            in if r < 0 then (r, d) else (0, d)))"

definition ov5693_get_regulators :: "env \<Rightarrow> ov5693 \<Rightarrow> int \<times> ov5693" where
  "ov5693_get_regulators E d = kcall E (Init Devm_regulator_bulk_get) d"

definition ov5693_check_hwcfg :: "env \<Rightarrow> bus_cfg \<Rightarrow> ov5693 \<Rightarrow> int \<times> ov5693" where
  "ov5693_check_hwcfg E cfg d =
     (let (endpoint, d) = kcall E (Init Fwnode_graph_get_next_endpoint) d
      in if endpoint = 0 then (- EPROBE_DEFER, d)
         else
           (let (ret, d) = kcall E (Init V4l2_fwnode_endpoint_alloc_parse) d;
                d = kdo (Init Fwnode_handle_put) d
            in if ret \<noteq> 0 then (ret, d)
               else
                 (let ret = (if num_data_lanes cfg \<noteq> 2 then - EINVAL
                      else if link_frequencies cfg = [] then - EINVAL
                      else if OV5693_LINK_FREQ_419_2MHZ \<notin> set (link_frequencies cfg)
                      then - EINVAL
                      else ret)
                  in (ret, kdo (Init V4l2_fwnode_endpoint_free) d))))"

text \<open>\<open>devm_kzalloc\<close> gives a zeroed device.\<close>

definition zero_mode :: ov5693_mode where
  "zero_mode = \<lparr>m_crop = \<lparr>r_left = 0, r_top = 0, r_width = 0, r_height = 0\<rparr>,
     m_format = \<lparr>f_width = 0, f_height = 0, f_code = 0\<rparr>,
     binning_x = False, binning_y = False, inc_x_odd = 0, inc_y_odd = 0, vts = 0\<rparr>"

definition ov5693_default_crop :: v4l2_rect where
  "ov5693_default_crop = \<lparr>r_left = OV5693_ACTIVE_START_LEFT, r_top = OV5693_ACTIVE_START_TOP,
     r_width = OV5693_ACTIVE_WIDTH, r_height = OV5693_ACTIVE_HEIGHT\<rparr>"

definition ov5693_default_fmt :: v4l2_mbus_framefmt where
  "ov5693_default_fmt = \<lparr>f_width = OV5693_ACTIVE_WIDTH, f_height = OV5693_ACTIVE_HEIGHT,
     f_code = MEDIA_BUS_FMT_SBGGR10_1X10\<rparr>"

text \<open>The unwinding labels at the end of \<open>ov5693_probe\<close>, each falling through to the next.\<close>

definition ov5693_err_ctrl_handler_free :: "ov5693 \<Rightarrow> ov5693" where
  "ov5693_err_ctrl_handler_free d = kdo (Init V4l2_ctrl_handler_free) d"

definition ov5693_err_media_entity_cleanup :: "ov5693 \<Rightarrow> ov5693" where
  "ov5693_err_media_entity_cleanup d =
     ov5693_err_ctrl_handler_free (kdo (Init Media_entity_cleanup) d)"

definition ov5693_err_powerdown :: "ov5693 \<Rightarrow> ov5693" where
  "ov5693_err_powerdown d = ov5693_err_media_entity_cleanup (ov5693_sensor_powerdown d)"

definition ov5693_err_pm_runtime :: "ov5693 \<Rightarrow> ov5693" where
  "ov5693_err_pm_runtime d =
     ov5693_err_powerdown (kdo (Pm Pm_put_noidle) (kdo (Pm Pm_disable) d))"

text \<open>The part of \<open>ov5693_probe\<close> that acquires what has to be released by hand.\<close>

definition ov5693_probe_start :: "env \<Rightarrow> ov5693 \<Rightarrow> int \<times> ov5693" where
  "ov5693_probe_start E d =
     (let (ret, d) = ov5693_init_controls E d
      in if ret \<noteq> 0 then (ret, d)
         else
     (let (ret, d) = kcall E (Init Media_entity_pads_init) d
      in if ret \<noteq> 0 then (ret, ov5693_err_ctrl_handler_free d)
         else
     (let (ret, d) = ov5693_sensor_powerup E d
      in if ret \<noteq> 0 then (ret, ov5693_err_media_entity_cleanup d)
         else
     (let (ret, d) = ov5693_detect E d
      in if ret \<noteq> 0 then (ret, ov5693_err_powerdown d)
         else
     (let d = kdo (Pm Pm_set_active) d;
          d = kdo (Pm Pm_get_noresume) d;
          d = kdo (Pm Pm_enable) d;
          (ret, d) = kcall E (Init V4l2_async_register_subdev) d
      in if ret \<noteq> 0 then (ret, ov5693_err_pm_runtime d)
         else
           (let d = kdo (Pm (Pm_use_autosuspend 1000)) d;
                d = kdo (Pm Pm_put_autosuspend) d
            in (ret, d\<lparr>rpm_active := True\<rparr>)))))))"

definition ov5693_probe :: "env \<Rightarrow> bus_cfg \<Rightarrow> ov5693 \<Rightarrow> fault + (int \<times> ov5693)" where
  "ov5693_probe E cfg d =
     (let (ret, d) = kcall E (Init Devm_kzalloc) d
      in if ret \<noteq> 0 then Inr (- ENOMEM, d)
         else
     (let d = d\<lparr>mode := zero_mode, ctrl_ptr := (\<lambda>_. False), rpm_active := False\<rparr>;
          (ret, d) = kcall E (Init Devm_cci_regmap_init_i2c) d
      in if ret < 0 then Inr (ret, d)
         else
     (let (ret, d) = ov5693_check_hwcfg E cfg d
      in if ret \<noteq> 0 then Inr (ret, d)
         else
     (let d = kdo (Init Mutex_init) d;
          d = kdo (Init V4l2_i2c_subdev_init) d;
          (ret, d) = kcall E (Init Devm_v4l2_sensor_clk_get) d
      in if ret < 0 then Inr (ret, d)
         else
     (let d = kdo (Init Clk_get_rate) d;
          (ret, d) = ov5693_configure_gpios E d
      in if ret \<noteq> 0 then Inr (ret, d)
         else
     (let (ret, d) = ov5693_get_regulators E d
      in if ret \<noteq> 0 then Inr (ret, d)
         else
     (let d = d\<lparr>mode := (mode d)\<lparr>m_crop := ov5693_default_crop, m_format := ov5693_default_fmt\<rparr>\<rparr>
      in case ov5693_calc_vts (f_height (m_format (mode d))) of
           Inl e \<Rightarrow> Inl e
         | Inr v \<Rightarrow> Inr (ov5693_probe_start E (d\<lparr>mode := (mode d)\<lparr>vts := v\<rparr>\<rparr>)))))))))"

definition ov5693_remove :: "env \<Rightarrow> ov5693 \<Rightarrow> ov5693" where
  "ov5693_remove E d =
     (let d = kdo (Init V4l2_async_unregister_subdev) d;
          d = kdo (Init Media_entity_cleanup) d;
          d = kdo (Init V4l2_ctrl_handler_free) d;
          d = kdo (Init Mutex_destroy) d;
          d = kdo (Pm Pm_disable) d;
          (suspended, d) = kcall E (Pm Pm_status_suspended) d;
          d = (if suspended = 0 then ov5693_sensor_powerdown d else d)
      in kdo (Pm Pm_set_suspended) d)"

section \<open>The services on the driver's own callbacks\<close>

definition ov5693_pm_get :: "env \<Rightarrow> ov5693 \<Rightarrow> int \<times> ov5693" where
  "ov5693_pm_get E d =
     (if rpm_active d then (0, klog (Pm Pm_resume_and_get) 0 d)
      else
        (let (r, d) = ov5693_sensor_resume E d
         in if r = 0 then (0, klog (Pm Pm_resume_and_get) 0 (d\<lparr>rpm_active := True\<rparr>))
            else (- \<bar>r\<bar>, klog (Pm Pm_resume_and_get) (- \<bar>r\<bar>) d)))"

definition ov5693_services :: "env \<Rightarrow> ov5693 services" where
  "ov5693_services E = (ov5693_ctrl_services E)\<lparr>resume_and_get := ov5693_pm_get E\<rparr>"

section \<open>Power sequencing\<close>

abbreviation clk_refs :: "ov5693 \<Rightarrow> int" where
  "clk_refs d \<equiv> weigh clk_weight (trace d)"

abbreviation supply_refs :: "ov5693 \<Rightarrow> int" where
  "supply_refs d \<equiv> weigh bulk_weight (trace d)"

text \<open>
  A successful power-up makes exactly the calls of the source in order: both lines asserted,
  clock, supplies, powerdown and then reset released, and the settling delay.
\<close>

theorem powerup_sequence:
  assumes "ov5693_sensor_powerup E d = (0, d')"
  shows "trace d' = trace d @ [(Rail (Gpiod_set Gpio_reset 1), 0), (Rail (Gpiod_set Gpio_powerdown 1), 0),
      (Rail Clk_prepare_enable, 0), (Rail Regulator_bulk_enable, 0),
      (Rail (Gpiod_set Gpio_powerdown 0), 0), (Rail (Gpiod_set Gpio_reset 0), 0),
      (Rail (Usleep_range 5000 7500), 0)] \<and> quiet d' = quiet d"
  using assms by (auto simp: ov5693_sensor_powerup_def Let_def case_prod_beta split: if_splits)

lemma powerup_refs:
  "(let (ret, d') = ov5693_sensor_powerup E d
    in if ret = 0 then clk_refs d' = clk_refs d + 1 \<and> supply_refs d' = supply_refs d + 1
       else supply_refs d' = supply_refs d - 1 \<and>
         clk_refs d' = clk_refs d - (if trace d' ! (length (trace d) + 2) = (Rail Clk_prepare_enable, 0) then 0 else 1))"
  by (auto simp: ov5693_sensor_powerup_def ov5693_sensor_powerdown_def Let_def case_prod_beta nth_append)

text \<open>
  C18: A successful ov5693_sensor_powerup holds one more clock and supply reference; a failed one
  drops a supply reference it never took, and a clock reference too when it was the clock that
  failed.
\<close>

theorem powerup_balance:
  "(let (ret, d') = ov5693_sensor_powerup E d
    in if ret = 0 then clk_refs d' = clk_refs d + 1 \<and> supply_refs d' = supply_refs d + 1
       else supply_refs d' = supply_refs d - 1 \<and>
         clk_refs d' = clk_refs d - (if trace d' ! (length (trace d) + 2) = (Rail Clk_prepare_enable, 0) then 0 else 1))"
  by (rule powerup_refs)

lemma powerdown_balance:
  "clk_refs (ov5693_sensor_powerdown d) = clk_refs d - 1"
  "supply_refs (ov5693_sensor_powerdown d) = supply_refs d - 1"
  "quiet (ov5693_sensor_powerdown d) = quiet d"
  "lock_run (trace (ov5693_sensor_powerdown d)) x = lock_run (trace d) x"
  by (simp_all add: ov5693_sensor_powerdown_def Let_def)

lemma powerup_frame:
  "quiet (snd (ov5693_sensor_powerup E d)) = quiet d"
  "lock_run (trace (snd (ov5693_sensor_powerup E d))) x = lock_run (trace d) x"
  by (simp_all add: ov5693_sensor_powerup_def powerdown_balance Let_def case_prod_beta)

lemma sensor_init_bus_step: "bus_step d (snd (ov5693_sensor_init E d))"
proof -
  have sw: "bus_step x (snd (ov5693_sw_reset E x))" for x
    by (simp add: ov5693_sw_reset_def bus_step_cci_ops)
  have en: "bus_step x (snd (ov5693_enable_streaming E b x))" for x b
    by (simp add: ov5693_enable_streaming_def Let_def bus_step_cci_ops)
  have gl: "bus_step x (snd (cci_multi_reg_write E t (0, x)))" for x :: ov5693 and t
    by (simp add: bus_step_cci_ops)
  show ?thesis
    using bus_step_trans [OF sw gl] bus_step_trans [OF bus_step_trans [OF sw gl] control_bus_step(6)]
      bus_step_trans [OF bus_step_trans [OF bus_step_trans [OF sw gl] control_bus_step(6)] en] sw
    by (simp add: ov5693_sensor_init_def Let_def case_prod_beta)
qed

lemma resume_unfold:
  fixes E d
  defines "p \<equiv> ov5693_sensor_powerup E (kdo Mutex_lock d)"
  defines "q \<equiv> ov5693_sensor_init E (snd p)"
  shows "ov5693_sensor_resume E d = (if fst p \<noteq> 0 then (fst p, kdo Mutex_unlock (snd p))
     else if fst q \<noteq> 0 then (fst q, kdo Mutex_unlock (ov5693_sensor_powerdown (snd q)))
     else (0, kdo Mutex_unlock (snd q)))"
  by (simp add: ov5693_sensor_resume_def Let_def case_prod_beta p_def q_def)

lemma resume_frame:
  "quiet (snd (ov5693_sensor_resume E d)) = quiet d"
  "lock_run (trace (snd (ov5693_sensor_resume E d))) (Some False) =
     (if lock_run (trace d) (Some False) = Some False then Some False else None)"
  "pm_usage (trace (snd (ov5693_sensor_resume E d))) = pm_usage (trace d)"
proof -
  define p where "p = ov5693_sensor_powerup E (kdo Mutex_lock d)"
  define q where "q = ov5693_sensor_init E (snd p)"
  have b: "bus_step (snd p) (snd q)" unfolding q_def by (rule sensor_init_bus_step)
  have pf: "quiet (snd p) = quiet d" "lock_run (trace (snd p)) x = lock_run (trace d @ [(Mutex_lock, 0)]) x" for x
    using powerup_frame [of E "kdo Mutex_lock d"] by (simp_all add: p_def)
  have pd: "pm_usage (trace (ov5693_sensor_powerdown x)) = pm_usage (trace x)" for x
    by (simp add: ov5693_sensor_powerdown_def Let_def)
  have pp: "pm_usage (trace (snd p)) = pm_usage (trace d)"
    by (simp add: p_def ov5693_sensor_powerup_def pd Let_def case_prod_beta)
  note b' = bus_step_quiet [OF b] lock_bus [OF b] weigh_bus [OF b, of pm_weight, folded pm_usage_def]
  show "quiet (snd (ov5693_sensor_resume E d)) = quiet d"
    "lock_run (trace (snd (ov5693_sensor_resume E d))) (Some False) =
       (if lock_run (trace d) (Some False) = Some False then Some False else None)"
    "pm_usage (trace (snd (ov5693_sensor_resume E d))) = pm_usage (trace d)"
    using b' pf pp by (simp_all add: resume_unfold powerdown_balance pd flip: p_def q_def)
qed

text \<open>
  Resuming releases the mutex and changes no driver state; it holds the rails when it succeeds
  and, once powered up, gives them back when the initialisation of the sensor fails.
\<close>

theorem resume_balance:
  "(let (ret, d') = ov5693_sensor_resume E d;
        (up, d1) = ov5693_sensor_powerup E (kdo Mutex_lock d)
    in quiet d' = quiet d \<and>
       lock_run (trace d') (Some False) =
         (if lock_run (trace d) (Some False) = Some False then Some False else None) \<and>
       (if ret = 0 then clk_refs d' = clk_refs d + 1 \<and> supply_refs d' = supply_refs d + 1
        else if up = 0 then clk_refs d' = clk_refs d \<and> supply_refs d' = supply_refs d
        else supply_refs d' = supply_refs d - 1))"
proof -
  define p where "p = ov5693_sensor_powerup E (kdo Mutex_lock d)"
  define q where "q = ov5693_sensor_init E (snd p)"
  have b: "bus_step (snd p) (snd q)" unfolding q_def by (rule sensor_init_bus_step)
  note w = weigh_bus [OF b, of clk_weight] weigh_bus [OF b, of bulk_weight]
  have pb: "if fst p = 0 then clk_refs (snd p) = clk_refs d + 1 \<and> supply_refs (snd p) = supply_refs d + 1
      else supply_refs (snd p) = supply_refs d - 1"
    using powerup_refs [of E "kdo Mutex_lock d"]
    by (simp add: p_def Let_def case_prod_beta split: if_splits)
  show ?thesis
    using pb w resume_frame [of E d]
    by (simp add: resume_unfold Let_def case_prod_beta powerdown_balance flip: p_def q_def)
qed

section \<open>Initialisation\<close>

lemma multi_reg_write_split:
  "bus_effect (Cci_multi_reg_write (t @ t')) m =
     bus_effect (Cci_multi_reg_write t') (bus_effect (Cci_multi_reg_write t) m)"
  by (simp add: bus_effect.simps)

lemma multi_reg_write_last:
  assumes "t = t1 @ (r, v) # t2" and "\<forall>q \<in> table_regs t2. reg_bytes r \<inter> reg_bytes q = {}"
  shows "reg_get (bus_effect (Cci_multi_reg_write t) m) r = take_bit (reg_bits r) v"
proof -
  have "t = (t1 @ [(r, v)]) @ t2" by (simp add: assms(1))
  then show ?thesis
    using multi_reg_write_other [OF assms(2)]
    by (simp only: multi_reg_write_split) (simp add: bus_effect.simps reg_get_put)
qed

lemma global_formats:
  "reg_get (bus_effect (Cci_multi_reg_write ov5693_global_regs) m) OV5693_FORMAT1_REG = 0"
  "reg_get (bus_effect (Cci_multi_reg_write ov5693_global_regs) m) OV5693_FORMAT2_REG = 0x1e"
proof -
  let ?g = "ov5693_global_regs"
  have 1: "?g = take 141 ?g @ (CCI_REG8 0x3820, 0) # [(CCI_REG8 0x3821, 0x1e), (CCI_REG8 0x5041, 0x14)]"
    and 2: "?g = take 142 ?g @ (CCI_REG8 0x3821, 0x1e) # [(CCI_REG8 0x5041, 0x14)]"
    unfolding ov5693_global_regs_def by simp_all
  show "reg_get (bus_effect (Cci_multi_reg_write ?g) m) OV5693_FORMAT1_REG = 0"
    using multi_reg_write_last [OF 1, of m] by (simp add: ov5693_regs table_regs_def)
  show "reg_get (bus_effect (Cci_multi_reg_write ?g) m) OV5693_FORMAT2_REG = 0x1e"
    using multi_reg_write_last [OF 2, of m] by (simp add: ov5693_regs table_regs_def)
qed

text \<open>The writes of a successful initialisation.\<close>

definition ov5693_init_writes :: "ov5693 \<Rightarrow> bus list" where
  "ov5693_init_writes d =
     [Cci_write OV5693_SW_RESET_REG OV5693_SW_RESET, Cci_multi_reg_write ov5693_global_regs] @
     ov5693_mode_writes d @ [Cci_write OV5693_SW_STREAM_REG OV5693_STOP_STREAMING]"

lemma mode_writes_quiet:
  assumes "quiet d = quiet d'"
  shows "ov5693_mode_writes d = ov5693_mode_writes d'"
  by (simp only: ov5693_mode_writes_def ov5693_offset_start_x_def ov5693_flip_vert_bits_def
      quiet_mode [OF assms])

lemma sensor_init_okD:
  assumes "ov5693_sensor_init E d = (0, d')"
  shows "bus_done (trace d') = bus_done (trace d) @ ov5693_init_writes d"
    "chip m d' = regs_after (chip m d) (ov5693_init_writes d)"
proof -
  obtain d1 d2 d3 where 1: "ov5693_sw_reset E d = (0, d1)"
    and 2: "cci_multi_reg_write E ov5693_global_regs (0, d1) = (0, d2)"
    and 3: "ov5693_mode_configure E d2 = (0, d3)" and 4: "ov5693_enable_streaming E False d3 = (0, d')"
    using assms by (auto simp: ov5693_sensor_init_def Let_def split: prod.splits if_splits)
  note s1 = cci_write_okD [OF 1 [unfolded ov5693_sw_reset_def]]
  note s2 = cci_okD [OF 2 [unfolded cci_multi_reg_write_def]]
  note s3 = mode_configure_okD [OF 3]
  have s4: "bus_done (trace d') = bus_done (trace d3) @ [Cci_write OV5693_SW_STREAM_REG OV5693_STOP_STREAMING]"
    using 4 cci_write_okD(1) [of E OV5693_SW_STREAM_REG OV5693_STOP_STREAMING d3 d']
    by (simp add: ov5693_enable_streaming_def Let_def)
  have "ov5693_mode_writes d2 = ov5693_mode_writes d"
    by (rule mode_writes_quiet) (use s1 s2 in simp)
  then show b: "bus_done (trace d') = bus_done (trace d) @ ov5693_init_writes d"
    using s1 s2 s3 s4 by (simp add: ov5693_init_writes_def)
  then show "chip m d' = regs_after (chip m d) (ov5693_init_writes d)" by (simp add: chip_def)
qed

text \<open>
  C16: A successful ov5693_sensor_init leaves FORMAT1 with the vertical binning bit of the mode
  and, when VFLIP is set, the sensor-side flip bit alone in the binned readout and both flip bits
  at full resolution; FORMAT2 has its table value plus the horizontal binning bit; and the sensor
  is left not streaming.
\<close>

theorem sensor_init_formats:
  assumes "ov5693_sensor_init E d = (0, d')"
  defines "flip \<equiv> ctrl_ptr d V4L2_CID_VFLIP \<and> val (ctrls d V4L2_CID_VFLIP) \<noteq> 0"
  shows "reg_get (chip m d') OV5693_FORMAT1_REG =
      (if binning_y (mode d) then OV5693_FORMAT1_VBIN_EN else 0) OR
      (if \<not> flip then 0 else if binning_y (mode d) then OV5693_FORMAT1_FLIP_VERT_SENSOR_EN
       else OV5693_FORMAT1_FLIP_VERT_ISP_EN OR OV5693_FORMAT1_FLIP_VERT_SENSOR_EN)
    \<and> reg_get (chip m d') OV5693_FORMAT2_REG = 0x1e OR (if binning_x (mode d) then OV5693_FORMAT2_HBIN_EN else 0)
    \<and> reg_get (chip m d') OV5693_SW_STREAM_REG = OV5693_STOP_STREAMING"
  unfolding sensor_init_okD(2) [OF assms(1)] flip_def
  by (cases "binning_x (mode d)"; cases "binning_y (mode d)";
      simp add: ov5693_init_writes_def ov5693_mode_writes_def Let_def reg_mem mode_tables_elsewhere
        global_formats [unfolded ov5693_regs] ov5693_regs ov5693_consts ov5693_flip_vert_bits_def BIT_def)

section \<open>Streaming\<close>

lemma op_pm:
  "pm_usage (trace (snd (ov5693_op (ov5693_inner_services (pm_on_env E)) (pm_on_env E) c v d))) =
     pm_usage (trace d)"
proof -
  let ?E = "pm_on_env E"
  have op: "pm_usage (trace (snd (ov5693_op S ?E c v d))) = pm_usage (trace d)"
    if "pm_usage (trace (ov5693_follow_vblank S v d)) = pm_usage (trace d)" for S c v d
    using s_ctrl_pm_usage [of S ?E c v d] that pm_on_env_nonneg [of E]
    by (auto simp: ov5693_op_def not_less [symmetric] split: sum.splits)
  have "pm_usage (trace (snd (ov5693_op no_services ?E c v d))) = pm_usage (trace d)" for c v d
    by (rule op) (simp add: ov5693_follow_vblank_def no_services_def Let_def)
  then show ?thesis
    by (intro op) (simp add: ov5693_follow_vblank_def ov5693_inner_services_def Let_def
        v4l2_keeps [where f = pm_usage])
qed

lemma op_lock:
  "lock_run (trace (snd (ov5693_op (ov5693_inner_services E) E c v d))) x = lock_run (trace d) x"
  using ov5693_core.cb_frame by (metis prod.collapse)

interpretation ov5693_stream: stream_core "ov5693_services (pm_on_env E)" False for E
proof unfold_locales
  fix d d' :: ov5693 and r
  let ?E = "pm_on_env E"
  assume "resume_and_get (ov5693_services ?E) d = (r, d')"
  then have "ov5693_pm_get ?E d = (r, d')" by (simp add: ov5693_services_def)
  then show "r \<le> 0 \<and> pm_usage (trace d') = pm_usage (trace d) + (if r = 0 then 1 else 0) \<and>
      (lock_run (trace d) (Some False) = Some False \<longrightarrow> lock_run (trace d') (Some False) = Some False)"
    using resume_frame [of ?E d]
    by (auto simp: ov5693_pm_get_def klog_def Let_def case_prod_beta split: if_splits)
next
  fix d d' :: ov5693 and r x
  let ?E = "pm_on_env E"
  assume "handler_setup (ov5693_services ?E) d = (r, d')"
  then have d': "d' = snd (v4l2_handler_setup (ov5693_op (ov5693_inner_services ?E) ?E) ov5693_setup_order d)"
    by (simp add: ov5693_services_def ov5693_ctrl_services_def Let_def)
  show "pm_usage (trace d') = pm_usage (trace d) \<and> lock_run (trace d') x = lock_run (trace d) x"
    unfolding d'
    by (intro conjI v4l2_keeps(3) [where f = pm_usage] v4l2_keeps(3) [where f = "\<lambda>t. lock_run t x"])
      (rule op_pm, rule op_lock)
qed

lemma enable_streaming_bus_step: "bus_step d (snd (ov5693_enable_streaming E b d))"
  by (simp add: ov5693_enable_streaming_def Let_def bus_step_cci_ops)

lemma enable_streaming_okD:
  assumes "ov5693_enable_streaming E b d = (0, d')"
  shows "bus_done (trace d') = bus_done (trace d) @
    (if b then [Cci_write OV5693_MIPI_CTRL00_REG OV5693_MIPI_CTRL00_IPU6] else []) @
    [Cci_write OV5693_SW_STREAM_REG (if b then OV5693_START_STREAMING else OV5693_STOP_STREAMING)]"
proof -
  have "ov5693_enable_streaming E b d = fold (cci E)
    ((if b then [Cci_write OV5693_MIPI_CTRL00_REG OV5693_MIPI_CTRL00_IPU6] else []) @
     [Cci_write OV5693_SW_STREAM_REG (if b then OV5693_START_STREAMING else OV5693_STOP_STREAMING)]) (0, d)"
    by (simp add: ov5693_enable_streaming_def Let_def cci_defs)
  with assms fold_cci_ok(1) show ?thesis by metis
qed

text \<open>Starting is the three steps of the code, each of which can end it.\<close>

lemma ov5693_stream_start:
  assumes res: "ov5693_s_stream S E True d = (ret, d')"
  obtains r1 where "resume_and_get S d = (r1, d')" "r1 \<noteq> 0" "ret = r1"
  | d1 r2 d2 x where "resume_and_get S d = (0, d1)" "handler_setup S (kdo Mutex_lock d1) = (r2, d2)" "bus_step d2 x"
      "ret \<noteq> 0" "d' = kdo (Pm Pm_put_noidle) (kdo Mutex_unlock x)"
  | d1 d2 x where "resume_and_get S d = (0, d1)" "handler_setup S (kdo Mutex_lock d1) = (0, d2)" "bus_step d2 x"
      "ret = 0" "d' = kdo Mutex_unlock x"
      "bus_done (trace x) = bus_done (trace d2) @ [Cci_write OV5693_MIPI_CTRL00_REG OV5693_MIPI_CTRL00_IPU6,
          Cci_write OV5693_SW_STREAM_REG OV5693_START_STREAMING]"
proof -
  obtain r1 d1 where 1: "resume_and_get S d = (r1, d1)" by fastforce
  obtain r2 d2 where 2: "handler_setup S (kdo Mutex_lock d1) = (r2, d2)" by fastforce
  obtain r3 d3 where 3: "ov5693_enable_streaming E True d2 = (r3, d3)" by fastforce
  have b: "bus_step d2 d3" using enable_streaming_bus_step [of d2 E True] 3 by simp
  have s: "(ret, d') = (if r1 \<noteq> 0 then (r1, d1) else if r2 \<noteq> 0 then (r2, kdo (Pm Pm_put_noidle) (kdo Mutex_unlock d2))
      else if r3 \<noteq> 0 then (r3, kdo (Pm Pm_put_noidle) (kdo Mutex_unlock d3)) else (0, kdo Mutex_unlock d3))"
    using res 1 2 3 by (auto simp: ov5693_s_stream_def Let_def split: if_splits)
  consider "r1 \<noteq> 0" | "r1 = 0" "r2 \<noteq> 0" | "r1 = 0" "r2 = 0" "r3 \<noteq> 0" | "r1 = 0" "r2 = 0" "r3 = 0" by blast
  then show ?thesis
  proof cases
    case 1
    then show ?thesis using s \<open>resume_and_get S d = (r1, d1)\<close> by (intro that(1) [of r1]) simp_all
  next
    case A: 2
    then show ?thesis using s 1 2 by (intro that(2) [of d1 r2 d2 d2]) simp_all
  next
    case A: 3
    then show ?thesis using s 1 2 b by (intro that(2) [of d1 r2 d2 d3]) simp_all
  next
    case A: 4
    then show ?thesis using s 1 2 b enable_streaming_okD [of E True d2 d3] 3 by (intro that(3) [of d1 d2 d3]) simp_all
  qed
qed

lemma ov5693_stream_on:
  assumes core: "stream_core S False" and free: "lock_run (trace d) (Some False) = Some False"
    and res: "ov5693_s_stream S E True d = (ret, d')"
  shows "lock_run (trace d') (Some False) = Some False \<and>
    (if ret = 0 then pm_usage (trace d') = pm_usage (trace d) + 1 \<and>
       (\<exists>bs. bus_done (trace d') = bs @ [Cci_write OV5693_MIPI_CTRL00_REG OV5693_MIPI_CTRL00_IPU6,
          Cci_write OV5693_SW_STREAM_REG OV5693_START_STREAMING])
     else pm_usage (trace d') = pm_usage (trace d))"
proof -
  note bus = lock_bus weigh_bus [where f = pm_weight, folded pm_usage_def]
  show ?thesis
  proof (cases rule: ov5693_stream_start [OF res])
    case (1 r1)
    then show ?thesis using stream_core.not_resumed [OF core 1(1,2) free] by simp
  next
    case (2 d1 r2 d2 x)
    then show ?thesis
      using stream_core.resumed [OF core 2(1) free] stream_core.setup_law [OF core 2(2)] bus(1) [OF 2(3)] bus(2) [OF 2(3)]
      by simp
  next
    case (3 d1 d2 x)
    then show ?thesis
      using stream_core.resumed [OF core 3(1) free] stream_core.setup_law [OF core 3(2)] bus(1) [OF 3(3)] bus(2) [OF 3(3)]
      by simp
  qed
qed

text \<open>
  C12: Starting the stream releases the mutex on every path; it keeps the PM reference exactly
  when it succeeds, and then the last two bus transfers are the MIPI clock mode and the start of
  streaming, in that order.
\<close>

theorem s_stream_on:
  assumes core: "stream_core S False" and free: "lock_run (trace d) (Some False) = Some False"
    and res: "ov5693_s_stream S E True d = (ret, d')"
  shows "lock_run (trace d') (Some False) = Some False \<and>
    (if ret = 0 then pm_usage (trace d') = pm_usage (trace d) + 1 \<and>
       (\<exists>bs. bus_done (trace d') = bs @ [Cci_write OV5693_MIPI_CTRL00_REG OV5693_MIPI_CTRL00_IPU6,
          Cci_write OV5693_SW_STREAM_REG OV5693_START_STREAMING])
     else pm_usage (trace d') = pm_usage (trace d))"
  using assms by (rule ov5693_stream_on)

lemma ov5693_stream_off:
  "(let (ret, d') = ov5693_s_stream S E False d
    in pm_usage (trace d') = pm_usage (trace d) - 1 \<and>
       lock_run (trace d') (Some False) = (if lock_run (trace d) (Some False) = Some False then Some False else None) \<and>
       quiet d' = quiet d \<and>
       (if ret = 0 then bus_done (trace d') = bus_done (trace d) @ [Cci_write OV5693_SW_STREAM_REG OV5693_STOP_STREAMING]
        else bus_done (trace d') = bus_done (trace d)))"
proof -
  obtain r d1 where 1: "ov5693_enable_streaming E False (kdo Mutex_lock d) = (r, d1)"
    by (cases "ov5693_enable_streaming E False (kdo Mutex_lock d)")
  have b: "bus_step (kdo Mutex_lock d) d1"
    using enable_streaming_bus_step [of "kdo Mutex_lock d" E False] 1 by simp
  have w: "bus_done (trace d1) = bus_done (trace d) @
      (if r = 0 then [Cci_write OV5693_SW_STREAM_REG OV5693_STOP_STREAMING] else [])"
    using 1 by (auto simp: ov5693_enable_streaming_def Let_def cci_defs cci_def kcall_def)
  show ?thesis
    using 1 w bus_step_quiet [OF b] lock_bus [OF b] weigh_bus [OF b, of pm_weight, folded pm_usage_def]
    by (simp add: ov5693_s_stream_def Let_def)
qed

text \<open>
  Stopping the stream releases the mutex and drops one PM reference whether or not the write to
  the sensor succeeds, makes no transfer but that write and changes nothing else.
\<close>

theorem s_stream_off:
  "(let (ret, d') = ov5693_s_stream S E False d
    in pm_usage (trace d') = pm_usage (trace d) - 1 \<and>
       lock_run (trace d') (Some False) = (if lock_run (trace d) (Some False) = Some False then Some False else None) \<and>
       quiet d' = quiet d \<and>
       (if ret = 0 then bus_done (trace d') = bus_done (trace d) @ [Cci_write OV5693_SW_STREAM_REG OV5693_STOP_STREAMING]
        else bus_done (trace d') = bus_done (trace d)))"
  by (rule ov5693_stream_off)

section \<open>Probe and remove\<close>

text \<open>All that \<open>ov5693_init_controls\<close> holds on return is the handler, and only when it succeeds.\<close>

lemma init_controls_weigh:
  assumes "\<And>c r. f (Init (V4l2_ctrl_new c)) r = 0" "\<And>r. f (Init V4l2_fwnode_device_parse) r = 0"
    "\<And>r. f (Init V4l2_ctrl_new_fwnode_properties) r = 0"
    "\<And>r. f (Init V4l2_ctrl_handler_init) r = (if r = 0 then a else 0)"
    "\<And>r. f (Init V4l2_ctrl_handler_free) r = - a"
  shows "weigh f (trace (snd (ov5693_init_controls E d))) =
    weigh f (trace d) + (if fst (ov5693_init_controls E d) = 0 then a else 0)"
  by (simp add: ov5693_init_controls_def Let_def case_prod_beta v4l2_ctrl_new_weigh assms)

lemma detect_weigh: "(\<And>b r. f (Bus b) r = 0) \<Longrightarrow> weigh f (trace (snd (ov5693_detect E d))) = weigh f (trace d)"
  by (simp add: ov5693_detect_def Let_def case_prod_beta)

lemmas err_path_defs = ov5693_err_ctrl_handler_free_def ov5693_err_media_entity_cleanup_def
  ov5693_err_powerdown_def ov5693_err_pm_runtime_def

lemma power_weigh:
  assumes "\<And>a r. f (Rail a) r = 0"
  shows "weigh f (trace (ov5693_sensor_powerdown d)) = weigh f (trace d)"
    "weigh f (trace (snd (ov5693_sensor_powerup E d))) = weigh f (trace d)"
  by (simp_all add: ov5693_sensor_powerdown_def ov5693_sensor_powerup_def Let_def case_prod_beta assms)

text \<open>What \<open>ov5693_probe_start\<close> holds of a resource that is not a rail: all of it or nothing.\<close>

lemma probe_start_weigh:
  assumes "\<And>b r. f (Bus b) r = 0" "\<And>a r. f (Rail a) r = 0"
    "\<And>c r. f (Init (V4l2_ctrl_new c)) r = 0" "\<And>r. f (Init V4l2_fwnode_device_parse) r = 0"
    "\<And>r. f (Init V4l2_ctrl_new_fwnode_properties) r = 0"
    "\<And>r. f (Init V4l2_ctrl_handler_init) r = (if r = 0 then a else 0)"
    "\<And>r. f (Init V4l2_ctrl_handler_free) r = - a"
    "\<And>r. f (Init Media_entity_pads_init) r = (if r = 0 then b else 0)"
    "\<And>r. f (Init Media_entity_cleanup) r = - b"
    "\<And>r. f (Pm Pm_set_active) r = 0" "\<And>n r. f (Pm (Pm_use_autosuspend n)) r = 0"
    "\<And>r. f (Pm Pm_get_noresume) r = g" "\<And>r. f (Pm Pm_put_noidle) r = - g"
    "\<And>r. f (Pm Pm_put_autosuspend) r = - g"
    "\<And>r. f (Pm Pm_enable) r = c" "\<And>r. f (Pm Pm_disable) r = - c"
    "\<And>r. f (Init V4l2_async_register_subdev) r = (if r = 0 then s else 0)"
  shows "weigh f (trace (snd (ov5693_probe_start E d))) =
    weigh f (trace d) + (if fst (ov5693_probe_start E d) = 0 then a + b + c + s else 0)"
  using init_controls_weigh [of f a E d]
  by (simp add: ov5693_probe_start_def err_path_defs Let_def case_prod_beta detect_weigh power_weigh assms)

lemma powerup_ok_refs:
  "fst (ov5693_sensor_powerup E d) = 0 \<Longrightarrow> clk_refs (snd (ov5693_sensor_powerup E d)) = clk_refs d + 1"
  "fst (ov5693_sensor_powerup E d) = 0 \<Longrightarrow> supply_refs (snd (ov5693_sensor_powerup E d)) = supply_refs d + 1"
  using powerup_refs [of E d] by (simp_all add: Let_def case_prod_beta)

lemma probe_start_rails:
  assumes "fst (ov5693_probe_start E d) = 0"
  shows "clk_refs (snd (ov5693_probe_start E d)) = clk_refs d + 1"
    "supply_refs (snd (ov5693_probe_start E d)) = supply_refs d + 1"
  using assms init_controls_weigh [of clk_weight 0 E d] init_controls_weigh [of bulk_weight 0 E d]
  by (auto simp: ov5693_probe_start_def err_path_defs Let_def case_prod_beta detect_weigh powerup_ok_refs
      split: if_splits)

text \<open>
  C8: Whatever calls fail, the second half of ov5693_probe keeps the control handler, the media
  entity, runtime PM and the registration exactly when it succeeds, releases each of them when it
  fails, and leaves the PM usage count as it was.
\<close>

theorem probe_start_releases:
  "(let (ret, d') = ov5693_probe_start E d; held = (\<lambda>f. weigh f (trace d') - weigh f (trace d))
    in held pm_weight = 0 \<and>
       (if ret = 0
        then held handler_weight = 1 \<and> held media_weight = 1 \<and> held rpm_weight = 1 \<and>
          held subdev_weight = 1 \<and> held clk_weight = 1 \<and> held bulk_weight = 1
        else held handler_weight = 0 \<and> held media_weight = 0 \<and> held rpm_weight = 0 \<and>
          held subdev_weight = 0))"
  using probe_start_weigh [of pm_weight 0 0 1 0 0 E d] probe_start_weigh [of handler_weight 1 0 0 0 0 E d]
    probe_start_weigh [of media_weight 0 1 0 0 0 E d] probe_start_weigh [of rpm_weight 0 0 0 1 0 E d]
    probe_start_weigh [of subdev_weight 0 0 0 0 1 E d] probe_start_rails [of E d]
  by (simp add: Let_def case_prod_beta)

text \<open>What \<open>ov5693_remove\<close> gives back; the rails only when the device was not suspended.\<close>

theorem remove_releases:
  "(let d' = ov5693_remove E d; held = (\<lambda>f. weigh f (trace d') - weigh f (trace d));
        before = trace d @ [(Init V4l2_async_unregister_subdev, 0), (Init Media_entity_cleanup, 0),
          (Init V4l2_ctrl_handler_free, 0), (Init Mutex_destroy, 0), (Pm Pm_disable, 0)];
        powered = (if ret_of E before (Pm Pm_status_suspended) = 0 then 1 else 0)
    in held subdev_weight = - 1 \<and> held media_weight = - 1 \<and> held handler_weight = - 1 \<and>
       held rpm_weight = - 1 \<and> held clk_weight = - powered \<and> held bulk_weight = - powered \<and>
       bus_done (trace d') = bus_done (trace d))"
  by (simp add: ov5693_remove_def ov5693_sensor_powerdown_def Let_def case_prod_beta)

text \<open>The endpoints \<open>ov5693_check_hwcfg\<close> accepts; what it parsed it frees.\<close>

theorem check_hwcfg_accepts:
  "(let (ret, d') = ov5693_check_hwcfg E cfg d;
        ep = ret_of E (trace d) (Init Fwnode_graph_get_next_endpoint);
        parsed = ret_of E (trace d @ [(Init Fwnode_graph_get_next_endpoint, ep)]) (Init V4l2_fwnode_endpoint_alloc_parse)
    in (ret = 0 \<longleftrightarrow> ep \<noteq> 0 \<and> parsed = 0 \<and> num_data_lanes cfg = 2 \<and> 419200000 \<in> set (link_frequencies cfg)) \<and>
       (ep = 0 \<longleftrightarrow> ret = - EPROBE_DEFER \<and> trace d' = trace d @ [(Init Fwnode_graph_get_next_endpoint, 0)]) \<and>
       weigh endpoint_weight (trace d') = weigh endpoint_weight (trace d))"
  by (auto simp: ov5693_check_hwcfg_def Let_def case_prod_beta errno_defs ov5693_consts)

lemma v4l2_ctrl_new_mode [simp]: "mode (snd (v4l2_ctrl_new E c k s)) = mode (snd s)"
  by (simp add: v4l2_ctrl_new_def Let_def case_prod_beta)

lemma set_read_only_mode [simp]: "mode (snd (set_read_only c s)) = mode (snd s)"
  by (simp add: set_read_only_def)

lemma probe_start_mode: "mode (snd (ov5693_probe_start E d)) = mode d"
proof -
  have i: "mode (snd (ov5693_init_controls E x)) = mode x" for x
    by (simp add: ov5693_init_controls_def Let_def case_prod_beta)
  have p: "mode (ov5693_sensor_powerdown x) = mode x" for x
    by (simp add: ov5693_sensor_powerdown_def Let_def)
  have u: "mode (snd (ov5693_sensor_powerup E x)) = mode x" for x
    by (rule quiet_mode(1) [OF powerup_frame(1)])
  have t: "mode (snd (ov5693_detect E x)) = mode x" for x
    using quiet_mode(1) [OF kread_simps(4), of E _ x]
    by (simp add: ov5693_detect_def Let_def case_prod_beta)
  show ?thesis
    by (simp add: ov5693_probe_start_def err_path_defs Let_def case_prod_beta i p u t)
qed

lemma probe_steps_mode [simp]:
  "mode (snd (ov5693_check_hwcfg E cfg d)) = mode d"
  "mode (snd (ov5693_configure_gpios E d)) = mode d"
  "mode (snd (ov5693_get_regulators E d)) = mode d"
  by (simp_all add: ov5693_check_hwcfg_def ov5693_configure_gpios_def ov5693_get_regulators_def Let_def
      case_prod_beta)

text \<open>
  C25: After a successful probe of the OV5693 the mode is exactly: crop 2592x1944 at (16, 6),
  format 2592x1944 in 10-bit Bayer order BGGR, no binning, a frame length of 2078, and odd
  increments 0; when that mode is programmed the sub-sampling increment registers become 0x01.
\<close>

theorem probe_mode:
  assumes "ov5693_probe E cfg d = Inr (0, d')"
  shows "mode d' = \<lparr>m_crop = \<lparr>r_left = 16, r_top = 6, r_width = 2592, r_height = 1944\<rparr>,
      m_format = \<lparr>f_width = 2592, f_height = 1944, f_code = 0x3007\<rparr>,
      binning_x = False, binning_y = False, inc_x_odd = 0, inc_y_odd = 0, vts = 2078\<rparr> \<and>
    (ov5693_mode_configure E' d' = (0, d'') \<longrightarrow>
      reg_get (chip m d'') OV5693_SUB_INC_X_REG = 0x01 \<and> reg_get (chip m d'') OV5693_SUB_INC_Y_REG = 0x01)"
proof -
  have m: "mode d' = mode x" if "ov5693_probe_start E x = (0, d')" for x
    using probe_start_mode [of E x] that by simp
  have k: "mode d' = \<lparr>m_crop = \<lparr>r_left = 16, r_top = 6, r_width = 2592, r_height = 1944\<rparr>,
      m_format = \<lparr>f_width = 2592, f_height = 1944, f_code = 0x3007\<rparr>,
      binning_x = False, binning_y = False, inc_x_odd = 0, inc_y_odd = 0, vts = 2078\<rparr>"
    using assms
    by (auto simp: ov5693_probe_def Let_def case_prod_beta calc_vts_value errno_defs ov5693_default_crop_def
        ov5693_default_fmt_def zero_mode_def ov5693_consts split: if_splits dest!: m)
  have "reg_get (chip m d'') OV5693_SUB_INC_X_REG = 0x01 \<and> reg_get (chip m d'') OV5693_SUB_INC_Y_REG = 0x01"
    if c: "ov5693_mode_configure E' d' = (0, d'')"
    unfolding mode_configure_okD(3) [OF c, of m]
    by (simp add: k ov5693_mode_writes_def Let_def reg_mem mode_tables_elsewhere ov5693_regs zext64_def)
  with k show ?thesis by blast
qed

text \<open>The sub-sampling increments programmed for each odd increment.\<close>

theorem sub_inc_registers:
  assumes "ov5693_mode_configure E d = (0, d')"
  shows "reg_get (chip m d') OV5693_SUB_INC_X_REG =
      (if inc_x_odd (mode d) = 0 then 0x01 else if inc_x_odd (mode d) = 1 then 0x11
       else if inc_x_odd (mode d) = 3 then 0x31 else take_bit 8 (zext64 ((push_bit 4 (inc_x_odd (mode d)) AND 0xf0) OR 0x01)))"
  unfolding mode_configure_okD(3) [OF assms, of m]
  by (cases "binning_x (mode d) \<or> binning_y (mode d)";
      simp add: ov5693_mode_writes_def Let_def reg_mem mode_tables_elsewhere ov5693_regs zext64_def)

section \<open>Witnesses of the power and probe properties\<close>

text \<open>A machine on which every call succeeds, with the sensor and its endpoint present.\<close>

definition ov5693_env :: env where
  "ov5693_env = \<lparr>ret_of = (\<lambda>tr e. if e = Init Fwnode_graph_get_next_endpoint then 1 else 0),
     val_of = (\<lambda>tr e. if e = Bus (Cci_read OV5693_REG_CHIP_ID) then OV5693_CHIP_ID else 0)\<rparr>"

definition ov5693_cfg :: bus_cfg where
  "ov5693_cfg = \<lparr>num_data_lanes = 2, link_frequencies = [419200000]\<rparr>"

lemma powerup_sequence_witness:
  "trace (snd (ov5693_sensor_powerup sample_env ov5693_sample)) =
     [(Rail (Gpiod_set Gpio_reset 1), 0), (Rail (Gpiod_set Gpio_powerdown 1), 0),
      (Rail Clk_prepare_enable, 0), (Rail Regulator_bulk_enable, 0),
      (Rail (Gpiod_set Gpio_powerdown 0), 0), (Rail (Gpiod_set Gpio_reset 0), 0),
      (Rail (Usleep_range 5000 7500), 0)]"
proof -
  have "ov5693_sensor_powerup sample_env ov5693_sample =
      (0, snd (ov5693_sensor_powerup sample_env ov5693_sample))"
    by (rule zero_split) (simp add: ov5693_sensor_powerup_def Let_def case_prod_beta)
  from powerup_sequence [OF this] show ?thesis by (simp add: ov5693_sample_def)
qed

lemma sample_init: "fst (ov5693_sensor_init sample_env d) = 0"
  by (simp add: ov5693_sensor_init_def ov5693_sw_reset_def ov5693_enable_streaming_def
      mode_configure_fold Let_def case_prod_beta)

lemma sensor_init_formats_witness:
  "reg_get (chip (\<lambda>_. 0) (snd (ov5693_sensor_init sample_env
     (ov5693_sample\<lparr>mode := (mode ov5693_sample)\<lparr>binning_x := True, binning_y := True\<rparr>,
        ctrls := (ctrls ov5693_sample)(V4L2_CID_VFLIP := std_ctrl 0 1 1 1)\<rparr>)))) OV5693_FORMAT1_REG = 0x03"
proof -
  let ?d = "ov5693_sample\<lparr>mode := (mode ov5693_sample)\<lparr>binning_x := True, binning_y := True\<rparr>,
    ctrls := (ctrls ov5693_sample)(V4L2_CID_VFLIP := std_ctrl 0 1 1 1)\<rparr>"
  have c: "ov5693_sensor_init sample_env ?d = (0, snd (ov5693_sensor_init sample_env ?d))"
    by (rule zero_split) (rule sample_init)
  show ?thesis
    using sensor_init_formats [OF c, of "\<lambda>_. 0"]
    by (simp add: ov5693_sample_def std_ctrl_def ov5693_consts BIT_def)
qed

lemma s_stream_on_witness:
  "\<exists>ret d'. ov5693_s_stream (ov5693_services (pm_on_env sample_env)) sample_env True ov5693_sample = (ret, d') \<and>
     lock_run (trace d') (Some False) = Some False"
proof -
  obtain ret d' where r: "ov5693_s_stream (ov5693_services (pm_on_env sample_env)) sample_env True ov5693_sample = (ret, d')"
    by (cases "ov5693_s_stream (ov5693_services (pm_on_env sample_env)) sample_env True ov5693_sample")
  have "lock_run (trace ov5693_sample) (Some False) = Some False" by (simp add: ov5693_sample_def)
  from s_stream_on [OF ov5693_stream.stream_core_axioms this r] r show ?thesis by simp
qed

lemma sample_probe_start: "fst (ov5693_probe_start ov5693_env d) = 0"
proof -
  have n: "fst (v4l2_ctrl_new ov5693_env c k s) = fst s" for c k and s :: "int \<times> ov5693"
    by (simp add: v4l2_ctrl_new_def ov5693_env_def Let_def case_prod_beta)
  have r: "fst (set_read_only c s) = fst s" for c and s :: "int \<times> ov5693"
    by (simp add: set_read_only_def)
  have i: "fst (ov5693_init_controls ov5693_env x) = 0" for x
    by (simp add: ov5693_init_controls_def Let_def case_prod_beta n r) (simp add: ov5693_env_def)
  have u: "fst (ov5693_sensor_powerup ov5693_env x) = 0" for x
    by (simp add: ov5693_sensor_powerup_def ov5693_env_def Let_def case_prod_beta)
  have t: "fst (ov5693_detect ov5693_env x) = 0" for x
    by (simp add: ov5693_detect_def Let_def case_prod_beta) (simp add: ov5693_env_def)
  show ?thesis
    by (simp add: ov5693_probe_start_def Let_def case_prod_beta i u t) (simp add: ov5693_env_def)
qed

lemma sample_probe: "\<exists>d'. ov5693_probe ov5693_env ov5693_cfg d = Inr (0, d')"
proof -
  have h: "fst (ov5693_check_hwcfg ov5693_env ov5693_cfg x) = 0"
    "fst (ov5693_configure_gpios ov5693_env x) = 0" "fst (ov5693_get_regulators ov5693_env x) = 0" for x
    by (simp_all add: ov5693_check_hwcfg_def ov5693_configure_gpios_def ov5693_get_regulators_def
        Let_def case_prod_beta ov5693_env_def ov5693_cfg_def ov5693_consts)
  have e: "ret_of ov5693_env tr (Init Devm_kzalloc) = 0" "ret_of ov5693_env tr (Init Devm_cci_regmap_init_i2c) = 0"
    "ret_of ov5693_env tr (Init Devm_v4l2_sensor_clk_get) = 0" for tr
    by (simp_all add: ov5693_env_def)
  show ?thesis
    by (simp add: ov5693_probe_def Let_def case_prod_beta h e calc_vts_value ov5693_default_fmt_def
        ov5693_consts prod_eq_iff sample_probe_start)
qed

lemma probe_mode_witness:
  "\<exists>d'. ov5693_probe ov5693_env ov5693_cfg ov5693_sample = Inr (0, d') \<and> vts (mode d') = 2078 \<and>
     reg_get (chip (\<lambda>_. 0) (snd (ov5693_mode_configure sample_env d'))) OV5693_SUB_INC_X_REG = 0x01"
proof -
  obtain d' where p: "ov5693_probe ov5693_env ov5693_cfg ov5693_sample = Inr (0, d')"
    using sample_probe by blast
  have c: "ov5693_mode_configure sample_env d' = (0, snd (ov5693_mode_configure sample_env d'))"
    by (rule zero_split) (simp add: mode_configure_fold)
  show ?thesis using probe_mode [OF p, of sample_env _ "\<lambda>_. 0"] c p by auto
qed
lemma sub_inc_registers_witness:
  "reg_get (chip (\<lambda>_. 0) (snd (ov5693_mode_configure sample_env
     (ov5693_sample\<lparr>mode := (mode ov5693_sample)\<lparr>inc_x_odd := 0\<rparr>\<rparr>)))) OV5693_SUB_INC_X_REG = 0x01"
proof -
  let ?d = "ov5693_sample\<lparr>mode := (mode ov5693_sample)\<lparr>inc_x_odd := 0\<rparr>\<rparr>"
  have c: "ov5693_mode_configure sample_env ?d = (0, snd (ov5693_mode_configure sample_env ?d))"
    by (rule zero_split) (simp add: mode_configure_fold)
  show ?thesis using sub_inc_registers [OF c, of "\<lambda>_. 0"] by simp
qed

end
