(* ===== verification/Lifecycle.thy ===== *)
theory Lifecycle
  imports Kernel
begin

text \<open>
  The life of a sensor driver between probe and remove, for both drivers: the V4L2 core starts a
  stream only when it is stopped and stops it only when it is started, the other entry points run at
  any time, and runtime PM suspends the device when nobody holds a reference. The contract of a
  driver is the locale \<open>camera_driver\<close>; what holds in every reachable state follows from it.
\<close>

section \<open>Steps\<close>

text \<open>
  The entry points as relations between the device before and after: the start of the stream with
  its result, the stop, any other call of a client, and the runtime suspend callback.
\<close>

record 'd camera_ops =
  start_op :: "'d \<Rightarrow> int \<Rightarrow> 'd \<Rightarrow> bool"
  stop_op :: "'d \<Rightarrow> 'd \<Rightarrow> bool"
  client_op :: "'d \<Rightarrow> 'd \<Rightarrow> bool"
  suspend_op :: "'d \<Rightarrow> 'd \<Rightarrow> bool"

inductive camera_step :: "'a kdev_scheme camera_ops \<Rightarrow> bool \<times> 'a kdev_scheme \<Rightarrow> bool \<times> 'a kdev_scheme \<Rightarrow> bool"
  for C where
  start: "start_op C d r d' \<Longrightarrow> camera_step C (False, d) (r = 0, d')"
| stop: "stop_op C d d' \<Longrightarrow> camera_step C (True, d) (False, d')"
| client: "client_op C d d' \<Longrightarrow> camera_step C (on, d) (on, d')"
| suspend: "pm_usage (trace d) = 0 \<Longrightarrow> rpm_active d \<Longrightarrow> suspend_op C d d' \<Longrightarrow> camera_step C (on, d) (on, d')"

inductive_cases camera_stepE: "camera_step C (on, d) (on', d')"

section \<open>What a state holds\<close>

abbreviation mutex_free :: "'a kdev_scheme \<Rightarrow> bool" where
  "mutex_free d \<equiv> lock_run (trace d) (Some False) = Some False"

text \<open>The references on each rail, less the one an active device holds.\<close>

definition rail_slack :: "(ev \<Rightarrow> int \<Rightarrow> int) list \<Rightarrow> 'a kdev_scheme \<Rightarrow> int list" where
  "rail_slack W d = map (\<lambda>f. weigh f (trace d) - (if rpm_active d then 1 else 0)) W"

text \<open>A weight that only the clock and the supplies have.\<close>

definition rail_only :: "(ev \<Rightarrow> int \<Rightarrow> int) \<Rightarrow> bool" where
  "rail_only f \<longleftrightarrow> (\<forall>b r. f (Bus b) r = 0) \<and> (\<forall>p r. f (Pm p) r = 0) \<and> (\<forall>i r. f (Init i) r = 0) \<and>
     (\<forall>r. f Mutex_lock r = 0 \<and> f Mutex_unlock r = 0)"

lemma rail_weights [simp]: "rail_only clk_weight" "rail_only bulk_weight" "rail_only (supply_weight s)"
  by (simp_all add: rail_only_def)

lemma rail_onlyD:
  assumes "rail_only f"
  shows "f (Bus b) r = 0" "f (Pm p) r = 0" "f (Init i) r = 0" "f Mutex_lock r = 0" "f Mutex_unlock r = 0"
  using assms by (simp_all add: rail_only_def)

text \<open>
  What most calls leave alone: the mutex, the runtime PM references, the rails and the power state.
  A call that takes the mutex leaves alone what it finds between its lock and its unlock.
\<close>

definition inert :: "'a kdev_scheme \<Rightarrow> 'a kdev_scheme \<Rightarrow> bool" where
  "inert d d' \<longleftrightarrow> rpm_active d' = rpm_active d \<and> (\<forall>x. lock_run (trace d') x = lock_run (trace d) x) \<and>
     pm_usage (trace d') = pm_usage (trace d) \<and> (\<forall>f. rail_only f \<longrightarrow> weigh f (trace d') = weigh f (trace d))"

definition critical :: "'a kdev_scheme \<Rightarrow> 'a kdev_scheme \<Rightarrow> bool" where
  "critical d d' \<longleftrightarrow> (\<exists>x. inert (kdo Mutex_lock d) x \<and> inert (kdo Mutex_unlock x) d')"

lemma inert_refl [simp]: "inert d d"
  by (simp add: inert_def)

lemma inert_trans [trans]: "inert d d' \<Longrightarrow> inert d' d'' \<Longrightarrow> inert d d''"
  by (simp add: inert_def)

lemma inert_same: "trace d' = trace d \<Longrightarrow> rpm_active d' = rpm_active d \<Longrightarrow> inert d d'"
  by (simp add: inert_def)

lemma inert_ctrls [simp]: "inert d (d\<lparr>ctrls := c\<rparr>)" "inert (d\<lparr>ctrls := c\<rparr>) d' = inert d d'"
  by (simp_all add: inert_def)

lemma inert_init: "inert d d' \<Longrightarrow> inert d (snd (kcall E (Init i) d'))" "inert d d' \<Longrightarrow> inert d (kdo (Init i) d')"
  by (simp_all add: inert_def rail_onlyD)

lemma inert_kdo: "inert d d' \<Longrightarrow> inert (kdo e d) (kdo e d')"
  by (simp add: inert_def)

lemma inert_bus: "bus_step d d' \<Longrightarrow> inert d d'"
  using lock_bus [of d d'] weigh_bus [of d d'] quiet_fields(3) [OF bus_step_quiet, of d d']
  by (simp add: inert_def pm_usage_def rail_onlyD)

lemma criticalI:
  assumes "inert (kdo Mutex_lock d) x" and "trace d' = trace x @ [(Mutex_unlock, 0)]" "rpm_active d' = rpm_active x"
  shows "critical d d'"
  unfolding critical_def by (rule exI [of _ x]) (simp add: assms inert_same)

lemma rpm_kread [simp]: "rpm_active (snd (snd (kread E e d))) = rpm_active d"
  by (rule quiet_fields(3)) simp

text \<open>Creating controls is inert.\<close>

lemma ctrl_new_inert: "inert d (snd s) \<Longrightarrow> inert d (snd (v4l2_ctrl_new E c k s))"
  by (simp add: v4l2_ctrl_new_def inert_def rail_onlyD Let_def case_prod_beta)

lemma set_read_only_inert: "inert d (snd s) \<Longrightarrow> inert d (snd (set_read_only c s))"
  by (simp add: set_read_only_def inert_def)

text \<open>What every call of the driver leaves alone, the control core leaves alone.\<close>

lemma inert_core:
  assumes "\<And>c v d. inert d (snd (cb c v d))"
  shows "inert d (snd (v4l2_modify_range cb c lo hi st df d))" "inert d (snd (v4l2_set_ctrl cb c v d))"
    "inert d (snd (v4l2_handler_setup cb cs d))"
proof -
  have a: "inert d (snd (v4l2_apply cb c v d))" for c v d
    using assms [of d c v] inert_trans [OF assms inert_ctrls(1)]
    by (simp add: v4l2_apply_def Let_def case_prod_beta)
  have m: "inert d (snd (v4l2_apply cb c v (d\<lparr>ctrls := k\<rparr>)))" for c v d k
    using inert_trans [OF inert_ctrls(1) a] .
  show "inert d (snd (v4l2_modify_range cb c lo hi st df d))" "inert d (snd (v4l2_set_ctrl cb c v d))"
    by (simp_all add: v4l2_modify_range_def v4l2_set_ctrl_def Let_def a m)
  show "inert d (snd (v4l2_handler_setup cb cs d))"
    unfolding v4l2_handler_setup_def
    by (rule seq_until_inv [where P = "inert d"]) (auto intro: inert_trans assms)
qed

text \<open>A use of the device bracketed by \<open>pm_runtime_get_if_in_use\<close> and \<open>pm_runtime_put\<close>.\<close>

lemma inert_in_use:
  assumes "0 \<le> ret_of E (trace d) (Pm Pm_get_if_in_use)" and "inert (snd (kcall E (Pm Pm_get_if_in_use) d)) x"
  shows "inert d (if ret_of E (trace d) (Pm Pm_get_if_in_use) = 0 then snd (kcall E (Pm Pm_get_if_in_use) d)
    else kdo (Pm Pm_put) x)"
  using assms by (simp add: inert_def rail_onlyD)

text \<open>Services whose control operations are inert.\<close>

definition inert_services :: "'a kdev_scheme services \<Rightarrow> bool" where
  "inert_services S \<longleftrightarrow> (\<forall>c lo hi st df d. inert d (snd (modify_range S c lo hi st df d))) \<and>
     (\<forall>c v d. inert d (snd (set_ctrl S c v d)))"

lemma inert_servicesD:
  assumes "inert_services S"
  shows "inert d (snd (modify_range S c lo hi st df d))" "inert d (snd (set_ctrl S c v d))"
  using assms by (simp_all add: inert_services_def)

lemma rail_slack_inert:
  assumes "inert d d'" and "\<forall>f \<in> set W. rail_only f"
  shows "rail_slack W d' = rail_slack W d"
  using assms by (simp add: rail_slack_def inert_def)

lemma rail_slack_kdo:
  assumes "\<forall>f \<in> set W. rail_only f"
  shows "rail_slack W (kdo (Pm p) d) = rail_slack W d" "rail_slack W (kdo Mutex_lock d) = rail_slack W d"
    "rail_slack W (kdo Mutex_unlock d) = rail_slack W d" "rail_slack W (klog (Pm p) r d) = rail_slack W d"
  using assms by (simp_all add: rail_slack_def klog_def rail_onlyD)

lemma pm_on_id:
  assumes "\<forall>tr. 0 \<le> ret_of E tr (Pm Pm_get_if_in_use)"
  shows "pm_on_env E = E"
  using assms by (simp add: pm_on_env_def fun_eq_iff)

text \<open>The answer a removal gets when it asks whether the device is suspended.\<close>

definition remove_status :: "env \<Rightarrow> 'a kdev_scheme \<Rightarrow> int" where
  "remove_status E d = ret_of E (trace d @ [(Init V4l2_async_unregister_subdev, 0), (Init Media_entity_cleanup, 0),
     (Init V4l2_ctrl_handler_free, 0), (Init Mutex_destroy, 0), (Pm Pm_disable, 0)]) (Pm Pm_status_suspended)"

section \<open>The services a driver powers up through\<close>

text \<open>
  Beyond the laws of \<open>stream_core\<close>: a resume that succeeds leaves the device active, and the rails
  move exactly with that state; applying the controls is inert.
\<close>

locale stream_power = stream_core S held
  for S :: "'a kdev_scheme services" and held :: bool +
  fixes W :: "(ev \<Rightarrow> int \<Rightarrow> int) list"
  assumes weights: "\<forall>f \<in> set W. rail_only f"
    and resume_rails: "resume_and_get S d = (r, d') \<Longrightarrow> rail_slack W d' = rail_slack W d \<and> (r = 0 \<longrightarrow> rpm_active d')"
    and setup_inert: "handler_setup S d = (r, d') \<Longrightarrow> inert d d'"
    and controls_inert: "inert_services S"
begin

text \<open>Calls of the runtime PM core and of the mutex move no rail.\<close>

lemma slack_kdo:
  "rail_slack W (kdo (Pm p) d) = rail_slack W d" "rail_slack W (kdo Mutex_lock d) = rail_slack W d"
  "rail_slack W (kdo Mutex_unlock d) = rail_slack W d"
  by (simp_all add: rail_slack_kdo weights)

lemma slack_bus: "bus_step d d' \<Longrightarrow> rail_slack W d' = rail_slack W d"
  using rail_slack_inert [OF inert_bus weights] .

lemma slack_setup: "handler_setup S d = (r, d') \<Longrightarrow> rail_slack W d' = rail_slack W d"
  using rail_slack_inert [OF setup_inert weights] .

text \<open>Inert calls and critical sections keep the invariant of a driver.\<close>

lemma inert_keeps:
  assumes "inert d d'" and "mutex_free d"
  shows "mutex_free d' \<and> rail_slack W d' = rail_slack W d \<and> pm_usage (trace d') = pm_usage (trace d) \<and>
    rpm_active d' = rpm_active d"
  using assms rail_slack_inert [OF assms(1) weights] by (simp add: inert_def)

lemma critical_keeps:
  assumes "critical d d'" and "mutex_free d"
  shows "mutex_free d' \<and> rail_slack W d' = rail_slack W d \<and> pm_usage (trace d') = pm_usage (trace d) \<and>
    rpm_active d' = rpm_active d"
proof -
  from assms(1) obtain x where x: "inert (kdo Mutex_lock d) x" "inert (kdo Mutex_unlock x) d'"
    by (auto simp: critical_def)
  from rail_slack_inert [OF x(1) weights] rail_slack_inert [OF x(2) weights]
  have "rail_slack W d' = rail_slack W d" by (simp add: rail_slack_kdo weights)
  with x assms(2) show ?thesis by (simp add: inert_def)
qed

text \<open>A control set by a client, with the lock of the handler held.\<close>

lemma user_ctrl_critical: "critical d (kdo Mutex_unlock (snd (set_ctrl S c v (kdo Mutex_lock d))))"
  unfolding critical_def using inert_servicesD(2) [OF controls_inert] inert_refl by blast

end

section \<open>The contract\<close>

text \<open>The invariant of the states reachable from a stopped device \<open>d0\<close> nobody holds a reference on.\<close>

definition camera_inv :: "(ev \<Rightarrow> int \<Rightarrow> int) list \<Rightarrow> int \<Rightarrow> int list \<Rightarrow> bool \<times> 'a kdev_scheme \<Rightarrow> bool" where
  "camera_inv W base rails s = (case s of (on, d) \<Rightarrow> mutex_free d \<and> rail_slack W d = rails \<and>
     pm_usage (trace d) = base + (if on then 1 else 0) \<and> (on \<longrightarrow> 0 \<le> base \<longrightarrow> rpm_active d))"

locale camera_driver =
  fixes C :: "'a kdev_scheme camera_ops" and W :: "(ev \<Rightarrow> int \<Rightarrow> int) list"
  assumes start_law: "start_op C d r d' \<Longrightarrow> mutex_free d \<Longrightarrow> mutex_free d' \<and> rail_slack W d' = rail_slack W d \<and>
      pm_usage (trace d') = pm_usage (trace d) + (if r = 0 then 1 else 0) \<and> (r = 0 \<longrightarrow> rpm_active d')"
    and stop_law: "stop_op C d d' \<Longrightarrow> mutex_free d \<Longrightarrow> mutex_free d' \<and> rail_slack W d' = rail_slack W d \<and>
      pm_usage (trace d') = pm_usage (trace d) - 1"
    and client_law: "client_op C d d' \<Longrightarrow> mutex_free d \<Longrightarrow> mutex_free d' \<and> rail_slack W d' = rail_slack W d \<and>
      pm_usage (trace d') = pm_usage (trace d) \<and> rpm_active d' = rpm_active d"
    and suspend_law: "suspend_op C d d' \<Longrightarrow> rpm_active d \<Longrightarrow> mutex_free d \<Longrightarrow>
      mutex_free d' \<and> rail_slack W d' = rail_slack W d \<and> pm_usage (trace d') = pm_usage (trace d)"
    and stop_total: "\<exists>d'. stop_op C d d'"
begin

lemma step_inv:
  assumes st: "camera_step C (on, d) (on', d')" and i: "camera_inv W base rails (on, d)"
  shows "camera_inv W base rails (on', d')"
proof (rule camera_stepE [OF st])
  fix r
  assume "\<not> on" "on' = (r = 0)" "start_op C d r d'"
  then show ?thesis using start_law i by (auto simp: camera_inv_def)
next
  assume "on" "\<not> on'" "stop_op C d d'"
  then show ?thesis using stop_law i by (auto simp: camera_inv_def)
next
  assume "on' = on" "client_op C d d'"
  then show ?thesis using client_law i by (auto simp: camera_inv_def)
next
  assume "on' = on" "pm_usage (trace d) = 0" "rpm_active d" "suspend_op C d d'"
  then show ?thesis using suspend_law i by (auto simp: camera_inv_def)
qed

lemma reachable_inv:
  assumes "(camera_step C)\<^sup>*\<^sup>* s s'" and "camera_inv W base rails s"
  shows "camera_inv W base rails s'"
  using assms
proof (induction rule: rtranclp_induct)
  case (step y z)
  then show ?case by (cases y, cases z) (use step_inv in blast)
qed

end

context camera_driver
begin

lemma reachable:
  assumes "(camera_step C)\<^sup>*\<^sup>* (False, d) (on, d')" and "mutex_free d"
  shows "mutex_free d'" "rail_slack W d' = rail_slack W d"
    "pm_usage (trace d') = pm_usage (trace d) + (if on then 1 else 0)"
    "on \<Longrightarrow> 0 \<le> pm_usage (trace d) \<Longrightarrow> rpm_active d'"
  using reachable_inv [OF assms(1), of "pm_usage (trace d)" "rail_slack W d"] assms(2)
  by (simp_all add: camera_inv_def)

text \<open>A reachable stream can be stopped, and then everything is as before the start.\<close>

lemma can_stop:
  assumes r: "(camera_step C)\<^sup>*\<^sup>* (False, d) (True, d')" and "mutex_free d"
  shows "\<exists>d''. camera_step C (True, d') (False, d'') \<and> mutex_free d'' \<and> rail_slack W d'' = rail_slack W d \<and>
    pm_usage (trace d'') = pm_usage (trace d)"
proof -
  obtain d'' where "stop_op C d' d''" using stop_total by blast
  then have st: "camera_step C (True, d') (False, d'')" by (rule camera_step.stop)
  with r have "(camera_step C)\<^sup>*\<^sup>* (False, d) (False, d'')" by (rule rtranclp.rtrancl_into_rtrancl)
  from st reachable [OF this assms(2)] show ?thesis by auto
qed

end

end
