(* ===== verification/Ov5693_Lifecycle.thy ===== *)
theory Ov5693_Lifecycle
  imports Ov5693_Power Lifecycle
begin

text \<open>
  The life of the OV5693 between probe and remove: the entry points of the driver
  (\<open>dkms/ov5693-surface/ov5693.c\<close>) as the operations of a \<open>camera_driver\<close>, what each of them keeps of
  the mutex, the PM references, the rails and the power state, and the properties of every state
  reachable from a successful probe.
\<close>

section \<open>The control operations are inert\<close>

lemma ov5693_op_inert:
  assumes "\<And>d. inert d (ov5693_follow_vblank S v d)" and "\<forall>tr. 0 \<le> ret_of E tr (Pm Pm_get_if_in_use)"
  shows "inert d (snd (ov5693_op S E c v d))"
proof -
  define d0 where "d0 = (if c = V4L2_CID_VBLANK then ov5693_follow_vblank S v d else d)"
  let ?d1 = "snd (kcall E (Pm Pm_get_if_in_use) d0)"
  have i: "inert d d0" using assms(1) by (simp add: d0_def)
  show ?thesis
  proof (cases "ov5693_apply_ctrl E c v ?d1")
    case (Inl f)
    have "snd (ov5693_op S E c v d) =
        (if ret_of E (trace d0) (Pm Pm_get_if_in_use) = 0 then ?d1 else d)"
      using Inl by (simp add: ov5693_op_def ov5693_s_ctrl_def Let_def case_prod_beta flip: d0_def)
    then show ?thesis
      using inert_trans [OF i inert_in_use [OF spec [OF assms(2)] inert_refl]] by (simp split: if_splits)
  next
    case (Inr p)
    have "snd (ov5693_op S E c v d) =
        (if ret_of E (trace d0) (Pm Pm_get_if_in_use) = 0 then ?d1 else kdo (Pm Pm_put) (snd p))"
      using Inr by (simp add: ov5693_op_def ov5693_s_ctrl_def Let_def case_prod_beta flip: d0_def)
    then show ?thesis
      using inert_trans [OF i inert_in_use [OF spec [OF assms(2)] inert_bus [OF apply_ctrl_bus_step [OF Inr]]]] by simp
  qed
qed

lemma ov5693_services_inert:
  defines "A \<equiv> \<lambda>E. ov5693_services (pm_on_env E)"
  shows "inert_services (A E)" "inert d (snd (handler_setup (A E) d))"
proof -
  let ?E = "pm_on_env E"
  have use: "\<forall>tr. 0 \<le> ret_of ?E tr (Pm Pm_get_if_in_use)" by (simp add: pm_on_env_nonneg)
  have 0: "inert d (snd (ov5693_op no_services ?E c v d))" for c v d
    by (rule ov5693_op_inert [OF _ use]) (simp add: ov5693_follow_vblank_def no_services_def Let_def)
  have 1: "inert d (snd (ov5693_op (ov5693_inner_services ?E) ?E c v d))" for c v d
    by (rule ov5693_op_inert [OF _ use])
      (simp add: ov5693_follow_vblank_def ov5693_inner_services_def Let_def inert_core(1) [OF 0])
  show "inert_services (A E)" "inert d (snd (handler_setup (A E) d))"
    using inert_core [OF 1]
    by (simp_all add: A_def inert_services_def ov5693_services_def ov5693_ctrl_services_def Let_def)
qed

section \<open>The power services\<close>

abbreviation ov5693_rails :: "(ev \<Rightarrow> int \<Rightarrow> int) list" where
  "ov5693_rails \<equiv> [bulk_weight, clk_weight]"

text \<open>
  An environment whose clock and supplies come up: a power-up that fails drops references it never
  took (\<open>powerup_balance\<close>), so nothing is kept in balance without it.
\<close>

definition rails_up_env :: "env \<Rightarrow> env" where
  "rails_up_env E = E\<lparr>ret_of := (\<lambda>tr e. case e of Rail a \<Rightarrow> 0 | _ \<Rightarrow> ret_of E tr e)\<rparr>"

lemma powerup_up:
  assumes "\<forall>tr a. ret_of E tr (Rail a) = 0"
  shows "fst (ov5693_sensor_powerup E d) = 0"
  using assms by (simp add: ov5693_sensor_powerup_def Let_def case_prod_beta)

lemma ov5693_resume_rails:
  assumes "\<forall>tr a. ret_of E tr (Rail a) = 0"
  shows "clk_refs (snd (ov5693_sensor_resume E d)) = clk_refs d + (if fst (ov5693_sensor_resume E d) = 0 then 1 else 0)"
    "supply_refs (snd (ov5693_sensor_resume E d)) = supply_refs d + (if fst (ov5693_sensor_resume E d) = 0 then 1 else 0)"
proof -
  define p where "p = ov5693_sensor_powerup E (kdo Mutex_lock d)"
  define q where "q = ov5693_sensor_init E (snd p)"
  have b: "bus_step (snd p) (snd q)" unfolding q_def by (rule sensor_init_bus_step)
  note w = weigh_bus [OF b, of clk_weight] weigh_bus [OF b, of bulk_weight]
  have 0: "fst p = 0" using powerup_up [OF assms] by (simp add: p_def)
  have "clk_refs (snd p) = clk_refs d + 1 \<and> supply_refs (snd p) = supply_refs d + 1"
    using powerup_refs [of E "kdo Mutex_lock d"] 0 by (simp add: Let_def case_prod_beta flip: p_def)
  then show "clk_refs (snd (ov5693_sensor_resume E d)) = clk_refs d + (if fst (ov5693_sensor_resume E d) = 0 then 1 else 0)"
    "supply_refs (snd (ov5693_sensor_resume E d)) = supply_refs d + (if fst (ov5693_sensor_resume E d) = 0 then 1 else 0)"
    using 0 w by (simp_all add: resume_unfold powerdown_balance flip: p_def q_def)
qed

lemma ov5693_pm_get_rails:
  assumes "\<forall>tr a. ret_of E tr (Rail a) = 0"
  shows "rail_slack ov5693_rails (snd (ov5693_pm_get E d)) = rail_slack ov5693_rails d"
  using quiet_fields(3) [OF resume_frame(1) [of E d]]
  by (simp add: ov5693_pm_get_def klog_def rail_slack_def Let_def case_prod_beta ov5693_resume_rails [OF assms])

lemma ov5693_pm_get_active: "fst (ov5693_pm_get E d) = 0 \<Longrightarrow> rpm_active (snd (ov5693_pm_get E d))"
  by (simp add: ov5693_pm_get_def klog_def Let_def case_prod_beta split: if_splits)

lemma ov5693_resume: "resume_and_get (ov5693_services E) = ov5693_pm_get E"
  by (simp add: ov5693_services_def)

lemma rails_up: "\<forall>tr a. ret_of (pm_on_env (rails_up_env E)) tr (Rail a) = 0"
  by (simp add: pm_on_env_def rails_up_env_def)

interpretation ov5693_use: stream_power "ov5693_services (pm_on_env E)" False "[]" for E
  by unfold_locales (use ov5693_services_inert [where E = E] ov5693_pm_get_active [of "pm_on_env E"] in
    \<open>auto simp: rail_slack_def ov5693_resume prod_eq_iff\<close>)

interpretation ov5693_power: stream_power "ov5693_services (pm_on_env (rails_up_env E))" False ov5693_rails for E
  by unfold_locales (use ov5693_services_inert [where E = "rails_up_env E"]
      ov5693_pm_get_active [of "pm_on_env (rails_up_env E)"] ov5693_pm_get_rails [OF rails_up, of E] in
      \<open>auto simp: ov5693_resume prod_eq_iff\<close>)

section \<open>The operations\<close>

lemma store_frame [simp]:
  "trace (fst (store_format w g ds)) = trace (fst ds)" "trace (fst (store_crop w c ds)) = trace (fst ds)"
  "rpm_active (fst (store_format w g ds)) = rpm_active (fst ds)"
  "rpm_active (fst (store_crop w c ds)) = rpm_active (fst ds)"
  by (simp_all add: store_format_def store_crop_def split: whence.split)

lemma retime_inert:
  assumes "inert_services S"
  shows "inert d (ov5693_retime S d)"
  unfolding ov5693_retime_def Let_def
  by (rule inert_trans [OF inert_trans [OF inert_trans]]; rule inert_servicesD [OF assms])

lemma set_fmt_critical:
  assumes S: "inert_services S" and r: "ov5693_set_fmt S d st f = Inr (ret, d', st', f')"
  shows "inert d d' \<or> critical d d'"
proof -
  obtain crop fmt h v where 1: "ov5693_get_pad_crop d st (sf_which f) = Some crop"
    "ov5693_fmt_ratio (r_width crop) (f_width (sf_format f)) OV5693_MIN_CROP_WIDTH = Inr h"
    "ov5693_fmt_ratio (r_height crop) (f_height (sf_format f)) OV5693_MIN_CROP_HEIGHT = Inr v"
    "ov5693_get_pad_format d st (sf_which f) = Some fmt"
    using r by (auto simp: ov5693_set_fmt_def split: option.splits sum.splits)
  let ?g = "fmt\<lparr>f_width := r_width crop div h, f_height := r_height crop div v, f_code := MEDIA_BUS_FMT_SBGGR10_1X10\<rparr>"
  obtain x st1 where x: "store_format (sf_which f) ?g (d, st) = (x, st1)" by fastforce
  have xt: "trace x = trace d" "rpm_active x = rpm_active d"
    using store_frame(1,3) [of "sf_which f" ?g "(d, st)"] x by simp_all
  show ?thesis
  proof (cases "sf_which f = V4L2_SUBDEV_FORMAT_TRY")
    case True
    then have "d' = x" using r 1 x by (simp add: ov5693_set_fmt_def Let_def)
    then show ?thesis using xt by (simp add: inert_same)
  next
    case False
    then obtain y where y: "d' = kdo Mutex_unlock (ov5693_retime S y)" "trace y = trace (kdo Mutex_lock x)"
      "rpm_active y = rpm_active x"
      using r 1 x by (auto simp: ov5693_set_fmt_def Let_def split: sum.splits)
    have "inert (kdo Mutex_lock d) y" by (rule inert_same) (simp_all add: y xt)
    then have "inert (kdo Mutex_lock d) (ov5693_retime S y)" using retime_inert [OF S] by (rule inert_trans)
    then have "critical d d'" by (rule criticalI) (simp_all add: y(1))
    then show ?thesis ..
  qed
qed

lemma set_selection_inert: "ov5693_set_selection d st sel = Inr (ret, d', st', sel') \<Longrightarrow> inert d d'"
proof -
  assume r: "ov5693_set_selection d st sel = Inr (ret, d', st', sel')"
  have f: "fst (store_crop w c ds) = x \<Longrightarrow> trace x = trace (fst ds) \<and> rpm_active x = rpm_active (fst ds)" for w c ds x
    by auto
  show ?thesis
    using r store_frame
    by (auto simp: ov5693_set_selection_def Let_def case_prod_beta split: if_splits option.splits intro!: inert_same)
qed

lemma get_selection_critical: "ov5693_get_selection d st sel = Inr (ret, d', sel') \<Longrightarrow> d' = d \<or> critical d d'"
proof -
  have k: "critical d (kdo Mutex_unlock (kdo Mutex_lock d))" by (rule criticalI [OF inert_refl]) simp_all
  then show "ov5693_get_selection d st sel = Inr (ret, d', sel') \<Longrightarrow> d' = d \<or> critical d d'"
    by (auto simp: ov5693_get_selection_def Let_def split: option.splits sel_target.splits)
qed

lemma volatile_inert: "inert d (snd (snd (ov5693_g_volatile_ctrl E c d)))"
proof -
  have k: "inert d (snd (snd (kread E (Bus b) d)))" for b
    by (simp add: inert_def rail_onlyD)
  show ?thesis
    by (cases c) (simp_all add: ov5693_g_volatile_ctrl_def ov5693_get_exposure_def ov5693_get_gain_def Let_def
        case_prod_beta k)
qed

section \<open>The life of the camera\<close>

text \<open>The control core sets and reads a control with the lock of the handler held, the driver's mutex.\<close>

definition ov5693_user_ctrl :: "env \<Rightarrow> cid \<Rightarrow> int \<Rightarrow> ov5693 \<Rightarrow> int \<times> ov5693" where
  "ov5693_user_ctrl E c v d =
     (let (ret, d) = set_ctrl (ov5693_services E) c v (kdo Mutex_lock d) in (ret, kdo Mutex_unlock d))"

definition ov5693_user_volatile :: "env \<Rightarrow> cid \<Rightarrow> ov5693 \<Rightarrow> int \<times> int option \<times> ov5693" where
  "ov5693_user_volatile E c d =
     (let (ret, v, d) = ov5693_g_volatile_ctrl E c (kdo Mutex_lock d) in (ret, v, kdo Mutex_unlock d))"

definition ov5693_runtime_suspend :: "ov5693 \<Rightarrow> ov5693" where
  "ov5693_runtime_suspend d = (snd (ov5693_sensor_suspend d))\<lparr>rpm_active := False\<rparr>"

inductive ov5693_client :: "env \<Rightarrow> ov5693 \<Rightarrow> ov5693 \<Rightarrow> bool"
  for E where
  set_fmt: "ov5693_set_fmt (ov5693_services E) d st f = Inr (ret, d', st', f') \<Longrightarrow> ov5693_client E d d'"
| set_selection: "ov5693_set_selection d st sel = Inr (ret, d', st', sel') \<Longrightarrow> ov5693_client E d d'"
| get_selection: "ov5693_get_selection d st sel = Inr (ret, d', sel') \<Longrightarrow> ov5693_client E d d'"
| set_control: "ov5693_user_ctrl E c v d = (ret, d') \<Longrightarrow> ov5693_client E d d'"
| get_volatile: "ov5693_user_volatile E c d = (ret, x, d') \<Longrightarrow> ov5693_client E d d'"

definition ov5693_ops :: "env \<Rightarrow> ov5693 camera_ops" where
  "ov5693_ops E =
     \<lparr>start_op = (\<lambda>d ret d'. ov5693_s_stream (ov5693_services E) E True d = (ret, d')),
      stop_op = (\<lambda>d d'. \<exists>ret. ov5693_s_stream (ov5693_services E) E False d = (ret, d')),
      client_op = ov5693_client E,
      suspend_op = (\<lambda>d d'. d' = ov5693_runtime_suspend d)\<rparr>"

abbreviation ov5693_step where
  "ov5693_step E \<equiv> camera_step (ov5693_ops E)"

lemma ov5693_start_rails:
  assumes S: "stream_power S False W" and res: "ov5693_s_stream S E True d = (ret, d')"
  shows "rail_slack W d' = rail_slack W d \<and> (ret = 0 \<longrightarrow> rpm_active d')"
proof -
  note k = stream_power.slack_kdo [OF S] and b = stream_power.slack_bus [OF S]
    and h = stream_power.slack_setup [OF S] and re = stream_power.resume_rails [OF S]
    and i = stream_power.setup_inert [OF S]
  show ?thesis
  proof (cases rule: ov5693_stream_start [OF res])
    case (1 r1)
    then show ?thesis using re [OF 1(1)] by simp
  next
    case (2 d1 r2 d2 x)
    then show ?thesis using re [OF 2(1)] h [OF 2(2)] b [OF 2(3)] by (simp add: k)
  next
    case (3 d1 d2 x)
    then show ?thesis
      using re [OF 3(1)] h [OF 3(2)] i [OF 3(2)] b [OF 3(3)] inert_bus [OF 3(3)] by (simp add: k inert_def)
  qed
qed

lemma ov5693_stop_rails:
  assumes S: "stream_power S False W" and res: "ov5693_s_stream S E False d = (ret, d')"
  shows "rail_slack W d' = rail_slack W d"
proof -
  obtain r d1 where 1: "ov5693_enable_streaming E False (kdo Mutex_lock d) = (r, d1)" by fastforce
  have "bus_step (kdo Mutex_lock d) d1"
    using enable_streaming_bus_step [of "kdo Mutex_lock d" E False] 1 by simp
  from stream_power.slack_bus [OF S this] res show ?thesis
    by (auto simp: ov5693_s_stream_def 1 Let_def stream_power.slack_kdo [OF S] split: if_splits)
qed

lemma ov5693_client_keeps:
  assumes S: "stream_power (ov5693_services E) False W" and cl: "ov5693_client E d d'" and free: "mutex_free d"
  shows "mutex_free d' \<and> rail_slack W d' = rail_slack W d \<and> pm_usage (trace d') = pm_usage (trace d) \<and>
    rpm_active d' = rpm_active d"
proof -
  note i = stream_power.controls_inert [OF S]
  have "inert d d' \<or> critical d d'"
    using cl
  proof cases
    case set_fmt
    then show ?thesis by (rule set_fmt_critical [OF i])
  next
    case set_selection
    then show ?thesis by (rule set_selection_inert [THEN disjI1])
  next
    case get_selection
    then show ?thesis using get_selection_critical by fastforce
  next
    case (set_control c v ret)
    then show ?thesis using stream_power.user_ctrl_critical [OF S, of d c v]
      by (auto simp: ov5693_user_ctrl_def Let_def case_prod_beta)
  next
    case (get_volatile c ret x)
    let ?y = "snd (snd (ov5693_g_volatile_ctrl E c (kdo Mutex_lock d)))"
    have "d' = kdo Mutex_unlock ?y"
      using get_volatile by (auto simp: ov5693_user_volatile_def Let_def case_prod_beta)
    then show ?thesis using criticalI [OF volatile_inert, where d' = d' and d = d] by simp
  qed
  then show ?thesis
    using stream_power.inert_keeps [OF S _ free] stream_power.critical_keeps [OF S _ free] by blast
qed

lemma ov5693_suspend_frame:
  "lock_run (trace (ov5693_runtime_suspend d)) x = lock_run (trace d) x"
  "pm_usage (trace (ov5693_runtime_suspend d)) = pm_usage (trace d)"
  "rpm_active d \<Longrightarrow> rail_slack ov5693_rails (ov5693_runtime_suspend d) = rail_slack ov5693_rails d"
  by (simp_all add: ov5693_runtime_suspend_def ov5693_sensor_suspend_def powerdown_balance rail_slack_def
      ov5693_sensor_powerdown_def Let_def)

lemma ov5693_driver:
  assumes S: "stream_power (ov5693_services E) False W"
    and su: "\<And>d. rpm_active d \<Longrightarrow> rail_slack W (ov5693_runtime_suspend d) = rail_slack W d"
  shows "camera_driver (ov5693_ops E) W"
proof
  have core: "stream_core (ov5693_services E) False" using S by (simp add: stream_power_def)
  fix d d' :: ov5693 and r
  assume "start_op (ov5693_ops E) d r d'" and free: "mutex_free d"
  then have s: "ov5693_s_stream (ov5693_services E) E True d = (r, d')" by (simp add: ov5693_ops_def)
  show "mutex_free d' \<and> rail_slack W d' = rail_slack W d \<and>
      pm_usage (trace d') = pm_usage (trace d) + (if r = 0 then 1 else 0) \<and> (r = 0 \<longrightarrow> rpm_active d')"
    using ov5693_stream_on [OF core free s] ov5693_start_rails [OF S s] by (auto split: if_splits)
next
  fix d d' :: ov5693
  assume "stop_op (ov5693_ops E) d d'" and free: "mutex_free d"
  then obtain r where s: "ov5693_s_stream (ov5693_services E) E False d = (r, d')" by (auto simp: ov5693_ops_def)
  then show "mutex_free d' \<and> rail_slack W d' = rail_slack W d \<and> pm_usage (trace d') = pm_usage (trace d) - 1"
    using ov5693_stream_off [of "ov5693_services E" E d] ov5693_stop_rails [OF S s] free by simp
next
  fix d d' :: ov5693
  assume "client_op (ov5693_ops E) d d'" and "mutex_free d"
  then show "mutex_free d' \<and> rail_slack W d' = rail_slack W d \<and> pm_usage (trace d') = pm_usage (trace d) \<and>
      rpm_active d' = rpm_active d"
    using ov5693_client_keeps [OF S] by (simp add: ov5693_ops_def)
next
  fix d d' :: ov5693
  assume "suspend_op (ov5693_ops E) d d'" "rpm_active d" "mutex_free d"
  then show "mutex_free d' \<and> rail_slack W d' = rail_slack W d \<and> pm_usage (trace d') = pm_usage (trace d)"
    using su [of d] ov5693_suspend_frame(1,2) [of d] by (simp add: ov5693_ops_def)
next
  fix d :: ov5693
  show "\<exists>d'. stop_op (ov5693_ops E) d d'"
    by (simp add: ov5693_ops_def) (metis prod.collapse)
qed

interpretation ov5693_life: camera_driver "ov5693_ops (pm_on_env E)" "[]" for E
  by (rule ov5693_driver [OF ov5693_use.stream_power_axioms]) (simp add: rail_slack_def)

interpretation ov5693_powered: camera_driver "ov5693_ops (pm_on_env (rails_up_env E))" ov5693_rails for E
  by (rule ov5693_driver [OF ov5693_power.stream_power_axioms ov5693_suspend_frame(3)])

section \<open>From the probe on\<close>

lemma ov5693_acquire_inert:
  "inert d (snd (ov5693_check_hwcfg E cfg d))" "inert d (snd (ov5693_configure_gpios E d))"
  "inert d (snd (ov5693_get_regulators E d))" "inert d (d\<lparr>mode := m\<rparr>)"
  by (simp_all add: ov5693_check_hwcfg_def ov5693_configure_gpios_def ov5693_get_regulators_def inert_def
      rail_onlyD Let_def case_prod_beta)

lemma ov5693_init_controls_inert: "inert d (snd (ov5693_init_controls E d))"
proof -
  have "inert d (snd (kcall E (Init V4l2_ctrl_handler_init) d))" by (rule inert_init) simp
  then show ?thesis
    by (auto simp: ov5693_init_controls_def Let_def case_prod_beta intro!: ctrl_new_inert set_read_only_inert inert_init)
qed

lemma ov5693_probe_start_state:
  assumes ok: "ov5693_probe_start E d = (0, d')"
  shows "lock_run (trace d') x = lock_run (trace d) x" "pm_usage (trace d') = pm_usage (trace d)" "rpm_active d'"
    "f \<in> set ov5693_rails \<Longrightarrow> weigh f (trace d') = weigh f (trace d) + 1"
proof -
  have i: "lock_run (trace (snd (ov5693_init_controls E d))) y = lock_run (trace d) y" for y
    using ov5693_init_controls_inert [of d E] by (simp add: inert_def)
  have t: "lock_run (trace (snd (ov5693_detect E z))) y = lock_run (trace z) y" for y and z :: ov5693
    by (simp add: ov5693_detect_def Let_def case_prod_beta)
  show "lock_run (trace d') x = lock_run (trace d) x" "rpm_active d'"
    using ok by (auto simp: ov5693_probe_start_def Let_def case_prod_beta powerup_frame i t split: if_splits)
  show "pm_usage (trace d') = pm_usage (trace d)"
    using probe_start_weigh [of pm_weight 0 0 1 0 0 E d] ok by (simp add: pm_usage_def)
  show "f \<in> set ov5693_rails \<Longrightarrow> weigh f (trace d') = weigh f (trace d) + 1"
    using probe_start_rails [of E d] ok by auto
qed

lemma ov5693_probe_ok:
  assumes ok: "ov5693_probe E cfg d = Inr (0, d')"
  obtains d1 where "inert (d\<lparr>rpm_active := False\<rparr>) d1" "ov5693_probe_start E d1 = (0, d')"
proof -
  let ?z = "\<lambda>d. d\<lparr>mode := zero_mode, ctrl_ptr := (\<lambda>_. False), rpm_active := False\<rparr>"
  obtain dk where k: "kcall E (Init Devm_kzalloc) d = (0, dk)"
    using ok by (auto simp: ov5693_probe_def errno_defs split: prod.splits if_splits)
  obtain ra da where a: "kcall E (Init Devm_cci_regmap_init_i2c) (?z dk) = (ra, da)" by fastforce
  obtain db where b: "\<not> ra < 0" "ov5693_check_hwcfg E cfg da = (0, db)"
    using ok by (auto simp: ov5693_probe_def k a errno_defs split: prod.splits if_splits)
  obtain rc dc where c: "kcall E (Init Devm_v4l2_sensor_clk_get) (kdo (Init V4l2_i2c_subdev_init) (kdo (Init Mutex_init) db)) = (rc, dc)"
    by fastforce
  obtain dd where g: "\<not> rc < 0" "ov5693_configure_gpios E (kdo (Init Clk_get_rate) dc) = (0, dd)"
    using ok by (auto simp: ov5693_probe_def k a b c Let_def split: prod.splits if_splits)
  obtain de where e: "ov5693_get_regulators E dd = (0, de)"
    using ok by (auto simp: ov5693_probe_def k a b c g Let_def split: prod.splits if_splits)
  obtain m where "ov5693_probe_start E (de\<lparr>mode := m\<rparr>) = (0, d')"
    using ok by (auto simp: ov5693_probe_def k a b c g e Let_def split: sum.splits)
  moreover have "inert (d\<lparr>rpm_active := False\<rparr>) (?z dk)"
    using kcall_trace [of E "Init Devm_kzalloc" d] k by (simp add: inert_def rail_onlyD)
  moreover have "inert (?z dk) da" "inert db dc"
    using inert_init(1) [OF inert_refl, of "?z dk" E Devm_cci_regmap_init_i2c]
      inert_init(1) [OF inert_init(2) [OF inert_init(2) [OF inert_refl]], of db E Devm_v4l2_sensor_clk_get] a c
    by (metis snd_conv)+
  moreover have "inert da db" "inert dc dd" "inert dd de"
    using ov5693_acquire_inert(1) [of da E cfg] inert_trans [OF inert_init(2) [OF inert_refl] ov5693_acquire_inert(2)]
      ov5693_acquire_inert(3) [of dd E] b g e by (metis snd_conv)+
  ultimately show ?thesis using that ov5693_acquire_inert(4) inert_trans by meson
qed

lemma ov5693_probed:
  assumes "trace d = []" and ok: "ov5693_probe E cfg d = Inr (0, d')"
  shows "mutex_free d'" "pm_usage (trace d') = 0" "rpm_active d'" "rail_slack ov5693_rails d' = [0, 0]"
proof -
  obtain d1 where 1: "inert (d\<lparr>rpm_active := False\<rparr>) d1" and 2: "ov5693_probe_start E d1 = (0, d')"
    using ov5693_probe_ok [OF ok] by blast
  note ps = ov5693_probe_start_state [OF 2]
  have a: "mutex_free d1" "pm_usage (trace d1) = 0" "f \<in> set ov5693_rails \<Longrightarrow> weigh f (trace d1) = 0" for f
    using 1 assms(1) by (auto simp: inert_def)
  then show "mutex_free d'" "pm_usage (trace d') = 0" "rpm_active d'" using ps(1-3) by simp_all
  show "rail_slack ov5693_rails d' = [0, 0]" using a(3) ps(3,4) by (simp add: rail_slack_def)
qed

lemma ov5693_remove_rails:
  "f \<in> set ov5693_rails \<Longrightarrow>
     weigh f (trace (ov5693_remove E d)) = weigh f (trace d) - (if remove_status E d = 0 then 1 else 0)"
  by (auto simp: ov5693_remove_def remove_status_def powerdown_balance Let_def case_prod_beta)

lemma rails_up_id: "\<forall>tr a. ret_of E tr (Rail a) = 0 \<Longrightarrow> rails_up_env E = E"
  by (rule env.equality) (auto simp: rails_up_env_def fun_eq_iff split: ev.split)

text \<open>
  C4: From a successful probe of the OV5693 on, when the clock and the supplies come up whenever
  they are asked to: through every sequence of starts, stops, client calls and runtime suspends,
  and whatever the sensor answers, the mutex is free between calls, one PM reference is held
  exactly while the sensor streams, the clock and the supplies are held once exactly while the
  device is active, a streaming device is active, and removal gives the rails back when the PM
  core tells it the state of the device.
\<close>

theorem ov5693_lifetime:
  assumes "\<forall>tr. 0 \<le> ret_of E tr (Pm Pm_get_if_in_use)" and "\<forall>tr a. ret_of E tr (Rail a) = 0" and "trace d = []"
    and "ov5693_probe E cfg d = Inr (0, d1)" and "(ov5693_step E)\<^sup>*\<^sup>* (False, d1) (on, d2)"
  shows "lock_run (trace d2) (Some False) = Some False \<and> pm_usage (trace d2) = (if on then 1 else 0) \<and>
    (supply_refs d2, clk_refs d2) = (if rpm_active d2 then (1, 1) else (0, 0)) \<and> (on \<longrightarrow> rpm_active d2) \<and>
    ((remove_status E d2 = 0 \<longleftrightarrow> rpm_active d2) \<longrightarrow>
      (supply_refs (ov5693_remove E d2), clk_refs (ov5693_remove E d2)) = (0, 0))"
proof -
  have E: "pm_on_env (rails_up_env E) = E" by (simp add: rails_up_id [OF assms(2)] pm_on_id [OF assms(1)])
  note p = ov5693_probed [OF assms(3,4)]
  note r = ov5693_powered.reachable [of E, unfolded E, OF assms(5) p(1)]
  have w: "(supply_refs d2, clk_refs d2) = (if rpm_active d2 then (1, 1) else (0, 0))"
    using r(2) p(4) by (simp add: rail_slack_def)
  then have "(remove_status E d2 = 0 \<longleftrightarrow> rpm_active d2) \<longrightarrow>
      (supply_refs (ov5693_remove E d2), clk_refs (ov5693_remove E d2)) = (0, 0)"
    by (cases "rpm_active d2") (simp_all add: ov5693_remove_rails)
  then show ?thesis using r(1,3,4) p(2) w by simp
qed

lemma ov5693_lifetime_witness:
  "\<exists>d1. ov5693_probe ov5693_env ov5693_cfg ov5693_sample = Inr (0, d1) \<and> supply_refs d1 = 1 \<and>
     supply_refs (ov5693_runtime_suspend d1) = 0"
proof -
  let ?E = ov5693_env
  obtain d1 where p: "ov5693_probe ?E ov5693_cfg ov5693_sample = Inr (0, d1)" using sample_probe by blast
  have e: "\<forall>tr. 0 \<le> ret_of ?E tr (Pm Pm_get_if_in_use)" "\<forall>tr a. ret_of ?E tr (Rail a) = 0" "trace ov5693_sample = []"
    by (simp_all add: ov5693_env_def ov5693_sample_def)
  note l = ov5693_lifetime [OF e p]
  have a: "rpm_active d1" "pm_usage (trace d1) = 0" using ov5693_probed [OF e(3) p] by simp_all
  then have "(ov5693_step ?E)\<^sup>*\<^sup>* (False, d1) (False, ov5693_runtime_suspend d1)"
    by (intro r_into_rtranclp camera_step.suspend) (simp_all add: ov5693_ops_def)
  from l [OF this] l [OF rtranclp.rtrancl_refl] a p
  show ?thesis by (simp add: ov5693_runtime_suspend_def)
qed

text \<open>
  Without any assumption on the rails and the bus, a reachable stream can be stopped, and then the
  mutex is free and the runtime PM references are those of the start.
\<close>

theorem ov5693_can_stop:
  assumes "\<forall>tr. 0 \<le> ret_of E tr (Pm Pm_get_if_in_use)" and "(ov5693_step E)\<^sup>*\<^sup>* (False, d) (True, d')"
    and "lock_run (trace d) (Some False) = Some False"
  shows "\<exists>d''. ov5693_step E (True, d') (False, d'') \<and> pm_usage (trace d'') = pm_usage (trace d) \<and>
    lock_run (trace d'') (Some False) = Some False"
  using ov5693_life.can_stop [of E, unfolded pm_on_id [OF assms(1)], OF assms(2,3)] by blast

end
