(* ===== verification/Ov5693_Stream.thy ===== *)
theory Ov5693_Stream
  imports Ov5693_Power
begin

text \<open>
  What the OV5693 is programmed with when a stream starts: the transfers of
  \<open>__v4l2_ctrl_handler_setup\<close> on the driver's \<open>s_ctrl\<close>, those of the resume when the device was
  suspended, and the registers they leave (\<open>ov5693.c\<close>, \<open>ov5693_s_stream\<close>, \<open>ov5693_s_ctrl\<close>,
  \<open>ov5693_sensor_resume\<close>). The readout window is programmed by the resume alone: a start of a device
  that is still active streams with the window the sensor had.
\<close>

section \<open>The transfers of a control\<close>

definition ov5693_ctrl_writes :: "ov5693 \<Rightarrow> cid \<Rightarrow> int \<Rightarrow> bus list" where
  "ov5693_ctrl_writes d c v =
     (case c of
        V4L2_CID_EXPOSURE \<Rightarrow>
          [Cci_write OV5693_EXPOSURE_CTRL_REG (zext64 (push_bit 4 (u32_of_int v) AND OV5693_EXPOSURE_CTRL_MASK))]
      | V4L2_CID_ANALOGUE_GAIN \<Rightarrow>
          [Cci_write OV5693_GAIN_CTRL_REG (zext64 (push_bit 4 (u32_of_int v) AND OV5693_GAIN_CTRL_MASK))]
      | V4L2_CID_DIGITAL_GAIN \<Rightarrow>
          map (\<lambda>r. Cci_write r (zext64 (u32_of_int v AND OV5693_MWB_GAIN_MASK)))
            [OV5693_MWB_RED_GAIN_REG, OV5693_MWB_GREEN_GAIN_REG, OV5693_MWB_BLUE_GAIN_REG]
      | V4L2_CID_HFLIP \<Rightarrow>
          (let bits = (OV5693_FORMAT2_FLIP_HORZ_ISP_EN OR OV5693_FORMAT2_FLIP_HORZ_SENSOR_EN :: u8)
           in [Cci_update_bits OV5693_FORMAT2_REG (ucast bits) (if v \<noteq> 0 then 0 else ucast bits),
               Cci_write OV5693_OFFSET_START_X_REG (ucast (ov5693_offset_start_x d (v \<noteq> 0)))])
      | V4L2_CID_VFLIP \<Rightarrow>
          [Cci_update_bits OV5693_FORMAT1_REG
             (ucast (OV5693_FORMAT1_FLIP_VERT_ISP_EN OR OV5693_FORMAT1_FLIP_VERT_SENSOR_EN :: u8))
             (if v \<noteq> 0 then ucast (ov5693_flip_vert_bits d) else 0)]
      | V4L2_CID_VBLANK \<Rightarrow>
          [Cci_write OV5693_TIMING_VTS_REG (ucast (ucast (f_height (m_format (mode d)) + u32_of_int v) :: u16))]
      | V4L2_CID_TEST_PATTERN \<Rightarrow>
          [Cci_write OV5693_TEST_PATTERN_REG (ucast (ov5693_test_pattern_bits ! unat (u32_of_int v)))]
      | _ \<Rightarrow> [])"

text \<open>A control whose only transfer fails leaves the sensor as it was.\<close>

lemma cci_write_bus_done:
  "bus_done (trace (snd (cci_write E r v (0, d)))) =
     bus_done (trace d) @ (if fst (cci_write E r v (0, d)) = 0 then [Cci_write r v] else [])"
  by (simp add: cci_write_def cci_def)

lemma apply_ctrl_writes:
  assumes "ov5693_apply_ctrl E c v d = Inr (0, d')" and "c \<in> set ov5693_setup_order"
  shows "bus_done (trace d') = bus_done (trace d) @ ov5693_ctrl_writes d c v"
proof -
  have h: "bus_done (trace d') = bus_done (trace d) @ ov5693_ctrl_writes d V4L2_CID_HFLIP v"
    if h: "ov5693_flip_horz_configure E (v \<noteq> 0) d = (0, d')"
  proof -
    define b where "b = (v \<noteq> 0)"
    note h = h [folded b_def]
    let ?m = "OV5693_FORMAT2_FLIP_HORZ_ISP_EN OR OV5693_FORMAT2_FLIP_HORZ_SENSOR_EN :: u8"
    obtain r d1 where 1: "cci_update_bits E OV5693_FORMAT2_REG (ucast ?m) (if b then 0 else ucast ?m) (0, d) = (r, d1)"
      by fastforce
    have r: "r = 0" using h by (simp add: ov5693_flip_horz_configure_def Let_def 1 split: if_splits)
    note c = cci_okD [OF 1 [unfolded r cci_update_bits_def]]
    have o: "ov5693_offset_start_x d1 b = ov5693_offset_start_x d b"
      using quiet_mode(1) [of d1 d] c(3) by (simp add: ov5693_offset_start_x_def)
    have "cci_write E OV5693_OFFSET_START_X_REG (ucast (ov5693_offset_start_x d b)) (0, d1) = (0, d')"
      using h by (auto simp: ov5693_flip_horz_configure_def Let_def 1 r o split: prod.splits if_splits)
    from cci_write_okD(1) [OF this] c(2) show ?thesis by (simp add: ov5693_ctrl_writes_def Let_def b_def)
  qed
  have v: "bus_done (trace d') = bus_done (trace d) @ ov5693_ctrl_writes d V4L2_CID_VFLIP v"
    if "ov5693_flip_vert_configure E (v \<noteq> 0) d = (0, d')"
    using that cci_okD(2) [of E _ "(0, d)" d']
    by (auto simp: ov5693_flip_vert_configure_def ov5693_ctrl_writes_def cci_update_bits_def Let_def
        split: prod.splits if_splits)
  show ?thesis
    using assms h v cci_write_okD(1) [of E _ _ d d'] fold_cci_ok(1) [of E _ d d']
    by (auto simp: ov5693_setup_order_def ov5693_apply_ctrl_def ov5693_exposure_configure_def
        ov5693_analog_gain_configure_def digital_gain_fold ov5693_vts_configure_def ov5693_test_pattern_configure_def
        ov5693_ctrl_writes_def Let_def split: if_splits)
qed

text \<open>The callback on a device in use.\<close>

lemma op_in_use:
  assumes "\<forall>tr. 0 < ret_of E tr (Pm Pm_get_if_in_use)" and "ov5693_op S E c v d = (0, d')"
  defines "d0 \<equiv> (if c = V4L2_CID_VBLANK then ov5693_follow_vblank S v d else d)"
  obtains x where "ov5693_apply_ctrl E c v (snd (kcall E (Pm Pm_get_if_in_use) d0)) = Inr (0, x)" "d' = kdo (Pm Pm_put) x"
proof -
  have n: "ret_of E tr (Pm Pm_get_if_in_use) \<noteq> 0" for tr using assms(1) by (metis less_irrefl)
  show ?thesis
    using assms(2) n that
    by (auto simp: ov5693_op_def ov5693_s_ctrl_def Let_def case_prod_beta EINVAL_def simp flip: d0_def
        split: sum.splits if_splits)
qed

lemma ctrl_writes_mode: "mode d' = mode d \<Longrightarrow> ov5693_ctrl_writes d' c v = ov5693_ctrl_writes d c v"
  by (simp add: ov5693_ctrl_writes_def ov5693_offset_start_x_def ov5693_flip_vert_bits_def split: cid.split)

lemma op_writes:
  assumes use: "\<forall>tr. 0 < ret_of E tr (Pm Pm_get_if_in_use)" and op: "ov5693_op S E c v d = (0, d')"
    and c: "c \<in> set ov5693_setup_order"
  defines "d0 \<equiv> (if c = V4L2_CID_VBLANK then ov5693_follow_vblank S v d else d)"
  shows "bus_done (trace d') = bus_done (trace d0) @ ov5693_ctrl_writes d0 c v" "quiet d' = quiet d0"
proof -
  let ?d1 = "snd (kcall E (Pm Pm_get_if_in_use) d0)"
  obtain x where x: "ov5693_apply_ctrl E c v ?d1 = Inr (0, x)" "d' = kdo (Pm Pm_put) x"
    using op_in_use [OF use op] unfolding d0_def by blast
  show "bus_done (trace d') = bus_done (trace d0) @ ov5693_ctrl_writes d0 c v"
    using apply_ctrl_writes [OF x(1) c] ctrl_writes_mode [of ?d1 d0 c v] by (simp add: x(2))
  show "quiet d' = quiet d0" using bus_step_quiet [OF apply_ctrl_bus_step [OF x(1)]] by (simp add: x(2))
qed

text \<open>A failing write of the exposure leaves the sensor and the device as they were.\<close>

lemma exposure_op_fails:
  assumes "ov5693_op S E V4L2_CID_EXPOSURE v d = (r, d')" and "r \<noteq> 0"
  shows "bus_done (trace d') = bus_done (trace d)" "quiet d' = quiet d"
proof -
  let ?d1 = "snd (kcall E (Pm Pm_get_if_in_use) d)"
  have x: "d' = kdo (Pm Pm_put) (snd (ov5693_exposure_configure E (u32_of_int v) ?d1))"
    "fst (ov5693_exposure_configure E (u32_of_int v) ?d1) \<noteq> 0"
    using assms by (auto simp: ov5693_op_def ov5693_s_ctrl_def ov5693_apply_ctrl_def Let_def case_prod_beta
        split: if_splits)
  show "quiet d' = quiet d"
    using bus_step_quiet [OF control_bus_step(1), of E "u32_of_int v" ?d1] by (simp add: x(1))
  show "bus_done (trace d') = bus_done (trace d)"
    using x(2) by (simp add: x(1) ov5693_exposure_configure_def cci_write_bus_done)
qed

section \<open>The set-up of the controls\<close>

text \<open>Moving the exposure limit writes the exposure exactly when it changes its value.\<close>

lemma follow_vblank_writes:
  fixes E v d
  assumes use: "\<forall>tr. 0 < ret_of E tr (Pm Pm_get_if_in_use)"
  defines "d' \<equiv> ov5693_follow_vblank (ov5693_inner_services E) v d"
  obtains ex where "bus_done (trace d') = bus_done (trace d) @ ex"
    "(ex = [] \<and> val (ctrls d' V4L2_CID_EXPOSURE) = val (ctrls d V4L2_CID_EXPOSURE)) \<or>
       ex = ov5693_ctrl_writes d V4L2_CID_EXPOSURE (val (ctrls d' V4L2_CID_EXPOSURE))"
    "mode d' = mode d" "\<And>q. q \<noteq> V4L2_CID_EXPOSURE \<Longrightarrow> ctrls d' q = ctrls d q"
proof -
  let ?c = V4L2_CID_EXPOSURE and ?cb = "ov5693_op no_services E"
  obtain lo hi st df r where m: "v4l2_modify_range ?cb ?c lo hi st df d = (r, d')"
    by (simp add: d'_def ov5693_follow_vblank_def ov5693_inner_services_def Let_def) (metis prod.collapse)
  define d0 where "d0 = d\<lparr>ctrls := (ctrls d)(?c := (ctrls d ?c)\<lparr>minimum := lo, maximum := hi, step := st,
    default_value := df\<rparr>)\<rparr>"
  have d0 [simp]: "trace d0 = trace d" "mode d0 = mode d" "val (ctrls d0 ?c) = val (ctrls d ?c)"
    "q \<noteq> ?c \<Longrightarrow> ctrls d0 q = ctrls d q" for q by (simp_all add: d0_def)
  from m show ?thesis
  proof (cases rule: ov5693_inner.modify_cases)
    case 1
    then show ?thesis by (intro that [of "[]"]) simp_all
  next
    case 2
    then show ?thesis by (intro that [of "[]"]) (simp_all flip: d0_def)
  next
    case 3
    define new where "new = clamp_t (val (ctrls d ?c)) lo hi"
    from 3(3) obtain d1 where op: "?cb ?c new d0 = (r, d1)"
      and d': "d' = (if r \<noteq> 0 then d1 else d1\<lparr>ctrls := (ctrls d1)(?c := (ctrls d1 ?c)\<lparr>val := new\<rparr>)\<rparr>)"
      unfolding new_def [symmetric] d0_def [symmetric] by (rule ov5693_inner.apply_result)
    show ?thesis
    proof (cases "r = 0")
      case True
      note w = op_writes [OF use op [unfolded True]]
      have "bus_done (trace d1) = bus_done (trace d) @ ov5693_ctrl_writes d ?c new" "quiet d1 = quiet d0"
        using w by (simp_all add: ov5693_setup_order_def ctrl_writes_mode [of d0 d])
      then show ?thesis
        using quiet_mode(1,2) [of d1 d0] by (intro that [of "ov5693_ctrl_writes d ?c new"]) (simp_all add: d' True)
    next
      case False
      note f = exposure_op_fails [OF op False]
      show ?thesis
        using f(1) quiet_mode(1,2) [OF f(2)] False by (intro that [of "[]"]) (simp_all add: d')
    qed
  qed
qed

lemma setup_plain:
  assumes use: "\<forall>tr. 0 < ret_of E tr (Pm Pm_get_if_in_use)"
  shows "v4l2_handler_setup (ov5693_op S E) cs d = (0, d') \<Longrightarrow> set cs \<subseteq> set ov5693_setup_order - {V4L2_CID_VBLANK} \<Longrightarrow>
    bus_done (trace d') = bus_done (trace d) @ concat (map (\<lambda>c. ov5693_ctrl_writes d c (val (ctrls d c))) cs) \<and>
    quiet d' = quiet d"
proof (induction cs arbitrary: d)
  case Nil
  then show ?case by (simp add: v4l2_handler_setup_def)
next
  case (Cons c cs)
  obtain r d1 where op: "ov5693_op S E c (val (ctrls d c)) d = (r, d1)" by fastforce
  have r: "r = 0" and rest: "v4l2_handler_setup (ov5693_op S E) cs d1 = (0, d')"
    using Cons.prems(1) op by (auto simp: v4l2_handler_setup_def split: if_splits)
  have w: "bus_done (trace d1) = bus_done (trace d) @ ov5693_ctrl_writes d c (val (ctrls d c))" "quiet d1 = quiet d"
    using op_writes [OF use op [unfolded r]] Cons.prems(2) by auto
  note q = quiet_mode(1,2) [OF w(2)]
  show ?case
    using Cons.IH [OF rest] Cons.prems(2) w q by (simp add: ctrl_writes_mode [OF q(1)])
qed

lemma setup_append:
  assumes "v4l2_handler_setup cb (xs @ ys) d = (0, d')"
  obtains d1 where "v4l2_handler_setup cb xs d = (0, d1)" "v4l2_handler_setup cb ys d1 = (0, d')"
  using assms by (auto simp: v4l2_handler_setup_def seq_until_append Let_def split: prod.splits if_splits)

lemma setup_one: "v4l2_handler_setup cb [c] d = (0, d') \<longleftrightarrow> cb c (val (ctrls d c)) d = (0, d')"
  by (auto simp: v4l2_handler_setup_def Let_def split: prod.splits if_splits)

text \<open>
  The whole set-up: each control as it stands, and the exposure once more when the VBLANK step
  changes it.
\<close>

lemma setup_writes:
  assumes use: "\<forall>tr. 0 < ret_of E tr (Pm Pm_get_if_in_use)"
    and set: "v4l2_handler_setup (ov5693_op (ov5693_inner_services E) E) ov5693_setup_order d = (0, d')"
  obtains ex where "bus_done (trace d') = bus_done (trace d) @
      concat (map (\<lambda>c. ov5693_ctrl_writes d c (val (ctrls d c))) [V4L2_CID_EXPOSURE, V4L2_CID_ANALOGUE_GAIN,
        V4L2_CID_DIGITAL_GAIN, V4L2_CID_HFLIP, V4L2_CID_VFLIP]) @ ex @
      ov5693_ctrl_writes d V4L2_CID_VBLANK (val (ctrls d V4L2_CID_VBLANK)) @
      ov5693_ctrl_writes d V4L2_CID_TEST_PATTERN (val (ctrls d V4L2_CID_TEST_PATTERN))"
    "(ex = [] \<and> val (ctrls d' V4L2_CID_EXPOSURE) = val (ctrls d V4L2_CID_EXPOSURE)) \<or>
       ex = ov5693_ctrl_writes d V4L2_CID_EXPOSURE (val (ctrls d' V4L2_CID_EXPOSURE))"
    "mode d' = mode d" "\<And>q. q \<noteq> V4L2_CID_EXPOSURE \<Longrightarrow> ctrls d' q = ctrls d q"
proof -
  let ?cb = "ov5693_op (ov5693_inner_services E) E" and ?vb = V4L2_CID_VBLANK
  let ?xs = "[V4L2_CID_EXPOSURE, V4L2_CID_ANALOGUE_GAIN, V4L2_CID_DIGITAL_GAIN, V4L2_CID_HFLIP, V4L2_CID_VFLIP]"
  have ord: "ov5693_setup_order = ?xs @ [?vb] @ [V4L2_CID_TEST_PATTERN]" by (simp add: ov5693_setup_order_def)
  obtain d1 where s1: "v4l2_handler_setup ?cb ?xs d = (0, d1)"
    and s2: "v4l2_handler_setup ?cb ([?vb] @ [V4L2_CID_TEST_PATTERN]) d1 = (0, d')"
    using set unfolding ord by (rule setup_append)
  obtain d2 where op: "v4l2_handler_setup ?cb [?vb] d1 = (0, d2)"
    and s3: "v4l2_handler_setup ?cb [V4L2_CID_TEST_PATTERN] d2 = (0, d')"
    using s2 by (rule setup_append)
  have w1: "bus_done (trace d1) = bus_done (trace d) @ concat (map (\<lambda>c. ov5693_ctrl_writes d c (val (ctrls d c))) ?xs)"
    "quiet d1 = quiet d"
    using setup_plain [OF use s1] by (simp_all add: ov5693_setup_order_def)
  define x where "x = ov5693_follow_vblank (ov5693_inner_services E) (val (ctrls d1 ?vb)) d1"
  have w2: "bus_done (trace d2) = bus_done (trace x) @ ov5693_ctrl_writes x ?vb (val (ctrls d1 ?vb))" "quiet d2 = quiet x"
    using op_writes [OF use op [unfolded setup_one]] by (simp_all add: x_def ov5693_setup_order_def)
  note q1 = quiet_mode(1,2) [OF w1(2)]
  have w3: "bus_done (trace d') = bus_done (trace d2) @
      ov5693_ctrl_writes d2 V4L2_CID_TEST_PATTERN (val (ctrls d2 V4L2_CID_TEST_PATTERN))" "quiet d' = quiet d2"
    using setup_plain [OF use s3] by (simp_all add: ov5693_setup_order_def)
  obtain ex where ex: "bus_done (trace x) = bus_done (trace d1) @ ex"
    "(ex = [] \<and> val (ctrls x V4L2_CID_EXPOSURE) = val (ctrls d1 V4L2_CID_EXPOSURE)) \<or>
       ex = ov5693_ctrl_writes d1 V4L2_CID_EXPOSURE (val (ctrls x V4L2_CID_EXPOSURE))"
    "mode x = mode d1" "\<And>q. q \<noteq> V4L2_CID_EXPOSURE \<Longrightarrow> ctrls x q = ctrls d1 q"
    by (rule follow_vblank_writes [OF use, where v = "val (ctrls d1 ?vb)" and d = d1, folded x_def]) (rule that)
  note q = quiet_mode(1,2) [OF w2(2)] quiet_mode(1,2) [OF w3(2)]
  have m: "mode x = mode d" "mode d2 = mode d" "mode d1 = mode d" using ex(3) q q1 by simp_all
  show ?thesis
  proof (rule that [of ex])
    show "bus_done (trace d') = bus_done (trace d) @ concat (map (\<lambda>c. ov5693_ctrl_writes d c (val (ctrls d c))) ?xs) @
        ex @ ov5693_ctrl_writes d ?vb (val (ctrls d ?vb)) @
        ov5693_ctrl_writes d V4L2_CID_TEST_PATTERN (val (ctrls d V4L2_CID_TEST_PATTERN))"
      using w1(1) w2(1) w3(1) ex(1) ex(4) q q1(2)
      by (simp add: ov5693_setup_order_def ctrl_writes_mode [OF m(1)] ctrl_writes_mode [OF m(2)])
    show "(ex = [] \<and> val (ctrls d' V4L2_CID_EXPOSURE) = val (ctrls d V4L2_CID_EXPOSURE)) \<or>
       ex = ov5693_ctrl_writes d V4L2_CID_EXPOSURE (val (ctrls d' V4L2_CID_EXPOSURE))"
      using ex(2) q q1 by (simp add: ctrl_writes_mode [OF m(3)])
    show "mode d' = mode d" using m q by simp
    show "\<And>q. q \<noteq> V4L2_CID_EXPOSURE \<Longrightarrow> ctrls d' q = ctrls d q" using ex(4) q q1 by simp
  qed
qed

section \<open>What a start programs\<close>

text \<open>Only a resume initialises the sensor.\<close>

lemma pm_get_writes:
  assumes "ov5693_pm_get E d = (0, d')"
  shows "bus_done (trace d') = bus_done (trace d) @ (if rpm_active d then [] else ov5693_init_writes d)"
    "mode d' = mode d" "ctrls d' = ctrls d"
proof -
  have "bus_done (trace d') = bus_done (trace d) @ (if rpm_active d then [] else ov5693_init_writes d) \<and>
      mode d' = mode d \<and> ctrls d' = ctrls d"
  proof (cases "rpm_active d")
    case True
    then show ?thesis using assms by (auto simp: ov5693_pm_get_def klog_def)
  next
    case False
    define p where "p = ov5693_sensor_powerup E (kdo Mutex_lock d)"
    define q where "q = ov5693_sensor_init E (snd p)"
    have ok: "fst p = 0" "fst q = 0" and d': "d' = klog (Pm Pm_resume_and_get) 0 ((kdo Mutex_unlock (snd q))\<lparr>rpm_active := True\<rparr>)"
      using assms False by (auto simp: ov5693_pm_get_def resume_unfold Let_def simp flip: p_def q_def split: if_splits)
    have p: "ov5693_sensor_powerup E (kdo Mutex_lock d) = (0, snd p)" "ov5693_sensor_init E (snd p) = (0, snd q)"
      using ok by (simp_all add: prod_eq_iff flip: p_def q_def)
    note up = powerup_sequence [OF p(1)]
    have qp: "quiet (snd p) = quiet d" using up by simp
    have qq: "quiet (snd q) = quiet d"
      using bus_step_quiet [OF sensor_init_bus_step, of E "snd p"] qp by (simp flip: q_def)
    have "ov5693_init_writes (snd p) = ov5693_init_writes d"
      by (simp add: ov5693_init_writes_def mode_writes_quiet [OF qp])
    then show ?thesis
      using sensor_init_okD(1) [OF p(2)] up quiet_mode(1,2) [OF qq] by (simp add: d' klog_def False)
  qed
  then show "bus_done (trace d') = bus_done (trace d) @ (if rpm_active d then [] else ov5693_init_writes d)"
    "mode d' = mode d" "ctrls d' = ctrls d" by simp_all
qed

text \<open>The registers of the readout window, which only \<open>ov5693_mode_configure\<close> writes.\<close>

definition ov5693_window_regs :: "reg list" where
  "ov5693_window_regs = [OV5693_CROP_START_X_REG, OV5693_CROP_START_Y_REG, OV5693_CROP_END_X_REG,
     OV5693_CROP_END_Y_REG, OV5693_OUTPUT_SIZE_X_REG, OV5693_OUTPUT_SIZE_Y_REG, OV5693_TIMING_HTS_REG,
     OV5693_OFFSET_START_Y_REG, OV5693_SUB_INC_X_REG, OV5693_SUB_INC_Y_REG]"

lemma exposure_word:
  "take_bit 24 (zext64 (push_bit 4 e AND OV5693_EXPOSURE_CTRL_MASK)) = (push_bit 4 (ucast (take_bit 16 e)) :: u64)"
  "take_bit 16 (zext64 (push_bit 4 e AND OV5693_GAIN_CTRL_MASK)) = (push_bit 4 (ucast (take_bit 7 e)) :: u64)"
  by (rule bit_word_eqI, auto simp: bit_simps zext64_def OV5693_EXPOSURE_CTRL_MASK_def OV5693_GAIN_CTRL_MASK_def GENMASK_def)+

text \<open>The transfers of a start in full: those of the resume, of the set-up, and the start itself.\<close>

definition ov5693_start_writes :: "ov5693 \<Rightarrow> int \<Rightarrow> bus list \<Rightarrow> bus list" where
  "ov5693_start_writes d e ex =
     concat (map (\<lambda>(c, v). ov5693_ctrl_writes d c v) ((V4L2_CID_EXPOSURE, e) # map (\<lambda>c. (c, val (ctrls d c)))
       [V4L2_CID_ANALOGUE_GAIN, V4L2_CID_DIGITAL_GAIN, V4L2_CID_HFLIP, V4L2_CID_VFLIP])) @ ex @
     concat (map (\<lambda>c. ov5693_ctrl_writes d c (val (ctrls d c))) [V4L2_CID_VBLANK, V4L2_CID_TEST_PATTERN]) @
     [Cci_write OV5693_MIPI_CTRL00_REG OV5693_MIPI_CTRL00_IPU6, Cci_write OV5693_SW_STREAM_REG OV5693_START_STREAMING]"

lemma stream_writes:
  assumes use: "\<forall>tr. 0 < ret_of E tr (Pm Pm_get_if_in_use)"
    and res: "ov5693_s_stream (ov5693_services E) E True d = (0, d')"
  obtains ex where "bus_done (trace d') = bus_done (trace d) @ (if rpm_active d then [] else ov5693_init_writes d) @
      ov5693_start_writes d' (val (ctrls d V4L2_CID_EXPOSURE)) ex"
    "(ex = [] \<and> val (ctrls d' V4L2_CID_EXPOSURE) = val (ctrls d V4L2_CID_EXPOSURE)) \<or>
       ex = ov5693_ctrl_writes d' V4L2_CID_EXPOSURE (val (ctrls d' V4L2_CID_EXPOSURE))"
    "mode d' = mode d" "\<And>q. q \<noteq> V4L2_CID_EXPOSURE \<Longrightarrow> ctrls d' q = ctrls d q"
proof (cases rule: ov5693_stream_start [OF res])
  case (3 d1 d2 x)
  note pm = pm_get_writes [OF 3(1) [unfolded ov5693_services_def, simplified]]
  have set: "v4l2_handler_setup (ov5693_op (ov5693_inner_services E) E) ov5693_setup_order (kdo Mutex_lock d1) = (0, d2)"
    using 3(2) by (simp add: ov5693_services_def ov5693_ctrl_services_def Let_def)
  note x = quiet_mode(1,2) [OF bus_step_quiet [OF 3(3)]]
  show ?thesis
  proof (rule setup_writes [OF use set])
    fix ex
    assume a: "bus_done (trace d2) = bus_done (trace (kdo Mutex_lock d1)) @
        concat (map (\<lambda>c. ov5693_ctrl_writes (kdo Mutex_lock d1) c (val (ctrls (kdo Mutex_lock d1) c)))
          [V4L2_CID_EXPOSURE, V4L2_CID_ANALOGUE_GAIN, V4L2_CID_DIGITAL_GAIN, V4L2_CID_HFLIP, V4L2_CID_VFLIP]) @ ex @
        ov5693_ctrl_writes (kdo Mutex_lock d1) V4L2_CID_VBLANK (val (ctrls (kdo Mutex_lock d1) V4L2_CID_VBLANK)) @
        ov5693_ctrl_writes (kdo Mutex_lock d1) V4L2_CID_TEST_PATTERN (val (ctrls (kdo Mutex_lock d1) V4L2_CID_TEST_PATTERN))"
      and b: "ex = [] \<and> val (ctrls d2 V4L2_CID_EXPOSURE) = val (ctrls (kdo Mutex_lock d1) V4L2_CID_EXPOSURE) \<or>
        ex = ov5693_ctrl_writes (kdo Mutex_lock d1) V4L2_CID_EXPOSURE (val (ctrls d2 V4L2_CID_EXPOSURE))"
      and c: "mode d2 = mode (kdo Mutex_lock d1)" and o: "\<And>q. q \<noteq> V4L2_CID_EXPOSURE \<Longrightarrow> ctrls d2 q = ctrls (kdo Mutex_lock d1) q"
    have m: "mode (kdo Mutex_lock d1) = mode d'" using c x by (simp add: 3(5))
    show ?thesis
    proof (rule that [of ex])
      show "bus_done (trace d') = bus_done (trace d) @ (if rpm_active d then [] else ov5693_init_writes d) @
          ov5693_start_writes d' (val (ctrls d V4L2_CID_EXPOSURE)) ex"
        using a 3(6) pm x o unfolding ctrl_writes_mode [OF m] by (simp add: 3(5) ov5693_start_writes_def)
      show "(ex = [] \<and> val (ctrls d' V4L2_CID_EXPOSURE) = val (ctrls d V4L2_CID_EXPOSURE)) \<or>
          ex = ov5693_ctrl_writes d' V4L2_CID_EXPOSURE (val (ctrls d' V4L2_CID_EXPOSURE))"
        using b x pm unfolding ctrl_writes_mode [OF m] by (simp add: 3(5))
      show "mode d' = mode d" "\<And>q. q \<noteq> V4L2_CID_EXPOSURE \<Longrightarrow> ctrls d' q = ctrls d q"
        using c o x pm by (simp_all add: 3(5))
    qed
  qed
qed simp_all

text \<open>What those transfers leave in the sensor, wherever the exposure is written last.\<close>

lemma start_regs:
  fixes d :: ov5693 and m e
  assumes ex: "(ex = [] \<and> val (ctrls d V4L2_CID_EXPOSURE) = e) \<or>
      ex = ov5693_ctrl_writes d V4L2_CID_EXPOSURE (val (ctrls d V4L2_CID_EXPOSURE))"
  defines "R \<equiv> regs_after m (ov5693_start_writes d e ex)" and "v \<equiv> \<lambda>c. u32_of_int (val (ctrls d c))"
  shows "reg_get R OV5693_EXPOSURE_CTRL_REG = push_bit 4 (ucast (take_bit 16 (v V4L2_CID_EXPOSURE)))"
    "reg_get R OV5693_GAIN_CTRL_REG = push_bit 4 (ucast (take_bit 7 (v V4L2_CID_ANALOGUE_GAIN)))"
    "reg_get R OV5693_MWB_RED_GAIN_REG = ucast (take_bit 12 (v V4L2_CID_DIGITAL_GAIN))"
    "reg_get R OV5693_MWB_GREEN_GAIN_REG = ucast (take_bit 12 (v V4L2_CID_DIGITAL_GAIN))"
    "reg_get R OV5693_MWB_BLUE_GAIN_REG = ucast (take_bit 12 (v V4L2_CID_DIGITAL_GAIN))"
    "reg_get R OV5693_TIMING_VTS_REG = ucast (take_bit 16 (f_height (m_format (mode d)) + v V4L2_CID_VBLANK))"
    "reg_get R OV5693_OFFSET_START_X_REG = ucast (ov5693_offset_start_x d (val (ctrls d V4L2_CID_HFLIP) \<noteq> 0))"
    "reg_get R OV5693_TEST_PATTERN_REG = ucast (ov5693_test_pattern_bits ! unat (v V4L2_CID_TEST_PATTERN))"
    "reg_get R OV5693_SW_STREAM_REG = OV5693_START_STREAMING"
    "r \<in> set ov5693_window_regs \<Longrightarrow> reg_get R r = reg_get m r"
proof -
  have vts: "(ucast (ucast a :: u16) :: u64) = ucast (take_bit 16 a)"
    "take_bit 16 (ucast (take_bit 16 a) :: u64) = ucast (take_bit 16 a)" for a :: u32
    by (rule bit_word_eqI; auto simp: bit_simps)+
  have b8: "take_bit 8 (ucast (b :: u8) :: u64) = ucast b" and b16: "take_bit 16 (ucast (h :: u16) :: u64) = ucast h" for b h
    by (rule bit_word_eqI; auto simp: bit_simps dest: bit_imp_le_length)+
  note s = R_def v_def ov5693_start_writes_def ov5693_ctrl_writes_def Let_def reg_mem ov5693_regs exposure_word digital_field
    vts b8 b16
  show "reg_get R OV5693_EXPOSURE_CTRL_REG = push_bit 4 (ucast (take_bit 16 (v V4L2_CID_EXPOSURE)))"
    using ex by (auto simp: s)
  show "reg_get R OV5693_GAIN_CTRL_REG = push_bit 4 (ucast (take_bit 7 (v V4L2_CID_ANALOGUE_GAIN)))"
    "reg_get R OV5693_MWB_RED_GAIN_REG = ucast (take_bit 12 (v V4L2_CID_DIGITAL_GAIN))"
    "reg_get R OV5693_MWB_GREEN_GAIN_REG = ucast (take_bit 12 (v V4L2_CID_DIGITAL_GAIN))"
    "reg_get R OV5693_MWB_BLUE_GAIN_REG = ucast (take_bit 12 (v V4L2_CID_DIGITAL_GAIN))"
    "reg_get R OV5693_TIMING_VTS_REG = ucast (take_bit 16 (f_height (m_format (mode d)) + v V4L2_CID_VBLANK))"
    "reg_get R OV5693_OFFSET_START_X_REG = ucast (ov5693_offset_start_x d (val (ctrls d V4L2_CID_HFLIP) \<noteq> 0))"
    "reg_get R OV5693_TEST_PATTERN_REG = ucast (ov5693_test_pattern_bits ! unat (v V4L2_CID_TEST_PATTERN))"
    "reg_get R OV5693_SW_STREAM_REG = OV5693_START_STREAMING"
    using ex by (auto simp: s)
  show "r \<in> set ov5693_window_regs \<Longrightarrow> reg_get R r = reg_get m r"
    using ex by (auto simp: s ov5693_window_regs_def)
qed

text \<open>
  The readout window of a mode in the registers \<open>R\<close>: output size and line length, the whole pixel array
  in the binned readout (with the vertical offset \<open>y\<close>) or the crop rectangle with its end at start plus
  size, and the sub-sampling increments. Registers keep the low 16 bits of what is written.
\<close>

definition window_programmed :: "ov5693_mode \<Rightarrow> int \<Rightarrow> (reg \<Rightarrow> u64) \<Rightarrow> bool" where
  "window_programmed mo y R \<longleftrightarrow>
     R OV5693_OUTPUT_SIZE_X_REG = ucast (take_bit 16 (f_width (m_format mo))) \<and>
     R OV5693_OUTPUT_SIZE_Y_REG = ucast (take_bit 16 (f_height (m_format mo))) \<and>
     R OV5693_TIMING_HTS_REG = 2688 \<and>
     (if binning_x mo \<or> binning_y mo
      then R OV5693_CROP_START_X_REG = 0 \<and> R OV5693_CROP_START_Y_REG = 0 \<and>
        R OV5693_CROP_END_X_REG = 2623 \<and> R OV5693_CROP_END_Y_REG = 1955 \<and>
        R OV5693_OFFSET_START_Y_REG = take_bit 16 (word_of_int y)
      else R OV5693_CROP_START_X_REG = take_bit 16 (word_of_int (r_left (m_crop mo))) \<and>
        R OV5693_CROP_START_Y_REG = take_bit 16 (word_of_int (r_top (m_crop mo))) \<and>
        R OV5693_CROP_END_X_REG = ucast (take_bit 16 (word_of_int (r_left (m_crop mo)) + r_width (m_crop mo))) \<and>
        R OV5693_CROP_END_Y_REG = ucast (take_bit 16 (word_of_int (r_top (m_crop mo)) + r_height (m_crop mo))) \<and>
        R OV5693_OFFSET_START_Y_REG = 0) \<and>
     R OV5693_SUB_INC_X_REG = ucast (push_bit 4 (take_bit 4 (inc_x_odd mo)) + 1) \<and>
     R OV5693_SUB_INC_Y_REG = ucast (push_bit 4 (take_bit 4 (inc_y_odd mo)) + 1)"

lemma window_words:
  "take_bit 16 (zext64 a) = ucast (take_bit 16 a)"
  "take_bit 8 (zext64 ((push_bit 4 b AND 0xf0) OR 0x01)) = ucast (push_bit 4 (take_bit 4 b) + 1 :: u32)"
proof -
  show "take_bit 16 (zext64 a) = ucast (take_bit 16 a)"
    by (rule bit_word_eqI) (auto simp: bit_simps zext64_def)
  have f0: "(0xf0 :: u32) = push_bit 4 (mask 4)" by (simp add: mask_eq_exp_minus_1)
  have a: "push_bit 4 b AND (0xf0 :: u32) = push_bit 4 (take_bit 4 b)"
    unfolding f0 by (simp flip: push_bit_and take_bit_eq_mask)
  have d: "push_bit 4 (take_bit 4 b) AND (1 :: u32) = 0"
    by (rule bit_word_eqI) (auto simp: bit_simps)
  have o: "(push_bit 4 b AND 0xf0) OR (0x01 :: u32) = push_bit 4 (take_bit 4 b) + 1"
    unfolding a using disjunctive_add_eq_or [OF d] by simp
  have "take_bit 8 (zext64 ((push_bit 4 b AND 0xf0) OR 0x01)) = (ucast ((push_bit 4 b AND 0xf0) OR (0x01 :: u32)) :: u64)"
    unfolding f0 by (rule bit_word_eqI) (auto simp: bit_simps zext64_def)
  then show "take_bit 8 (zext64 ((push_bit 4 b AND 0xf0) OR 0x01)) = ucast (push_bit 4 (take_bit 4 b) + 1 :: u32)"
    unfolding o .
qed

lemma init_window:
  "window_programmed (mode d) (binned_y_offset d) (reg_get (regs_after m (ov5693_init_writes d)))"
  unfolding window_programmed_def
  by (cases "binning_x (mode d) \<or> binning_y (mode d)";
      simp add: ov5693_init_writes_def ov5693_mode_writes_def Let_def reg_mem mode_tables_elsewhere ov5693_regs
        window_words [unfolded zext64_def] ov5693_consts zext64_def sext64_def u32_of_int_def)

text \<open>
  C13: After a successful start of an OV5693 in use, with the control core and runtime PM on its
  own callbacks, the sensor has the exposure, gains, frame length, X offset and test pattern of
  the controls and is streaming; no control but EXPOSURE changed, which its VBLANK may have
  clamped. When the device was suspended its readout window is that of the mode: output size, line
  length, crop start and end, Y offset and sub-sampling increments; when it was still active these
  registers are whatever they were before.
\<close>

theorem ov5693_stream_programmed:
  fixes d d' :: ov5693 and m
  assumes use: "\<forall>tr. 0 < ret_of E tr (Pm Pm_get_if_in_use)"
    and res: "ov5693_s_stream (ov5693_services E) E True d = (0, d')"
  defines "R \<equiv> reg_get (chip m d')" and "v \<equiv> \<lambda>c. u32_of_int (val (ctrls d' c))"
  shows "mode d' = mode d \<and> (\<forall>q. q \<noteq> V4L2_CID_EXPOSURE \<longrightarrow> ctrls d' q = ctrls d q) \<and>
    R OV5693_EXPOSURE_CTRL_REG = push_bit 4 (ucast (take_bit 16 (v V4L2_CID_EXPOSURE))) \<and>
    R OV5693_GAIN_CTRL_REG = push_bit 4 (ucast (take_bit 7 (v V4L2_CID_ANALOGUE_GAIN))) \<and>
    R OV5693_MWB_RED_GAIN_REG = ucast (take_bit 12 (v V4L2_CID_DIGITAL_GAIN)) \<and>
    R OV5693_MWB_GREEN_GAIN_REG = ucast (take_bit 12 (v V4L2_CID_DIGITAL_GAIN)) \<and>
    R OV5693_MWB_BLUE_GAIN_REG = ucast (take_bit 12 (v V4L2_CID_DIGITAL_GAIN)) \<and>
    R OV5693_TIMING_VTS_REG = ucast (take_bit 16 (f_height (m_format (mode d)) + v V4L2_CID_VBLANK)) \<and>
    R OV5693_OFFSET_START_X_REG = ucast (ov5693_offset_start_x d (val (ctrls d V4L2_CID_HFLIP) \<noteq> 0)) \<and>
    R OV5693_TEST_PATTERN_REG = ucast (ov5693_test_pattern_bits ! unat (v V4L2_CID_TEST_PATTERN)) \<and>
    R OV5693_SW_STREAM_REG = OV5693_START_STREAMING \<and>
    (if rpm_active d then \<forall>r \<in> set ov5693_window_regs. R r = reg_get (chip m d) r
     else window_programmed (mode d) (binned_y_offset d) R)"
proof -
  obtain ex where w: "bus_done (trace d') = bus_done (trace d) @ (if rpm_active d then [] else ov5693_init_writes d) @
      ov5693_start_writes d' (val (ctrls d V4L2_CID_EXPOSURE)) ex"
    and ex: "(ex = [] \<and> val (ctrls d' V4L2_CID_EXPOSURE) = val (ctrls d V4L2_CID_EXPOSURE)) \<or>
       ex = ov5693_ctrl_writes d' V4L2_CID_EXPOSURE (val (ctrls d' V4L2_CID_EXPOSURE))"
    and same: "mode d' = mode d" "\<And>q. q \<noteq> V4L2_CID_EXPOSURE \<Longrightarrow> ctrls d' q = ctrls d q"
    by (rule stream_writes [OF use res]) (rule that)
  define M where "M = (if rpm_active d then chip m d else regs_after (chip m d) (ov5693_init_writes d))"
  have R: "R = reg_get (regs_after M (ov5693_start_writes d' (val (ctrls d V4L2_CID_EXPOSURE)) ex))"
    by (simp add: R_def M_def chip_def w)
  have o: "ov5693_offset_start_x d' b = ov5693_offset_start_x d b" for b
    by (simp add: ov5693_offset_start_x_def same)
  have win: "R r = reg_get M r" if "r \<in> set ov5693_window_regs" for r
    unfolding R by (rule start_regs(10) [OF ex that])
  have "window_programmed mo y R = window_programmed mo y (reg_get M)" for mo y
    unfolding window_programmed_def using win by (simp add: ov5693_window_regs_def)
  then have geometry: "if rpm_active d then \<forall>r \<in> set ov5693_window_regs. R r = reg_get (chip m d) r
     else window_programmed (mode d) (binned_y_offset d) R"
    using win init_window [of d "chip m d"] by (simp add: M_def)
  show ?thesis
    using start_regs(1-9) [OF ex, of M, folded R] geometry same by (simp add: v_def o)
qed

section \<open>Examples\<close>

text \<open>A device in use whose calls all succeed, on a sensor of zeroed registers.\<close>

definition in_use_env :: env where
  "in_use_env = sim_env (\<lambda>_. 0) (fails_on (Pm Pm_get_if_in_use) 1)"

lemma in_use_ret [simp]: "ret_of in_use_env tr e = (if e = Pm Pm_get_if_in_use then 1 else 0)"
  by (simp add: in_use_env_def sim_env_def fails_on_def)

lemma in_use_cci [simp]:
  "fst (cci in_use_env b s) = fst s"
  "fst (cci_write in_use_env r v s) = fst s"
  "fst (cci_update_bits in_use_env r k v s) = fst s"
  "fst (cci_multi_reg_write in_use_env rs s) = fst s"
  "fst (fold (cci in_use_env) bs s) = fst s"
proof -
  show 1: "fst (cci in_use_env b s) = fst s" for b s by (simp add: cci_def)
  then show "fst (cci_write in_use_env r v s) = fst s" "fst (cci_update_bits in_use_env r k v s) = fst s"
    "fst (cci_multi_reg_write in_use_env rs s) = fst s" by (simp_all add: cci_defs)
  show "fst (fold (cci in_use_env) bs s) = fst s" by (induction bs arbitrary: s) (simp_all add: 1)
qed

lemma in_use_op:
  assumes "c \<in> set ov5693_setup_order" and "c = V4L2_CID_TEST_PATTERN \<Longrightarrow> v = 0"
  shows "fst (ov5693_op S in_use_env c v d) = 0"
  using assms
  by (auto simp: ov5693_setup_order_def ov5693_op_def ov5693_s_ctrl_def ov5693_apply_ctrl_def Let_def case_prod_beta
      ov5693_exposure_configure_def ov5693_analog_gain_configure_def digital_gain_fold ov5693_flip_horz_configure_def
      ov5693_flip_vert_configure_def ov5693_vts_configure_def ov5693_test_pattern_configure_def
      ov5693_test_pattern_bits_def u32_of_int_def)

lemma in_use_setup:
  defines "cb \<equiv> ov5693_op (ov5693_inner_services in_use_env) in_use_env"
  shows "set cs \<subseteq> set ov5693_setup_order \<Longrightarrow> val (ctrls d V4L2_CID_TEST_PATTERN) = 0 \<Longrightarrow> fst (v4l2_handler_setup cb cs d) = 0"
proof (induction cs arbitrary: d)
  case (Cons c cs)
  obtain r d1 where op: "cb c (val (ctrls d c)) d = (r, d1)" by fastforce
  have "fst (cb c (val (ctrls d c)) d) = 0" unfolding cb_def by (rule in_use_op) (use Cons.prems in auto)
  then have "r = 0" by (simp add: op)
  moreover have "val (ctrls d1 V4L2_CID_TEST_PATTERN) = 0"
    using ov5693_core.cb_ctrls [OF op [unfolded cb_def], of V4L2_CID_TEST_PATTERN] Cons.prems(2) by simp
  ultimately show ?case using op Cons by (simp add: v4l2_handler_setup_def)
qed (simp add: v4l2_handler_setup_def)

lemma in_use_init: "fst (ov5693_sensor_init in_use_env d) = 0"
  by (simp add: ov5693_sensor_init_def ov5693_sw_reset_def ov5693_enable_streaming_def mode_configure_fold Let_def case_prod_beta)

lemma in_use_start:
  assumes "val (ctrls d V4L2_CID_TEST_PATTERN) = 0"
  obtains d' where "ov5693_s_stream (ov5693_services in_use_env) in_use_env True d = (0, d')"
proof -
  have pm: "fst (ov5693_pm_get in_use_env d) = 0"
    by (simp add: ov5693_pm_get_def resume_unfold ov5693_sensor_powerup_def in_use_init Let_def case_prod_beta)
  define d1 where "d1 = snd (ov5693_pm_get in_use_env d)"
  have 1: "ov5693_pm_get in_use_env d = (0, d1)" using pm by (simp add: d1_def prod_eq_iff)
  have "fst (v4l2_handler_setup (ov5693_op (ov5693_inner_services in_use_env) in_use_env) ov5693_setup_order
      (kdo Mutex_lock d1)) = 0"
    by (rule in_use_setup) (use assms pm_get_writes(3) [OF 1] in simp_all)
  then have "fst (ov5693_s_stream (ov5693_services in_use_env) in_use_env True d) = 0"
    by (simp add: ov5693_s_stream_def ov5693_services_def ov5693_ctrl_services_def 1 Let_def case_prod_beta
        ov5693_enable_streaming_def)
  then show ?thesis by (intro that [of "snd (ov5693_s_stream (ov5693_services in_use_env) in_use_env True d)"])
      (simp add: prod_eq_iff)
qed

lemma ov5693_stream_programmed_witness:
  "\<exists>d' d''. ov5693_s_stream (ov5693_services in_use_env) in_use_env True ov5693_sample = (0, d') \<and>
     reg_get (chip (\<lambda>_. 0) d') OV5693_OUTPUT_SIZE_X_REG = 2592 \<and>
     ov5693_s_stream (ov5693_services in_use_env) in_use_env True (ov5693_sample\<lparr>rpm_active := True\<rparr>) = (0, d'') \<and>
     reg_get (chip (\<lambda>_. 0) d'') OV5693_OUTPUT_SIZE_X_REG = 0 \<and>
     reg_get (chip (\<lambda>_. 0) d'') OV5693_SW_STREAM_REG = OV5693_START_STREAMING"
proof -
  let ?b = "ov5693_sample\<lparr>rpm_active := True\<rparr>"
  have use: "\<forall>tr. 0 < ret_of in_use_env tr (Pm Pm_get_if_in_use)" by simp
  have v: "val (ctrls ov5693_sample V4L2_CID_TEST_PATTERN) = 0" "val (ctrls ?b V4L2_CID_TEST_PATTERN) = 0"
    by (simp_all add: ov5693_sample_def std_ctrl_def)
  obtain d' where 1: "ov5693_s_stream (ov5693_services in_use_env) in_use_env True ov5693_sample = (0, d')"
    using in_use_start [OF v(1)] .
  obtain d'' where 2: "ov5693_s_stream (ov5693_services in_use_env) in_use_env True ?b = (0, d'')"
    using in_use_start [OF v(2)] .
  have "reg_get (chip (\<lambda>_. 0) d') OV5693_OUTPUT_SIZE_X_REG = 2592"
    using ov5693_stream_programmed [OF use 1, of "\<lambda>_. 0"] by (simp add: ov5693_sample_def window_programmed_def)
  moreover have "reg_get (chip (\<lambda>_. 0) d'') OV5693_OUTPUT_SIZE_X_REG = 0"
    "reg_get (chip (\<lambda>_. 0) d'') OV5693_SW_STREAM_REG = OV5693_START_STREAMING"
    using ov5693_stream_programmed [OF use 2, of "\<lambda>_. 0"]
    by (simp_all add: ov5693_sample_def ov5693_window_regs_def chip_def ov5693_regs reg_get.simps)
  ultimately show ?thesis using 1 2 by blast
qed

end
