(* ===== verification/Ov7251_Regs.thy ===== *)
theory Ov7251_Regs
  imports Regmap
begin

text \<open>
  The constants of \<open>dkms/ov7251-surface/ov7251.c\<close>: register addresses, limits, the PLL
  configurations, the register tables and the table of modes, in the order the source has them.
  The lemmas at the end say what a mode table programs.
\<close>

section \<open>Registers and limits\<close>

named_theorems ov7251_consts "numeric constants of the OV7251 driver"

definition OV7251_PAD_OUT1 :: u16 where [ov7251_regs]:
  "OV7251_PAD_OUT1 = 0x3005"

definition OV7251_STROBE_PATTERN :: u16 where [ov7251_regs]:
  "OV7251_STROBE_PATTERN = 0x3b81"

definition OV7251_SC_MODE_SELECT :: u16 where [ov7251_regs]:
  "OV7251_SC_MODE_SELECT = 0x0100"

definition OV7251_CHIP_ID_HIGH :: u16 where [ov7251_regs]:
  "OV7251_CHIP_ID_HIGH = 0x300a"

definition OV7251_CHIP_ID_LOW :: u16 where [ov7251_regs]:
  "OV7251_CHIP_ID_LOW = 0x300b"

definition OV7251_SC_GP_IO_IN1 :: u16 where [ov7251_regs]:
  "OV7251_SC_GP_IO_IN1 = 0x3029"

definition OV7251_AEC_EXPO_0 :: u16 where [ov7251_regs]:
  "OV7251_AEC_EXPO_0 = 0x3500"

definition OV7251_AEC_AGC_ADJ_0 :: u16 where [ov7251_regs]:
  "OV7251_AEC_AGC_ADJ_0 = 0x350a"

definition OV7251_TIMING_FORMAT1 :: u16 where [ov7251_regs]:
  "OV7251_TIMING_FORMAT1 = 0x3820"

definition OV7251_TIMING_FORMAT2 :: u16 where [ov7251_regs]:
  "OV7251_TIMING_FORMAT2 = 0x3821"

definition OV7251_PRE_ISP_00 :: u16 where [ov7251_regs]:
  "OV7251_PRE_ISP_00 = 0x5e00"

definition OV7251_PLL1_PRE_DIV_REG :: u16 where [ov7251_regs]:
  "OV7251_PLL1_PRE_DIV_REG = 0x30b4"

definition OV7251_PLL1_MULT_REG :: u16 where [ov7251_regs]:
  "OV7251_PLL1_MULT_REG = 0x30b3"

definition OV7251_PLL1_DIVIDER_REG :: u16 where [ov7251_regs]:
  "OV7251_PLL1_DIVIDER_REG = 0x30b1"

definition OV7251_PLL1_PIX_DIV_REG :: u16 where [ov7251_regs]:
  "OV7251_PLL1_PIX_DIV_REG = 0x30b0"

definition OV7251_PLL1_MIPI_DIV_REG :: u16 where [ov7251_regs]:
  "OV7251_PLL1_MIPI_DIV_REG = 0x30b5"

definition OV7251_PLL2_PRE_DIV_REG :: u16 where [ov7251_regs]:
  "OV7251_PLL2_PRE_DIV_REG = 0x3098"

definition OV7251_PLL2_MULT_REG :: u16 where [ov7251_regs]:
  "OV7251_PLL2_MULT_REG = 0x3099"

definition OV7251_PLL2_DIVIDER_REG :: u16 where [ov7251_regs]:
  "OV7251_PLL2_DIVIDER_REG = 0x309d"

definition OV7251_PLL2_SYS_DIV_REG :: u16 where [ov7251_regs]:
  "OV7251_PLL2_SYS_DIV_REG = 0x309a"

definition OV7251_PLL2_ADC_DIV_REG :: u16 where [ov7251_regs]:
  "OV7251_PLL2_ADC_DIV_REG = 0x309b"

definition OV7251_TIMING_VTS_REG :: u16 where [ov7251_regs]:
  "OV7251_TIMING_VTS_REG = 0x380e"

definition OV7251_PAD_OUT1_IR_LED :: u8 where [ov7251_regs]:
  "OV7251_PAD_OUT1_IR_LED = 0x08"

definition OV7251_STROBE_EVERY_FRAME :: u8 where [ov7251_regs]:
  "OV7251_STROBE_EVERY_FRAME = 0xff"

definition OV7251_STROBE_HALF_FRAMES :: u8 where [ov7251_regs]:
  "OV7251_STROBE_HALF_FRAMES = 0xa5"

definition OV7251_SC_MODE_SELECT_SW_STANDBY :: u8 where [ov7251_regs]:
  "OV7251_SC_MODE_SELECT_SW_STANDBY = 0x0"

definition OV7251_SC_MODE_SELECT_STREAMING :: u8 where [ov7251_regs]:
  "OV7251_SC_MODE_SELECT_STREAMING = 0x1"

definition OV7251_CHIP_ID_HIGH_BYTE :: u8 where [ov7251_regs]:
  "OV7251_CHIP_ID_HIGH_BYTE = 0x77"

definition OV7251_CHIP_ID_LOW_BYTE :: u8 where [ov7251_regs]:
  "OV7251_CHIP_ID_LOW_BYTE = 0x50"

definition OV7251_TIMING_FORMAT1_VFLIP :: u8 where [ov7251_regs]:
  "OV7251_TIMING_FORMAT1_VFLIP = BIT 2"

definition OV7251_TIMING_FORMAT2_MIRROR :: u8 where [ov7251_regs]:
  "OV7251_TIMING_FORMAT2_MIRROR = BIT 2"

definition OV7251_PRE_ISP_00_TEST_PATTERN :: u8 where [ov7251_regs]:
  "OV7251_PRE_ISP_00_TEST_PATTERN = BIT 7"

definition OV7251_NATIVE_WIDTH :: "'a::numeral" where [ov7251_consts]:
  "OV7251_NATIVE_WIDTH = 656"

definition OV7251_NATIVE_HEIGHT :: "'a::numeral" where [ov7251_consts]:
  "OV7251_NATIVE_HEIGHT = 496"

definition OV7251_ACTIVE_START_LEFT :: "'a::numeral" where [ov7251_consts]:
  "OV7251_ACTIVE_START_LEFT = 4"

definition OV7251_ACTIVE_START_TOP :: "'a::numeral" where [ov7251_consts]:
  "OV7251_ACTIVE_START_TOP = 4"

definition OV7251_ACTIVE_WIDTH :: "'a::numeral" where [ov7251_consts]:
  "OV7251_ACTIVE_WIDTH = 648"

definition OV7251_ACTIVE_HEIGHT :: "'a::numeral" where [ov7251_consts]:
  "OV7251_ACTIVE_HEIGHT = 488"

definition OV7251_FIXED_PPL :: "'a::numeral" where [ov7251_consts]:
  "OV7251_FIXED_PPL = 928"

definition OV7251_TIMING_MIN_VTS :: "'a::numeral" where [ov7251_consts]:
  "OV7251_TIMING_MIN_VTS = 1"

definition OV7251_TIMING_MAX_VTS :: "'a::numeral" where [ov7251_consts]:
  "OV7251_TIMING_MAX_VTS = 0xffff"

definition OV7251_INTEGRATION_MARGIN :: "'a::numeral" where [ov7251_consts]:
  "OV7251_INTEGRATION_MARGIN = 20"

definition OV7251_BOOST_INTEGRATION_MARGIN :: "'a::numeral" where [ov7251_consts]:
  "OV7251_BOOST_INTEGRATION_MARGIN = 256"

definition MEDIA_BUS_FMT_Y10_1X10 :: u32 where
  "MEDIA_BUS_FMT_Y10_1X10 = 0x200a"

section \<open>PLL configurations\<close>

record ov7251_pll1_cfg =
  pre_div :: u32
  mult :: u32
  div1 :: u32
  pix_div :: u32
  mipi_div :: u32

record ov7251_pll2_cfg =
  pre_div2 :: u32
  mult2 :: u32
  div2 :: u32
  sys_div :: u32
  adc_div :: u32

record ov7251_pll_cfgs =
  pll2 :: ov7251_pll2_cfg
  pll1 :: "ov7251_pll1_cfg list"

definition ov7251_pll1_cfg_19_2_mhz_240_mhz :: ov7251_pll1_cfg where
  "ov7251_pll1_cfg_19_2_mhz_240_mhz = \<lparr>pre_div = 0x03, mult = 0x4b, div1 = 0x01, pix_div = 0x0a, mipi_div = 0x05\<rparr>"

definition ov7251_pll1_cfg_19_2_mhz_319_2_mhz :: ov7251_pll1_cfg where
  "ov7251_pll1_cfg_19_2_mhz_319_2_mhz = \<lparr>pre_div = 0x01, mult = 0x85, div1 = 0x04, pix_div = 0x0a, mipi_div = 0x05\<rparr>"

definition ov7251_pll1_cfg_24_mhz_240_mhz :: ov7251_pll1_cfg where
  "ov7251_pll1_cfg_24_mhz_240_mhz = \<lparr>pre_div = 0x03, mult = 0x64, div1 = 0x01, pix_div = 0x0a, mipi_div = 0x05\<rparr>"

definition ov7251_pll1_cfg_24_mhz_319_2_mhz :: ov7251_pll1_cfg where
  "ov7251_pll1_cfg_24_mhz_319_2_mhz = \<lparr>pre_div = 0x05, mult = 0x85, div1 = 0x02, pix_div = 0x0a, mipi_div = 0x05\<rparr>"

definition ov7251_pll2_cfg_19_2_mhz :: ov7251_pll2_cfg where
  "ov7251_pll2_cfg_19_2_mhz = \<lparr>pre_div2 = 0x04, mult2 = 0x32, div2 = 0x00, sys_div = 0x05, adc_div = 0x04\<rparr>"

definition ov7251_pll2_cfg_24_mhz :: ov7251_pll2_cfg where
  "ov7251_pll2_cfg_24_mhz = \<lparr>pre_div2 = 0x04, mult2 = 0x28, div2 = 0x00, sys_div = 0x05, adc_div = 0x04\<rparr>"

definition ov7251_pll_cfgs_19_2_mhz :: ov7251_pll_cfgs where
  "ov7251_pll_cfgs_19_2_mhz = \<lparr>pll2 = ov7251_pll2_cfg_19_2_mhz,
     pll1 = [ov7251_pll1_cfg_19_2_mhz_240_mhz, ov7251_pll1_cfg_19_2_mhz_319_2_mhz]\<rparr>"

definition ov7251_pll_cfgs_24_mhz :: ov7251_pll_cfgs where
  "ov7251_pll_cfgs_24_mhz = \<lparr>pll2 = ov7251_pll2_cfg_24_mhz,
     pll1 = [ov7251_pll1_cfg_24_mhz_240_mhz, ov7251_pll1_cfg_24_mhz_319_2_mhz]\<rparr>"

text \<open>Indexed by \<open>enum xclk_rate\<close>.\<close>

definition ov7251_pll_cfgs_table :: "ov7251_pll_cfgs list" where
  "ov7251_pll_cfgs_table = [ov7251_pll_cfgs_19_2_mhz, ov7251_pll_cfgs_24_mhz]"

section \<open>Register tables\<close>

text \<open>\<open>struct reg_value\<close>: the register and the byte it is set to.\<close>

type_synonym reg_value = "u16 \<times> u8"

definition ov7251_global_init_setting :: "reg_value list" where
  "ov7251_global_init_setting = [
    (0x0103, 0x01), (0x303b, 0x02)]"

definition ov7251_setting_vga_30fps :: "reg_value list" where
  "ov7251_setting_vga_30fps = [
    (0x3005, 0x00), (0x3012, 0xc0), (0x3013, 0xd2), (0x3014, 0x04), (0x3016, 0xf0), (0x3017, 0xf0),
    (0x3018, 0xf0), (0x301a, 0xf0), (0x301b, 0xf0), (0x301c, 0xf0), (0x3023, 0x05), (0x3037, 0xf0),
    (0x3106, 0xda), (0x3503, 0x07), (0x3509, 0x10), (0x3600, 0x1c), (0x3602, 0x62), (0x3620, 0xb7),
    (0x3622, 0x04), (0x3626, 0x21), (0x3627, 0x30), (0x3630, 0x44), (0x3631, 0x35), (0x3634, 0x60),
    (0x3636, 0x00), (0x3662, 0x01), (0x3663, 0x70), (0x3664, 0x50), (0x3666, 0x0a), (0x3669, 0x1a),
    (0x366a, 0x00), (0x366b, 0x50), (0x3673, 0x01), (0x3674, 0xff), (0x3675, 0x03), (0x3705, 0xc1),
    (0x3709, 0x40), (0x373c, 0x08), (0x3742, 0x00), (0x3757, 0xb3), (0x3788, 0x00), (0x37a8, 0x01),
    (0x37a9, 0xc0), (0x3800, 0x00), (0x3801, 0x04), (0x3802, 0x00), (0x3803, 0x04), (0x3804, 0x02),
    (0x3805, 0x8b), (0x3806, 0x01), (0x3807, 0xeb), (0x3808, 0x02), (0x3809, 0x80), (0x380a, 0x01),
    (0x380b, 0xe0), (0x380c, 0x03), (0x380d, 0xa0), (0x380e, 0x06), (0x380f, 0xbc), (0x3810, 0x00),
    (0x3811, 0x04), (0x3812, 0x00), (0x3813, 0x05), (0x3814, 0x11), (0x3815, 0x11), (0x3820, 0x40),
    (0x3821, 0x00), (0x382f, 0x0e), (0x3832, 0x00), (0x3833, 0x05), (0x3834, 0x00), (0x3835, 0x0c),
    (0x3837, 0x00), (0x3b80, 0x00), (0x3b81, 0xa5), (0x3b82, 0x10), (0x3b83, 0x00), (0x3b84, 0x08),
    (0x3b85, 0x00), (0x3b86, 0x01), (0x3b87, 0x00), (0x3b88, 0x00), (0x3b89, 0x00), (0x3b8a, 0x00),
    (0x3b8b, 0x05), (0x3b8c, 0x00), (0x3b8d, 0x00), (0x3b8e, 0x00), (0x3b8f, 0x1a), (0x3b94, 0x05),
    (0x3b95, 0xf2), (0x3b96, 0x40), (0x3c00, 0x89), (0x3c01, 0x63), (0x3c02, 0x01), (0x3c03, 0x00),
    (0x3c04, 0x00), (0x3c05, 0x03), (0x3c06, 0x00), (0x3c07, 0x06), (0x3c0c, 0x01), (0x3c0d, 0xd0),
    (0x3c0e, 0x02), (0x3c0f, 0x0a), (0x4001, 0x42), (0x4004, 0x04), (0x4005, 0x00), (0x404e, 0x01),
    (0x4300, 0xff), (0x4301, 0x00), (0x4315, 0x00), (0x4501, 0x48), (0x4600, 0x00), (0x4601, 0x4e),
    (0x4801, 0x0f), (0x4806, 0x0f), (0x4819, 0xaa), (0x4823, 0x3e), (0x4837, 0x19), (0x4a0d, 0x00),
    (0x4a47, 0x7f), (0x4a49, 0xf0), (0x4a4b, 0x30), (0x5000, 0x85), (0x5001, 0x80)]"

definition ov7251_setting_vga_win :: "reg_value list" where
  "ov7251_setting_vga_win = [
    (0x3005, 0x08), (0x3012, 0xc0), (0x3013, 0xd2), (0x3014, 0x04), (0x3016, 0x10), (0x3017, 0x00),
    (0x3018, 0x00), (0x301a, 0x00), (0x301b, 0x00), (0x301c, 0x00), (0x3023, 0x05), (0x3037, 0xf0),
    (0x3106, 0xda), (0x3503, 0x07), (0x3509, 0x10), (0x3600, 0x1c), (0x3602, 0x62), (0x3620, 0xb7),
    (0x3622, 0x04), (0x3626, 0x21), (0x3627, 0x30), (0x3630, 0x44), (0x3631, 0x35), (0x3634, 0x60),
    (0x3636, 0x00), (0x3662, 0x01), (0x3663, 0x70), (0x3664, 0xf0), (0x3666, 0x0a), (0x3669, 0x1a),
    (0x366a, 0x00), (0x366b, 0x50), (0x3673, 0x01), (0x3674, 0xff), (0x3675, 0x03), (0x3705, 0xc1),
    (0x3709, 0x40), (0x373c, 0x08), (0x3742, 0x00), (0x3757, 0xb3), (0x3788, 0x00), (0x37a8, 0x01),
    (0x37a9, 0xc0), (0x3800, 0x00), (0x3801, 0x04), (0x3802, 0x00), (0x3803, 0x04), (0x3804, 0x02),
    (0x3805, 0x8b), (0x3806, 0x01), (0x3807, 0xeb), (0x3808, 0x02), (0x3809, 0x80), (0x380a, 0x01),
    (0x380b, 0xe0), (0x380c, 0x03), (0x380d, 0xa0), (0x380e, 0x02), (0x380f, 0x0a), (0x3810, 0x00),
    (0x3811, 0x04), (0x3812, 0x00), (0x3813, 0x05), (0x3814, 0x11), (0x3815, 0x11), (0x3820, 0x40),
    (0x3821, 0x00), (0x382f, 0x0e), (0x3832, 0x00), (0x3833, 0x05), (0x3834, 0x00), (0x3835, 0x0c),
    (0x3837, 0x00), (0x3b80, 0x00), (0x3b81, 0xff), (0x3b82, 0x10), (0x3b83, 0x00), (0x3b84, 0x08),
    (0x3b85, 0x00), (0x3b86, 0x01), (0x3b87, 0x00), (0x3b88, 0x00), (0x3b89, 0x00), (0x3b8a, 0x00),
    (0x3b8b, 0x05), (0x3b8c, 0x00), (0x3b8d, 0x00), (0x3b8e, 0x00), (0x3b8f, 0x1a), (0x3b94, 0x05),
    (0x3b95, 0xf2), (0x3b96, 0x40), (0x3c00, 0x89), (0x3c01, 0x63), (0x3c02, 0x01), (0x3c03, 0x00),
    (0x3c04, 0x00), (0x3c05, 0x03), (0x3c06, 0x00), (0x3c07, 0x06), (0x3c0c, 0x01), (0x3c0d, 0xd0),
    (0x3c0e, 0x02), (0x3c0f, 0x0a), (0x4001, 0x42), (0x4004, 0x04), (0x4005, 0x00), (0x404e, 0x01),
    (0x4300, 0xff), (0x4301, 0x00), (0x4501, 0x48), (0x4600, 0x00), (0x4601, 0x4e), (0x4801, 0x0f),
    (0x4806, 0x0f), (0x4819, 0xaa), (0x4823, 0x3e), (0x4837, 0x19), (0x4a0d, 0x00), (0x4a47, 0x7f),
    (0x4a49, 0xf0), (0x4a4b, 0x30), (0x5000, 0x87), (0x5001, 0x80)]"

definition ov7251_setting_vga_60fps :: "reg_value list" where
  "ov7251_setting_vga_60fps = [
    (0x3005, 0x00), (0x3012, 0xc0), (0x3013, 0xd2), (0x3014, 0x04), (0x3016, 0x10), (0x3017, 0x00),
    (0x3018, 0x00), (0x301a, 0x00), (0x301b, 0x00), (0x301c, 0x00), (0x3023, 0x05), (0x3037, 0xf0),
    (0x3106, 0xda), (0x3503, 0x07), (0x3509, 0x10), (0x3600, 0x1c), (0x3602, 0x62), (0x3620, 0xb7),
    (0x3622, 0x04), (0x3626, 0x21), (0x3627, 0x30), (0x3630, 0x44), (0x3631, 0x35), (0x3634, 0x60),
    (0x3636, 0x00), (0x3662, 0x01), (0x3663, 0x70), (0x3664, 0x50), (0x3666, 0x0a), (0x3669, 0x1a),
    (0x366a, 0x00), (0x366b, 0x50), (0x3673, 0x01), (0x3674, 0xff), (0x3675, 0x03), (0x3705, 0xc1),
    (0x3709, 0x40), (0x373c, 0x08), (0x3742, 0x00), (0x3757, 0xb3), (0x3788, 0x00), (0x37a8, 0x01),
    (0x37a9, 0xc0), (0x3800, 0x00), (0x3801, 0x04), (0x3802, 0x00), (0x3803, 0x04), (0x3804, 0x02),
    (0x3805, 0x8b), (0x3806, 0x01), (0x3807, 0xeb), (0x3808, 0x02), (0x3809, 0x80), (0x380a, 0x01),
    (0x380b, 0xe0), (0x380c, 0x03), (0x380d, 0xa0), (0x380e, 0x03), (0x380f, 0x5c), (0x3810, 0x00),
    (0x3811, 0x04), (0x3812, 0x00), (0x3813, 0x05), (0x3814, 0x11), (0x3815, 0x11), (0x3820, 0x40),
    (0x3821, 0x00), (0x382f, 0x0e), (0x3832, 0x00), (0x3833, 0x05), (0x3834, 0x00), (0x3835, 0x0c),
    (0x3837, 0x00), (0x3b80, 0x00), (0x3b81, 0xa5), (0x3b82, 0x10), (0x3b83, 0x00), (0x3b84, 0x08),
    (0x3b85, 0x00), (0x3b86, 0x01), (0x3b87, 0x00), (0x3b88, 0x00), (0x3b89, 0x00), (0x3b8a, 0x00),
    (0x3b8b, 0x05), (0x3b8c, 0x00), (0x3b8d, 0x00), (0x3b8e, 0x00), (0x3b8f, 0x1a), (0x3b94, 0x05),
    (0x3b95, 0xf2), (0x3b96, 0x40), (0x3c00, 0x89), (0x3c01, 0x63), (0x3c02, 0x01), (0x3c03, 0x00),
    (0x3c04, 0x00), (0x3c05, 0x03), (0x3c06, 0x00), (0x3c07, 0x06), (0x3c0c, 0x01), (0x3c0d, 0xd0),
    (0x3c0e, 0x02), (0x3c0f, 0x0a), (0x4001, 0x42), (0x4004, 0x04), (0x4005, 0x00), (0x404e, 0x01),
    (0x4300, 0xff), (0x4301, 0x00), (0x4315, 0x00), (0x4501, 0x48), (0x4600, 0x00), (0x4601, 0x4e),
    (0x4801, 0x0f), (0x4806, 0x0f), (0x4819, 0xaa), (0x4823, 0x3e), (0x4837, 0x19), (0x4a0d, 0x00),
    (0x4a47, 0x7f), (0x4a49, 0xf0), (0x4a4b, 0x30), (0x5000, 0x85), (0x5001, 0x80)]"

definition ov7251_setting_vga_90fps :: "reg_value list" where
  "ov7251_setting_vga_90fps = [
    (0x3005, 0x00), (0x3012, 0xc0), (0x3013, 0xd2), (0x3014, 0x04), (0x3016, 0x10), (0x3017, 0x00),
    (0x3018, 0x00), (0x301a, 0x00), (0x301b, 0x00), (0x301c, 0x00), (0x3023, 0x05), (0x3037, 0xf0),
    (0x3106, 0xda), (0x3503, 0x07), (0x3509, 0x10), (0x3600, 0x1c), (0x3602, 0x62), (0x3620, 0xb7),
    (0x3622, 0x04), (0x3626, 0x21), (0x3627, 0x30), (0x3630, 0x44), (0x3631, 0x35), (0x3634, 0x60),
    (0x3636, 0x00), (0x3662, 0x01), (0x3663, 0x70), (0x3664, 0x50), (0x3666, 0x0a), (0x3669, 0x1a),
    (0x366a, 0x00), (0x366b, 0x50), (0x3673, 0x01), (0x3674, 0xff), (0x3675, 0x03), (0x3705, 0xc1),
    (0x3709, 0x40), (0x373c, 0x08), (0x3742, 0x00), (0x3757, 0xb3), (0x3788, 0x00), (0x37a8, 0x01),
    (0x37a9, 0xc0), (0x3800, 0x00), (0x3801, 0x04), (0x3802, 0x00), (0x3803, 0x04), (0x3804, 0x02),
    (0x3805, 0x8b), (0x3806, 0x01), (0x3807, 0xeb), (0x3808, 0x02), (0x3809, 0x80), (0x380a, 0x01),
    (0x380b, 0xe0), (0x380c, 0x03), (0x380d, 0xa0), (0x380e, 0x02), (0x380f, 0x3c), (0x3810, 0x00),
    (0x3811, 0x04), (0x3812, 0x00), (0x3813, 0x05), (0x3814, 0x11), (0x3815, 0x11), (0x3820, 0x40),
    (0x3821, 0x00), (0x382f, 0x0e), (0x3832, 0x00), (0x3833, 0x05), (0x3834, 0x00), (0x3835, 0x0c),
    (0x3837, 0x00), (0x3b80, 0x00), (0x3b81, 0xa5), (0x3b82, 0x10), (0x3b83, 0x00), (0x3b84, 0x08),
    (0x3b85, 0x00), (0x3b86, 0x01), (0x3b87, 0x00), (0x3b88, 0x00), (0x3b89, 0x00), (0x3b8a, 0x00),
    (0x3b8b, 0x05), (0x3b8c, 0x00), (0x3b8d, 0x00), (0x3b8e, 0x00), (0x3b8f, 0x1a), (0x3b94, 0x05),
    (0x3b95, 0xf2), (0x3b96, 0x40), (0x3c00, 0x89), (0x3c01, 0x63), (0x3c02, 0x01), (0x3c03, 0x00),
    (0x3c04, 0x00), (0x3c05, 0x03), (0x3c06, 0x00), (0x3c07, 0x06), (0x3c0c, 0x01), (0x3c0d, 0xd0),
    (0x3c0e, 0x02), (0x3c0f, 0x0a), (0x4001, 0x42), (0x4004, 0x04), (0x4005, 0x00), (0x404e, 0x01),
    (0x4300, 0xff), (0x4301, 0x00), (0x4315, 0x00), (0x4501, 0x48), (0x4600, 0x00), (0x4601, 0x4e),
    (0x4801, 0x0f), (0x4806, 0x0f), (0x4819, 0xaa), (0x4823, 0x3e), (0x4837, 0x19), (0x4a0d, 0x00),
    (0x4a47, 0x7f), (0x4a49, 0xf0), (0x4a4b, 0x30), (0x5000, 0x85), (0x5001, 0x80)]"

section \<open>Clocks and modes\<close>

definition supported_xclk_rates :: "u32 list" where
  "supported_xclk_rates = [19200000, 24000000]"

text \<open>Indexed by \<open>enum supported_link_freqs\<close>.\<close>

definition link_freq :: "u64 list" where
  "link_freq = [240000000, 319200000]"

definition pixel_rates :: "int list" where
  "pixel_rates = [48000000, 63840000]"

record v4l2_fract =
  numerator :: u32
  denominator :: u32

text \<open>The fields \<open>pixel_clock\<close> and \<open>link_freq\<close> of the struct are never read.\<close>

record ov7251_mode_info =
  md_width :: u32
  md_height :: u32
  md_vts :: u32
  md_data :: "reg_value list"
  exposure_max :: u16
  exposure_def :: u16
  timeperframe :: v4l2_fract

definition ov7251_mode_info_data :: "ov7251_mode_info list" where
  "ov7251_mode_info_data = [
     \<lparr>md_width = 640, md_height = 480, md_vts = 1724, md_data = ov7251_setting_vga_30fps,
      exposure_max = 1704, exposure_def = 504,
      timeperframe = \<lparr>numerator = 100, denominator = 3000\<rparr>\<rparr>,
     \<lparr>md_width = 640, md_height = 480, md_vts = 860, md_data = ov7251_setting_vga_60fps,
      exposure_max = 840, exposure_def = 504,
      timeperframe = \<lparr>numerator = 100, denominator = 6014\<rparr>\<rparr>,
     \<lparr>md_width = 640, md_height = 480, md_vts = 572, md_data = ov7251_setting_vga_90fps,
      exposure_max = 552, exposure_def = 504,
      timeperframe = \<lparr>numerator = 100, denominator = 9043\<rparr>\<rparr>]"

definition ov7251_win_mode :: ov7251_mode_info where
  "ov7251_win_mode =
     \<lparr>md_width = 640, md_height = 480, md_vts = 522, md_data = ov7251_setting_vga_win,
      exposure_max = 502, exposure_def = 400,
      timeperframe = \<lparr>numerator = 100, denominator = 13179\<rparr>\<rparr>"

definition ov7251_test_pattern_menu :: "string list" where
  "ov7251_test_pattern_menu = [''Disabled'', ''Vertical Pattern Bars'']"

section \<open>What a mode table programs\<close>

text \<open>The byte a table leaves in a register.\<close>

definition table_byte :: "reg_value list \<Rightarrow> u16 \<Rightarrow> u8 option" where
  "table_byte t r = map_of (rev t) r"

lemmas mode_tables = ov7251_setting_vga_30fps_def ov7251_setting_vga_60fps_def
  ov7251_setting_vga_90fps_def ov7251_setting_vga_win_def

text \<open>The tables are written in the order of the addresses, so no register is written twice.\<close>

fun rising :: "u16 list \<Rightarrow> bool" where
  "rising (x # y # zs) = (x < y \<and> rising (y # zs))"
| "rising _ = True"

lemma rising_distinct: "rising xs \<Longrightarrow> distinct xs \<and> (\<forall>x \<in> set (tl xs). hd xs < x)"
  by (induction xs rule: rising.induct) (auto intro: less_trans)

lemma table_rising:
  "rising (map fst ov7251_setting_vga_30fps)" "rising (map fst ov7251_setting_vga_60fps)"
  "rising (map fst ov7251_setting_vga_90fps)" "rising (map fst ov7251_setting_vga_win)"
  unfolding mode_tables by simp_all

lemma rising_byte: "rising (map fst t) \<Longrightarrow> table_byte t = map_of t"
proof -
  have "map_of (rev t) = map_of t" if "distinct (map fst t)" for t :: "reg_value list"
    using that
  proof (induction t)
    case Nil
    show ?case by simp
  next
    case (Cons x t)
    then have "dom [fst x \<mapsto> snd x] \<inter> dom (map_of t) = {}" by (simp add: dom_map_of_conv_image_fst)
    from map_add_comm [OF this] Cons show ?case by (cases x) simp
  qed
  then show "rising (map fst t) \<Longrightarrow> table_byte t = map_of t"
    using rising_distinct [of "map fst t"] by (simp add: table_byte_def fun_eq_iff)
qed

lemmas table_bytes = table_rising [THEN rising_byte]

text \<open>The timing a table programs: line length, output size and frame length.\<close>

definition programs_timing :: "reg_value list \<Rightarrow> u8 \<Rightarrow> u8 \<Rightarrow> bool" where
  "programs_timing t vhi vlo \<longleftrightarrow>
     map (table_byte t) [0x3808, 0x3809, 0x380a, 0x380b, 0x380c, 0x380d, 0x380e, 0x380f] =
       map Some [0x02, 0x80, 0x01, 0xe0, 0x03, 0xa0, vhi, vlo]"

lemma table_timing:
  "programs_timing ov7251_setting_vga_30fps 0x06 0xbc"
  "programs_timing ov7251_setting_vga_60fps 0x03 0x5c"
  "programs_timing ov7251_setting_vga_90fps 0x02 0x3c"
  "programs_timing ov7251_setting_vga_win 0x02 0x0a"
  unfolding programs_timing_def table_bytes unfolding mode_tables by simp_all

text \<open>The registers of the illuminator, and one the Windows table leaves out.\<close>

lemma strobe_bytes:
  "table_byte ov7251_global_init_setting 0x3b81 = None"
  "table_byte ov7251_setting_vga_30fps 0x3b81 = Some 0xa5"
  "table_byte ov7251_setting_vga_60fps 0x3b81 = Some 0xa5"
  "table_byte ov7251_setting_vga_90fps 0x3b81 = Some 0xa5"
  "table_byte ov7251_setting_vga_win 0x3b81 = Some 0xff"
  "table_byte ov7251_setting_vga_30fps 0x4315 = Some 0"
  "table_byte ov7251_setting_vga_win 0x4315 = None"
  unfolding table_bytes unfolding mode_tables ov7251_global_init_setting_def table_byte_def by simp_all

text \<open>
  Each mode: its table programs the line length of \<open>OV7251_FIXED_PPL\<close>, its size and its frame
  length; its exposure limit keeps the margin of 20 lines; and its interval is the frame time at the
  pixel rate of the link it runs on, to the nearest hundredth of a frame per second.
\<close>

definition mode_consistent :: "int \<Rightarrow> ov7251_mode_info \<Rightarrow> bool" where
  "mode_consistent rate m \<longleftrightarrow>
     programs_timing (md_data m) (ucast (drop_bit 8 (md_vts m))) (ucast (md_vts m)) \<and>
     md_width m = 640 \<and> md_height m = 480 \<and>
     uint (exposure_max m) + 20 = uint (md_vts m) \<and> uint (exposure_def m) \<le> uint (exposure_max m) \<and>
     numerator (timeperframe m) = 100 \<and>
     (let frame = OV7251_FIXED_PPL * uint (md_vts m)
      in uint (denominator (timeperframe m)) = (100 * rate + frame div 2) div frame)"

lemma vts_low_bytes: "(1724 :: u8) = 0xbc" "(860 :: u8) = 0x5c" "(572 :: u8) = 0x3c" "(522 :: u8) = 0x0a"
  by simp_all

text \<open>
  The rate of every entry of the mode table, the pixel rate of its PLL, its line length and its
  frame length agree; so do those of the Windows mode at the second pixel rate.
\<close>

theorem modes_consistent:
  "list_all (mode_consistent (pixel_rates ! 0)) ov7251_mode_info_data \<and>
   mode_consistent (pixel_rates ! 1) ov7251_win_mode"
  using table_timing [folded vts_low_bytes]
  by (simp add: ov7251_mode_info_data_def ov7251_win_mode_def mode_consistent_def pixel_rates_def
      ov7251_consts)

text \<open>The registers in which the Windows table differs from the one for 30 frames a second.\<close>

definition win_differences :: "u16 list" where
  "win_differences = [0x3005, 0x3016, 0x3017, 0x3018, 0x301a, 0x301b, 0x301c, 0x3664, 0x380e, 0x380f,
     0x3b81, 0x4315, 0x5000]"

lemma table_byte_filter:
  "P r \<Longrightarrow> table_byte (filter (\<lambda>x. P (fst x)) t) r = table_byte t r"
  by (induction t) (auto simp: table_byte_def map_add_def split: option.splits)

lemma win_table_same:
  "filter (\<lambda>x. fst x \<notin> set win_differences) ov7251_setting_vga_win =
   filter (\<lambda>x. fst x \<notin> set win_differences) ov7251_setting_vga_30fps"
  unfolding mode_tables win_differences_def by simp

lemma win_table_bytes:
  "map (table_byte ov7251_setting_vga_win) win_differences =
     [Some 0x08, Some 0x10, Some 0, Some 0, Some 0, Some 0, Some 0, Some 0xf0, Some 0x02, Some 0x0a,
      Some 0xff, None, Some 0x87]"
  "map (table_byte ov7251_setting_vga_30fps) win_differences =
     [Some 0x00, Some 0xf0, Some 0xf0, Some 0xf0, Some 0xf0, Some 0xf0, Some 0xf0, Some 0x50, Some 0x06,
      Some 0xbc, Some 0xa5, Some 0, Some 0x85]"
  unfolding table_bytes unfolding mode_tables win_differences_def by simp_all

lemma win_table_other:
  "r \<in> set win_differences \<Longrightarrow> table_byte ov7251_setting_vga_win r \<noteq> table_byte ov7251_setting_vga_30fps r"
proof -
  have "list_all2 (\<noteq>) (map (table_byte ov7251_setting_vga_win) win_differences)
      (map (table_byte ov7251_setting_vga_30fps) win_differences)"
    unfolding win_table_bytes by simp
  moreover assume "r \<in> set win_differences"
  ultimately show ?thesis
    by (auto simp: list_all2_map1 list_all2_map2 list_all2_same)
qed

text \<open>
  The Windows table programs the registers the 30 fps table programs with the same values, but for
  the listed addresses.
\<close>

theorem win_table_differences:
  "table_byte (md_data ov7251_win_mode) r \<noteq> table_byte ov7251_setting_vga_30fps r \<longleftrightarrow> r \<in> set win_differences"
proof (cases "r \<in> set win_differences")
  case True
  then show ?thesis using win_table_other by (simp add: ov7251_win_mode_def)
next
  case False
  then show ?thesis
    using table_byte_filter [of "\<lambda>r. r \<notin> set win_differences" r] win_table_same
    by (metis ov7251_mode_info.select_convs(4) ov7251_win_mode_def)
qed

text \<open>
  The strobe pattern is set by every mode table and not by the global table; the Windows table
  strobes every frame, and leaves out the register 0x4315 the other one clears.
\<close>

theorem strobe_programming:
  "table_byte ov7251_global_init_setting OV7251_STROBE_PATTERN = None \<and>
   list_all (\<lambda>m. table_byte (md_data m) OV7251_STROBE_PATTERN = Some OV7251_STROBE_HALF_FRAMES) ov7251_mode_info_data \<and>
   table_byte (md_data ov7251_win_mode) OV7251_STROBE_PATTERN = Some OV7251_STROBE_EVERY_FRAME \<and>
   table_byte ov7251_setting_vga_30fps 0x4315 = Some 0 \<and> table_byte (md_data ov7251_win_mode) 0x4315 = None"
  using strobe_bytes by (simp add: ov7251_mode_info_data_def ov7251_win_mode_def ov7251_regs)

end
