(* ===== verification/Ov7251_Ctrl.thy ===== *)
theory Ov7251_Ctrl
  imports Ov7251_Regs
begin

text \<open>
  The OV7251 device, its register access over plain I2C transfers, and its control operations
  (\<open>ov7251.c\<close>, from \<open>ov7251_write_reg\<close> to \<open>ov7251_s_ctrl\<close>). The operations that index a table or
  copy into a buffer return a \<open>fault\<close> where the C code would leave its bounds.
\<close>

section \<open>The device\<close>

text \<open>
  The colour description set with a format: the constants of the kernel headers for an
  uncompressed sRGB source.
\<close>

record ov7251_fmt = v4l2_mbus_framefmt +
  f_field :: u32
  f_colorspace :: u32
  f_ycbcr_enc :: u32
  f_quantization :: u32
  f_xfer_func :: u32

text \<open>
  \<open>modes\<close> is the global array \<open>ov7251_mode_info_data\<close>, which probe may change; \<open>current_mode\<close> is
  the index of the element the driver's pointer is at. The last four fields are the module
  parameters and what ACPI answers for the device.
\<close>

record ov7251 = kdev +
  fmt :: ov7251_fmt
  crop :: v4l2_rect
  xclk_freq :: u32
  pll_cfgs :: ov7251_pll_cfgs
  link_freq_idx :: nat
  modes :: "ov7251_mode_info list"
  current_mode :: nat
  pre_isp_00 :: u8
  timing_format1 :: u8
  timing_format2 :: u8
  win_timing :: int
  vts_boost :: int
  ir_led :: int
  hid_int347e :: bool

definition cur_mode :: "ov7251 \<Rightarrow> ov7251_mode_info" where
  "cur_mode d = modes d ! current_mode d"

section \<open>Register access\<close>

definition reg_hi :: "u16 \<Rightarrow> u8" where
  "reg_hi r = ucast (drop_bit 8 r)"

definition reg_lo :: "u16 \<Rightarrow> u8" where
  "reg_lo r = ucast (r AND 0xff)"

definition ov7251_write_reg :: "env \<Rightarrow> u16 \<Rightarrow> u8 \<Rightarrow> 'a kdev_scheme \<Rightarrow> int \<times> 'a kdev_scheme" where
  "ov7251_write_reg E r v d =
     (let regbuf = [reg_hi r, reg_lo r, v];
          (ret, d) = kcall E (Bus (I2c_master_send regbuf)) d
      in if ret < 0 then (ret, d) else (0, d))"

text \<open>
  \<open>nregbuf\<close> is an 8-bit sum: a \<open>num\<close> of 254 or 255 wraps past the size check and overruns the
  five-byte buffer in the copy.
\<close>

definition ov7251_write_seq_regs ::
    "env \<Rightarrow> u16 \<Rightarrow> u8 list \<Rightarrow> u8 \<Rightarrow> 'a kdev_scheme \<Rightarrow> fault + (int \<times> 'a kdev_scheme)" where
  "ov7251_write_seq_regs E r vals num d =
     (let nregbuf = 2 + num
      in if nregbuf > 5 then Inr (- EINVAL, d)
         else if unat num > 3 then Inl Buffer_overflow
         else if unat num > length vals then Inl Out_of_bounds
         else
           (let regbuf = [reg_hi r, reg_lo r] @ take (unat num) vals;
                (ret, d) = kcall E (Bus (I2c_master_send (take (unat nregbuf) regbuf))) d
            in if ret < 0 then Inr (ret, d) else Inr (0, d)))"

text \<open>The value is \<open>None\<close> when the function returns before it is stored.\<close>

definition ov7251_read_reg ::
    "env \<Rightarrow> u16 \<Rightarrow> 'a kdev_scheme \<Rightarrow> int \<times> u8 option \<times> 'a kdev_scheme" where
  "ov7251_read_reg E r d =
     (let (ret, d) = kcall E (Bus (I2c_master_send [reg_hi r, reg_lo r])) d
      in if ret < 0 then (ret, None, d)
         else
           (let (ret, v, d) = kread E (Bus (I2c_master_recv 1)) d
            in if ret < 0 then (ret, None, d) else (0, Some (ucast v), d)))"

definition ov7251_set_register_array ::
    "env \<Rightarrow> reg_value list \<Rightarrow> 'a kdev_scheme \<Rightarrow> int \<times> 'a kdev_scheme" where
  "ov7251_set_register_array E settings d =
     seq_until (\<lambda>r. r < 0) (\<lambda>(r, v). ov7251_write_reg E r v) settings d"

text \<open>The ten writes of \<open>ov7251_pll_configure\<close>, each returning at once on an error.\<close>

definition ov7251_pll_writes :: "ov7251 \<Rightarrow> reg_value list" where
  "ov7251_pll_writes d =
     (let p1 = pll1 (pll_cfgs d) ! link_freq_idx d; p2 = pll2 (pll_cfgs d)
      in [(OV7251_PLL1_PRE_DIV_REG, ucast (pre_div p1)),
          (OV7251_PLL1_MULT_REG, ucast (mult p1)),
          (OV7251_PLL1_DIVIDER_REG, ucast (div1 p1)),
          (OV7251_PLL1_PIX_DIV_REG, ucast (pix_div p1)),
          (OV7251_PLL1_MIPI_DIV_REG, if win_timing d \<noteq> 0 then 0x01 else ucast (mipi_div p1)),
          (OV7251_PLL2_PRE_DIV_REG, ucast (pre_div2 p2)),
          (OV7251_PLL2_MULT_REG, ucast (mult2 p2)),
          (OV7251_PLL2_DIVIDER_REG, ucast (div2 p2)),
          (OV7251_PLL2_SYS_DIV_REG, ucast (sys_div p2)),
          (OV7251_PLL2_ADC_DIV_REG, ucast (adc_div p2))])"

definition ov7251_pll_configure :: "env \<Rightarrow> ov7251 \<Rightarrow> fault + (int \<times> ov7251)" where
  "ov7251_pll_configure E d =
     (if link_freq_idx d \<ge> length (pll1 (pll_cfgs d)) then Inl Out_of_bounds
      else Inr (seq_until (\<lambda>r. r < 0) (\<lambda>(r, v). ov7251_write_reg E r v) (ov7251_pll_writes d) d))"

section \<open>Controls\<close>

definition ov7251_set_exposure :: "env \<Rightarrow> int \<Rightarrow> ov7251 \<Rightarrow> fault + (int \<times> ov7251)" where
  "ov7251_set_exposure E exposure d =
     (let e = u32_of_int exposure;
          vals = [ucast (drop_bit 12 (e AND 0xf000)), ucast (drop_bit 4 (e AND 0x0ff0)),
                  ucast (push_bit 4 (e AND 0x000f))]
      in ov7251_write_seq_regs E OV7251_AEC_EXPO_0 vals 3 d)"

definition ov7251_set_gain :: "env \<Rightarrow> int \<Rightarrow> ov7251 \<Rightarrow> fault + (int \<times> ov7251)" where
  "ov7251_set_gain E gain d =
     (let g = u32_of_int gain;
          vals = [ucast (drop_bit 8 (g AND 0x0300)), ucast (g AND 0xff)]
      in ov7251_write_seq_regs E OV7251_AEC_AGC_ADJ_0 vals 2 d)"

text \<open>The three cached registers: the cache follows the chip only when the write succeeded.\<close>

definition ov7251_set_hflip :: "env \<Rightarrow> int \<Rightarrow> ov7251 \<Rightarrow> int \<times> ov7251" where
  "ov7251_set_hflip E value d =
     (let v = timing_format2 d;
          v = (if value \<noteq> 0 then v OR OV7251_TIMING_FORMAT2_MIRROR
               else v AND NOT OV7251_TIMING_FORMAT2_MIRROR);
          (ret, d) = ov7251_write_reg E OV7251_TIMING_FORMAT2 v d
      in (ret, if ret = 0 then d\<lparr>timing_format2 := v\<rparr> else d))"

definition ov7251_set_vflip :: "env \<Rightarrow> int \<Rightarrow> ov7251 \<Rightarrow> int \<times> ov7251" where
  "ov7251_set_vflip E value d =
     (let v = timing_format1 d;
          v = (if value \<noteq> 0 then v OR OV7251_TIMING_FORMAT1_VFLIP
               else v AND NOT OV7251_TIMING_FORMAT1_VFLIP);
          (ret, d) = ov7251_write_reg E OV7251_TIMING_FORMAT1 v d
      in (ret, if ret = 0 then d\<lparr>timing_format1 := v\<rparr> else d))"

definition ov7251_set_test_pattern :: "env \<Rightarrow> int \<Rightarrow> ov7251 \<Rightarrow> int \<times> ov7251" where
  "ov7251_set_test_pattern E value d =
     (let v = pre_isp_00 d;
          v = (if value \<noteq> 0 then v OR OV7251_PRE_ISP_00_TEST_PATTERN
               else v AND NOT OV7251_PRE_ISP_00_TEST_PATTERN);
          (ret, d) = ov7251_write_reg E OV7251_PRE_ISP_00 v d
      in (ret, if ret = 0 then d\<lparr>pre_isp_00 := v\<rparr> else d))"

definition ov7251_vts_configure :: "env \<Rightarrow> int \<Rightarrow> ov7251 \<Rightarrow> fault + (int \<times> ov7251)" where
  "ov7251_vts_configure E vblank d =
     (let t = md_height (cur_mode d) + u32_of_int vblank;
          vals = [ucast (drop_bit 8 (t AND 0xff00)), ucast (t AND 0x00ff)]
      in ov7251_write_seq_regs E OV7251_TIMING_VTS_REG vals 2 d)"

text \<open>The margin kept between exposure and frame length.\<close>

definition ov7251_margin :: "ov7251 \<Rightarrow> u32" where
  "ov7251_margin d =
     (if vts_boost d \<noteq> 0 \<and> win_timing d = 0 then OV7251_BOOST_INTEGRATION_MARGIN
      else OV7251_INTEGRATION_MARGIN)"

definition ov7251_follow_vblank :: "ov7251 services \<Rightarrow> int \<Rightarrow> ov7251 \<Rightarrow> ov7251" where
  "ov7251_follow_vblank S v d =
     (let exposure_max = s32_of_u32 (md_height (cur_mode d) + u32_of_int v - ov7251_margin d);
          ex = ctrls d V4L2_CID_EXPOSURE
      in snd (modify_range S V4L2_CID_EXPOSURE (minimum ex) exposure_max (step ex)
           (min (val ex) exposure_max) d))"

text \<open>The \<open>switch\<close> of \<open>ov7251_s_ctrl\<close>.\<close>

definition ov7251_apply_ctrl :: "env \<Rightarrow> cid \<Rightarrow> int \<Rightarrow> ov7251 \<Rightarrow> fault + (int \<times> ov7251)" where
  "ov7251_apply_ctrl E ci v d =
     (case ci of
        V4L2_CID_EXPOSURE \<Rightarrow> ov7251_set_exposure E v d
      | V4L2_CID_ANALOGUE_GAIN \<Rightarrow> ov7251_set_gain E v d
      | V4L2_CID_TEST_PATTERN \<Rightarrow> Inr (ov7251_set_test_pattern E v d)
      | V4L2_CID_HFLIP \<Rightarrow> Inr (ov7251_set_hflip E v d)
      | V4L2_CID_VFLIP \<Rightarrow> Inr (ov7251_set_vflip E v d)
      | V4L2_CID_VBLANK \<Rightarrow> ov7251_vts_configure E v d
      | _ \<Rightarrow> Inr (- EINVAL, d))"

definition ov7251_s_ctrl ::
    "ov7251 services \<Rightarrow> env \<Rightarrow> cid \<Rightarrow> int \<Rightarrow> ov7251 \<Rightarrow> fault + (int \<times> ov7251)" where
  "ov7251_s_ctrl S E ci v d =
     (let d = (if ci = V4L2_CID_VBLANK then ov7251_follow_vblank S v d else d);
          (in_use, d) = kcall E (Pm Pm_get_if_in_use) d
      in if in_use = 0 then Inr (0, d)
         else
           (case ov7251_apply_ctrl E ci v d of
              Inl f \<Rightarrow> Inl f
            | Inr (ret, d) \<Rightarrow> Inr (ret, kdo (Pm Pm_put) d)))"

section \<open>What the transfers write\<close>

text \<open>
  The bytes a successful transfer sets: the first two bytes sent are the register address, the
  rest goes to it and its successors.
\<close>

fun send_writes :: "u8 list \<Rightarrow> reg_value list" where
  "send_writes (hi # lo # vs) =
     (let a = push_bit 8 (ucast hi) OR ucast lo
      in map (\<lambda>(i, v). (a + word_of_nat i, v)) (zip [0..<length vs] vs))"
| "send_writes _ = []"

fun ev_writes :: "ev \<times> int \<Rightarrow> reg_value list" where
  "ev_writes (Bus (I2c_master_send bs), r) = (if r < 0 then [] else send_writes bs)"
| "ev_writes _ = []"

definition written :: "trace \<Rightarrow> reg_value list" where
  "written tr = concat (map ev_writes tr)"

lemma written_simps [simp]:
  "written [] = []" "written (x # tr) = ev_writes x @ written tr"
  "written (tr @ tr') = written tr @ written tr'"
  by (simp_all add: written_def)

lemma addr_bytes: "push_bit 8 (ucast (reg_hi r)) OR ucast (reg_lo r) = r"
proof -
  have m: "(0xff :: u16) = mask 8" by (simp add: mask_eq_exp_minus_1)
  show ?thesis
    unfolding reg_hi_def reg_lo_def m by (rule bit_word_eqI) (auto simp: bit_simps)
qed

lemma send_writes_reg [simp]: "send_writes [reg_hi r, reg_lo r, v] = [(r, v)]"
  "send_writes [reg_hi r, reg_lo r] = []"
  "send_writes [reg_hi r, reg_lo r, v, w] = [(r, v), (r + 1, w)]"
  "send_writes [reg_hi r, reg_lo r, v, w, x] = [(r, v), (r + 1, w), (r + 2, x)]"
  by (simp_all add: addr_bytes upt_rec)

declare send_writes.simps(1) [simp del]

text \<open>The register memory of a chip that held \<open>m\<close> when the trace began.\<close>

definition mem_after :: "regmem \<Rightarrow> reg_value list \<Rightarrow> regmem" where
  "mem_after m ws = fold (\<lambda>(a, v) m. m(a := v)) ws m"

definition i2c_chip :: "regmem \<Rightarrow> 'a kdev_scheme \<Rightarrow> regmem" where
  "i2c_chip m d = mem_after m (written (trace d))"

lemma mem_after_simps [simp]:
  "mem_after m [] = m" "mem_after m ((a, v) # ws) = mem_after (m(a := v)) ws"
  "mem_after m (ws @ ws') = mem_after (mem_after m ws) ws'"
  by (simp_all add: mem_after_def)

lemma mem_after_map_of: "mem_after m ws a = (case map_of (rev ws) a of None \<Rightarrow> m a | Some v \<Rightarrow> v)"
  by (induction ws rule: rev_induct) auto

section \<open>Sequences of writes\<close>

lemma write_reg:
  assumes "ov7251_write_reg E r v d = (ret, d')"
  shows "ret \<le> 0" "bus_step d d'" "quiet d' = quiet d"
    "written (trace d') = (if ret < 0 then written (trace d) else written (trace d) @ [(r, v)])"
proof -
  show "bus_step d d'" using assms bus_step_kcall by (auto simp: ov7251_write_reg_def Let_def case_prod_beta split: if_splits)
  then show "quiet d' = quiet d" by (rule bus_step_quiet)
  show "ret \<le> 0" "written (trace d') = (if ret < 0 then written (trace d) else written (trace d) @ [(r, v)])"
    using assms by (auto simp: ov7251_write_reg_def Let_def case_prod_beta split: if_splits)
qed

interpretation i2c_seq: write_seq "\<lambda>(r, v). ov7251_write_reg E r v" "\<lambda>r. r < 0"
  "\<lambda>d. written (trace d)" quiet for E
  by unfold_locales (auto dest: write_reg)

lemma seq_bus_step:
  "bus_step d (snd (seq_until (\<lambda>r. r < 0) (\<lambda>(r, v). ov7251_write_reg E r v) ws d))"
proof (induction ws arbitrary: d)
  case Nil
  then show ?case by simp
next
  case (Cons w ws)
  obtain r v where w: "w = (r, v)" by (cases w)
  have "bus_step d (snd (ov7251_write_reg E r v d))"
    using write_reg(2) [of E r v d] by (metis prod.collapse)
  with Cons show ?case by (auto simp: w Let_def case_prod_beta intro: bus_step_trans)
qed

text \<open>
  C29: Writing a register array programs exactly its writes in order when it succeeds, a proper
  prefix of them when it stops at an error, and changes nothing else.
\<close>

theorem register_array_written:
  "(let (ret, d') = ov7251_set_register_array E ws d
    in quiet d' = quiet d \<and>
       (if ret < 0 then \<exists>n < length ws. written (trace d') = written (trace d) @ take n ws
        else ret = 0 \<and> written (trace d') = written (trace d) @ ws))"
proof -
  let ?s = "seq_until (\<lambda>r. r < 0) (\<lambda>(r, v). ov7251_write_reg E r v) ws d"
  have eq: "?s = (fst ?s, snd ?s)" by simp
  show ?thesis
    using i2c_seq.seq_rest [OF eq] i2c_seq.seq_ok [OF eq] i2c_seq.seq_fail [OF eq]
    by (simp add: ov7251_set_register_array_def Let_def case_prod_beta not_less)
qed

lemma write_seq_short:
  assumes "length vals = unat num" "unat num \<le> 3"
  shows "ov7251_write_seq_regs E r vals num d =
    Inr (let (ret, d') = kcall E (Bus (I2c_master_send ([reg_hi r, reg_lo r] @ vals))) d
         in (if ret < 0 then ret else 0, d'))"
proof -
  have n: "unat (2 + num) = 2 + unat num"
    using assms(2) by (subst unat_plus_small) simp_all
  then have "\<not> 5 < 2 + num" using assms(2) by (simp add: word_less_nat_alt)
  then show ?thesis
    using assms n by (simp add: ov7251_write_seq_regs_def Let_def case_prod_beta)
qed

text \<open>
  The check of the register sequence length lets the buffer be overrun exactly for the two lengths
  254 and 255.
\<close>

theorem write_seq_regs_overflow:
  "ov7251_write_seq_regs E r vals num d = Inl Buffer_overflow \<longleftrightarrow> num = 254 \<or> num = 255"
proof -
  have s: "2 + num \<le> 5 \<longleftrightarrow> unat num \<le> 3 \<or> 254 \<le> unat num"
  proof (cases "unat num < 254")
    case True
    then have "unat (2 + num) = 2 + unat num" by (subst unat_plus_small) simp_all
    then show ?thesis using True by (auto simp: word_le_nat_alt)
  next
    case False
    have "unat num < 256" using unsigned_less [of num, where 'a = nat] by simp
    with False have "unat num = 254 \<or> unat num = 255" by linarith
    then have "num = 254 \<or> num = 255" by (auto simp: word_unat_eq_iff)
    then show ?thesis by auto
  qed
  have e: "254 \<le> unat num \<longleftrightarrow> num = 254 \<or> num = 255"
    using unsigned_less [of num, where 'a = nat] by (auto simp: word_unat_eq_iff)
  show ?thesis
    using s e by (auto simp: ov7251_write_seq_regs_def Let_def case_prod_beta not_less)
qed

section \<open>Control registers\<close>

lemma masks: "(0xf000 :: u32) = push_bit 12 (mask 4)" "(0x0ff0 :: u32) = push_bit 4 (mask 8)"
  "(0x000f :: u32) = mask 4" "(0x0300 :: u32) = push_bit 8 (mask 2)" "(0xff :: u32) = mask 8"
  "(0xff00 :: u32) = push_bit 8 (mask 8)" "(0xffff :: u32) = mask 16" "(0x3ff :: u32) = mask 10"
  by (simp_all add: mask_eq_exp_minus_1 push_bit_eq_mult)

text \<open>The fields the sensor reads out of the control registers.\<close>

definition exposure_of :: "regmem \<Rightarrow> u32" where
  "exposure_of m = push_bit 12 (ucast (m OV7251_AEC_EXPO_0)) OR
     (push_bit 4 (ucast (m (OV7251_AEC_EXPO_0 + 1))) OR drop_bit 4 (ucast (m (OV7251_AEC_EXPO_0 + 2))))"

definition gain_of :: "regmem \<Rightarrow> u32" where
  "gain_of m = push_bit 8 (ucast (m OV7251_AEC_AGC_ADJ_0)) OR ucast (m (OV7251_AEC_AGC_ADJ_0 + 1))"

definition vts_of :: "regmem \<Rightarrow> u32" where
  "vts_of m = push_bit 8 (ucast (m OV7251_TIMING_VTS_REG)) OR ucast (m (OV7251_TIMING_VTS_REG + 1))"

lemma exposure_bits:
  "push_bit 12 (ucast (ucast (drop_bit 12 (e AND 0xf000)) :: u8)) OR
   (push_bit 4 (ucast (ucast (drop_bit 4 (e AND 0x0ff0)) :: u8)) OR
    drop_bit 4 (ucast (ucast (push_bit 4 (e AND 0x000f)) :: u8))) = take_bit 16 (e :: u32)"
  unfolding masks
proof (rule bit_word_eqI)
  fix n
  assume n: "n < LENGTH(32)"
  consider "n < 4" | "4 \<le> n" "n < 12" | "12 \<le> n" by linarith
  then show "bit (push_bit 12 (ucast (ucast (drop_bit 12 (e AND push_bit 12 (mask 4))) :: u8) :: u32) OR
      (push_bit 4 (ucast (ucast (drop_bit 4 (e AND push_bit 4 (mask 8))) :: u8)) OR
       drop_bit 4 (ucast (ucast (push_bit 4 (e AND mask 4)) :: u8)))) n \<longleftrightarrow> bit (take_bit 16 e) n"
    using n by cases (auto simp: bit_simps)
qed

lemma byte_pair_bits:
  "push_bit 8 (ucast (ucast (drop_bit 8 (g AND 0x0300)) :: u8)) OR ucast (ucast (g AND 0xff) :: u8) =
     take_bit 10 (g :: u32)"
  "push_bit 8 (ucast (ucast (drop_bit 8 (g AND 0xff00)) :: u8)) OR ucast (ucast (g AND 0xff) :: u8) =
     take_bit 16 (g :: u32)"
  unfolding masks by (rule bit_word_eqI; auto simp: bit_simps)+

lemmas field_bits = exposure_bits [simplified] byte_pair_bits [simplified]

lemma set_fields_unfold:
  "ov7251_set_exposure E v d = Inr (let e = u32_of_int v;
     (ret, d') = kcall E (Bus (I2c_master_send ([reg_hi OV7251_AEC_EXPO_0, reg_lo OV7251_AEC_EXPO_0] @
       [ucast (drop_bit 12 (e AND 0xf000)), ucast (drop_bit 4 (e AND 0x0ff0)), ucast (push_bit 4 (e AND 0x000f))]))) d
     in (if ret < 0 then ret else 0, d'))"
  "ov7251_set_gain E v d = Inr (let g = u32_of_int v;
     (ret, d') = kcall E (Bus (I2c_master_send ([reg_hi OV7251_AEC_AGC_ADJ_0, reg_lo OV7251_AEC_AGC_ADJ_0] @
       [ucast (drop_bit 8 (g AND 0x0300)), ucast (g AND 0xff)]))) d
     in (if ret < 0 then ret else 0, d'))"
  "ov7251_vts_configure E v d = Inr (let t = md_height (cur_mode d) + u32_of_int v;
     (ret, d') = kcall E (Bus (I2c_master_send ([reg_hi OV7251_TIMING_VTS_REG, reg_lo OV7251_TIMING_VTS_REG] @
       [ucast (drop_bit 8 (t AND 0xff00)), ucast (t AND 0x00ff)]))) d
     in (if ret < 0 then ret else 0, d'))"
  unfolding ov7251_set_exposure_def ov7251_set_gain_def ov7251_vts_configure_def Let_def
  by (subst write_seq_short; simp)+

text \<open>
  C28: The exposure, gain and frame length written by the driver are read back from the registers
  as the sensor combines them, modulo the width of the fields; when the transfer fails the
  registers are as they were.
\<close>

theorem field_registers:
  "(\<exists>r d'. ov7251_set_exposure E v d = Inr (r, d') \<and>
     (if r = 0 then exposure_of (i2c_chip m d') = take_bit 16 (u32_of_int v) else i2c_chip m d' = i2c_chip m d)) \<and>
   (\<exists>r d'. ov7251_set_gain E v d = Inr (r, d') \<and>
     (if r = 0 then gain_of (i2c_chip m d') = take_bit 10 (u32_of_int v) else i2c_chip m d' = i2c_chip m d)) \<and>
   (\<exists>r d'. ov7251_vts_configure E v d = Inr (r, d') \<and>
     (if r = 0 then vts_of (i2c_chip m d') = take_bit 16 (md_height (cur_mode d) + u32_of_int v)
      else i2c_chip m d' = i2c_chip m d))"
  by (simp add: set_fields_unfold Let_def case_prod_beta i2c_chip_def exposure_of_def gain_of_def
      vts_of_def ov7251_regs field_bits)

section \<open>Applying a control\<close>

text \<open>What no control changes: everything but the controls, the trace and the three caches.\<close>

definition ov7251_keep :: "ov7251 \<Rightarrow> _" where
  "ov7251_keep d = (fmt d, crop d, (xclk_freq d, pll_cfgs d, link_freq_idx d), (modes d, current_mode d),
     (win_timing d, vts_boost d, ir_led d, hid_int347e d), rpm_active d)"

lemma keep_fields:
  assumes "ov7251_keep d' = ov7251_keep d"
  shows "modes d' = modes d" "current_mode d' = current_mode d" "win_timing d' = win_timing d"
    "vts_boost d' = vts_boost d" "crop d' = crop d" "fmt d' = fmt d" "link_freq_idx d' = link_freq_idx d"
    "rpm_active d' = rpm_active d" "pll_cfgs d' = pll_cfgs d" "cur_mode d' = cur_mode d"
  using assms by (simp_all add: ov7251_keep_def cur_mode_def)

text \<open>A step that makes bus transfers and otherwise at most changes the caches.\<close>

definition cache_step :: "ov7251 \<Rightarrow> ov7251 \<Rightarrow> bool" where
  "cache_step d d' \<longleftrightarrow> (\<exists>d1. bus_step d d1 \<and> trace d' = trace d1 \<and> ctrls d' = ctrls d1 \<and>
     ctrl_ptr d' = ctrl_ptr d1 \<and> ov7251_keep d' = ov7251_keep d1)"

lemma bus_cache_step: "bus_step d d' \<Longrightarrow> cache_step d d'"
  by (auto simp: cache_step_def)

lemma keep_quiet: "quiet d' = quiet d \<Longrightarrow> ov7251_keep d' = ov7251_keep d"
  by (cases d, cases d') (simp add: quiet_def ov7251_keep_def)

lemma cache_step:
  assumes "cache_step d d'"
  shows "ctrls d' = ctrls d" "ctrl_ptr d' = ctrl_ptr d" "ov7251_keep d' = ov7251_keep d"
    "lock_run (trace d') x = lock_run (trace d) x" "pm_usage (trace d') = pm_usage (trace d)"
proof -
  from assms obtain d1 where b: "bus_step d d1" and e: "trace d' = trace d1" "ctrls d' = ctrls d1"
    "ctrl_ptr d' = ctrl_ptr d1" "ov7251_keep d' = ov7251_keep d1"
    by (auto simp: cache_step_def)
  note q = bus_step_quiet [OF b]
  show "ctrls d' = ctrls d" "ctrl_ptr d' = ctrl_ptr d" "ov7251_keep d' = ov7251_keep d"
    using quiet_fields [OF q] keep_quiet [OF q] e by simp_all
  show "lock_run (trace d') x = lock_run (trace d) x" "pm_usage (trace d') = pm_usage (trace d)"
    using lock_bus [OF b] weigh_bus [OF b, of pm_weight, folded pm_usage_def] e by simp_all
qed

lemma write_reg_snd: "bus_step d (snd (ov7251_write_reg E r v d))"
  using write_reg(2) [of E r v d] by (metis prod.collapse)

lemma apply_total: "\<exists>p. ov7251_apply_ctrl E c v d = Inr p \<and> cache_step d (snd p)"
proof -
  have send: "cache_step d (snd (let (ret, d') = kcall E (Bus b) d in (if ret < 0 then ret else 0, d')))" for b
    by (rule bus_cache_step) (simp add: Let_def case_prod_beta)
  have cached: "cache_step d (snd (ov7251_set_hflip E v d))" "cache_step d (snd (ov7251_set_vflip E v d))"
    "cache_step d (snd (ov7251_set_test_pattern E v d))"
    unfolding cache_step_def ov7251_set_hflip_def ov7251_set_vflip_def ov7251_set_test_pattern_def
      Let_def case_prod_beta
    by (rule exI, rule conjI, rule write_reg_snd, simp add: ov7251_keep_def)+
  show ?thesis
    using send cached bus_cache_step [of d d]
    by (cases c) (auto simp: ov7251_apply_ctrl_def set_fields_unfold Let_def)
qed

lemma s_ctrl_total: "\<exists>r d'. ov7251_s_ctrl S E ci v d = Inr (r, d')"
proof -
  define d1 where "d1 = snd (kcall E (Pm Pm_get_if_in_use)
    (if ci = V4L2_CID_VBLANK then ov7251_follow_vblank S v d else d))"
  obtain p where "ov7251_apply_ctrl E ci v d1 = Inr p" using apply_total by blast
  then show ?thesis by (auto simp: ov7251_s_ctrl_def Let_def case_prod_beta d1_def)
qed

section \<open>The caches\<close>

definition caches_ok :: "regmem \<Rightarrow> ov7251 \<Rightarrow> bool" where
  "caches_ok m d \<longleftrightarrow> i2c_chip m d OV7251_PRE_ISP_00 = pre_isp_00 d \<and>
     i2c_chip m d OV7251_TIMING_FORMAT1 = timing_format1 d \<and>
     i2c_chip m d OV7251_TIMING_FORMAT2 = timing_format2 d"

lemma caches_trace:
  assumes "quiet d' = quiet d" "written (trace d') = written (trace d)"
  shows "caches_ok m d' = caches_ok m d"
proof -
  have "kdev.more d' = kdev.more d" using quiet_fields(4) [OF assms(1)] .
  then show ?thesis using assms(2) by (cases d, cases d') (simp add: caches_ok_def i2c_chip_def)
qed

lemma apply_caches:
  assumes ok: "caches_ok m d" and ap: "ov7251_apply_ctrl E c v d = Inr p"
  shows "caches_ok m (snd p)"
proof -
  have w: "i2c_chip m (snd (ov7251_write_reg E r b d)) =
      (if fst (ov7251_write_reg E r b d) = 0 then (i2c_chip m d)(r := b) else i2c_chip m d)" for r b
    using write_reg(1,4) [of E r b d "fst (ov7251_write_reg E r b d)" "snd (ov7251_write_reg E r b d)"]
    by (auto simp: i2c_chip_def)
  have q: "pre_isp_00 (snd (ov7251_write_reg E r b d)) = pre_isp_00 d"
    "timing_format1 (snd (ov7251_write_reg E r b d)) = timing_format1 d"
    "timing_format2 (snd (ov7251_write_reg E r b d)) = timing_format2 d" for r b
    by (simp_all add: ov7251_write_reg_def Let_def case_prod_beta kcall_def)
  have u: "i2c_chip m (x\<lparr>pre_isp_00 := b\<rparr>) = i2c_chip m x" "i2c_chip m (x\<lparr>timing_format1 := b\<rparr>) = i2c_chip m x"
    "i2c_chip m (x\<lparr>timing_format2 := b\<rparr>) = i2c_chip m x" for x :: ov7251 and b
    by (simp_all add: i2c_chip_def)
  have k: "pre_isp_00 (snd (kcall E e d)) = pre_isp_00 d" "timing_format1 (snd (kcall E e d)) = timing_format1 d"
    "timing_format2 (snd (kcall E e d)) = timing_format2 d" for e
    by (simp_all add: kcall_def Let_def)
  have t: "i2c_chip m (snd (kcall E (Bus (I2c_master_send bs)) d)) =
      (if ret_of E (trace d) (Bus (I2c_master_send bs)) < 0 then i2c_chip m d
       else mem_after (i2c_chip m d) (send_writes bs))" for bs
    by (simp add: i2c_chip_def)
  show ?thesis
    using ok ap
    by (cases c) (auto simp: ov7251_apply_ctrl_def set_fields_unfold ov7251_set_hflip_def ov7251_set_vflip_def
        ov7251_set_test_pattern_def Let_def case_prod_beta caches_ok_def w q u k t ov7251_regs)
qed

text \<open>
  C30: Applying any control but VBLANK keeps the cached register values of the driver equal to
  what the sensor was given.
\<close>

theorem s_ctrl_keeps_caches:
  assumes "caches_ok m d" and "ci \<noteq> V4L2_CID_VBLANK" and "ov7251_s_ctrl S E ci v d = Inr (r, d')"
  shows "caches_ok m d'"
proof -
  let ?d1 = "snd (kcall E (Pm Pm_get_if_in_use) d)"
  have 1: "caches_ok m ?d1" using assms(1) caches_trace [of ?d1 d m] by simp
  have 2: "caches_ok m (kdo (Pm Pm_put) x) = caches_ok m x" for x
    by (rule caches_trace) simp_all
  show ?thesis
    using assms(2,3) 1 apply_caches [OF 1]
    by (auto simp: ov7251_s_ctrl_def Let_def case_prod_beta 2 split: sum.splits if_splits)
qed

section \<open>The control core on the driver's callback\<close>

definition ov7251_op :: "ov7251 services \<Rightarrow> env \<Rightarrow> ov7251 s_ctrl_op" where
  "ov7251_op S E c v d = (case ov7251_s_ctrl S E c v d of Inl _ \<Rightarrow> (- EINVAL, d) | Inr p \<Rightarrow> p)"

definition ov7251_inner_services :: "env \<Rightarrow> ov7251 services" where
  "ov7251_inner_services E =
     no_services\<lparr>modify_range := v4l2_modify_range (ov7251_op no_services E),
       set_ctrl := v4l2_set_ctrl (ov7251_op no_services E)\<rparr>"

text \<open>The controls in the order they are created; a read-only one is never set up.\<close>

definition ov7251_setup_order :: "cid list" where
  "ov7251_setup_order = [V4L2_CID_HFLIP, V4L2_CID_VFLIP, V4L2_CID_EXPOSURE, V4L2_CID_ANALOGUE_GAIN,
     V4L2_CID_TEST_PATTERN, V4L2_CID_VBLANK]"

definition ov7251_ctrl_services :: "env \<Rightarrow> ov7251 services" where
  "ov7251_ctrl_services E =
     (let op = ov7251_op (ov7251_inner_services E) E
      in no_services\<lparr>modify_range := v4l2_modify_range op, set_ctrl := v4l2_set_ctrl op,
           handler_setup := v4l2_handler_setup op ov7251_setup_order\<rparr>)"

lemma ov7251_op_after:
  assumes "ov7251_op S E c v d = (r, d')"
  defines "d0 \<equiv> (if c = V4L2_CID_VBLANK then ov7251_follow_vblank S v d else d)"
  shows "ctrls d' = ctrls d0 \<and> ctrl_ptr d' = ctrl_ptr d0 \<and> ov7251_keep d' = ov7251_keep d0 \<and>
    (\<forall>x. lock_run (trace d') x = lock_run (trace d0) x) \<and>
    pm_usage (trace d') = pm_usage (trace d0) +
      (if ret_of E (trace d0) (Pm Pm_get_if_in_use) < 0 then - 1 else 0)"
proof -
  let ?d1 = "snd (kcall E (Pm Pm_get_if_in_use) d0)"
  obtain p where p: "ov7251_apply_ctrl E c v ?d1 = Inr p" "cache_step ?d1 (snd p)"
    using apply_total by blast
  have d': "d' = (if ret_of E (trace d0) (Pm Pm_get_if_in_use) = 0 then ?d1 else kdo (Pm Pm_put) (snd p))"
    using assms(1) p(1) by (auto simp: ov7251_op_def ov7251_s_ctrl_def Let_def case_prod_beta d0_def
      split: if_splits)
  have k: "ov7251_keep (kdo e x) = ov7251_keep x" "ov7251_keep ?d1 = ov7251_keep d0" for e x
    using keep_quiet [of "kdo e x" x] keep_quiet [of ?d1 d0] by simp_all
  show ?thesis
    using cache_step [OF p(2)] by (auto simp: d' k)
qed

lemma ov7251_op_laws:
  assumes core: "ctrl_core S ov7251_keep" and op: "ov7251_op S E c v d = (r, d')"
  shows "ctrl_ptr d' = ctrl_ptr d" "ov7251_keep d' = ov7251_keep d"
    "lock_run (trace d') x = lock_run (trace d) x"
    "q \<noteq> V4L2_CID_EXPOSURE \<or> c \<noteq> V4L2_CID_VBLANK \<Longrightarrow> ctrls d' q = ctrls d q"
    "minimum (ctrls d' V4L2_CID_EXPOSURE) = minimum (ctrls d V4L2_CID_EXPOSURE)"
    "step (ctrls d' V4L2_CID_EXPOSURE) = step (ctrls d V4L2_CID_EXPOSURE)"
    "low_ok (ctrls d V4L2_CID_EXPOSURE) \<Longrightarrow> low_ok (ctrls d' V4L2_CID_EXPOSURE)"
proof -
  let ?ex = "ctrls d V4L2_CID_EXPOSURE"
  let ?mx = "s32_of_u32 (md_height (cur_mode d) + u32_of_int v - ov7251_margin d)"
  let ?f = "ov7251_follow_vblank S v d"
  obtain r1 where mr: "modify_range S V4L2_CID_EXPOSURE (minimum ?ex) ?mx (step ?ex)
      (min (val ?ex) ?mx) d = (r1, ?f)"
    by (simp add: ov7251_follow_vblank_def Let_def prod_eq_iff)
  note fl = ctrl_core.follow_range [OF core mr] ctrl_core.range_frame [OF core mr]
    ctrl_core.range_low [OF core _ mr] ctrl_core.range_other [OF core mr]
  note aft = ov7251_op_after [OF op]
  show "ctrl_ptr d' = ctrl_ptr d" "ov7251_keep d' = ov7251_keep d"
    using aft fl(2) by (auto split: if_splits)
  show "lock_run (trace d') x = lock_run (trace d) x"
    using aft fl(2) [of x] by (auto split: if_splits)
  show "q \<noteq> V4L2_CID_EXPOSURE \<or> c \<noteq> V4L2_CID_VBLANK \<Longrightarrow> ctrls d' q = ctrls d q"
    using aft fl(4) [of q] by (auto split: if_splits)
  show "minimum (ctrls d' V4L2_CID_EXPOSURE) = minimum ?ex" "step (ctrls d' V4L2_CID_EXPOSURE) = step ?ex"
    using aft fl(1) by (auto split: if_splits)
  show "low_ok ?ex \<Longrightarrow> low_ok (ctrls d' V4L2_CID_EXPOSURE)"
    using aft fl(3) by (auto split: if_splits)
qed

interpretation ov7251_inner: ctrl_driver "ov7251_op no_services E" "ov7251_inner_services E" ov7251_keep for E
proof unfold_locales
  have f: "ov7251_follow_vblank no_services v d = d" for v d
    by (simp add: ov7251_follow_vblank_def no_services_def Let_def)
  fix c v and d d' :: ov7251 and r x q
  assume op: "ov7251_op no_services E c v d = (r, d')"
  note a = ov7251_op_after [OF op, unfolded f]
  show "ctrl_ptr d' = ctrl_ptr d \<and> ov7251_keep d' = ov7251_keep d \<and> lock_run (trace d') x = lock_run (trace d) x"
    "ctrls d' q = ctrls d q"
    "minimum (ctrls d' V4L2_CID_EXPOSURE) = minimum (ctrls d V4L2_CID_EXPOSURE) \<and>
      step (ctrls d' V4L2_CID_EXPOSURE) = step (ctrls d V4L2_CID_EXPOSURE)"
    "low_ok (ctrls d V4L2_CID_EXPOSURE) \<Longrightarrow> low_ok (ctrls d' V4L2_CID_EXPOSURE)"
    using a by (auto split: if_splits)
qed (simp_all add: ov7251_inner_services_def no_services_def ov7251_keep_def)

interpretation ov7251_core: ctrl_driver "ov7251_op (ov7251_inner_services E) E" "ov7251_ctrl_services E"
    ov7251_keep for E
  by unfold_locales
    (use ov7251_op_laws [OF ov7251_inner.ctrl_core_axioms] in
      \<open>simp_all add: ov7251_ctrl_services_def Let_def no_services_def ov7251_keep_def\<close>)

section \<open>A device for the examples\<close>

definition ov7251_sample :: ov7251 where
  "ov7251_sample = \<lparr>trace = [],
     ctrls = (\<lambda>c. if c = V4L2_CID_EXPOSURE then std_ctrl 1 1704 1 504
                  else if c = V4L2_CID_VBLANK then std_ctrl 1 65055 1 1244
                  else std_ctrl 0 1023 1 16),
     ctrl_ptr = (\<lambda>_. True), rpm_active = False,
     fmt = \<lparr>f_width = 640, f_height = 480, f_code = MEDIA_BUS_FMT_Y10_1X10, f_field = 1,
       f_colorspace = 8, f_ycbcr_enc = 1, f_quantization = 1, f_xfer_func = 2\<rparr>,
     crop = \<lparr>r_left = 0, r_top = 0, r_width = 640, r_height = 480\<rparr>, xclk_freq = 19200000,
     pll_cfgs = ov7251_pll_cfgs_19_2_mhz, link_freq_idx = 0, modes = ov7251_mode_info_data,
     current_mode = 0, pre_isp_00 = 0, timing_format1 = 0, timing_format2 = 0, win_timing = 0,
     vts_boost = 0, ir_led = - 1, hid_int347e = True\<rparr>"

lemma s_ctrl_keeps_caches_witness:
  "\<exists>r d'. ov7251_s_ctrl no_services sample_env V4L2_CID_HFLIP 1 ov7251_sample = Inr (r, d') \<and>
     caches_ok (\<lambda>_. 0) d'"
proof -
  obtain r d' where s: "ov7251_s_ctrl no_services sample_env V4L2_CID_HFLIP 1 ov7251_sample = Inr (r, d')"
    using s_ctrl_total by blast
  have "caches_ok (\<lambda>_. 0) ov7251_sample" by (simp add: caches_ok_def i2c_chip_def ov7251_sample_def)
  from s_ctrl_keeps_caches [OF this _ s] s show ?thesis by simp
qed

end
