(* ===== verification/Ov7251_Mode.thy ===== *)
theory Ov7251_Mode
  imports Ov7251_Ctrl
begin

text \<open>
  Formats, selections, frame intervals and the choice of a mode (\<open>ov7251.c\<close>, from
  \<open>ov7251_enum_mbus_code\<close> to \<open>ov7251_get_selection\<close>, and the two frame interval operations). The
  choice of the nearest size is made by \<open>v4l2_find_nearest_size\<close>, a macro of the kernel headers; it
  is the parameter \<open>N\<close> of \<open>ov7251_set_format\<close> and the locale \<open>size_finder\<close> states its contract.
\<close>

section \<open>The nearest size\<close>

definition size_dist :: "u32 \<Rightarrow> u32 \<Rightarrow> u32 \<times> u32 \<Rightarrow> int" where
  "size_dist w h s = \<bar>uint (fst s) - uint w\<bar> + \<bar>uint (snd s) - uint h\<bar>"

locale size_finder =
  fixes N :: "(u32 \<times> u32) list \<Rightarrow> u32 \<Rightarrow> u32 \<Rightarrow> nat"
  assumes bound: "sizes \<noteq> [] \<Longrightarrow> N sizes w h < length sizes"
    and nearest: "i < length sizes \<Longrightarrow> size_dist w h (sizes ! N sizes w h) \<le> size_dist w h (sizes ! i)"

text \<open>A finder that keeps the contract: the first of the nearest sizes.\<close>

fun first_nearest :: "(u32 \<times> u32) list \<Rightarrow> u32 \<Rightarrow> u32 \<Rightarrow> nat" where
  "first_nearest [] w h = 0"
| "first_nearest [s] w h = 0"
| "first_nearest (s # t # ss) w h =
     (let k = first_nearest (t # ss) w h
      in if size_dist w h s \<le> size_dist w h ((t # ss) ! k) then 0 else Suc k)"

section \<open>Enumeration\<close>

definition ov7251_enum_mbus_code :: "u32 \<Rightarrow> int \<times> u32 option" where
  "ov7251_enum_mbus_code index =
     (if index > 0 then (- EINVAL, None) else (0, Some MEDIA_BUS_FMT_Y10_1X10))"

text \<open>The enumerated size: \<open>(min_width, min_height, max_width, max_height)\<close>.\<close>

definition ov7251_enum_frame_size ::
    "ov7251 \<Rightarrow> u32 \<Rightarrow> u32 \<Rightarrow> int \<times> (u32 \<times> u32 \<times> u32 \<times> u32) option" where
  "ov7251_enum_frame_size d index code =
     (if code \<noteq> MEDIA_BUS_FMT_Y10_1X10 then (- EINVAL, None)
      else if unat index \<ge> length (modes d) then (- EINVAL, None)
      else
        (let m = modes d ! unat index
         in (0, Some (md_width m, md_height m, md_width m, md_height m))))"

text \<open>The loop of \<open>ov7251_enum_frame_ival\<close>: \<open>index\<close> counts down over the modes of the size asked for.\<close>

fun enum_ival_loop :: "ov7251_mode_info list \<Rightarrow> u32 \<Rightarrow> u32 \<Rightarrow> u32 \<Rightarrow> int \<times> v4l2_fract option" where
  "enum_ival_loop [] w h index = (- EINVAL, None)"
| "enum_ival_loop (m # ms) w h index =
     (if w \<noteq> md_width m \<or> h \<noteq> md_height m then enum_ival_loop ms w h index
      else if index = 0 then (0, Some (timeperframe m))
      else enum_ival_loop ms w h (index - 1))"

definition ov7251_enum_frame_ival :: "ov7251 \<Rightarrow> u32 \<Rightarrow> u32 \<Rightarrow> u32 \<Rightarrow> int \<times> v4l2_fract option" where
  "ov7251_enum_frame_ival d w h index = enum_ival_loop (modes d) w h index"

section \<open>Formats\<close>

definition ov7251_get_pad_format ::
    "ov7251 \<Rightarrow> ov7251_fmt pad_state \<Rightarrow> whence \<Rightarrow> ov7251_fmt option" where
  "ov7251_get_pad_format d st which =
     (case which of
        V4L2_SUBDEV_FORMAT_TRY \<Rightarrow> Some (st_format st)
      | V4L2_SUBDEV_FORMAT_ACTIVE \<Rightarrow> Some (fmt d)
      | _ \<Rightarrow> None)"

definition ov7251_get_pad_crop ::
    "ov7251 \<Rightarrow> ov7251_fmt pad_state \<Rightarrow> whence \<Rightarrow> v4l2_rect option" where
  "ov7251_get_pad_crop d st which =
     (case which of
        V4L2_SUBDEV_FORMAT_TRY \<Rightarrow> Some (st_crop st)
      | V4L2_SUBDEV_FORMAT_ACTIVE \<Rightarrow> Some (crop d)
      | _ \<Rightarrow> None)"

text \<open>Stores through the pointers the two functions above return.\<close>

definition put_pad_format :: "whence \<Rightarrow> ov7251_fmt \<Rightarrow> ov7251 \<times> ov7251_fmt pad_state \<Rightarrow>
    ov7251 \<times> ov7251_fmt pad_state" where
  "put_pad_format which f ds =
     (case which of
        V4L2_SUBDEV_FORMAT_TRY \<Rightarrow> (fst ds, (snd ds)\<lparr>st_format := f\<rparr>)
      | V4L2_SUBDEV_FORMAT_ACTIVE \<Rightarrow> ((fst ds)\<lparr>fmt := f\<rparr>, snd ds)
      | _ \<Rightarrow> ds)"

definition put_pad_crop :: "whence \<Rightarrow> v4l2_rect \<Rightarrow> ov7251 \<times> ov7251_fmt pad_state \<Rightarrow>
    ov7251 \<times> ov7251_fmt pad_state" where
  "put_pad_crop which c ds =
     (case which of
        V4L2_SUBDEV_FORMAT_TRY \<Rightarrow> (fst ds, (snd ds)\<lparr>st_crop := c\<rparr>)
      | V4L2_SUBDEV_FORMAT_ACTIVE \<Rightarrow> ((fst ds)\<lparr>crop := c\<rparr>, snd ds)
      | _ \<Rightarrow> ds)"

definition ov7251_get_format :: "ov7251 \<Rightarrow> ov7251_fmt pad_state \<Rightarrow> ov7251_fmt pad_format \<Rightarrow>
    fault + (int \<times> ov7251 \<times> ov7251_fmt pad_format)" where
  "ov7251_get_format d st f =
     (let d = kdo Mutex_lock d
      in case ov7251_get_pad_format d st (sf_which f) of
           None \<Rightarrow> Inl Null_deref
         | Some g \<Rightarrow> Inr (0, kdo Mutex_unlock d, f\<lparr>sf_format := g\<rparr>))"

section \<open>Choosing a mode\<close>

definition avg_fps :: "v4l2_fract \<Rightarrow> fault + u32" where
  "avg_fps t =
     (if numerator t = 0 then Inl Div_by_zero
      else Inr ((denominator t + drop_bit 1 (numerator t)) div numerator t))"

text \<open>The loop of \<open>ov7251_find_mode_by_ival\<close> from index \<open>i\<close>, with the best match so far.\<close>

fun find_mode_loop :: "ov7251_mode_info \<Rightarrow> u32 \<Rightarrow> nat \<Rightarrow> ov7251_mode_info list \<Rightarrow> nat \<Rightarrow> u32 \<Rightarrow> fault + nat" where
  "find_mode_loop cur fps_req i [] n max_dist = Inr n"
| "find_mode_loop cur fps_req i (m # ms) n max_dist =
     (if md_width cur \<noteq> md_width m \<or> md_height cur \<noteq> md_height m
      then find_mode_loop cur fps_req (Suc i) ms n max_dist
      else
        (case avg_fps (timeperframe m) of
           Inl e \<Rightarrow> Inl e
         | Inr fps_tmp \<Rightarrow>
           (let dist = u32_of_int \<bar>s32_of_u32 (fps_req - fps_tmp)\<bar>
            in if dist < max_dist then find_mode_loop cur fps_req (Suc i) ms i dist
               else find_mode_loop cur fps_req (Suc i) ms n max_dist)))"

definition ov7251_find_mode_by_ival :: "ov7251 \<Rightarrow> v4l2_fract \<Rightarrow> fault + nat" where
  "ov7251_find_mode_by_ival d t =
     (case avg_fps t of
        Inl e \<Rightarrow> Inl e
      | Inr fps_req \<Rightarrow> find_mode_loop (cur_mode d) fps_req 0 (modes d) 0 (- 1))"

text \<open>
  The three control calls with which both operations below take over a mode; the first that reports
  an error ends them.
\<close>

definition ov7251_take_exposure :: "ov7251 services \<Rightarrow> ov7251_mode_info \<Rightarrow> ov7251 \<Rightarrow> int \<times> ov7251" where
  "ov7251_take_exposure S m d =
     (let (ret, d) = modify_range S V4L2_CID_EXPOSURE 1 (uint (exposure_max m)) 1 (uint (exposure_def m)) d
      in if ret < 0 then (ret, d)
         else
     (let (ret, d) = set_ctrl S V4L2_CID_EXPOSURE (uint (exposure_def m)) d
      in if ret < 0 then (ret, d) else set_ctrl S V4L2_CID_ANALOGUE_GAIN 16 d))"

definition ov7251_set_format :: "ov7251 services \<Rightarrow> ((u32 \<times> u32) list \<Rightarrow> u32 \<Rightarrow> u32 \<Rightarrow> nat) \<Rightarrow> ov7251 \<Rightarrow>
    ov7251_fmt pad_state \<Rightarrow> ov7251_fmt pad_format \<Rightarrow>
    fault + (int \<times> ov7251 \<times> ov7251_fmt pad_state \<times> ov7251_fmt pad_format)" where
  "ov7251_set_format S N d st f =
     (let d = kdo Mutex_lock d
      in case ov7251_get_pad_crop d st (sf_which f) of
           None \<Rightarrow> Inl Null_deref
         | Some c \<Rightarrow>
           (let i = N (map (\<lambda>m. (md_width m, md_height m)) (modes d)) (f_width (sf_format f))
                      (f_height (sf_format f));
                m = modes d ! i;
                c = c\<lparr>r_width := md_width m, r_height := md_height m\<rparr>;
                (d, st) = put_pad_crop (sf_which f) c (d, st);
                (ret, d) =
                  (if sf_which f = V4L2_SUBDEV_FORMAT_ACTIVE then
                     (let (ret, d) = ov7251_take_exposure S m d
                      in if ret < 0 then (ret, d)
                         else
                           (let vblank_max = s32_of_u32 (OV7251_TIMING_MAX_VTS - md_height m);
                                vblank_def = s32_of_u32 (md_vts m - md_height m);
                                (ret, d) = modify_range S V4L2_CID_VBLANK OV7251_TIMING_MIN_VTS
                                  vblank_max 1 vblank_def d
                            in if ret < 0 then (ret, d) else (ret, d\<lparr>current_mode := i\<rparr>)))
                   else (0, d))
            in if ret < 0 then Inr (ret, kdo Mutex_unlock d, st, f)
               else
                 (case ov7251_get_pad_format d st (sf_which f) of
                    None \<Rightarrow> Inl Null_deref
                  | Some g \<Rightarrow>
                    (let g = g\<lparr>f_width := r_width c, f_height := r_height c,
                           f_code := MEDIA_BUS_FMT_Y10_1X10, f_field := 1, f_colorspace := 8,
                           f_ycbcr_enc := 1, f_quantization := 1, f_xfer_func := 2\<rparr>;
                         (d, st) = put_pad_format (sf_which f) g (d, st)
                     in Inr (ret, kdo Mutex_unlock d, st, f\<lparr>sf_format := g\<rparr>)))))"

text \<open>\<open>ov7251_init_state\<close>: a NULL state stands for the active one.\<close>

definition ov7251_init_state :: "ov7251 services \<Rightarrow> ((u32 \<times> u32) list \<Rightarrow> u32 \<Rightarrow> u32 \<Rightarrow> nat) \<Rightarrow> ov7251 \<Rightarrow>
    ov7251_fmt pad_state option \<Rightarrow> fault + (int \<times> ov7251 \<times> ov7251_fmt pad_state option)" where
  "ov7251_init_state S N d st =
     (let f = \<lparr>sf_which = (case st of Some _ \<Rightarrow> V4L2_SUBDEV_FORMAT_TRY | None \<Rightarrow> V4L2_SUBDEV_FORMAT_ACTIVE),
               sf_format = \<lparr>f_width = 640, f_height = 480, f_code = 0, f_field = 0, f_colorspace = 0,
                 f_ycbcr_enc = 0, f_quantization = 0, f_xfer_func = 0\<rparr>\<rparr>;
          s = (case st of Some s \<Rightarrow> s | None \<Rightarrow>
                 \<lparr>st_format = sf_format f, st_crop = \<lparr>r_left = 0, r_top = 0, r_width = 0, r_height = 0\<rparr>\<rparr>)
      in case ov7251_set_format S N d s f of
           Inl e \<Rightarrow> Inl e
         | Inr (ret, d, s, f) \<Rightarrow> Inr (0, d, map_option (\<lambda>_. s) st))"

section \<open>Selections\<close>

definition ov7251_get_selection :: "ov7251 \<Rightarrow> ov7251_fmt pad_state \<Rightarrow> subdev_selection \<Rightarrow>
    fault + (int \<times> ov7251 \<times> subdev_selection)" where
  "ov7251_get_selection d st sel =
     (if target sel = V4L2_SEL_TGT_CROP_DEFAULT \<or> target sel = V4L2_SEL_TGT_CROP then
        (let d = kdo Mutex_lock d
         in case ov7251_get_pad_crop d st (sel_which sel) of
              None \<Rightarrow> Inl Null_deref
            | Some r \<Rightarrow> Inr (0, kdo Mutex_unlock d, sel\<lparr>sel_r := r\<rparr>))
      else if target sel = V4L2_SEL_TGT_NATIVE_SIZE then
        Inr (0, d, sel\<lparr>sel_r := \<lparr>r_left = 0, r_top = 0, r_width = OV7251_NATIVE_WIDTH,
          r_height = OV7251_NATIVE_HEIGHT\<rparr>\<rparr>)
      else if target sel = V4L2_SEL_TGT_CROP_BOUNDS then
        Inr (0, d, sel\<lparr>sel_r := \<lparr>r_left = OV7251_ACTIVE_START_LEFT, r_top = OV7251_ACTIVE_START_TOP,
          r_width = OV7251_ACTIVE_WIDTH, r_height = OV7251_ACTIVE_HEIGHT\<rparr>\<rparr>)
      else Inr (- EINVAL, d, sel))"

section \<open>Frame intervals\<close>

definition ov7251_get_frame_interval :: "ov7251 \<Rightarrow> whence \<Rightarrow> int \<times> v4l2_fract option \<times> ov7251" where
  "ov7251_get_frame_interval d which =
     (if which \<noteq> V4L2_SUBDEV_FORMAT_ACTIVE then (- EINVAL, None, d)
      else
        (let d = kdo Mutex_lock d;
             t = timeperframe (cur_mode d)
         in (0, Some t, kdo Mutex_unlock d)))"

definition ov7251_set_frame_interval :: "ov7251 services \<Rightarrow> ov7251 \<Rightarrow> whence \<Rightarrow> v4l2_fract \<Rightarrow>
    fault + (int \<times> ov7251 \<times> v4l2_fract)" where
  "ov7251_set_frame_interval S d which t =
     (if which \<noteq> V4L2_SUBDEV_FORMAT_ACTIVE then Inr (- EINVAL, d, t)
      else
        (let d = kdo Mutex_lock d
         in case ov7251_find_mode_by_ival d t of
              Inl e \<Rightarrow> Inl e
            | Inr i \<Rightarrow>
              (let (ret, d) =
                 (if i \<noteq> current_mode d then
                    (let (ret, d) = ov7251_take_exposure S (modes d ! i) d
                     in if ret < 0 then (ret, d) else (ret, d\<lparr>current_mode := i\<rparr>))
                  else (0, d))
               in if ret < 0 then Inr (ret, kdo Mutex_unlock d, t)
                  else Inr (ret, kdo Mutex_unlock d, timeperframe (cur_mode d)))))"

section \<open>A finder that keeps the contract\<close>

lemma first_nearest_bound: "ss \<noteq> [] \<Longrightarrow> first_nearest ss w h < length ss"
  by (induction ss w h rule: first_nearest.induct) (auto simp: Let_def)

lemma first_nearest_le:
  "i < length ss \<Longrightarrow> size_dist w h (ss ! first_nearest ss w h) \<le> size_dist w h (ss ! i)"
proof (induction ss w h arbitrary: i rule: first_nearest.induct)
  case (3 s t ss w h)
  then show ?case
    by (cases i) (fastforce simp: Let_def)+
qed auto

interpretation nearest: size_finder first_nearest
  by unfold_locales (simp_all add: first_nearest_bound first_nearest_le)

section \<open>Enumerated frame intervals\<close>

text \<open>The modes of a size, in the order of the table.\<close>

definition modes_of :: "ov7251_mode_info list \<Rightarrow> u32 \<Rightarrow> u32 \<Rightarrow> ov7251_mode_info list" where
  "modes_of ms w h = filter (\<lambda>m. md_width m = w \<and> md_height m = h) ms"

lemma enum_ival_loop:
  "enum_ival_loop ms w h i =
     (if unat i < length (modes_of ms w h) then (0, Some (timeperframe (modes_of ms w h ! unat i)))
      else (- EINVAL, None))"
proof (induction ms w h i rule: enum_ival_loop.induct)
  case (2 m ms w h i)
  have u: "unat i = Suc (unat (i - 1))" if "i \<noteq> 0" using that unat_minus_one [OF that] unat_gt_0 [of i] by linarith
  show ?case
    using 2 u by (cases "i = 0") (auto simp: modes_of_def)
qed (simp add: modes_of_def)

text \<open>
  C32: The loop of ov7251_enum_frame_ival is the index into the list of the modes of the requested
  size: it answers the interval of that mode, and -EINVAL exactly past the end.
\<close>

theorem enum_frame_ival_table:
  "ov7251_enum_frame_ival d w h i =
     (let ms = filter (\<lambda>m. md_width m = w \<and> md_height m = h) (modes d)
      in if unat i < length ms then (0, Some (timeperframe (ms ! unat i))) else (- EINVAL, None))"
  by (simp add: ov7251_enum_frame_ival_def enum_ival_loop modes_of_def Let_def)

section \<open>The mode nearest to an interval\<close>

text \<open>
  What the driver relies on of its table of modes: they have one size, and every interval is a
  number of hundredths of a frame a second.
\<close>

definition mode_ok :: "ov7251_mode_info \<Rightarrow> bool" where
  "mode_ok m \<longleftrightarrow> md_width m = 640 \<and> md_height m = 480 \<and> numerator (timeperframe m) = 100 \<and>
     480 < unat (md_vts m) \<and> unat (md_vts m) \<le> 65535 \<and> unat (denominator (timeperframe m)) \<le> 100000"

definition modes_ok :: "ov7251 \<Rightarrow> bool" where
  "modes_ok d \<longleftrightarrow> list_all mode_ok (modes d) \<and> current_mode d < length (modes d)"

lemma modes_okD: "modes_ok d \<Longrightarrow> i < length (modes d) \<Longrightarrow> mode_ok (modes d ! i)"
  by (simp add: modes_ok_def list_all_length)

lemma table_modes_ok: "list_all mode_ok ov7251_mode_info_data" "mode_ok ov7251_win_mode"
  by (simp_all add: mode_ok_def ov7251_mode_info_data_def ov7251_win_mode_def)

text \<open>The whole frames a second of an interval, and the distance of a mode from a request.\<close>

definition fps :: "v4l2_fract \<Rightarrow> u32" where
  "fps t = (denominator t + drop_bit 1 (numerator t)) div numerator t"

definition fps_dist :: "u32 \<Rightarrow> ov7251_mode_info \<Rightarrow> u32" where
  "fps_dist q m = u32_of_int \<bar>s32_of_u32 (q - fps (timeperframe m))\<bar>"


lemma fps_dist_max: "fps_dist q m < - 1"
proof -
  define x where "x = s32_of_u32 (q - fps (timeperframe m))"
  have "- (2 ^ 31) \<le> x" "x < 2 ^ 31"
    using sint_greater_eq [of "q - fps (timeperframe m)"] sint_less [of "q - fps (timeperframe m)"]
    by (simp_all add: x_def s32_of_u32_def)
  then have "unat (u32_of_int \<bar>x\<bar>) \<le> 2 ^ 31" by (subst unat_u32_of_int) auto
  then have "unat (u32_of_int \<bar>x\<bar>) < 2 ^ 32 - 1" by simp
  moreover have "unat (- 1 :: u32) = 2 ^ 32 - 1" by (simp only: unsigned_minus_1_eq_mask) (simp add: mask_eq_exp_minus_1)
  ultimately show ?thesis by (simp only: fps_dist_def x_def [symmetric] word_less_nat_alt)
qed


text \<open>The loop keeps the first of the nearest modes seen so far.\<close>

definition first_best :: "u32 \<Rightarrow> ov7251_mode_info list \<Rightarrow> nat \<Rightarrow> bool" where
  "first_best q ms n \<longleftrightarrow> n < length ms \<and> (\<forall>j < length ms. fps_dist q (ms ! n) \<le> fps_dist q (ms ! j)) \<and>
     (\<forall>j < n. fps_dist q (ms ! n) < fps_dist q (ms ! j))"

lemma first_best_snoc:
  assumes "first_best q ps n"
  shows "first_best q (ps @ [m]) (if fps_dist q m < fps_dist q (ps ! n) then length ps else n)"
proof (cases "fps_dist q m < fps_dist q (ps ! n)")
  case True
  then have "fps_dist q m < fps_dist q (ps ! j)" if "j < length ps" for j
    using assms that by (auto simp: first_best_def intro: less_le_trans)
  then show ?thesis
    using True by (auto simp: first_best_def nth_append less_Suc_eq intro: less_imp_le)
next
  case False
  then show ?thesis using assms by (auto simp: first_best_def nth_append less_Suc_eq)
qed

lemma find_mode_loop:
  assumes "\<forall>m \<in> set ms. md_width m = md_width cur \<and> md_height m = md_height cur \<and> numerator (timeperframe m) \<noteq> 0"
    and "first_best q ps n"
  shows "\<exists>r. find_mode_loop cur q (length ps) ms n (fps_dist q (ps ! n)) = Inr r \<and> first_best q (ps @ ms) r"
  using assms
proof (induction ms arbitrary: ps n)
  case Nil
  then show ?case by simp
next
  case (Cons m ms)
  define n' where "n' = (if fps_dist q m < fps_dist q (ps ! n) then length ps else n)"
  have a: "avg_fps (timeperframe m) = Inr (fps (timeperframe m))"
    using Cons.prems(1) by (simp add: avg_fps_def fps_def)
  have w: "md_width cur = md_width m" "md_height cur = md_height m" and n: "n < length ps"
    using Cons.prems by (auto simp: first_best_def)
  have st: "find_mode_loop cur q i (m # ms) n mx =
      (if fps_dist q m < mx then find_mode_loop cur q (Suc i) ms i (fps_dist q m)
       else find_mode_loop cur q (Suc i) ms n mx)" for i n mx
    by (simp only: find_mode_loop.simps w a fps_dist_def Let_def sum.case simp_thms if_False)
  have n': "first_best q (ps @ [m]) n'"
    using first_best_snoc [OF Cons.prems(2)] by (simp add: n'_def)
  have "find_mode_loop cur q (length ps) (m # ms) n (fps_dist q (ps ! n)) =
      find_mode_loop cur q (length (ps @ [m])) ms n' (fps_dist q ((ps @ [m]) ! n'))"
    using n by (simp add: st n'_def nth_append del: find_mode_loop.simps)
  moreover have "\<forall>m \<in> set ms. md_width m = md_width cur \<and> md_height m = md_height cur \<and> numerator (timeperframe m) \<noteq> 0"
    using Cons.prems(1) by (metis list.set_intros(2))
  note Cons.IH [OF this n']
  ultimately show ?case by (simp only: append_Cons append_Nil append_assoc)
qed

lemma find_mode_first:
  assumes "modes_ok d" and "numerator t \<noteq> 0"
  shows "\<exists>i. ov7251_find_mode_by_ival d t = Inr i \<and> first_best (fps t) (modes d) i"
proof -
  have all: "\<forall>m \<in> set (modes d). mode_ok m" using assms(1) by (simp add: modes_ok_def list_all_iff)
  have cur: "mode_ok (cur_mode d)" using assms(1) by (simp add: cur_mode_def modes_ok_def list_all_length)
  obtain m ms where ms: "modes d = m # ms" using assms(1) by (cases "modes d") (auto simp: modes_ok_def)
  have a: "avg_fps (timeperframe m) = Inr (fps (timeperframe m))"
    using all by (simp add: avg_fps_def fps_def ms mode_ok_def)
  have "find_mode_loop (cur_mode d) (fps t) 0 (m # ms) 0 (- 1) =
      find_mode_loop (cur_mode d) (fps t) (length [m]) ms 0 (fps_dist (fps t) ([m] ! 0))"
    using all cur fps_dist_max [of "fps t" m] by (simp add: ms a fps_dist_def [symmetric] mode_ok_def)
  moreover have "\<exists>r. find_mode_loop (cur_mode d) (fps t) (length [m]) ms 0 (fps_dist (fps t) ([m] ! 0)) = Inr r \<and>
      first_best (fps t) ([m] @ ms) r"
    by (rule find_mode_loop) (use all cur in \<open>auto simp: ms mode_ok_def first_best_def\<close>)
  moreover have "avg_fps t = Inr (fps t)" using assms(2) by (simp add: avg_fps_def fps_def)
  ultimately show ?thesis by (auto simp: ov7251_find_mode_by_ival_def ms)
qed

lemma find_mode_bound:
  assumes "modes_ok d" and "ov7251_find_mode_by_ival d t = Inr i"
  shows "i < length (modes d)"
proof -
  have "numerator t \<noteq> 0" using assms(2) by (auto simp: ov7251_find_mode_by_ival_def avg_fps_def)
  from find_mode_first [OF assms(1) this] assms(2) show ?thesis by (auto simp: first_best_def)
qed


text \<open>
  A frame interval with numerator zero divides by zero.
\<close>

theorem find_mode_fault:
  "numerator t = 0 \<Longrightarrow> ov7251_find_mode_by_ival d t = Inl Div_by_zero"
  by (simp add: ov7251_find_mode_by_ival_def avg_fps_def)

section \<open>Taking over a mode\<close>

definition exposure_range :: "ov7251_mode_info \<Rightarrow> ctrl \<Rightarrow> bool" where
  "exposure_range m c \<longleftrightarrow> minimum c = 1 \<and> maximum c = uint (exposure_max m) \<and> step c = 1 \<and>
     default_value c = uint (exposure_def m)"

lemma take_exposure:
  assumes core: "ctrl_frame S ov7251_keep" and take: "ov7251_take_exposure S m d = (ret, d')"
  shows "ov7251_keep d' = ov7251_keep d" "lock_run (trace d') x = lock_run (trace d) x"
    "ctrls d' V4L2_CID_VBLANK = ctrls d V4L2_CID_VBLANK"
    "0 < exposure_def m \<Longrightarrow> exposure_def m \<le> exposure_max m \<Longrightarrow>
      exposure_range m (ctrls d' V4L2_CID_EXPOSURE)"
proof -
  note base = core [THEN ctrl_frame.axioms(1)]
  obtain r1 d1 where 1: "modify_range S V4L2_CID_EXPOSURE 1 (uint (exposure_max m)) 1 (uint (exposure_def m)) d = (r1, d1)"
    by fastforce
  obtain r2 d2 where 2: "set_ctrl S V4L2_CID_EXPOSURE (uint (exposure_def m)) d1 = (r2, d2)" by fastforce
  obtain r3 d3 where 3: "set_ctrl S V4L2_CID_ANALOGUE_GAIN 16 d2 = (r3, d3)" by fastforce
  have d': "d' = (if r1 < 0 then d1 else if r2 < 0 then d2 else d3)"
    using take by (simp add: ov7251_take_exposure_def 1 2 3 Let_def split: if_splits)
  note fr = ctrl_core.range_frame [OF base 1] ctrl_core.set_frame [OF base 2] ctrl_core.set_frame [OF base 3]
  show "ov7251_keep d' = ov7251_keep d" "lock_run (trace d') x = lock_run (trace d) x"
    using fr [of x] by (simp_all add: d')
  show "ctrls d' V4L2_CID_VBLANK = ctrls d V4L2_CID_VBLANK"
    using ctrl_frame.range_only [OF core 1, of V4L2_CID_VBLANK] ctrl_frame.set_only [OF core 2, of V4L2_CID_VBLANK]
      ctrl_frame.set_only [OF core 3, of V4L2_CID_VBLANK] by (simp add: d')
  assume "0 < exposure_def m" "exposure_def m \<le> exposure_max m"
  then have "1 \<le> uint (exposure_def m)" "uint (exposure_def m) \<le> uint (exposure_max m)"
    by (simp_all add: word_less_def word_le_def)
  from ctrl_core.range_ok [OF base _ this 1]
  show "exposure_range m (ctrls d' V4L2_CID_EXPOSURE)"
    using ctrl_core.set_ranges [OF base 2, of V4L2_CID_EXPOSURE]
      ctrl_frame.set_only [OF core 3, of V4L2_CID_EXPOSURE]
    by (simp add: d' exposure_range_def)
qed

lemma take_exposure_bad:
  assumes core: "ctrl_core S ov7251_keep" and "exposure_max m < exposure_def m"
  shows "ov7251_take_exposure S m d = (- ERANGE, d)"
proof -
  have "\<not> uint (exposure_def m) \<le> uint (exposure_max m)" using assms(2) by (simp add: word_less_def)
  then have "modify_range S V4L2_CID_EXPOSURE 1 (uint (exposure_max m)) 1 (uint (exposure_def m)) d = (- ERANGE, d)"
    by (intro ctrl_core.range_bad [OF core]) simp
  then show ?thesis by (simp add: ov7251_take_exposure_def ERANGE_def)
qed

text \<open>The format an ACTIVE call sets is that of the mode.\<close>

definition mode_fmt :: "ov7251_mode_info \<Rightarrow> ov7251_fmt" where
  "mode_fmt m = \<lparr>f_width = md_width m, f_height = md_height m, f_code = MEDIA_BUS_FMT_Y10_1X10,
     f_field = 1, f_colorspace = 8, f_ycbcr_enc = 1, f_quantization = 1, f_xfer_func = 2\<rparr>"

lemma vblank_limits:
  assumes "mode_ok m"
  shows "s32_of_u32 (OV7251_TIMING_MAX_VTS - md_height m) = 65055"
    "s32_of_u32 (md_vts m - md_height m) = int (unat (md_vts m)) - 480"
proof -
  have h: "md_height m = 480" and v: "480 < unat (md_vts m)" "unat (md_vts m) \<le> 65535"
    using assms by (simp_all add: mode_ok_def)
  show "s32_of_u32 (OV7251_TIMING_MAX_VTS - md_height m) = 65055"
    by (simp add: h ov7251_consts s32_of_u32_def)
  have le: "480 \<le> md_vts m" using v by (simp add: word_le_nat_alt)
  have "unat (md_vts m - 480) = unat (md_vts m) - 480"
    using unat_minus_small [OF le] by simp
  then show "s32_of_u32 (md_vts m - md_height m) = int (unat (md_vts m)) - 480"
    using v s32_small [of "md_vts m - 480"] by (simp add: h)
qed


text \<open>The nearest mode to a requested size.\<close>

definition near_mode :: "((u32 \<times> u32) list \<Rightarrow> u32 \<Rightarrow> u32 \<Rightarrow> nat) \<Rightarrow> ov7251 \<Rightarrow> ov7251_fmt \<Rightarrow> nat" where
  "near_mode N d q = N (map (\<lambda>m. (md_width m, md_height m)) (modes d)) (f_width q) (f_height q)"

lemma near_mode_bound: "size_finder N \<Longrightarrow> modes_ok d \<Longrightarrow> near_mode N d q < length (modes d)"
proof -
  assume N: "size_finder N" and ok: "modes_ok d"
  from ok have "map (\<lambda>m. (md_width m, md_height m)) (modes d) \<noteq> []" by (auto simp: modes_ok_def)
  from size_finder.bound [OF N this] show ?thesis by (simp add: near_mode_def)
qed

lemma set_format_unfold:
  fixes d :: ov7251 and N :: "(u32 \<times> u32) list \<Rightarrow> u32 \<Rightarrow> u32 \<Rightarrow> nat"
  assumes act: "sf_which f = V4L2_SUBDEV_FORMAT_ACTIVE"
  defines "m \<equiv> modes d ! near_mode N d (sf_format f)"
  defines "d0 \<equiv> (kdo Mutex_lock d)\<lparr>crop := (crop d)\<lparr>r_width := md_width m, r_height := md_height m\<rparr>\<rparr>"
  shows "ov7251_set_format S N d st f =
    (let (ret, d1) = ov7251_take_exposure S m d0
     in if ret < 0 then Inr (ret, kdo Mutex_unlock d1, st, f)
        else
          (let (ret, d2) = modify_range S V4L2_CID_VBLANK 1 (s32_of_u32 (OV7251_TIMING_MAX_VTS - md_height m)) 1
                 (s32_of_u32 (md_vts m - md_height m)) d1
           in if ret < 0 then Inr (ret, kdo Mutex_unlock d2, st, f)
              else Inr (ret, kdo Mutex_unlock (d2\<lparr>current_mode := near_mode N d (sf_format f), fmt := mode_fmt m\<rparr>),
                        st, f\<lparr>sf_format := mode_fmt m\<rparr>)))"
proof -
  have k: "crop (kdo e x) = crop x" "modes (kdo e x) = modes x" for e and x :: ov7251
    by (simp_all add: kdo_def)
  have all_fields: "q\<lparr>f_width := md_width m, f_height := md_height m, f_code := MEDIA_BUS_FMT_Y10_1X10,
      f_field := 1, f_colorspace := 8, f_ycbcr_enc := 1, f_quantization := 1, f_xfer_func := 2\<rparr> = mode_fmt m"
    for q :: ov7251_fmt by (cases q) (simp add: mode_fmt_def)
  have g: "ov7251_get_pad_crop (kdo Mutex_lock d) st V4L2_SUBDEV_FORMAT_ACTIVE = Some (crop d)"
    by (simp add: ov7251_get_pad_crop_def k)
  show ?thesis
    by (simp add: ov7251_set_format_def act g put_pad_crop_def put_pad_format_def ov7251_get_pad_format_def
        near_mode_def [symmetric] m_def [symmetric] d0_def [symmetric] k all_fields Let_def case_prod_beta ov7251_consts)
qed

text \<open>The VBLANK range of a usable mode holds the old value, so storing it succeeds and applies nothing.\<close>

definition vblank_ranged :: "ov7251_mode_info \<Rightarrow> ov7251 \<Rightarrow> ov7251" where
  "vblank_ranged m d = d\<lparr>ctrls := (ctrls d)(V4L2_CID_VBLANK := (ctrls d V4L2_CID_VBLANK)
    \<lparr>minimum := 1, maximum := 65055, step := 1, default_value := int (unat (md_vts m)) - 480\<rparr>)\<rparr>"

lemma set_format_steps:
  assumes core: "ctrl_frame S ov7251_keep" and act: "sf_which f = V4L2_SUBDEV_FORMAT_ACTIVE"
    and mok: "mode_ok m" and m: "m = modes d ! near_mode N d (sf_format f)"
    and t: "ov7251_take_exposure S m ((kdo Mutex_lock d)\<lparr>crop := (crop d)\<lparr>r_width := md_width m, r_height := md_height m\<rparr>\<rparr>) = (r1, d1)"
    and vb: "1 \<le> val (ctrls d1 V4L2_CID_VBLANK)" "val (ctrls d1 V4L2_CID_VBLANK) \<le> 65055"
  shows "ov7251_set_format S N d st f =
    (if r1 < 0 then Inr (r1, kdo Mutex_unlock d1, st, f)
     else Inr (0, kdo Mutex_unlock ((vblank_ranged m d1)\<lparr>current_mode := near_mode N d (sf_format f), fmt := mode_fmt m\<rparr>),
       st, f\<lparr>sf_format := mode_fmt m\<rparr>))"
proof -
  define vd where "vd = int (unat (md_vts m)) - 480"
  have "480 < unat (md_vts m)" "unat (md_vts m) \<le> 65535" using mok by (simp_all add: mode_ok_def)
  then have vd: "1 \<le> vd" "vd \<le> 65055" unfolding vd_def by linarith+
  have mr: "modify_range S V4L2_CID_VBLANK 1 65055 1 vd d1 = (0, vblank_ranged m d1)"
    unfolding vblank_ranged_def vd_def [symmetric]
    by (rule ctrl_frame.range_inside [OF core]) (use vd vb in simp_all)
  show ?thesis
    unfolding set_format_unfold [OF act, of S N d st, folded m] t vblank_limits [OF mok] vd_def [symmetric] Let_def
    by (simp add: mr)
qed

lemma set_format_core:
  assumes core: "ctrl_frame S ov7251_keep" and N: "size_finder N" and ok: "modes_ok d"
    and act: "sf_which f = V4L2_SUBDEV_FORMAT_ACTIVE" and free: "lock_run (trace d) (Some False) = Some False"
    and vb: "1 \<le> val (ctrls d V4L2_CID_VBLANK)" "val (ctrls d V4L2_CID_VBLANK) \<le> 65055"
    and res: "ov7251_set_format S N d st f = Inr (ret, d', st', f')"
  defines "m \<equiv> modes d ! near_mode N d (sf_format f)"
  shows "lock_run (trace d') (Some False) = Some False"
    "val (ctrls d' V4L2_CID_VBLANK) = val (ctrls d V4L2_CID_VBLANK)" "modes d' = modes d"
    "0 < exposure_def m \<Longrightarrow> exposure_def m \<le> exposure_max m \<Longrightarrow> exposure_range m (ctrls d' V4L2_CID_EXPOSURE)"
    "ret < 0 \<Longrightarrow> current_mode d' = current_mode d \<and> fmt d' = fmt d \<and> f' = f \<and>
       ctrls d' V4L2_CID_VBLANK = ctrls d V4L2_CID_VBLANK"
    "\<not> ret < 0 \<Longrightarrow> ret = 0 \<and> current_mode d' = near_mode N d (sf_format f) \<and> fmt d' = mode_fmt m \<and>
       sf_format f' = mode_fmt m \<and> r_width (crop d') = 640 \<and> r_height (crop d') = 480 \<and>
       minimum (ctrls d' V4L2_CID_VBLANK) = 1 \<and> maximum (ctrls d' V4L2_CID_VBLANK) = 65055 \<and>
       default_value (ctrls d' V4L2_CID_VBLANK) = int (unat (md_vts m)) - 480"
proof -
  define d0 where "d0 = (kdo Mutex_lock d)\<lparr>crop := (crop d)\<lparr>r_width := md_width m, r_height := md_height m\<rparr>\<rparr>"
  obtain r1 d1 where t: "ov7251_take_exposure S m d0 = (r1, d1)" by fastforce
  have k: "ov7251_keep (kdo e x) = ov7251_keep x" for e x by (rule keep_quiet) simp
  have d0: "trace d0 = trace d @ [(Mutex_lock, 0)]" "ctrls d0 = ctrls d" "modes d0 = modes d"
    "current_mode d0 = current_mode d" "fmt d0 = fmt d" "r_width (crop d0) = md_width m"
    "r_height (crop d0) = md_height m"
    using keep_fields [OF k [of Mutex_lock d]] by (simp_all add: d0_def)
  note te = take_exposure [OF core t] keep_fields [OF take_exposure(1) [OF core t]]
  have mok: "mode_ok m" using modes_okD [OF ok near_mode_bound [OF N ok]] by (simp add: m_def)
  have w: "md_width m = 640" "md_height m = 480" using mok by (simp_all add: mode_ok_def)
  have d': "ret = (if r1 < 0 then r1 else 0)"
    "d' = kdo Mutex_unlock (if r1 < 0 then d1 else (vblank_ranged m d1)\<lparr>current_mode := near_mode N d (sf_format f), fmt := mode_fmt m\<rparr>)"
    "f' = (if r1 < 0 then f else f\<lparr>sf_format := mode_fmt m\<rparr>)"
    using res set_format_steps [OF core act mok m_def [THEN meta_eq_to_obj_eq] t [unfolded d0_def], of st] vb te(3) d0(2)
    by (simp_all split: if_splits)
  note kf = keep_fields [OF k] and vr = vblank_ranged_def
  show "lock_run (trace d') (Some False) = Some False"
    using te(2) [of "Some False"] free by (simp add: d' vr d0)
  show "val (ctrls d' V4L2_CID_VBLANK) = val (ctrls d V4L2_CID_VBLANK)" "modes d' = modes d"
    using te d0 by (simp_all add: d' vr kf)
  show "0 < exposure_def m \<Longrightarrow> exposure_def m \<le> exposure_max m \<Longrightarrow> exposure_range m (ctrls d' V4L2_CID_EXPOSURE)"
    using te(4) by (simp add: d' vr)
  show "ret < 0 \<Longrightarrow> current_mode d' = current_mode d \<and> fmt d' = fmt d \<and> f' = f \<and>
       ctrls d' V4L2_CID_VBLANK = ctrls d V4L2_CID_VBLANK"
    using te d0 by (simp add: d' kf split: if_splits)
  show "\<not> ret < 0 \<Longrightarrow> ret = 0 \<and> current_mode d' = near_mode N d (sf_format f) \<and> fmt d' = mode_fmt m \<and>
       sf_format f' = mode_fmt m \<and> r_width (crop d') = 640 \<and> r_height (crop d') = 480 \<and>
       minimum (ctrls d' V4L2_CID_VBLANK) = 1 \<and> maximum (ctrls d' V4L2_CID_VBLANK) = 65055 \<and>
       default_value (ctrls d' V4L2_CID_VBLANK) = int (unat (md_vts m)) - 480"
    using te d0 by (simp add: d' kf vr w split: if_splits)
qed

text \<open>
  C2: An ACTIVE ov7251_set_format, under the contract of the control core, releases the mutex and
  keeps the mode table usable; when it succeeds the mode is the one v4l2_find_nearest_size picks,
  the stored and returned formats and the crop are those of that mode, and the VBLANK and EXPOSURE
  ranges are those of that mode; when it fails the old mode, format and VBLANK range stay.
\<close>

theorem set_format_active:
  assumes "ctrl_frame S ov7251_keep" and "size_finder N" and "modes_ok d"
    and "sf_which f = V4L2_SUBDEV_FORMAT_ACTIVE" and "lock_run (trace d) (Some False) = Some False"
    and "1 \<le> val (ctrls d V4L2_CID_VBLANK)" "val (ctrls d V4L2_CID_VBLANK) \<le> 65055"
    and "ov7251_set_format S N d st f = Inr (ret, d', st', f')"
  shows "lock_run (trace d') (Some False) = Some False \<and> modes_ok d' \<and>
    val (ctrls d' V4L2_CID_VBLANK) = val (ctrls d V4L2_CID_VBLANK) \<and>
    (if ret < 0 then current_mode d' = current_mode d \<and> fmt d' = fmt d \<and> f' = f \<and>
       ctrls d' V4L2_CID_VBLANK = ctrls d V4L2_CID_VBLANK
     else
       (let i = near_mode N d (sf_format f); m = modes d ! i
        in ret = 0 \<and> current_mode d' = i \<and> fmt d' = mode_fmt m \<and> sf_format f' = mode_fmt m \<and>
           r_width (crop d') = 640 \<and> r_height (crop d') = 480 \<and>
           minimum (ctrls d' V4L2_CID_VBLANK) = 1 \<and> maximum (ctrls d' V4L2_CID_VBLANK) = 65055 \<and>
           default_value (ctrls d' V4L2_CID_VBLANK) = int (unat (md_vts m)) - 480 \<and>
           (0 < exposure_def m \<and> exposure_def m \<le> exposure_max m \<longrightarrow>
             exposure_range m (ctrls d' V4L2_CID_EXPOSURE))))"
proof -
  note sf = set_format_core [OF assms]
  have "modes_ok d'"
    using assms(3) sf(3,5,6) near_mode_bound [OF assms(2,3), of "sf_format f"]
    by (cases "ret < 0") (simp_all add: modes_ok_def)
  then show ?thesis using sf by (simp add: Let_def)
qed

text \<open>A mode whose exposure default is above its limit cannot be set.\<close>

lemma set_format_refused:
  assumes "ctrl_core S ov7251_keep" and act: "sf_which f = V4L2_SUBDEV_FORMAT_ACTIVE"
    and bad: "exposure_max (modes d ! near_mode N d (sf_format f)) < exposure_def (modes d ! near_mode N d (sf_format f))"
  shows "\<exists>d'. ov7251_set_format S N d st f = Inr (- ERANGE, d', st, f) \<and> fmt d' = fmt d \<and>
    current_mode d' = current_mode d \<and> ctrls d' = ctrls d"
  unfolding set_format_unfold [OF act] take_exposure_bad [OF assms(1) bad]
  by (simp add: ERANGE_def kdo_def)

lemma frame_interval_core:
  assumes core: "ctrl_frame S ov7251_keep" and ok: "modes_ok d" and free: "lock_run (trace d) (Some False) = Some False"
    and res: "ov7251_set_frame_interval S d V4L2_SUBDEV_FORMAT_ACTIVE t = Inr (ret, d', t')"
  shows "\<exists>i. ov7251_find_mode_by_ival d t = Inr i \<and> lock_run (trace d') (Some False) = Some False \<and>
    ctrls d' V4L2_CID_VBLANK = ctrls d V4L2_CID_VBLANK \<and> fmt d' = fmt d \<and>
    modes d' = modes d \<and> i < length (modes d) \<and>
    (if ret < 0 then current_mode d' = current_mode d \<and> t' = t
     else current_mode d' = i \<and> t' = timeperframe (modes d ! i) \<and>
       (i \<noteq> current_mode d \<and> 0 < exposure_def (modes d ! i) \<and> exposure_def (modes d ! i) \<le> exposure_max (modes d ! i) \<longrightarrow>
         exposure_range (modes d ! i) (ctrls d' V4L2_CID_EXPOSURE)))"
proof -
  let ?d = "kdo Mutex_lock d"
  have k: "ov7251_keep (kdo e x) = ov7251_keep x" for e x by (rule keep_quiet) simp
  note kf = keep_fields [OF k]
  have find: "ov7251_find_mode_by_ival ?d t = ov7251_find_mode_by_ival d t"
    unfolding ov7251_find_mode_by_ival_def kf ..
  obtain i where i: "ov7251_find_mode_by_ival d t = Inr i"
    using res by (cases "ov7251_find_mode_by_ival d t") (simp_all add: ov7251_set_frame_interval_def find Let_def)
  obtain r1 d1 where e: "ov7251_take_exposure S (modes d ! i) ?d = (r1, d1)" by fastforce
  note te = take_exposure [OF core e] keep_fields [OF take_exposure(1) [OF core e]]
  have lock: "lock_run (trace d1) (Some False) = Some True" using te(2) [of "Some False"] free by simp
  show ?thesis
    using res te lock free find_mode_bound [OF ok i]
    by (auto simp: ov7251_set_frame_interval_def find i e kf Let_def cur_mode_def split: if_splits intro!: exI [of _ i])
qed

text \<open>
  An ACTIVE set_frame_interval chooses the mode of find_mode_by_ival, releases the mutex, takes
  the exposure range of that mode, and never touches VBLANK or the format.
\<close>

theorem set_frame_interval_mode:
  assumes "ctrl_frame S ov7251_keep" and "modes_ok d" and "lock_run (trace d) (Some False) = Some False"
    and "ov7251_set_frame_interval S d V4L2_SUBDEV_FORMAT_ACTIVE t = Inr (ret, d', t')"
  shows "\<exists>i. ov7251_find_mode_by_ival d t = Inr i \<and> lock_run (trace d') (Some False) = Some False \<and>
    ctrls d' V4L2_CID_VBLANK = ctrls d V4L2_CID_VBLANK \<and> fmt d' = fmt d \<and>
    modes d' = modes d \<and> i < length (modes d) \<and>
    (if ret < 0 then current_mode d' = current_mode d \<and> t' = t
     else current_mode d' = i \<and> t' = timeperframe (modes d ! i) \<and>
       (i \<noteq> current_mode d \<and> 0 < exposure_def (modes d ! i) \<and> exposure_def (modes d ! i) \<le> exposure_max (modes d ! i) \<longrightarrow>
         exposure_range (modes d ! i) (ctrls d' V4L2_CID_EXPOSURE)))"
  by (rule frame_interval_core [OF assms])

section \<open>Examples\<close>

definition sample7_state :: "ov7251_fmt pad_state" where
  "sample7_state = \<lparr>st_format = fmt ov7251_sample, st_crop = crop ov7251_sample\<rparr>"

definition sample7_fmt :: "ov7251_fmt pad_format" where
  "sample7_fmt = \<lparr>sf_which = V4L2_SUBDEV_FORMAT_ACTIVE, sf_format = fmt ov7251_sample\<rparr>"

lemma sample7: "modes_ok ov7251_sample" "lock_run (trace ov7251_sample) (Some False) = Some False"
  "1 \<le> val (ctrls ov7251_sample V4L2_CID_VBLANK)" "val (ctrls ov7251_sample V4L2_CID_VBLANK) \<le> 65055"
  "sf_which sample7_fmt = V4L2_SUBDEV_FORMAT_ACTIVE"
  "near_mode first_nearest ov7251_sample (sf_format sample7_fmt) = 0"
  using table_modes_ok(1)
  by (simp_all add: modes_ok_def ov7251_sample_def sample7_fmt_def ov7251_mode_info_data_def std_ctrl_def
      near_mode_def size_dist_def)

text \<open>On a working bus the control calls of both operations succeed.\<close>

lemma sample7_take:
  "m \<in> set ov7251_mode_info_data \<Longrightarrow> trace d = [(Mutex_lock, 0)] \<Longrightarrow> ctrls d = ctrls ov7251_sample \<Longrightarrow>
   fst (ov7251_take_exposure (ov7251_ctrl_services sample_env) m d) = 0"
  by (auto simp: ov7251_take_exposure_def ov7251_ctrl_services_def v4l2_modify_range_def v4l2_set_ctrl_def
      v4l2_apply_def ov7251_op_def ov7251_s_ctrl_def ov7251_sample_def std_ctrl_def clamp_t_def
      ov7251_mode_info_data_def Let_def kcall_def)

lemma set_format_active_witness:
  "\<exists>d' st' f'. ov7251_set_format (ov7251_ctrl_services sample_env) first_nearest ov7251_sample sample7_state
      sample7_fmt = Inr (0, d', st', f') \<and> current_mode d' = 0 \<and>
    fmt d' = mode_fmt (ov7251_mode_info_data ! 0) \<and> default_value (ctrls d' V4L2_CID_VBLANK) = 1244"
proof -
  let ?S = "ov7251_ctrl_services sample_env" and ?m = "modes ov7251_sample ! 0"
  let ?d = "(kdo Mutex_lock ov7251_sample)\<lparr>crop := (crop ov7251_sample)\<lparr>r_width := md_width ?m, r_height := md_height ?m\<rparr>\<rparr>"
  obtain d1 where t: "ov7251_take_exposure ?S ?m ?d = (0, d1)"
    using sample7_take [of ?m ?d]
    by (cases "ov7251_take_exposure ?S ?m ?d") (simp add: ov7251_sample_def ov7251_mode_info_data_def)
  have "ctrls d1 V4L2_CID_VBLANK = ctrls ov7251_sample V4L2_CID_VBLANK"
    using take_exposure(3) [OF ov7251_core.ctrl_frame_axioms t] by simp
  then have "val (ctrls d1 V4L2_CID_VBLANK) = 1244" by (simp add: ov7251_sample_def std_ctrl_def)
  moreover have m: "md_vts ?m = 1724" "md_height ?m = 480" "OV7251_TIMING_MAX_VTS - (480 :: u32) = 65055"
    by (simp_all add: ov7251_sample_def ov7251_mode_info_data_def ov7251_consts)
  ultimately have "\<exists>d2. modify_range ?S V4L2_CID_VBLANK 1 (s32_of_u32 (OV7251_TIMING_MAX_VTS - md_height ?m)) 1
      (s32_of_u32 (md_vts ?m - md_height ?m)) d1 = (0, d2)"
    unfolding m by (simp add: ov7251_ctrl_services_def v4l2_modify_range_def clamp_t_def Let_def s32_of_u32_def)
  then obtain d' st' f' where r: "ov7251_set_format ?S first_nearest ov7251_sample sample7_state sample7_fmt = Inr (0, d', st', f')"
    unfolding set_format_unfold [OF sample7(5)] sample7(6) t by auto
  from set_format_active [OF ov7251_core.ctrl_frame_axioms nearest.size_finder_axioms sample7(1,5,2,3,4) r]
  show ?thesis using r by (simp add: sample7(6) Let_def) (simp add: ov7251_sample_def ov7251_mode_info_data_def)
qed


text \<open>
  A request that does not fit in 31 bits gets 30 frames a second: the distance is computed in an
  \<open>int\<close>, and for such a request its absolute value grows with the rate of the mode.
\<close>

lemma find_mode_wraps:
  "ov7251_find_mode_by_ival ov7251_sample \<lparr>numerator = 1, denominator = 0xffffffff\<rparr> = Inr 0 \<and>
   map (\<lambda>m. fps (timeperframe m)) (modes ov7251_sample) = [30, 60, 90]"
  by (simp add: ov7251_find_mode_by_ival_def ov7251_sample_def ov7251_mode_info_data_def avg_fps_def cur_mode_def fps_def)
    (code_simp)?
lemma find_mode_fault_witness:
  "ov7251_find_mode_by_ival ov7251_sample \<lparr>numerator = 0, denominator = 30\<rparr> = Inl Div_by_zero"
  by (rule find_mode_fault) simp

lemma find_60: "ov7251_find_mode_by_ival ov7251_sample \<lparr>numerator = 1, denominator = 60\<rparr> = Inr 1"
  by (simp add: ov7251_find_mode_by_ival_def ov7251_sample_def ov7251_mode_info_data_def avg_fps_def cur_mode_def
      s32_of_u32_def u32_of_int_def Let_def)

lemma set_frame_interval_mode_witness:
  "\<exists>d'. ov7251_set_frame_interval (ov7251_ctrl_services sample_env) ov7251_sample V4L2_SUBDEV_FORMAT_ACTIVE
      \<lparr>numerator = 1, denominator = 60\<rparr> = Inr (0, d', \<lparr>numerator = 100, denominator = 6014\<rparr>) \<and>
    current_mode d' = 1 \<and> val (ctrls d' V4L2_CID_VBLANK) = 1244 \<and> maximum (ctrls d' V4L2_CID_EXPOSURE) = 840"
proof -
  let ?S = "ov7251_ctrl_services sample_env" and ?t = "\<lparr>numerator = 1, denominator = 60 :: u32\<rparr>"
  let ?d = "kdo Mutex_lock ov7251_sample" and ?m = "ov7251_mode_info_data ! 1"
  have f: "ov7251_find_mode_by_ival ?d ?t = Inr 1"
    by (simp add: ov7251_find_mode_by_ival_def ov7251_sample_def ov7251_mode_info_data_def avg_fps_def cur_mode_def
        s32_of_u32_def u32_of_int_def Let_def kdo_def)
  have k: "current_mode ?d = 0" "modes ?d = ov7251_mode_info_data" by (simp_all add: ov7251_sample_def kdo_def)
  obtain d1 where t: "ov7251_take_exposure ?S ?m ?d = (0, d1)"
    using sample7_take [of ?m ?d]
    by (cases "ov7251_take_exposure ?S ?m ?d") (simp add: ov7251_sample_def ov7251_mode_info_data_def)
  then obtain d' t' where r: "ov7251_set_frame_interval ?S ov7251_sample V4L2_SUBDEV_FORMAT_ACTIVE ?t = Inr (0, d', t')"
    by (simp add: ov7251_set_frame_interval_def f k)
  from set_frame_interval_mode [OF ov7251_core.ctrl_frame_axioms sample7(1,2) r]
  show ?thesis using r
    by (simp add: find_60 exposure_range_def) (simp add: ov7251_sample_def ov7251_mode_info_data_def std_ctrl_def)
qed

end
