(* ===== verification/Ov7251_Power.thy ===== *)
theory Ov7251_Power
  imports Ov7251_Mode
begin

text \<open>
  Power, the IR illuminator, streaming, probe and remove of the OV7251 (\<open>ov7251.c\<close>,
  \<open>ov7251_regulators_enable\<close>, \<open>ov7251_set_power_on\<close> and from \<open>ov7251_has_ir_led\<close> to
  \<open>ov7251_remove\<close>), and the services tied to the driver's own callbacks.
\<close>

section \<open>Power\<close>

definition ov7251_regulators_enable :: "env \<Rightarrow> ov7251 \<Rightarrow> int \<times> ov7251" where
  "ov7251_regulators_enable E d =
     (let (ret, d) = kcall E (Rail (Regulator_enable Vdddo)) d
      in if ret < 0 then (ret, d)
         else
     (let (ret, d) = kcall E (Rail (Regulator_enable Vdda)) d
      in if ret \<noteq> 0 then (ret, kdo (Rail (Regulator_disable Vdddo)) d)
         else
     (let (ret, d) = kcall E (Rail (Regulator_enable Vddd)) d
      in if ret \<noteq> 0
         then (ret, kdo (Rail (Regulator_disable Vdddo)) (kdo (Rail (Regulator_disable Vdda)) d))
         else (0, d))))"

definition ov7251_regulators_disable :: "env \<Rightarrow> ov7251 \<Rightarrow> ov7251" where
  "ov7251_regulators_disable E d =
     (let (_, d) = kcall E (Rail (Regulator_disable Vddd)) d;
          (_, d) = kcall E (Rail (Regulator_disable Vdda)) d;
          (_, d) = kcall E (Rail (Regulator_disable Vdddo)) d
      in d)"

text \<open>The delay after power-up; \<open>xclk_freq\<close> is one of the two rates probe accepts.\<close>

definition ov7251_wait_us :: "u32 \<Rightarrow> u32" where
  "ov7251_wait_us freq = DIV_ROUND_UP (65536 * 1000) (DIV_ROUND_UP freq 1000)"

definition ov7251_set_power_on :: "env \<Rightarrow> ov7251 \<Rightarrow> int \<times> ov7251" where
  "ov7251_set_power_on E d =
     (let (ret, d) = ov7251_regulators_enable E d
      in if ret < 0 then (ret, d)
         else
     (let (ret, d) = kcall E (Rail Clk_prepare_enable) d
      in if ret < 0 then (ret, ov7251_regulators_disable E d)
         else
     (let d = kdo (Rail (Usleep_range 1000 1100)) d;
          d = kdo (Rail (Gpiod_set Gpio_enable 1)) d;
          wait_us = ov7251_wait_us (xclk_freq d);
          d = kdo (Rail (Usleep_range (unat wait_us) (unat (wait_us + 1000)))) d;
          (ret, d) = ov7251_set_register_array E ov7251_global_init_setting d
      in if ret < 0
         then
           (let d = kdo (Rail (Gpiod_set Gpio_enable 0)) d;
                d = kdo (Rail Clk_disable_unprepare) d
            in (ret, ov7251_regulators_disable E d))
         else (ret, kdo (Rail (Usleep_range 5000 6000)) d))))"

definition ov7251_set_power_off :: "env \<Rightarrow> ov7251 \<Rightarrow> int \<times> ov7251" where
  "ov7251_set_power_off E d =
     (let d = kdo (Rail Clk_disable_unprepare) d;
          d = kdo (Rail (Gpiod_set Gpio_enable 0)) d
      in (0, ov7251_regulators_disable E d))"

section \<open>Streaming\<close>

definition ov7251_has_ir_led :: "ov7251 \<Rightarrow> bool" where
  "ov7251_has_ir_led d = (if ir_led d \<ge> 0 then ir_led d \<noteq> 0 else hid_int347e d)"

definition ov7251_ir_led_set :: "env \<Rightarrow> bool \<Rightarrow> ov7251 \<Rightarrow> int \<times> ov7251" where
  "ov7251_ir_led_set E on d =
     (if \<not> ov7251_has_ir_led d then (0, d)
      else
        (let (ret, d) = ov7251_write_reg E OV7251_PAD_OUT1 (if on then OV7251_PAD_OUT1_IR_LED else 0) d
         in if ret \<noteq> 0 then (ret, d)
            else ov7251_write_reg E OV7251_STROBE_PATTERN
              (if on then OV7251_STROBE_EVERY_FRAME else OV7251_STROBE_HALF_FRAMES) d))"

text \<open>The label \<open>err_power_down\<close>.\<close>

definition ov7251_err_power_down :: "int \<Rightarrow> ov7251 \<Rightarrow> int \<times> ov7251" where
  "ov7251_err_power_down ret d = (ret, kdo Mutex_unlock (kdo (Pm Pm_put) d))"

definition ov7251_s_stream ::
    "ov7251 services \<Rightarrow> env \<Rightarrow> bool \<Rightarrow> ov7251 \<Rightarrow> fault + (int \<times> ov7251)" where
  "ov7251_s_stream S E enable d =
     (let d = kdo Mutex_lock d
      in if enable then
           (let (ret, d) = resume_and_get S d
            in if ret \<noteq> 0 then Inr (ret, kdo Mutex_unlock d)
               else
                 (case ov7251_pll_configure E d of
                    Inl e \<Rightarrow> Inl e
                  | Inr (ret, d) \<Rightarrow>
                    if ret \<noteq> 0 then Inr (ov7251_err_power_down ret d)
                    else
                      (let (ret, d) = ov7251_set_register_array E (md_data (cur_mode d)) d
                       in if ret < 0 then Inr (ov7251_err_power_down ret d)
                          else
                      (let (ret, d) = handler_setup S d
                       in if ret < 0 then Inr (ov7251_err_power_down ret d)
                          else
                      (let (ret, d) = ov7251_write_reg E OV7251_SC_MODE_SELECT
                             OV7251_SC_MODE_SELECT_STREAMING d
                       in if ret \<noteq> 0 then Inr (ov7251_err_power_down ret d)
                          else
                      (let (ret, d) = ov7251_ir_led_set E True d
                       in if ret \<noteq> 0 then Inr (ov7251_err_power_down ret d)
                          else Inr (ret, kdo Mutex_unlock d)))))))
         else
           (let (_, d) = ov7251_ir_led_set E False d;
                (ret, d) = ov7251_write_reg E OV7251_SC_MODE_SELECT OV7251_SC_MODE_SELECT_SW_STANDBY d;
                d = kdo (Pm Pm_put) d
            in Inr (ret, kdo Mutex_unlock d)))"

section \<open>Hardware configuration\<close>

text \<open>
  The two nested loops of \<open>ov7251_check_hwcfg\<close>: the index \<open>i\<close>, in the list of the firmware, of the
  first frequency the driver supports; it is this index that is stored as \<open>link_freq_idx\<close>.
\<close>

fun first_supported :: "nat \<Rightarrow> u64 list \<Rightarrow> nat option" where
  "first_supported i [] = None"
| "first_supported i (f # fs) = (if f \<in> set link_freq then Some i else first_supported (Suc i) fs)"

definition ov7251_check_hwcfg :: "env \<Rightarrow> bus_cfg \<Rightarrow> ov7251 \<Rightarrow> int \<times> ov7251" where
  "ov7251_check_hwcfg E cfg d =
     (let (endpoint, d) = kcall E (Init Fwnode_graph_get_next_endpoint) d
      in if endpoint = 0 then (- EPROBE_DEFER, d)
         else
           (let (ret, d) = kcall E (Init V4l2_fwnode_endpoint_alloc_parse) d;
                d = kdo (Init Fwnode_handle_put) d
            in if ret \<noteq> 0 then (ret, d)
               else if link_frequencies cfg = []
               then (- EINVAL, kdo (Init V4l2_fwnode_endpoint_free) d)
               else
                 (case first_supported 0 (link_frequencies cfg) of
                    None \<Rightarrow> (- EINVAL, kdo (Init V4l2_fwnode_endpoint_free) d)
                  | Some i \<Rightarrow>
                    (ret, kdo (Init V4l2_fwnode_endpoint_free) (d\<lparr>link_freq_idx := i\<rparr>)))))"

definition ov7251_detect_chip :: "env \<Rightarrow> ov7251 \<Rightarrow> int \<times> ov7251" where
  "ov7251_detect_chip E d =
     (let (ret, hi, d) = ov7251_read_reg E OV7251_CHIP_ID_HIGH d
      in if ret < 0 \<or> hi \<noteq> Some OV7251_CHIP_ID_HIGH_BYTE then (- ENODEV, d)
         else
     (let (ret, lo, d) = ov7251_read_reg E OV7251_CHIP_ID_LOW d
      in if ret < 0 \<or> lo \<noteq> Some OV7251_CHIP_ID_LOW_BYTE then (- ENODEV, d)
         else
     (let (ret, rev, d) = ov7251_read_reg E OV7251_SC_GP_IO_IN1 d
      in if ret < 0 then (- ENODEV, d) else (0, d))))"

section \<open>Controls\<close>

text \<open>
  The handler keeps the first error of its calls. On an error the function returns the field
  \<open>ctrls.error\<close> as it is after \<open>v4l2_ctrl_handler_free\<close>: what that call leaves in it is the result
  recorded for it.
\<close>

definition ov7251_init_ctrls :: "env \<Rightarrow> ov7251 \<Rightarrow> fault + (int \<times> ov7251)" where
  "ov7251_init_ctrls E d =
     (if link_freq_idx d \<ge> length pixel_rates then Inl Out_of_bounds
      else
        (let s = kcall E (Init V4l2_ctrl_handler_init) d;
             s = v4l2_ctrl_new E V4L2_CID_HFLIP (std_ctrl 0 1 1 0) s;
             s = v4l2_ctrl_new E V4L2_CID_VFLIP (std_ctrl 0 1 1 0) s;
             s = v4l2_ctrl_new E V4L2_CID_EXPOSURE (std_ctrl 1 32 1 32) s;
             s = v4l2_ctrl_new E V4L2_CID_ANALOGUE_GAIN (std_ctrl 16 1023 1 16) s;
             s = v4l2_ctrl_new E V4L2_CID_TEST_PATTERN
                   (std_ctrl 0 (int (length ov7251_test_pattern_menu) - 1) 1 0) s;
             pixel_rate = pixel_rates ! link_freq_idx d;
             s = v4l2_ctrl_new E V4L2_CID_PIXEL_RATE
                   (std_ctrl pixel_rate 2147483647 pixel_rate pixel_rate) s;
             s = v4l2_ctrl_new E V4L2_CID_LINK_FREQ
                   (std_ctrl 0 (int (length link_freq) - 1) 1 (int (link_freq_idx d))) s;
             s = set_read_only V4L2_CID_LINK_FREQ s;
             s = set_read_only V4L2_CID_PIXEL_RATE s;
             m = cur_mode d;
             hblank = s32_of_u32 (OV7251_FIXED_PPL - md_width m);
             s = v4l2_ctrl_new E V4L2_CID_HBLANK (std_ctrl hblank hblank 1 hblank) s;
             s = set_read_only V4L2_CID_HBLANK s;
             vblank_max = s32_of_u32 (OV7251_TIMING_MAX_VTS - md_height m);
             vblank_def = s32_of_u32 (md_vts m - md_height m);
             s = v4l2_ctrl_new E V4L2_CID_VBLANK
                   (std_ctrl OV7251_TIMING_MIN_VTS vblank_max 1 vblank_def) s;
             (err, d) = s
         in if err \<noteq> 0 then Inr (kcall E (Init V4l2_ctrl_handler_free) d) else Inr (0, d)))"

section \<open>Probe and remove\<close>

text \<open>The unwinding labels at the end of \<open>ov7251_probe\<close>, each falling through to the next.\<close>

definition ov7251_destroy_mutex :: "ov7251 \<Rightarrow> ov7251" where
  "ov7251_destroy_mutex d = kdo (Init Mutex_destroy) d"

definition ov7251_free_ctrl :: "ov7251 \<Rightarrow> ov7251" where
  "ov7251_free_ctrl d = ov7251_destroy_mutex (kdo (Init V4l2_ctrl_handler_free) d)"

definition ov7251_free_entity :: "ov7251 \<Rightarrow> ov7251" where
  "ov7251_free_entity d = ov7251_free_ctrl (kdo (Init Media_entity_cleanup) d)"

definition ov7251_power_down :: "env \<Rightarrow> ov7251 \<Rightarrow> ov7251" where
  "ov7251_power_down E d = ov7251_free_entity (snd (ov7251_set_power_off E d))"

definition ov7251_err_pm_runtime :: "env \<Rightarrow> ov7251 \<Rightarrow> ov7251" where
  "ov7251_err_pm_runtime E d =
     ov7251_power_down E (kdo (Pm Pm_put_noidle) (kdo (Pm Pm_disable) d))"

text \<open>Reading the three cached registers.\<close>

definition ov7251_read_cached :: "env \<Rightarrow> ov7251 \<Rightarrow> int \<times> ov7251" where
  "ov7251_read_cached E d =
     (let (ret, v, d) = ov7251_read_reg E OV7251_PRE_ISP_00 d
      in if ret < 0 then (- ENODEV, d)
         else
     (let d = (case v of Some b \<Rightarrow> d\<lparr>pre_isp_00 := b\<rparr> | None \<Rightarrow> d);
          (ret, v, d) = ov7251_read_reg E OV7251_TIMING_FORMAT1 d
      in if ret < 0 then (- ENODEV, d)
         else
     (let d = (case v of Some b \<Rightarrow> d\<lparr>timing_format1 := b\<rparr> | None \<Rightarrow> d);
          (ret, v, d) = ov7251_read_reg E OV7251_TIMING_FORMAT2 d
      in if ret < 0 then (- ENODEV, d)
         else (0, case v of Some b \<Rightarrow> d\<lparr>timing_format2 := b\<rparr> | None \<Rightarrow> d))))"

text \<open>The part of \<open>ov7251_probe\<close> from the power-up to the registration.\<close>

definition ov7251_probe_start :: "env \<Rightarrow> ov7251 \<Rightarrow> int \<times> ov7251" where
  "ov7251_probe_start E d =
     (let (ret, d) = kcall E (Init Media_entity_pads_init) d
      in if ret < 0 then (ret, ov7251_free_ctrl d)
         else
     (let (ret, d) = ov7251_set_power_on E d
      in if ret \<noteq> 0 then (ret, ov7251_free_entity d)
         else
     (let (ret, d) = ov7251_detect_chip E d
      in if ret \<noteq> 0 then (ret, ov7251_power_down E d)
         else
     (let d = kdo (Pm Pm_set_active) d;
          d = kdo (Pm Pm_get_noresume) d;
          d = kdo (Pm Pm_enable) d;
          (ret, d) = ov7251_read_cached E d
      in if ret < 0 then (ret, ov7251_err_pm_runtime E d)
         else
     (let d = kdo (Pm (Pm_use_autosuspend 1000)) d;
          d = kdo (Pm Pm_put_autosuspend) d;
          (ret, d) = kcall E (Init V4l2_async_register_subdev) d
      in if ret < 0 then (ret, ov7251_free_entity d)
         else (0, d\<lparr>rpm_active := True\<rparr>))))))"

text \<open>The changes probe makes to the table of modes for the two module parameters.\<close>

definition ov7251_boosted :: "int \<Rightarrow> ov7251_mode_info \<Rightarrow> ov7251_mode_info" where
  "ov7251_boosted b m = m\<lparr>md_vts := u32_of_int b,
     exposure_max := ucast (u32_of_int b - OV7251_BOOST_INTEGRATION_MARGIN),
     timeperframe := (timeperframe m)\<lparr>denominator := 3000 * 1724 div u32_of_int b\<rparr>\<rparr>"

definition ov7251_module_params :: "ov7251 \<Rightarrow> ov7251" where
  "ov7251_module_params d =
     (if win_timing d \<noteq> 0 then d\<lparr>link_freq_idx := 1, modes := (modes d)[0 := ov7251_win_mode]\<rparr>
      else if vts_boost d > 522 \<and> vts_boost d \<le> OV7251_TIMING_MAX_VTS
      then d\<lparr>modes := (modes d)[0 := ov7251_boosted (vts_boost d) (modes d ! 0)]\<rparr>
      else d)"

fun rate_index :: "nat \<Rightarrow> u32 list \<Rightarrow> u32 \<Rightarrow> nat option" where
  "rate_index i [] f = None"
| "rate_index i (r # rs) f = (if f = r then Some i else rate_index (Suc i) rs f)"

text \<open>Clock, regulators and GPIO, in the order they are acquired.\<close>

definition ov7251_get_resources :: "env \<Rightarrow> ov7251 \<Rightarrow> int \<times> ov7251" where
  "ov7251_get_resources E d =
     (let (ret, d) = kcall E (Init Devm_v4l2_sensor_clk_get) d
      in if ret < 0 then (ret, d)
         else
     (let (_, rate, d) = kread E (Init Clk_get_rate) d;
          d = d\<lparr>xclk_freq := ucast rate\<rparr>
      in case rate_index 0 supported_xclk_rates (xclk_freq d) of
           None \<Rightarrow> (- EINVAL, d)
         | Some i \<Rightarrow>
     (let d = d\<lparr>pll_cfgs := ov7251_pll_cfgs_table ! i\<rparr>;
          (ret, d) = kcall E (Init (Devm_regulator_get Vdddo)) d
      in if ret < 0 then (ret, d)
         else
     (let (ret, d) = kcall E (Init (Devm_regulator_get Vddd)) d
      in if ret < 0 then (ret, d)
         else
     (let (ret, d) = kcall E (Init (Devm_regulator_get Vdda)) d
      in if ret < 0 then (ret, d)
         else
     (let (ret, d) = kcall E (Init (Devm_gpiod_get Gpio_enable)) d
      in if ret < 0 then (ret, d) else (0, d)))))))"

text \<open>
  \<open>devm_kzalloc\<close> gives a zeroed device; the table of modes and the module parameters are globals
  and keep their values.
\<close>

definition ov7251_zeroed :: "ov7251 \<Rightarrow> ov7251" where
  "ov7251_zeroed d = d\<lparr>ctrl_ptr := (\<lambda>_. False), rpm_active := False,
     fmt := \<lparr>f_width = 0, f_height = 0, f_code = 0, f_field = 0, f_colorspace = 0, f_ycbcr_enc = 0,
       f_quantization = 0, f_xfer_func = 0\<rparr>,
     crop := \<lparr>r_left = 0, r_top = 0, r_width = 0, r_height = 0\<rparr>, xclk_freq := 0,
     link_freq_idx := 0, pre_isp_00 := 0, timing_format1 := 0, timing_format2 := 0\<rparr>"

definition ov7251_probe :: "ov7251 services \<Rightarrow> ((u32 \<times> u32) list \<Rightarrow> u32 \<Rightarrow> u32 \<Rightarrow> nat) \<Rightarrow> env \<Rightarrow>
    bus_cfg \<Rightarrow> ov7251 \<Rightarrow> fault + (int \<times> ov7251)" where
  "ov7251_probe S N E cfg d =
     (let (ret, d) = kcall E (Init Devm_kzalloc) d
      in if ret \<noteq> 0 then Inr (- ENOMEM, d)
         else
     (let (ret, d) = ov7251_check_hwcfg E cfg (ov7251_zeroed d)
      in if ret \<noteq> 0 then Inr (ret, d)
         else
     (let (ret, d) = ov7251_get_resources E (ov7251_module_params d)
      in if ret \<noteq> 0 then Inr (ret, d)
         else
     (let d = kdo (Init Mutex_init) d;
          d = d\<lparr>current_mode := 0\<rparr>
      in case ov7251_init_ctrls E d of
           Inl e \<Rightarrow> Inl e
         | Inr (ret, d) \<Rightarrow>
           if ret \<noteq> 0 then Inr (ret, ov7251_destroy_mutex d)
           else
             (let d = kdo (Init V4l2_i2c_subdev_init) d;
                  (ret, d) = ov7251_probe_start E d
              in if ret \<noteq> 0 then Inr (ret, d)
                 else
                   (case ov7251_init_state S N d None of
                      Inl e \<Rightarrow> Inl e
                    | Inr (_, d, _) \<Rightarrow> Inr (0, d)))))))"

definition ov7251_remove :: "env \<Rightarrow> ov7251 \<Rightarrow> ov7251" where
  "ov7251_remove E d =
     (let d = kdo (Init V4l2_async_unregister_subdev) d;
          d = kdo (Init Media_entity_cleanup) d;
          d = kdo (Init V4l2_ctrl_handler_free) d;
          d = kdo (Init Mutex_destroy) d;
          d = kdo (Pm Pm_disable) d;
          (suspended, d) = kcall E (Pm Pm_status_suspended) d;
          d = (if suspended = 0 then snd (ov7251_set_power_off E d) else d)
      in kdo (Pm Pm_set_suspended) d)"

section \<open>Power\<close>

text \<open>
  The clock and regulator calls as documented: zero for success, a negative error otherwise.
\<close>

definition rails_return :: "env \<Rightarrow> bool" where
  "rails_return E \<longleftrightarrow> (\<forall>tr a. ret_of E tr (Rail a) \<le> 0)"

lemma rail_cases: "rails_return E \<Longrightarrow> ret_of E tr (Rail a) < 0 \<longleftrightarrow> ret_of E tr (Rail a) \<noteq> 0"
  by (auto simp: rails_return_def order_le_less)

lemma set_array:
  "bus_step d (snd (ov7251_set_register_array E ws d))"
  "fst (ov7251_set_register_array E ws d) \<le> 0"
proof -
  show "bus_step d (snd (ov7251_set_register_array E ws d))"
    unfolding ov7251_set_register_array_def by (rule seq_bus_step)
  let ?s = "seq_until (\<lambda>r. r < 0) (\<lambda>(r, v). ov7251_write_reg E r v) ws d"
  have "?s = (fst ?s, snd ?s)" by simp
  from i2c_seq.seq_ok [OF this] show "fst (ov7251_set_register_array E ws d) \<le> 0"
    by (cases "fst ?s < 0") (simp_all add: ov7251_set_register_array_def)
qed

text \<open>What powering up and down adds to a quantity only the clock and the supplies count in.\<close>

lemma power_on_weigh:
  assumes "rails_return E" "\<And>b r. f (Bus b) r = 0" "\<And>a b r. f (Rail (Usleep_range a b)) r = 0"
    "\<And>g v r. f (Rail (Gpiod_set g v)) r = 0"
    "\<And>q r. f (Rail (Regulator_enable q)) r = (if r = 0 then k q else 0)"
    "\<And>q r. f (Rail (Regulator_disable q)) r = - k q"
    "\<And>r. f (Rail Clk_prepare_enable) r = (if r = 0 then c else 0)"
    "\<And>r. f (Rail Clk_disable_unprepare) r = - c"
  shows "weigh f (trace (snd (ov7251_set_power_on E d))) =
    weigh f (trace d) + (if fst (ov7251_set_power_on E d) = 0 then k Vdddo + k Vdda + k Vddd + c else 0)"
proof -
  have a: "weigh f (trace (snd (ov7251_set_register_array E ws x))) = weigh f (trace x)" for ws x
    by (rule weigh_bus [OF set_array(1)]) (rule assms(2))
  have n: "fst (ov7251_set_register_array E ws x) < 0 \<longleftrightarrow> fst (ov7251_set_register_array E ws x) \<noteq> 0" for ws x
    using set_array(2) [of E ws x] by auto
  show ?thesis
    by (simp add: ov7251_set_power_on_def ov7251_regulators_enable_def ov7251_regulators_disable_def Let_def
        case_prod_beta rail_cases [OF assms(1)] assms(3-8) a n)
qed

lemma power_off_weigh:
  assumes "\<And>g v r. f (Rail (Gpiod_set g v)) r = 0"
    "\<And>q r. f (Rail (Regulator_disable q)) r = - k q" "\<And>r. f (Rail Clk_disable_unprepare) r = - c"
  shows "weigh f (trace (snd (ov7251_set_power_off E d))) = weigh f (trace d) - (k Vdddo + k Vdda + k Vddd + c)"
  by (simp add: ov7251_set_power_off_def ov7251_regulators_disable_def Let_def case_prod_beta assms)

lemma regulators_frame:
  "quiet (snd (ov7251_regulators_enable E d)) = quiet d"
  "lock_run (trace (snd (ov7251_regulators_enable E d))) x = lock_run (trace d) x"
  "quiet (ov7251_regulators_disable E d) = quiet d"
  "lock_run (trace (ov7251_regulators_disable E d)) x = lock_run (trace d) x"
  by (simp_all add: ov7251_regulators_enable_def ov7251_regulators_disable_def Let_def case_prod_beta)

lemma power_frame:
  "quiet (snd (ov7251_set_power_on E d)) = quiet d"
  "lock_run (trace (snd (ov7251_set_power_on E d))) x = lock_run (trace d) x"
  "quiet (snd (ov7251_set_power_off E d)) = quiet d"
  "lock_run (trace (snd (ov7251_set_power_off E d))) x = lock_run (trace d) x"
  by (simp_all add: ov7251_set_power_on_def ov7251_set_power_off_def regulators_frame
      bus_step_quiet [OF set_array(1)] lock_bus [OF set_array(1)] Let_def case_prod_beta)

abbreviation rail_held :: "ov7251 \<Rightarrow> ov7251 \<Rightarrow> int \<times> int \<times> int \<times> int" where
  "rail_held d d' \<equiv> (let w = (\<lambda>f. weigh f (trace d') - weigh f (trace d))
     in (w (supply_weight Vdddo), w (supply_weight Vdda), w (supply_weight Vddd), w clk_weight))"

lemma supply_power_on:
  assumes "rails_return E"
  shows "weigh (supply_weight s) (trace (snd (ov7251_set_power_on E d))) =
      weigh (supply_weight s) (trace d) + (if fst (ov7251_set_power_on E d) = 0 then 1 else 0)"
    "weigh clk_weight (trace (snd (ov7251_set_power_on E d))) =
      weigh clk_weight (trace d) + (if fst (ov7251_set_power_on E d) = 0 then 1 else 0)"
proof -
  have s: "(if Vdddo = s then 1 else 0) + (if Vdda = s then 1 else 0) + (if Vddd = s then 1 else 0) = (1 :: int)"
    by (cases s) simp_all
  show "weigh (supply_weight s) (trace (snd (ov7251_set_power_on E d))) =
      weigh (supply_weight s) (trace d) + (if fst (ov7251_set_power_on E d) = 0 then 1 else 0)"
    using power_on_weigh [OF assms, of "supply_weight s" "\<lambda>q. if q = s then 1 else 0" 0 d] s by simp
  show "weigh clk_weight (trace (snd (ov7251_set_power_on E d))) =
      weigh clk_weight (trace d) + (if fst (ov7251_set_power_on E d) = 0 then 1 else 0)"
    using power_on_weigh [OF assms, of clk_weight "\<lambda>_. 0" 1 d] by simp
qed

lemma supply_power_off:
  "weigh (supply_weight s) (trace (snd (ov7251_set_power_off E d))) = weigh (supply_weight s) (trace d) - 1"
  "weigh clk_weight (trace (snd (ov7251_set_power_off E d))) = weigh clk_weight (trace d) - 1"
  by (cases s; simp add: ov7251_set_power_off_def ov7251_regulators_disable_def Let_def case_prod_beta)+

text \<open>
  C26: Powering the OV7251 on holds one reference on the clock and each supply when it succeeds
  and none when it fails, whichever call failed, and powering off gives the references back.
\<close>

theorem power_on_balance:
  assumes "rails_return E"
  shows "(let (ret, d') = ov7251_set_power_on E d; d'' = snd (ov7251_set_power_off E d')
    in quiet d' = quiet d \<and> ret \<le> 0 \<and>
       rail_held d d' = (if ret = 0 then (1, 1, 1, 1) else (0, 0, 0, 0)) \<and>
       (ret = 0 \<longrightarrow> rail_held d d'' = (0, 0, 0, 0)))"
proof -
  have r: "ret_of E tr (Rail a) \<le> 0" for tr a using assms by (simp add: rails_return_def)
  have e: "fst (ov7251_regulators_enable E x) \<le> 0" for x
    by (simp add: ov7251_regulators_enable_def Let_def case_prod_beta r)
  have s: "fst (ov7251_set_power_on E d) \<le> 0"
    by (simp add: ov7251_set_power_on_def Let_def case_prod_beta r e set_array(2))
  show ?thesis
    using s by (simp add: Let_def case_prod_beta power_frame supply_power_on [OF assms] supply_power_off)
qed


text \<open>The wait after the enable line is raised: 65536 clock periods, to the next microsecond.\<close>

text \<open>
  The delay before the first bus access is the least number of microseconds that covers 65536
  cycles of the clock, for every supported clock.
\<close>

theorem xclk_wait:
  "list_all (\<lambda>f. 65536 * 1000000 \<le> unat (ov7251_wait_us f) * unat f \<and>
     (unat (ov7251_wait_us f) - 1) * unat f < 65536 * 1000000) supported_xclk_rates"
  by (simp add: supported_xclk_rates_def ov7251_wait_us_def DIV_ROUND_UP_def)

section \<open>The services tied to the driver\<close>

text \<open>
  \<open>pm_runtime_resume_and_get\<close> powers the sensor up when it is suspended; the callback runs with the
  mutex held by \<open>ov7251_s_stream\<close> and takes no lock of its own.
\<close>

definition ov7251_pm_get :: "env \<Rightarrow> ov7251 \<Rightarrow> int \<times> ov7251" where
  "ov7251_pm_get E d =
     (if rpm_active d then (0, klog (Pm Pm_resume_and_get) 0 d)
      else
        (let (r, d) = ov7251_set_power_on E d
         in if r = 0 then (0, klog (Pm Pm_resume_and_get) 0 (d\<lparr>rpm_active := True\<rparr>))
            else (- \<bar>r\<bar>, klog (Pm Pm_resume_and_get) (- \<bar>r\<bar>) d)))"

definition ov7251_services :: "env \<Rightarrow> ov7251 services" where
  "ov7251_services E = (ov7251_ctrl_services E)\<lparr>resume_and_get := ov7251_pm_get E\<rparr>"

lemma power_no_rail_weigh:
  assumes "\<And>a r. f (Rail a) r = 0" "\<And>b r. f (Bus b) r = 0"
  shows "weigh f (trace (snd (ov7251_set_power_on E d))) = weigh f (trace d)"
    "weigh f (trace (snd (ov7251_set_power_off E d))) = weigh f (trace d)"
proof -
  have r: "weigh f (trace (snd (ov7251_regulators_enable E x))) = weigh f (trace x)"
    "weigh f (trace (ov7251_regulators_disable E x)) = weigh f (trace x)" for x
    by (simp_all add: ov7251_regulators_enable_def ov7251_regulators_disable_def Let_def case_prod_beta assms(1))
  have a: "weigh f (trace (snd (ov7251_set_register_array E ws x))) = weigh f (trace x)" for ws x
    by (rule weigh_bus [OF set_array(1)]) (rule assms(2))
  show "weigh f (trace (snd (ov7251_set_power_on E d))) = weigh f (trace d)"
    "weigh f (trace (snd (ov7251_set_power_off E d))) = weigh f (trace d)"
    by (simp_all add: ov7251_set_power_on_def ov7251_set_power_off_def Let_def case_prod_beta assms(1) r a)
qed

lemmas power_on_pm = power_no_rail_weigh(1) [where f = pm_weight, folded pm_usage_def, simplified]

lemma ov7251_op_pm:
  "pm_usage (trace (snd (ov7251_op (ov7251_inner_services (pm_on_env E)) (pm_on_env E) c v d))) = pm_usage (trace d)"
proof -
  let ?E = "pm_on_env E"
  have op: "pm_usage (trace (snd (ov7251_op S ?E c v d))) = pm_usage (trace d)"
    if "pm_usage (trace (ov7251_follow_vblank S v d)) = pm_usage (trace d)" for S c v d
    using ov7251_op_after [of S ?E c v d "fst (ov7251_op S ?E c v d)" "snd (ov7251_op S ?E c v d)"]
      that pm_on_env_nonneg [of E]
    by (simp add: not_less [symmetric] split: if_splits)
  have "pm_usage (trace (snd (ov7251_op no_services ?E c v d))) = pm_usage (trace d)" for c v d
    by (rule op) (simp add: ov7251_follow_vblank_def no_services_def Let_def)
  then show ?thesis
    by (intro op) (simp add: ov7251_follow_vblank_def ov7251_inner_services_def Let_def
        v4l2_keeps [where f = pm_usage])
qed

interpretation ov7251_stream: stream_core "ov7251_services (pm_on_env E)" True for E
proof unfold_locales
  fix d d' :: ov7251 and r
  let ?E = "pm_on_env E"
  assume "resume_and_get (ov7251_services ?E) d = (r, d')"
  then have "ov7251_pm_get ?E d = (r, d')" by (simp add: ov7251_services_def)
  then show "r \<le> 0 \<and> pm_usage (trace d') = pm_usage (trace d) + (if r = 0 then 1 else 0) \<and>
      (lock_run (trace d) (Some False) = Some True \<longrightarrow> lock_run (trace d') (Some False) = Some True)"
    using power_frame(2) [of ?E d] power_on_pm [of ?E d]
    by (auto simp: ov7251_pm_get_def klog_def Let_def case_prod_beta split: if_splits)
next
  fix d d' :: ov7251 and r x
  let ?E = "pm_on_env E"
  assume "handler_setup (ov7251_services ?E) d = (r, d')"
  then have d': "d' = snd (v4l2_handler_setup (ov7251_op (ov7251_inner_services ?E) ?E) ov7251_setup_order d)"
    by (simp add: ov7251_services_def ov7251_ctrl_services_def Let_def)
  have lock: "lock_run (trace (snd (ov7251_op (ov7251_inner_services ?E) ?E c v y))) x = lock_run (trace y) x" for c v y
    using ov7251_core.cb_frame by (metis prod.collapse)
  show "pm_usage (trace d') = pm_usage (trace d) \<and> lock_run (trace d') x = lock_run (trace d) x"
    unfolding d'
    by (intro conjI v4l2_keeps(3) [where f = pm_usage] v4l2_keeps(3) [where f = "\<lambda>t. lock_run t x"])
      (rule ov7251_op_pm, rule lock)
qed

section \<open>Starting and stopping the stream\<close>

lemma pll_configure:
  "ov7251_pll_configure E d =
     (if length (pll1 (pll_cfgs d)) \<le> link_freq_idx d then Inl Out_of_bounds
      else Inr (ov7251_set_register_array E (ov7251_pll_writes d) d))"
  by (simp add: ov7251_pll_configure_def ov7251_set_register_array_def)

lemma led_set:
  "bus_step d (snd (ov7251_ir_led_set E on d))"
  "fst (ov7251_ir_led_set E on d) = 0 \<Longrightarrow> written (trace (snd (ov7251_ir_led_set E on d))) =
     written (trace d) @ (if ov7251_has_ir_led d
       then [(OV7251_PAD_OUT1, if on then 0x08 else 0), (OV7251_STROBE_PATTERN, if on then 0xff else 0xa5)] else [])"
proof -
  show "bus_step d (snd (ov7251_ir_led_set E on d))"
    by (simp add: ov7251_ir_led_set_def Let_def case_prod_beta bus_step_trans [OF write_reg_snd write_reg_snd]
        write_reg_snd)
  have w: "fst (ov7251_write_reg E r v x) = 0 \<Longrightarrow>
      written (trace (snd (ov7251_write_reg E r v x))) = written (trace x) @ [(r, v)]" for r v x
    using write_reg(4) [of E r v x "fst (ov7251_write_reg E r v x)"] by (metis less_irrefl prod.collapse)
  show "fst (ov7251_ir_led_set E on d) = 0 \<Longrightarrow> written (trace (snd (ov7251_ir_led_set E on d))) =
     written (trace d) @ (if ov7251_has_ir_led d
       then [(OV7251_PAD_OUT1, if on then 0x08 else 0), (OV7251_STROBE_PATTERN, if on then 0xff else 0xa5)] else [])"
    by (simp add: ov7251_ir_led_set_def Let_def case_prod_beta w ov7251_regs split: if_splits)
qed

lemma led_quiet: "quiet d' = quiet d \<Longrightarrow> ov7251_has_ir_led d' = ov7251_has_ir_led d"
  by (cases d, cases d') (simp add: quiet_def ov7251_has_ir_led_def)

text \<open>The last steps of a start: the mode register, then the illuminator.\<close>

definition start_writes :: "ov7251 \<Rightarrow> reg_value list" where
  "start_writes d = (OV7251_SC_MODE_SELECT, OV7251_SC_MODE_SELECT_STREAMING) #
     (if ov7251_has_ir_led d then [(OV7251_PAD_OUT1, 0x08), (OV7251_STROBE_PATTERN, 0xff)] else [])"

lemma array_ok:
  assumes "ov7251_set_register_array E ws d = (r, d')" and "\<not> r < 0"
  shows "written (trace d') = written (trace d) @ ws"
  using i2c_seq.seq_ok [OF assms(1) [unfolded ov7251_set_register_array_def] assms(2)] by simp

text \<open>Once the device is resumed, starting is the five steps of the code, each of which can end it.\<close>

lemma s_stream_steps:
  assumes res: "ov7251_s_stream S E True d = Inr (ret, d')" and rs: "resume_and_get S (kdo Mutex_lock d) = (0, d1)"
  obtains ra da rb db r3 d3 r4 d4 r5 d5 where
    "bus_step d1 da" "bus_step d1 db" "handler_setup S db = (r3, d3)" "bus_step d3 d4" "bus_step d3 d5"
    "ra = 0 \<Longrightarrow> \<not> rb < 0 \<Longrightarrow> written (trace db) = written (trace d1) @ ov7251_pll_writes d1 @ md_data (cur_mode d1)"
    "r4 = 0 \<Longrightarrow> r5 = 0 \<Longrightarrow> written (trace d5) = written (trace d3) @ start_writes d3"
    "(ret, d') = (if ra \<noteq> 0 then ov7251_err_power_down ra da else if rb < 0 then ov7251_err_power_down rb db
        else if r3 < 0 then ov7251_err_power_down r3 d3 else if r4 \<noteq> 0 then ov7251_err_power_down r4 d4
        else if r5 \<noteq> 0 then ov7251_err_power_down r5 d5 else (0, kdo Mutex_unlock d5))"
proof -
  have idx: "\<not> length (pll1 (pll_cfgs d1)) \<le> link_freq_idx d1"
    using res rs by (auto simp: ov7251_s_stream_def pll_configure)
  obtain ra da where a: "ov7251_set_register_array E (ov7251_pll_writes d1) d1 = (ra, da)" by fastforce
  obtain rb db where b: "ov7251_set_register_array E (md_data (cur_mode da)) da = (rb, db)" by fastforce
  obtain r3 d3 where c: "handler_setup S db = (r3, d3)" by fastforce
  obtain r4 d4 where w: "ov7251_write_reg E OV7251_SC_MODE_SELECT OV7251_SC_MODE_SELECT_STREAMING d3 = (r4, d4)" by fastforce
  obtain r5 d5 where l: "ov7251_ir_led_set E True d4 = (r5, d5)" by fastforce
  have bs: "bus_step d1 da" "bus_step d1 db" "bus_step d3 d4" "bus_step d3 d5"
    using set_array(1) [of d1 E "ov7251_pll_writes d1"] set_array(1) [of da E "md_data (cur_mode da)"]
      write_reg_snd [of d3 E OV7251_SC_MODE_SELECT OV7251_SC_MODE_SELECT_STREAMING] led_set(1) [of d4 E True]
    by (auto simp: a b w l intro: bus_step_trans)
  have cur: "cur_mode da = cur_mode d1" using keep_quiet [OF bus_step_quiet [OF bs(1)]] by (rule keep_fields(10))
  show ?thesis
  proof (rule that [OF bs(1,2) c bs(3,4)])
    show "ra = 0 \<Longrightarrow> \<not> rb < 0 \<Longrightarrow> written (trace db) = written (trace d1) @ ov7251_pll_writes d1 @ md_data (cur_mode d1)"
      using array_ok [OF a] array_ok [OF b] by (simp add: cur)
    show "r4 = 0 \<Longrightarrow> r5 = 0 \<Longrightarrow> written (trace d5) = written (trace d3) @ start_writes d3"
      using led_set(2) [of E True d4] write_reg(4) [OF w] led_quiet [OF write_reg(3) [OF w]]
      by (simp add: l start_writes_def)
  qed (use res rs idx in \<open>auto simp: ov7251_s_stream_def pll_configure a b c w l Let_def split: if_splits\<close>)
qed

lemma s_stream_start:
  assumes res: "ov7251_s_stream S E True d = Inr (ret, d')"
  obtains r1 d1 where "resume_and_get S (kdo Mutex_lock d) = (r1, d1)" "r1 \<noteq> 0" "ret = r1" "d' = kdo Mutex_unlock d1"
  | d1 x where "resume_and_get S (kdo Mutex_lock d) = (0, d1)" "bus_step d1 x" "ret \<noteq> 0"
      "d' = kdo Mutex_unlock (kdo (Pm Pm_put) x)"
  | d1 d2 r3 d3 x where "resume_and_get S (kdo Mutex_lock d) = (0, d1)" "bus_step d1 d2"
      "handler_setup S d2 = (r3, d3)" "bus_step d3 x" "ret \<noteq> 0" "d' = kdo Mutex_unlock (kdo (Pm Pm_put) x)"
  | d1 d2 r3 d3 x where "resume_and_get S (kdo Mutex_lock d) = (0, d1)" "bus_step d1 d2"
      "written (trace d2) = written (trace d1) @ ov7251_pll_writes d1 @ md_data (cur_mode d1)"
      "handler_setup S d2 = (r3, d3)" "\<not> r3 < 0" "bus_step d3 x" "ret = 0" "d' = kdo Mutex_unlock x"
      "written (trace x) = written (trace d3) @ start_writes d3"
proof (cases "fst (resume_and_get S (kdo Mutex_lock d)) = 0")
  case False
  then show ?thesis
    using res by (cases "resume_and_get S (kdo Mutex_lock d)") (auto simp: ov7251_s_stream_def intro: that(1))
next
  case True
  then obtain d1 where rs: "resume_and_get S (kdo Mutex_lock d) = (0, d1)" by (metis prod.collapse)
  show ?thesis
  proof (cases rule: s_stream_steps [OF res rs])
    case (1 ra da rb db r3 d3 r4 d4 r5 d5)
    note err = 1(8) [unfolded ov7251_err_power_down_def]
    consider "ra \<noteq> 0 \<or> rb < 0" | "\<not> (ra \<noteq> 0 \<or> rb < 0)" "r3 < 0 \<or> r4 \<noteq> 0 \<or> r5 \<noteq> 0"
      | "ra = 0" "\<not> rb < 0" "\<not> r3 < 0" "r4 = 0" "r5 = 0" by blast
    then show ?thesis
    proof cases
      case A: 1
      then show ?thesis using err 1(1,2) that(2) [OF rs] by (auto split: if_splits)
    next
      case A: 2
      then have "\<exists>x \<in> {d3, d4, d5}. ret \<noteq> 0 \<and> d' = kdo Mutex_unlock (kdo (Pm Pm_put) x)"
        using err by (auto split: if_splits)
      then show ?thesis using 1(4,5) bus_step_refl [of d3] by (elim bexE conjE) (rule that(3) [OF rs 1(2,3)], auto)
    next
      case A: 3
      then show ?thesis using 1(1,2,6,7) err by (intro that(4) [OF rs 1(2) _ 1(3) _ 1(5)]) simp_all
    qed
  qed
qed

lemma stream_on_state:
  assumes core: "stream_core S True" and free: "lock_run (trace d) (Some False) = Some False"
    and res: "ov7251_s_stream S E True d = Inr (ret, d')"
  shows "lock_run (trace d') (Some False) = Some False \<and>
    (if ret = 0 then pm_usage (trace d') = pm_usage (trace d) + 1 \<and>
       (\<exists>ws. written (trace d') = ws @ start_writes d')
     else pm_usage (trace d') = pm_usage (trace d))"
proof -
  note bus = lock_bus weigh_bus [where f = pm_weight, folded pm_usage_def]
  have l: "lock_run (trace (kdo Mutex_lock d)) (Some False) = Some True" using free by simp
  show ?thesis
  proof (cases rule: s_stream_start [OF res])
    case 1
    then show ?thesis using stream_core.not_resumed [OF core 1(1,2) l] by simp
  next
    case (2 d1 x)
    then show ?thesis
      using stream_core.resumed [OF core 2(1) l] bus(1) [OF 2(2)] bus(2) [OF 2(2)] by simp
  next
    case (3 d1 d2 r3 d3 x)
    then show ?thesis
      using stream_core.resumed [OF core 3(1) l] stream_core.setup_law [OF core 3(3)]
        bus(1) [OF 3(2)] bus(2) [OF 3(2)] bus(1) [OF 3(4)] bus(2) [OF 3(4)] by simp
  next
    case (4 d1 d2 r3 d3 x)
    have q: "quiet d' = quiet d3" using bus_step_quiet [OF 4(6)] by (simp add: 4(8))
    then have "start_writes d' = start_writes d3" using led_quiet [OF q] by (simp add: start_writes_def)
    with 4 show ?thesis
      using stream_core.resumed [OF core 4(1) l] stream_core.setup_law [OF core 4(4)]
        bus(1) [OF 4(2)] bus(2) [OF 4(2)] bus(1) [OF 4(6)] bus(2) [OF 4(6)] by simp
  qed
qed

text \<open>
  C11: Starting the OV7251 stream releases the mutex on every path and keeps the PM reference
  exactly when it succeeds; then the last registers written are the start of streaming followed by
  those of the IR illuminator.
\<close>

theorem ov7251_stream_on:
  assumes core: "stream_core S True" and free: "lock_run (trace d) (Some False) = Some False"
    and res: "ov7251_s_stream S E True d = Inr (ret, d')"
  shows "lock_run (trace d') (Some False) = Some False \<and>
    (if ret = 0 then pm_usage (trace d') = pm_usage (trace d) + 1 \<and>
       (\<exists>ws. written (trace d') = ws @ start_writes d')
     else pm_usage (trace d') = pm_usage (trace d))"
  using assms by (rule stream_on_state)

lemma stream_off_state:
  "\<exists>ret d'. ov7251_s_stream S E False d = Inr (ret, d') \<and> quiet d' = quiet d \<and>
     pm_usage (trace d') = pm_usage (trace d) - 1 \<and>
     lock_run (trace d') (Some False) = (if lock_run (trace d) (Some False) = Some False then Some False else None) \<and>
     (\<exists>ws. written (trace d') =
        ws @ (if ret = 0 then [(OV7251_SC_MODE_SELECT, OV7251_SC_MODE_SELECT_SW_STANDBY)] else []))"
proof -
  obtain ra da where a: "ov7251_ir_led_set E False (kdo Mutex_lock d) = (ra, da)" by fastforce
  obtain rb db where b: "ov7251_write_reg E OV7251_SC_MODE_SELECT OV7251_SC_MODE_SELECT_SW_STANDBY da = (rb, db)" by fastforce
  have s: "bus_step (kdo Mutex_lock d) db"
    using bus_step_trans [OF led_set(1) [of "kdo Mutex_lock d" E False, unfolded a snd_conv] write_reg(2) [OF b]] .
  show ?thesis
    using write_reg(1,4) [OF b] bus_step_quiet [OF s] lock_bus [OF s] weigh_bus [OF s, of pm_weight, folded pm_usage_def]
    by (simp add: ov7251_s_stream_def a b Let_def)
qed

text \<open>
  Stopping the OV7251 stream never faults, drops one PM reference and releases the mutex whether
  or not the sensor answers, changes no driver state, and the last register written is software
  standby when the sensor answered.
\<close>

theorem ov7251_stream_off:
  "\<exists>ret d'. ov7251_s_stream S E False d = Inr (ret, d') \<and> quiet d' = quiet d \<and>
     pm_usage (trace d') = pm_usage (trace d) - 1 \<and>
     lock_run (trace d') (Some False) = (if lock_run (trace d) (Some False) = Some False then Some False else None) \<and>
     (\<exists>ws. written (trace d') =
        ws @ (if ret = 0 then [(OV7251_SC_MODE_SELECT, OV7251_SC_MODE_SELECT_SW_STANDBY)] else []))"
  by (rule stream_off_state)

section \<open>The frame length of a stream\<close>

lemma follow_keep: "ctrl_core S ov7251_keep \<Longrightarrow> ov7251_keep (ov7251_follow_vblank S v d) = ov7251_keep d"
  unfolding ov7251_follow_vblank_def Let_def using ctrl_core.range_frame by (metis prod.collapse)

lemma ov7251_resume: "resume_and_get (ov7251_services E) = ov7251_pm_get E"
  by (simp add: ov7251_services_def)

lemma apply_nonpos: "ov7251_apply_ctrl E c v d = Inr (r, d') \<Longrightarrow> r \<le> 0"
proof -
  have w: "fst (ov7251_write_reg E g b x) \<le> 0" for g b x
    using write_reg(1) [of E g b x] by (metis prod.collapse)
  show "ov7251_apply_ctrl E c v d = Inr (r, d') \<Longrightarrow> r \<le> 0"
    using w by (cases c) (auto simp: ov7251_apply_ctrl_def set_fields_unfold ov7251_set_hflip_def ov7251_set_vflip_def
      ov7251_set_test_pattern_def Let_def case_prod_beta EINVAL_def)
qed

lemma op_nonpos: "fst (ov7251_op S E c v d) \<le> 0"
proof -
  let ?d = "snd (kcall E (Pm Pm_get_if_in_use) (if c = V4L2_CID_VBLANK then ov7251_follow_vblank S v d else d))"
  obtain r d' where a: "ov7251_apply_ctrl E c v ?d = Inr (r, d')" using apply_total [of E c v ?d] by auto
  show ?thesis using apply_nonpos [OF a] a
    by (auto simp: ov7251_op_def ov7251_s_ctrl_def Let_def case_prod_beta)
qed

lemma vblank_op:
  assumes "ov7251_op S E V4L2_CID_VBLANK v d = (0, d')" and "\<forall>tr. 0 < ret_of E tr (Pm Pm_get_if_in_use)"
    and "md_height (cur_mode (ov7251_follow_vblank S v d)) = 480"
  shows "vts_of (i2c_chip m d') = take_bit 16 (480 + u32_of_int v)"
proof -
  define y where "y = snd (kcall E (Pm Pm_get_if_in_use) (ov7251_follow_vblank S v d))"
  have h: "md_height (cur_mode y) = 480" using assms(3) keep_fields(10) [OF keep_quiet, of y] by (simp add: y_def)
  obtain r z where a: "ov7251_vts_configure E v y = Inr (r, z)"
    by (simp add: set_fields_unfold Let_def case_prod_beta)
  have n: "ret_of E tr (Pm Pm_get_if_in_use) \<noteq> 0" for tr using assms(2) by (metis less_irrefl)
  have z: "r = 0" "d' = kdo (Pm Pm_put) z"
    using assms(1) a n by (auto simp: ov7251_op_def ov7251_s_ctrl_def ov7251_apply_ctrl_def Let_def case_prod_beta y_def)
  have "vts_of (i2c_chip m z) = take_bit 16 (480 + u32_of_int v)"
    using a z(1) h by (auto simp: set_fields_unfold Let_def case_prod_beta i2c_chip_def vts_of_def ov7251_regs field_bits
        split: if_splits)
  then show ?thesis by (simp add: z(2) i2c_chip_def)
qed

lemma pm_get_frame:
  "cur_mode (snd (ov7251_pm_get E d)) = cur_mode d" "ctrls (snd (ov7251_pm_get E d)) = ctrls d"
  using keep_fields(10) [OF keep_quiet [OF power_frame(1) [of E d]]] quiet_fields(1) [OF power_frame(1) [of E d]]
  by (simp_all add: ov7251_pm_get_def klog_def Let_def case_prod_beta cur_mode_def)

text \<open>Applying controls moves neither the mode nor the VBLANK control.\<close>

lemma setup_frame:
  assumes "seq_until (\<lambda>r. r \<noteq> 0) (\<lambda>c d. ov7251_op (ov7251_inner_services E) E c (val (ctrls d c)) d) cs d = (q, y)"
  shows "ov7251_keep y = ov7251_keep d" "ctrls y V4L2_CID_VBLANK = ctrls d V4L2_CID_VBLANK"
proof -
  let ?op = "ov7251_op (ov7251_inner_services E) E"
  have "ov7251_keep (snd (?op c v z)) = ov7251_keep z \<and> ctrls (snd (?op c v z)) V4L2_CID_VBLANK = ctrls z V4L2_CID_VBLANK" for c v z
    using ov7251_core.cb_frame ov7251_core.cb_ctrls [of E c v z _ _ V4L2_CID_VBLANK] by (metis cid.distinct(9) prod.collapse)
  then have "ov7251_keep y = ov7251_keep d \<and> ctrls y V4L2_CID_VBLANK = ctrls d V4L2_CID_VBLANK"
    using seq_until_inv [where P = "\<lambda>z. ov7251_keep z = ov7251_keep d \<and> ctrls z V4L2_CID_VBLANK = ctrls d V4L2_CID_VBLANK"
      and d = d and f = "\<lambda>c d. ?op c (val (ctrls d c)) d" and xs = cs and bad = "\<lambda>r. r \<noteq> 0"] assms
    by (metis (no_types, lifting) snd_conv)
  then show "ov7251_keep y = ov7251_keep d" "ctrls y V4L2_CID_VBLANK = ctrls d V4L2_CID_VBLANK" by blast+
qed

text \<open>The last control set up is VBLANK.\<close>

lemma setup_vblank_last:
  assumes "handler_setup (ov7251_services E) d = (r, d')" and "\<not> r < 0"
  obtains y where "ov7251_op (ov7251_inner_services E) E V4L2_CID_VBLANK (val (ctrls y V4L2_CID_VBLANK)) y = (0, d')"
    "ov7251_keep y = ov7251_keep d" "ctrls y V4L2_CID_VBLANK = ctrls d V4L2_CID_VBLANK"
proof -
  let ?f = "\<lambda>c d. ov7251_op (ov7251_inner_services E) E c (val (ctrls d c)) d"
  have hs: "seq_until (\<lambda>r. r \<noteq> 0) ?f ov7251_setup_order d = (r, d')"
    using assms(1) by (simp add: ov7251_services_def ov7251_ctrl_services_def v4l2_handler_setup_def Let_def)
  have "r \<le> 0" using seq_until_zero [OF hs] op_nonpos by blast
  with assms(2) have r: "r = 0" by simp
  define pre where "pre = butlast ov7251_setup_order"
  have so: "ov7251_setup_order = pre @ [V4L2_CID_VBLANK]" by (simp add: pre_def ov7251_setup_order_def)
  obtain q y where y: "seq_until (\<lambda>r. r \<noteq> 0) ?f pre d = (q, y)" by fastforce
  with hs r have "?f V4L2_CID_VBLANK y = (0, d')"
    by (auto simp: so seq_until_append Let_def split: if_splits prod.splits)
  with setup_frame [OF y] show ?thesis using that by blast
qed

lemma stream_vts:
  assumes use: "\<forall>tr. 0 < ret_of E tr (Pm Pm_get_if_in_use)" and ok: "modes_ok d"
    and res: "ov7251_s_stream (ov7251_services E) E True d = Inr (0, d')"
  shows "vts_of (i2c_chip m d') = take_bit 16 (480 + u32_of_int (val (ctrls d V4L2_CID_VBLANK)))"
proof (cases rule: s_stream_start [OF res])
  case (4 d1 d2 r3 d3 x)
  from 4(4,5) obtain y
    where l: "ov7251_op (ov7251_inner_services E) E V4L2_CID_VBLANK (val (ctrls y V4L2_CID_VBLANK)) y = (0, d3)"
      and ky: "ov7251_keep y = ov7251_keep d2" and vy: "ctrls y V4L2_CID_VBLANK = ctrls d2 V4L2_CID_VBLANK"
    by (rule setup_vblank_last)
  have d1: "cur_mode d1 = cur_mode d" "ctrls d1 = ctrls d"
    using 4(1) pm_get_frame [of E "kdo Mutex_lock d"] keep_fields(10) [OF keep_quiet [OF kdo_quiet], of Mutex_lock d]
    by (simp_all add: ov7251_resume)
  have "cur_mode y = cur_mode d"
    using keep_fields(10) [OF ky] keep_fields(10) [OF keep_quiet [OF bus_step_quiet [OF 4(2)]]] d1 by simp
  then have "md_height (cur_mode y) = 480"
    using modes_okD [OF ok, of "current_mode d"] ok by (simp add: modes_ok_def mode_ok_def cur_mode_def)
  then have "md_height (cur_mode (ov7251_follow_vblank (ov7251_inner_services E) v y)) = 480" for v
    using follow_keep [OF ov7251_inner.ctrl_core_axioms] keep_fields(10) by metis
  note vts = vblank_op [OF l use this]
  have "vts_of (i2c_chip m d') = vts_of (i2c_chip m d3)"
    using 4(9) by (simp add: 4(8) i2c_chip_def start_writes_def vts_of_def ov7251_regs)
  then show ?thesis using vts vy d1(2) quiet_fields(1) [OF bus_step_quiet [OF 4(2)]] by simp
qed simp_all

text \<open>
  Starting the stream of a device in use leaves the frame length register of the sensor at 480
  lines plus the VBLANK control, whatever the mode table had put there.
\<close>

theorem stream_frame_length:
  assumes "\<forall>tr. 0 < ret_of E tr (Pm Pm_get_if_in_use)" and "modes_ok d"
    and "ov7251_s_stream (ov7251_services E) E True d = Inr (0, d')"
  shows "vts_of (i2c_chip m d') = take_bit 16 (480 + u32_of_int (val (ctrls d V4L2_CID_VBLANK)))"
  using assms by (rule stream_vts)

interpretation ov7251_full: ctrl_driver "ov7251_op (ov7251_inner_services E) E" "ov7251_services E" ov7251_keep for E
  by unfold_locales
    (use ov7251_core.modify_def ov7251_core.set_def ov7251_core.keep_ctrls ov7251_core.cb_frame
      ov7251_core.cb_ctrls ov7251_core.cb_exposure ov7251_core.cb_low in \<open>simp_all add: ov7251_services_def\<close>)

text \<open>
  C27: After a successful ov7251_set_frame_interval the interval of the chosen mode is reported,
  but the stream that follows runs with the frame length of the VBLANK control as it was before.
\<close>

theorem interval_not_programmed:
  assumes use: "\<forall>tr. 0 < ret_of E tr (Pm Pm_get_if_in_use)" and ok: "modes_ok d"
    and free: "lock_run (trace d) (Some False) = Some False"
    and set: "ov7251_set_frame_interval (ov7251_services E) d V4L2_SUBDEV_FORMAT_ACTIVE t = Inr (0, d1, t1)"
    and start: "ov7251_s_stream (ov7251_services E) E True d1 = Inr (0, d2)"
  shows "\<exists>i < length (modes d). current_mode d1 = i \<and> t1 = timeperframe (modes d ! i) \<and>
    vts_of (i2c_chip m d2) = take_bit 16 (480 + u32_of_int (val (ctrls d V4L2_CID_VBLANK)))"
proof -
  obtain i where i: "ov7251_find_mode_by_ival d t = Inr i" "current_mode d1 = i" "t1 = timeperframe (modes d ! i)"
    "ctrls d1 V4L2_CID_VBLANK = ctrls d V4L2_CID_VBLANK" "modes d1 = modes d" "i < length (modes d)"
    using frame_interval_core [OF ov7251_full.ctrl_frame_axioms ok free set] by auto
  then have "modes_ok d1" using ok by (simp add: modes_ok_def)
  from stream_vts [OF use this start] i show ?thesis by simp
qed

section \<open>Examples\<close>

text \<open>An environment in which every call succeeds and the device is in use.\<close>

definition use_env :: env where
  "use_env = \<lparr>ret_of = (\<lambda>tr e. if e = Pm Pm_get_if_in_use then 1 else 0), val_of = (\<lambda>_ _. 0)\<rparr>"

lemma use_env [simp]: "ret_of use_env tr (Bus b) = 0" "ret_of use_env tr (Rail a) = 0"
  "ret_of use_env tr (Pm Pm_get_if_in_use) = 1"
  by (simp_all add: use_env_def)

lemma use_write [simp]: "fst (ov7251_write_reg use_env r v d) = 0"
  by (simp add: ov7251_write_reg_def Let_def case_prod_beta)

lemma use_array [simp]: "fst (ov7251_set_register_array use_env ws d) = 0"
  unfolding ov7251_set_register_array_def
  by (induction ws arbitrary: d) (auto simp: Let_def case_prod_beta)

lemma use_power [simp]: "fst (ov7251_set_power_on use_env d) = 0"
  by (simp add: ov7251_set_power_on_def ov7251_regulators_enable_def Let_def case_prod_beta)

lemma use_op: "c \<in> set ov7251_setup_order \<Longrightarrow> fst (ov7251_op S use_env c v d) = 0"
  by (auto simp: ov7251_setup_order_def ov7251_op_def ov7251_s_ctrl_def ov7251_apply_ctrl_def set_fields_unfold
      ov7251_set_hflip_def ov7251_set_vflip_def ov7251_set_test_pattern_def Let_def case_prod_beta)

lemma use_setup [simp]: "fst (handler_setup (ov7251_services use_env) d) = 0"
proof -
  have "fst (seq_until (\<lambda>r. r \<noteq> 0) (\<lambda>c d. ov7251_op S use_env c (val (ctrls d c)) d) cs d) = 0"
    if "set cs \<subseteq> set ov7251_setup_order" for S cs
    using that by (induction cs arbitrary: d) (auto simp: Let_def case_prod_beta use_op)
  then show ?thesis
    by (simp add: ov7251_services_def ov7251_ctrl_services_def v4l2_handler_setup_def Let_def)
qed

lemma use_resume [simp]: "fst (resume_and_get (ov7251_services use_env) d) = 0"
  by (simp add: ov7251_resume ov7251_pm_get_def Let_def case_prod_beta)

lemma use_stream:
  assumes "length (pll1 (pll_cfgs d)) = 2" and "link_freq_idx d < 2"
  shows "\<exists>d'. ov7251_s_stream (ov7251_services use_env) use_env True d = Inr (0, d')"
proof -
  let ?d = "snd (resume_and_get (ov7251_services use_env) (kdo Mutex_lock d))"
  have "pll_cfgs (snd (ov7251_pm_get E z)) = pll_cfgs z" "link_freq_idx (snd (ov7251_pm_get E z)) = link_freq_idx z" for E z
    using keep_fields(7,9) [OF keep_quiet [OF power_frame(1) [of E z]]]
    by (simp_all add: ov7251_pm_get_def klog_def Let_def case_prod_beta)
  then have "pll_cfgs ?d = pll_cfgs d" "link_freq_idx ?d = link_freq_idx d"
    by (simp_all add: ov7251_resume kdo_def)
  with assms have i: "\<not> length (pll1 (pll_cfgs ?d)) \<le> link_freq_idx ?d" by simp
  have l: "fst (ov7251_ir_led_set use_env True z) = 0" for z by (simp add: ov7251_ir_led_set_def Let_def case_prod_beta)
  show ?thesis using i by (simp add: ov7251_s_stream_def pll_configure Let_def case_prod_beta l)
qed

lemma sample7_stream: "\<exists>d'. ov7251_s_stream (ov7251_services use_env) use_env True ov7251_sample = Inr (0, d')"
  by (rule use_stream) (simp_all add: ov7251_sample_def ov7251_pll_cfgs_19_2_mhz_def)

lemma power_on_balance_witness:
  "rail_held ov7251_sample (snd (ov7251_set_power_on use_env ov7251_sample)) = (1, 1, 1, 1)"
proof -
  have "rails_return use_env" by (simp add: rails_return_def)
  from power_on_balance [OF this, of ov7251_sample] show ?thesis by (simp add: case_prod_beta Let_def)
qed

lemma ov7251_stream_on_witness:
  "\<exists>ret d'. ov7251_s_stream (ov7251_services (pm_on_env use_env)) use_env True ov7251_sample = Inr (ret, d') \<and>
     lock_run (trace d') (Some False) = Some False"
proof -
  have "pm_on_env use_env = use_env" by (auto simp: pm_on_env_def use_env_def fun_eq_iff)
  then obtain d' where r: "ov7251_s_stream (ov7251_services (pm_on_env use_env)) use_env True ov7251_sample = Inr (0, d')"
    using sample7_stream by auto
  from ov7251_stream_on [OF ov7251_stream.stream_core_axioms sample7(2) r] r show ?thesis by auto
qed

lemma stream_frame_length_witness:
  "\<exists>d'. ov7251_s_stream (ov7251_services use_env) use_env True ov7251_sample = Inr (0, d') \<and>
     vts_of (i2c_chip (\<lambda>_. 0) d') = 1724"
proof -
  obtain d' where r: "ov7251_s_stream (ov7251_services use_env) use_env True ov7251_sample = Inr (0, d')"
    using sample7_stream by blast
  have "val (ctrls ov7251_sample V4L2_CID_VBLANK) = 1244" by (simp add: ov7251_sample_def std_ctrl_def)
  with stream_frame_length [OF _ sample7(1) r, of "\<lambda>_. 0"] r show ?thesis by (simp add: u32_of_int_def)
qed

text \<open>60 frames a second are asked for and reported, and the sensor is left at the 30 of before.\<close>

lemma interval_not_programmed_witness:
  "\<exists>d1 d2. ov7251_set_frame_interval (ov7251_services use_env) ov7251_sample V4L2_SUBDEV_FORMAT_ACTIVE
      \<lparr>numerator = 1, denominator = 60\<rparr> = Inr (0, d1, \<lparr>numerator = 100, denominator = 6014\<rparr>) \<and>
    ov7251_s_stream (ov7251_services use_env) use_env True d1 = Inr (0, d2) \<and>
    vts_of (i2c_chip (\<lambda>_. 0) d2) = 1724 \<and> md_vts (cur_mode d1) = 860"
proof -
  let ?S = "ov7251_services use_env" and ?t = "\<lparr>numerator = 1, denominator = 60 :: u32\<rparr>"
  let ?d = "kdo Mutex_lock ov7251_sample" and ?m = "ov7251_mode_info_data ! 1"
  have f: "ov7251_find_mode_by_ival ?d ?t = Inr 1"
    by (simp add: ov7251_find_mode_by_ival_def ov7251_sample_def ov7251_mode_info_data_def avg_fps_def cur_mode_def
        s32_of_u32_def u32_of_int_def Let_def kdo_def)
  have k: "current_mode ?d = 0" "modes ?d = ov7251_mode_info_data" by (simp_all add: ov7251_sample_def kdo_def)
  have "fst (ov7251_take_exposure ?S ?m ?d) = 0"
    by (simp add: ov7251_take_exposure_def ov7251_full.modify_def ov7251_full.set_def v4l2_modify_range_def
        v4l2_set_ctrl_def clamp_t_def Let_def case_prod_beta ov7251_sample_def std_ctrl_def ov7251_mode_info_data_def)
  then obtain dx where t: "ov7251_take_exposure ?S ?m ?d = (0, dx)" by (cases "ov7251_take_exposure ?S ?m ?d") simp
  define d1 where "d1 = kdo Mutex_unlock (dx\<lparr>current_mode := 1\<rparr>)"
  obtain t1 where r: "ov7251_set_frame_interval ?S ov7251_sample V4L2_SUBDEV_FORMAT_ACTIVE ?t = Inr (0, d1, t1)"
    using t by (simp add: ov7251_set_frame_interval_def f k d1_def)
  note core = frame_interval_core [OF ov7251_full.ctrl_frame_axioms sample7(1,2) r]
  have d1: "current_mode d1 = 1" "modes d1 = ov7251_mode_info_data" "t1 = timeperframe (ov7251_mode_info_data ! 1)"
    using core by (auto simp: find_60) (auto simp: ov7251_sample_def)
  have "pll_cfgs d1 = pll_cfgs ov7251_sample" "link_freq_idx d1 = link_freq_idx ov7251_sample"
    using keep_fields(7,9) [OF take_exposure(1) [OF ov7251_full.ctrl_frame_axioms t]] by (simp_all add: d1_def kdo_def)
  then obtain d2 where s: "ov7251_s_stream ?S use_env True d1 = Inr (0, d2)"
    using use_stream [of d1] by (auto simp: ov7251_sample_def ov7251_pll_cfgs_19_2_mhz_def)
  have v: "val (ctrls ov7251_sample V4L2_CID_VBLANK) = 1244" by (simp add: ov7251_sample_def std_ctrl_def)
  from interval_not_programmed [OF _ sample7(1,2) r s, of "\<lambda>_. 0"] v
  have "vts_of (i2c_chip (\<lambda>_. 0) d2) = 1724" by (auto simp: u32_of_int_def)
  then show ?thesis using r s d1 by (simp add: cur_mode_def) (simp add: ov7251_mode_info_data_def)
qed

section \<open>The link frequency of the firmware\<close>

lemma first_supported:
  "first_supported i fs = (if \<exists>f \<in> set fs. f \<in> set link_freq
     then Some (i + length (takeWhile (\<lambda>f. f \<notin> set link_freq) fs)) else None)"
  by (induction i fs rule: first_supported.induct) auto

text \<open>What a successful parse stores is the position in the list of the firmware.\<close>

lemma hwcfg_index:
  assumes "ov7251_check_hwcfg E cfg d = (0, d')"
  shows "link_freq_idx d' = length (takeWhile (\<lambda>f. f \<notin> set link_freq) (link_frequencies cfg))"
    "\<exists>f \<in> set (link_frequencies cfg). f \<in> set link_freq"
    "win_timing d' = win_timing d" "modes d' = modes d" "vts_boost d' = vts_boost d"
  using assms by (auto simp: ov7251_check_hwcfg_def Let_def case_prod_beta first_supported kcall_def kdo_def errno_defs
      split: if_splits option.splits)

text \<open>
  The firmware configuration is accepted exactly when there is an endpoint, it parses, and it
  lists one of the two supported link frequencies; the endpoint references are released on every
  path.
\<close>

theorem ov7251_hwcfg_accepts:
  "(let (ret, d') = ov7251_check_hwcfg E cfg d;
        ep = ret_of E (trace d) (Init Fwnode_graph_get_next_endpoint);
        parsed = ret_of E (trace d @ [(Init Fwnode_graph_get_next_endpoint, ep)]) (Init V4l2_fwnode_endpoint_alloc_parse)
    in (ret = 0 \<longleftrightarrow> ep \<noteq> 0 \<and> parsed = 0 \<and> set (link_frequencies cfg) \<inter> {240000000, 319200000} \<noteq> {}) \<and>
       weigh endpoint_weight (trace d') = weigh endpoint_weight (trace d))"
  by (auto simp: ov7251_check_hwcfg_def Let_def case_prod_beta errno_defs first_supported link_freq_def
      split: option.splits)

text \<open>
  When the firmware lists only the 319.2 MHz link, the driver works with the rates of the 240 MHz
  one.
\<close>

theorem link_freq_mismatch:
  assumes "link_frequencies cfg = [319200000]" and "ov7251_check_hwcfg E cfg d = (0, d')"
  shows "link_freq ! link_freq_idx d' = 240000000 \<and> pixel_rates ! link_freq_idx d' = 48000000"
  using hwcfg_index(1) [OF assms(2)] assms(1) by (simp add: link_freq_def pixel_rates_def)

lemma init_ctrls_fault: "(\<exists>e. ov7251_init_ctrls E d = Inl e) \<longleftrightarrow> 2 \<le> link_freq_idx d"
  by (auto simp: ov7251_init_ctrls_def pixel_rates_def Let_def case_prod_beta)

lemma resources_frame:
  assumes "ov7251_get_resources E d = (r, d')"
  shows "link_freq_idx d' = link_freq_idx d" "win_timing d' = win_timing d"
  using assms by (auto simp: ov7251_get_resources_def Let_def case_prod_beta kcall_def kread_def split: if_splits option.splits)

lemma init_state_total: "\<exists>p. ov7251_init_state S N d None = Inr p"
  by (simp add: ov7251_init_state_def set_format_unfold Let_def case_prod_beta)

text \<open>
  C33: Once its configuration and resources are accepted, ov7251_probe reads past the end of the
  rate tables exactly when the firmware lists the supported link frequency after two unsupported
  ones and the Windows timing is off.
\<close>

theorem probe_faults_iff:
  assumes "ret_of E (trace d) (Init Devm_kzalloc) = 0"
    and hw: "ov7251_check_hwcfg E cfg (ov7251_zeroed (snd (kcall E (Init Devm_kzalloc) d))) = (0, d1)"
    and res: "ov7251_get_resources E (ov7251_module_params d1) = (0, d2)"
  shows "(\<exists>e. ov7251_probe S N E cfg d = Inl e) \<longleftrightarrow>
    win_timing d = 0 \<and> set (take 2 (link_frequencies cfg)) \<inter> {240000000, 319200000} = {}"
proof -
  define p where "p = (kdo (Init Mutex_init) d2)\<lparr>current_mode := 0\<rparr>"
  let ?fs = "link_frequencies cfg"
  have w: "win_timing d1 = win_timing d"
    using hwcfg_index(3) [OF hw] by (simp add: ov7251_zeroed_def kcall_def Let_def)
  have idx: "link_freq_idx d1 = length (takeWhile (\<lambda>f. f \<notin> set link_freq) ?fs)" by (rule hwcfg_index(1) [OF hw])
  have "(\<exists>e. ov7251_probe S N E cfg d = Inl e) \<longleftrightarrow>
      2 \<le> link_freq_idx ((kdo (Init Mutex_init) d2)\<lparr>current_mode := 0\<rparr>)"
  proof (cases "ov7251_init_ctrls E p")
    case (Inl e)
    then have "ov7251_probe S N E cfg d = Inl e"
      using assms by (simp add: ov7251_probe_def Let_def case_prod_beta p_def)
    then show ?thesis using init_ctrls_fault [of E p] Inl by (auto simp: p_def)
  next
    case (Inr q)
    have "\<exists>x. ov7251_probe S N E cfg d = Inr x"
      using assms Inr init_state_total [of S N]
      by (auto simp: ov7251_probe_def Let_def case_prod_beta p_def split: sum.splits if_splits) (metis sum.distinct(1) sum.collapse)
    then show ?thesis using init_ctrls_fault [of E p] Inr by (auto simp: p_def)
  qed
  also have "\<dots> \<longleftrightarrow> win_timing d = 0 \<and> 2 \<le> link_freq_idx d1"
    using resources_frame(1) [OF res] w by (auto simp: ov7251_module_params_def kdo_def)
  also have "2 \<le> link_freq_idx d1 \<longleftrightarrow> set (take 2 ?fs) \<inter> {240000000, 319200000} = {}"
    using hwcfg_index(2) [OF hw] unfolding idx
    by (cases ?fs; cases "tl ?fs") (auto simp: link_freq_def)
  finally show ?thesis .
qed


section \<open>Probe and remove\<close>

text \<open>The calls of the probe that either return zero or a negative error.\<close>

definition probe_returns :: "env \<Rightarrow> bool" where
  "probe_returns E \<longleftrightarrow> rails_return E \<and> (\<forall>tr. ret_of E tr (Init Media_entity_pads_init) \<le> 0 \<and>
     ret_of E tr (Init V4l2_async_register_subdev) \<le> 0)"

lemma reads_weigh:
  assumes "\<And>b r. f (Bus b) r = 0"
  shows "weigh f (trace (snd (snd (ov7251_read_reg E g d)))) = weigh f (trace d)"
    "weigh f (trace (snd (ov7251_detect_chip E d))) = weigh f (trace d)"
    "weigh f (trace (snd (ov7251_read_cached E d))) = weigh f (trace d)"
proof -
  have r: "weigh f (trace (snd (snd (ov7251_read_reg E g x)))) = weigh f (trace x)" for g and x :: ov7251
    by (simp add: ov7251_read_reg_def Let_def case_prod_beta assms)
  then show "weigh f (trace (snd (snd (ov7251_read_reg E g d)))) = weigh f (trace d)" .
  show "weigh f (trace (snd (ov7251_detect_chip E d))) = weigh f (trace d)"
    by (simp add: ov7251_detect_chip_def Let_def case_prod_beta r)
  have o: "trace (case v of Some b \<Rightarrow> x\<lparr>pre_isp_00 := b\<rparr> | None \<Rightarrow> x) = trace x"
    "trace (case v of Some b \<Rightarrow> x\<lparr>timing_format1 := b\<rparr> | None \<Rightarrow> x) = trace x"
    "trace (case v of Some b \<Rightarrow> x\<lparr>timing_format2 := b\<rparr> | None \<Rightarrow> x) = trace x" for v and x :: ov7251
    by (cases v; simp)+
  show "weigh f (trace (snd (ov7251_read_cached E d))) = weigh f (trace d)"
    by (simp add: ov7251_read_cached_def Let_def case_prod_beta r o)
qed

lemmas unwind_defs = ov7251_destroy_mutex_def ov7251_free_ctrl_def ov7251_free_entity_def
  ov7251_power_down_def ov7251_err_pm_runtime_def

text \<open>How often the registration was refused.\<close>

fun refused_weight :: "ev \<Rightarrow> int \<Rightarrow> int" where
  "refused_weight (Init V4l2_async_register_subdev) r = (if r < 0 then 1 else 0)"
| "refused_weight _ r = 0"

lemma detect_nonpos: "fst (ov7251_detect_chip E d) \<le> 0" "fst (ov7251_read_cached E d) \<le> 0"
  by (simp_all add: ov7251_detect_chip_def ov7251_read_cached_def Let_def case_prod_beta errno_defs)

text \<open>
  A quantity the probe counts: \<open>h\<close> for the handler, \<open>m\<close> for the media entity, \<open>g\<close> for a PM
  reference, \<open>p\<close> for runtime PM, \<open>s\<close> and \<open>t\<close> for an accepted and a refused registration, \<open>k\<close> for the
  supplies and the clock together.
\<close>

lemma probe_start_weigh7:
  fixes E :: env and d :: ov7251 and f :: "ev \<Rightarrow> int \<Rightarrow> int"
  assumes ret: "probe_returns E" and bus: "\<And>b r. f (Bus b) r = 0"
    and pow: "\<And>x. weigh f (trace (snd (ov7251_set_power_on E x))) =
      weigh f (trace x) + (if fst (ov7251_set_power_on E x) = 0 then k else 0)"
      "\<And>x. weigh f (trace (snd (ov7251_set_power_off E x))) = weigh f (trace x) - k"
    and ev: "\<And>r. f (Init Media_entity_pads_init) r = (if r = 0 then m else 0)"
      "\<And>r. f (Init Media_entity_cleanup) r = - m" "\<And>r. f (Init V4l2_ctrl_handler_free) r = - h"
      "\<And>r. f (Init Mutex_destroy) r = 0" "\<And>r. f (Pm Pm_set_active) r = 0"
      "\<And>n r. f (Pm (Pm_use_autosuspend n)) r = 0" "\<And>r. f (Pm Pm_get_noresume) r = g"
      "\<And>r. f (Pm Pm_put_noidle) r = - g" "\<And>r. f (Pm Pm_put_autosuspend) r = - g"
      "\<And>r. f (Pm Pm_enable) r = p" "\<And>r. f (Pm Pm_disable) r = - p"
      "\<And>r. f (Init V4l2_async_register_subdev) r = (if r = 0 then s else t)"
  defines "q \<equiv> weigh refused_weight (trace (snd (ov7251_probe_start E d))) - weigh refused_weight (trace d)"
  shows "weigh f (trace (snd (ov7251_probe_start E d))) - weigh f (trace d) =
      (if fst (ov7251_probe_start E d) = 0 then m + k + p + s else - h + q * (k + p + t))"
    "q = 0 \<or> q = 1" "fst (ov7251_probe_start E d) = 0 \<longrightarrow> q = 0"
proof -
  have r: "ret_of E tr (Init Media_entity_pads_init) < 0 \<longleftrightarrow> ret_of E tr (Init Media_entity_pads_init) \<noteq> 0"
    "ret_of E tr (Init V4l2_async_register_subdev) < 0 \<longleftrightarrow> ret_of E tr (Init V4l2_async_register_subdev) \<noteq> 0" for tr
    using ret by (auto simp: probe_returns_def order_le_less)
  have c: "fst (ov7251_read_cached E x) < 0 \<longleftrightarrow> fst (ov7251_read_cached E x) \<noteq> 0" for x
    using detect_nonpos(2) [of E x] by linarith
  have w: "weigh refused_weight (trace (snd (ov7251_set_power_on E x))) = weigh refused_weight (trace x)"
    "weigh refused_weight (trace (snd (ov7251_set_power_off E x))) = weigh refused_weight (trace x)"
    "weigh refused_weight (trace (snd (ov7251_detect_chip E x))) = weigh refused_weight (trace x)"
    "weigh refused_weight (trace (snd (ov7251_read_cached E x))) = weigh refused_weight (trace x)" for x
    by (simp_all add: power_no_rail_weigh reads_weigh)
  show "q = 0 \<or> q = 1" "fst (ov7251_probe_start E d) = 0 \<longrightarrow> q = 0"
    by (simp_all add: q_def ov7251_probe_start_def unwind_defs Let_def case_prod_beta r c w)
  show "weigh f (trace (snd (ov7251_probe_start E d))) - weigh f (trace d) =
      (if fst (ov7251_probe_start E d) = 0 then m + k + p + s else - h + q * (k + p + t))"
    by (simp add: q_def ov7251_probe_start_def unwind_defs Let_def case_prod_beta r c w pow ev reads_weigh [where f = f] bus)
qed


text \<open>
  C7: Whatever calls fail, the last part of ov7251_probe keeps the media entity, runtime PM, the
  registration and the powered rails exactly when it succeeds; a failing one gives everything
  back, except that a refused registration leaves the rails on and runtime PM enabled, and the PM
  usage count is always as it was.
\<close>

theorem ov7251_probe_ledger:
  assumes "probe_returns E"
  shows "(let (ret, d') = ov7251_probe_start E d; held = (\<lambda>f. weigh f (trace d') - weigh f (trace d))
    in held pm_weight = 0 \<and>
       (if ret = 0
        then held handler_weight = 0 \<and> held media_weight = 1 \<and> held rpm_weight = 1 \<and> held subdev_weight = 1 \<and>
          held clk_weight = 1 \<and> held (supply_weight v) = 1
        else held handler_weight = - 1 \<and> held media_weight = 0 \<and> held subdev_weight = 0 \<and>
          held rpm_weight = held refused_weight \<and> held clk_weight = held refused_weight \<and>
          held (supply_weight v) = held refused_weight))"
proof -
  have rails: "rails_return E" using assms by (simp add: probe_returns_def)
  note n = power_no_rail_weigh
  note ps = probe_start_weigh7 [OF assms]
  let ?s = "ov7251_probe_start E d"
  let ?w = "\<lambda>f. weigh f (trace (snd ?s)) - weigh f (trace d)"
  have "?w pm_weight = (if fst ?s = 0 then 0 else 0)"
    using ps(1) [of "pm_weight" 0 0 0 1 0 0 0 d] by (simp add: n supply_power_on [OF rails] supply_power_off)
  moreover have "?w handler_weight = (if fst ?s = 0 then 0 else - 1)"
    using ps(1) [of "handler_weight" 0 0 1 0 0 0 0 d] by (simp add: n supply_power_on [OF rails] supply_power_off)
  moreover have "?w media_weight = (if fst ?s = 0 then 1 else 0)"
    using ps(1) [of "media_weight" 0 1 0 0 0 0 0 d] by (simp add: n supply_power_on [OF rails] supply_power_off)
  moreover have "?w rpm_weight = (if fst ?s = 0 then 1 else ?w refused_weight)"
    using ps(1) [of "rpm_weight" 0 0 0 0 1 0 0 d] by (simp add: n supply_power_on [OF rails] supply_power_off)
  moreover have "?w subdev_weight = (if fst ?s = 0 then 1 else 0)"
    using ps(1) [of "subdev_weight" 0 0 0 0 0 1 0 d] by (simp add: n supply_power_on [OF rails] supply_power_off)
  moreover have "?w clk_weight = (if fst ?s = 0 then 1 else ?w refused_weight)"
    using ps(1) [of "clk_weight" 1 0 0 0 0 0 0 d] by (simp add: n supply_power_on [OF rails] supply_power_off)
  moreover have "?w (supply_weight v) = (if fst ?s = 0 then 1 else ?w refused_weight)"
    using ps(1) [of "supply_weight v" 1 0 0 0 0 0 0 d] by (simp add: n supply_power_on [OF rails] supply_power_off)
  ultimately show ?thesis by (cases "fst ?s = 0") (simp_all add: Let_def case_prod_beta)
qed

text \<open>
  Removal gives back the registration, the media entity, the controls, runtime PM and, unless the
  device is suspended, the clock and the supplies.
\<close>

theorem ov7251_remove_releases:
  "(let d' = ov7251_remove E d; held = (\<lambda>f. weigh f (trace d') - weigh f (trace d));
        before = trace d @ [(Init V4l2_async_unregister_subdev, 0), (Init Media_entity_cleanup, 0),
          (Init V4l2_ctrl_handler_free, 0), (Init Mutex_destroy, 0), (Pm Pm_disable, 0)];
        powered = (if ret_of E before (Pm Pm_status_suspended) = 0 then 1 else 0)
    in held subdev_weight = - 1 \<and> held media_weight = - 1 \<and> held handler_weight = - 1 \<and>
       held rpm_weight = - 1 \<and> held clk_weight = - powered \<and> held (supply_weight v) = - powered)"
  by (simp add: ov7251_remove_def power_no_rail_weigh supply_power_off Let_def case_prod_beta)


section \<open>The boosted mode\<close>

lemma boosted_mode:
  assumes b: "522 < b" "b \<le> 65535" and m: "md_width m = 640" "md_height m = 480" "numerator (timeperframe m) = 100"
  shows "mode_ok (ov7251_boosted b m)" "uint (md_vts (ov7251_boosted b m)) = b"
    "uint (exposure_max (ov7251_boosted b m)) = b - 256"
    "uint (denominator (timeperframe (ov7251_boosted b m))) = 5172000 div b"
    "exposure_def (ov7251_boosted b m) = exposure_def m"
proof -
  have u: "uint (u32_of_int b) = b"
    unfolding u32_of_int_def uint_word_of_int using b by (intro mod_pos_pos_trivial) simp_all
  then show v: "uint (md_vts (ov7251_boosted b m)) = b" by (simp add: ov7251_boosted_def)
  have "uint (word_of_int (b - 256) :: u32) = b - 256"
    unfolding uint_word_of_int using b by (intro mod_pos_pos_trivial) simp_all
  moreover have "u32_of_int b - 256 = word_of_int (b - 256)" by (simp add: u32_of_int_def)
  ultimately have "uint (ucast (u32_of_int b - 256 :: u32) :: u16) = (b - 256) mod 65536"
    by (simp only: unsigned_ucast_eq take_bit_eq_mod) simp
  also have "\<dots> = b - 256" using b by (intro mod_pos_pos_trivial) simp_all
  finally show "uint (exposure_max (ov7251_boosted b m)) = b - 256"
    by (simp add: ov7251_boosted_def ov7251_consts)
  show den: "uint (denominator (timeperframe (ov7251_boosted b m))) = 5172000 div b"
    by (simp add: ov7251_boosted_def uint_div u)
  show "exposure_def (ov7251_boosted b m) = exposure_def m" by (simp add: ov7251_boosted_def)
  have "5172000 div b \<le> 5172000 div 523" using b by (intro zdiv_mono2) simp_all
  then have d: "uint (denominator (timeperframe (ov7251_boosted b m))) \<le> 100000" unfolding den by simp
  show "mode_ok (ov7251_boosted b m)"
  proof -
    have "int (unat (md_vts (ov7251_boosted b m))) = b"
      "int (unat (denominator (timeperframe (ov7251_boosted b m)))) \<le> 100000" using v d by simp_all
    then have "480 < unat (md_vts (ov7251_boosted b m))" "unat (md_vts (ov7251_boosted b m)) \<le> 65535"
      "unat (denominator (timeperframe (ov7251_boosted b m))) \<le> 100000" using b by linarith+
    moreover have "md_width (ov7251_boosted b m) = 640" "md_height (ov7251_boosted b m) = 480"
      "numerator (timeperframe (ov7251_boosted b m)) = 100" using m by (simp_all add: ov7251_boosted_def)
    ultimately show ?thesis by (simp only: mode_ok_def simp_thms)
  qed
qed


lemma module_params_table:
  assumes "modes d = ov7251_mode_info_data" and "win_timing d = 0" "522 < vts_boost d" "vts_boost d \<le> 65535"
  shows "modes (ov7251_module_params d) = ov7251_boosted (vts_boost d) (ov7251_mode_info_data ! 0) # tl ov7251_mode_info_data"
    "current_mode (ov7251_module_params d) = current_mode d"
  using assms by (simp_all add: ov7251_module_params_def ov7251_consts ov7251_mode_info_data_def)

text \<open>
  The module parameters keep the mode table usable.
\<close>

theorem module_params_modes:
  assumes "modes d = ov7251_mode_info_data"
  shows "modes_ok ((ov7251_module_params d)\<lparr>current_mode := 0\<rparr>)"
proof -
  have t: "list_all mode_ok (tl ov7251_mode_info_data)" "mode_ok (ov7251_mode_info_data ! 0)"
    using table_modes_ok(1) by (simp_all add: ov7251_mode_info_data_def)
  consider "win_timing d \<noteq> 0" | "win_timing d = 0" "522 < vts_boost d" "vts_boost d \<le> 65535"
    | "win_timing d = 0" "\<not> (522 < vts_boost d \<and> vts_boost d \<le> 65535)" by blast
  then show ?thesis
  proof cases
    case 1
    then have "modes (ov7251_module_params d) = ov7251_win_mode # tl ov7251_mode_info_data"
      using assms by (simp add: ov7251_module_params_def ov7251_mode_info_data_def)
    then show ?thesis using t table_modes_ok(2) by (simp add: modes_ok_def)
  next
    case 2
    have "mode_ok (ov7251_boosted (vts_boost d) (ov7251_mode_info_data ! 0))"
      by (rule boosted_mode(1) [OF 2(2,3)]) (simp_all add: ov7251_mode_info_data_def)
    then show ?thesis using t module_params_table [OF assms 2] by (simp add: modes_ok_def)
  next
    case 3
    then show ?thesis using assms table_modes_ok(1)
      by (auto simp: ov7251_module_params_def modes_ok_def ov7251_consts) (simp add: ov7251_mode_info_data_def)+
  qed
qed

text \<open>
  C35: With a vts_boost of 523 to 759 lines, taken over by ov7251_module_params, the exposure
  limit of the first mode, the boost minus 256, is below its default, which stays 504: under the
  contract of the control core an ACTIVE ov7251_set_format that chooses this mode returns -ERANGE
  and leaves the format and the controls as they were.
\<close>

theorem boosted_format_refused:
  assumes core: "ctrl_core S ov7251_keep" and act: "sf_which f = V4L2_SUBDEV_FORMAT_ACTIVE"
    and d: "modes d = ov7251_mode_info_data" "win_timing d = 0" "522 < vts_boost d" "vts_boost d < 760"
    and near: "near_mode N (ov7251_module_params d) (sf_format f) = 0"
  shows "\<exists>d'. ov7251_set_format S N (ov7251_module_params d) st f = Inr (- ERANGE, d', st, f) \<and>
    fmt d' = fmt d \<and> ctrls d' = ctrls d \<and>
    uint (exposure_max (modes (ov7251_module_params d) ! 0)) = vts_boost d - 256 \<and>
    uint (exposure_def (modes (ov7251_module_params d) ! 0)) = 504"
proof -
  let ?d = "ov7251_module_params d" and ?m = "ov7251_boosted (vts_boost d) (ov7251_mode_info_data ! 0)"
  have m: "modes ?d ! 0 = ?m" using module_params_table(1) [OF d(1-3)] d(4) by simp
  have e: "uint (exposure_max ?m) = vts_boost d - 256" "exposure_def ?m = 504"
    using boosted_mode(3,5) [OF d(3), of "ov7251_mode_info_data ! 0"] d(4) by (simp_all add: ov7251_mode_info_data_def)
  then have "exposure_max ?m < exposure_def ?m" using d(4) by (simp add: word_less_def)
  from set_format_refused [OF core act, where N = N and d = ?d and st = st] this
  show ?thesis unfolding near m using d e by (auto simp: ov7251_module_params_def)
qed

section \<open>The exposure limit of a frame length\<close>

text \<open>
  C34: When VBLANK is set to a value from 0 to 65055 that leaves room for one line of exposure,
  under the contract of the control core and with an EXPOSURE range from 1 in steps of 1, the
  upper end of that range becomes the frame length minus the margin. The margin is 256 for every
  mode when vts_boost is not zero and win_timing is off, also when the boost was refused as too
  small, where the comment of the constant keeps 20 for the stock modes; it is 20 otherwise.
\<close>

theorem ov7251_vblank_limit:
  assumes core: "ctrl_core S ov7251_keep"
    and ok: "ov7251_s_ctrl S E V4L2_CID_VBLANK v d = Inr (ret, d')"
    and ex: "low_ok (ctrls d V4L2_CID_EXPOSURE)" "minimum (ctrls d V4L2_CID_EXPOSURE) = 1"
      "step (ctrls d V4L2_CID_EXPOSURE) = 1" and h: "modes_ok d"
    and v: "0 \<le> v" "v \<le> 65055" and room: "k + 1 \<le> 480 + v"
    and k: "k = (if vts_boost d \<noteq> 0 \<and> win_timing d = 0 then 256 else 20)"
  shows "maximum (ctrls d' V4L2_CID_EXPOSURE) = 480 + v - k \<and> minimum (ctrls d' V4L2_CID_EXPOSURE) = 1"
proof -
  let ?d0 = "ov7251_follow_vblank S v d" and ?ex = "ctrls d V4L2_CID_EXPOSURE"
  have cur: "md_height (cur_mode d) = 480" using modes_okD [OF h, of "current_mode d"] h
    by (simp add: modes_ok_def mode_ok_def cur_mode_def)
  have "480 + u32_of_int v - word_of_int k = (word_of_int (480 + v - k) :: u32)"
    by (simp add: u32_of_int_def)
  moreover have "ov7251_margin d = word_of_int k" using k by (simp add: ov7251_margin_def ov7251_consts)
  ultimately have wrap: "s32_of_u32 (md_height (cur_mode d) + u32_of_int v - ov7251_margin d) = 480 + v - k"
    unfolding cur using v room k by (simp only:) (rule s32_of_int, simp_all split: if_splits)
  obtain r where mr: "modify_range S V4L2_CID_EXPOSURE 1 (480 + v - k) 1 (min (val ?ex) (480 + v - k)) d = (r, ?d0)"
    by (cases "modify_range S V4L2_CID_EXPOSURE 1 (480 + v - k) 1 (min (val ?ex) (480 + v - k)) d")
      (simp add: ov7251_follow_vblank_def Let_def wrap ex)
  have r: "minimum (ctrls ?d0 V4L2_CID_EXPOSURE) = 1 \<and> maximum (ctrls ?d0 V4L2_CID_EXPOSURE) = 480 + v - k"
    using ctrl_core.range_ok [OF core _ _ _ mr] ex(1,2) room by (simp add: low_ok_def)
  have "ov7251_op S E V4L2_CID_VBLANK v d = (ret, d')" using ok by (simp add: ov7251_op_def)
  from ov7251_op_after [OF this] r show ?thesis by simp
qed

section \<open>Examples for the probe\<close>

definition ov7251_cfg :: "u64 list \<Rightarrow> bus_cfg" where
  "ov7251_cfg fs = \<lparr>num_data_lanes = 1, link_frequencies = fs\<rparr>"

definition ov7251_env :: env where
  "ov7251_env = \<lparr>ret_of = (\<lambda>tr e. if e = Init Fwnode_graph_get_next_endpoint then 1 else 0),
     val_of = (\<lambda>tr e. if e = Init Clk_get_rate then 24000000 else 0)\<rparr>"

lemma sample_hwcfg:
  assumes "first_supported 0 fs = Some i"
  shows "\<exists>d'. ov7251_check_hwcfg ov7251_env (ov7251_cfg fs) d = (0, d')"
  using assms by (cases fs) (simp_all add: ov7251_check_hwcfg_def ov7251_env_def ov7251_cfg_def Let_def case_prod_beta)

lemma sample_resources: "\<exists>d'. ov7251_get_resources ov7251_env d = (0, d')"
  by (simp add: ov7251_get_resources_def ov7251_env_def supported_xclk_rates_def Let_def case_prod_beta)

lemma ov7251_vblank_limit_witness:
  "\<exists>ret d'. ov7251_s_ctrl (ov7251_ctrl_services sample_env) sample_env V4L2_CID_VBLANK 1000 ov7251_sample
       = Inr (ret, d') \<and> maximum (ctrls d' V4L2_CID_EXPOSURE) = 1460"
proof -
  let ?S = "ov7251_ctrl_services sample_env"
  obtain ret d' where r: "ov7251_s_ctrl ?S sample_env V4L2_CID_VBLANK 1000 ov7251_sample = Inr (ret, d')"
    using s_ctrl_total by blast
  have "maximum (ctrls d' V4L2_CID_EXPOSURE) = 480 + 1000 - 20 \<and> minimum (ctrls d' V4L2_CID_EXPOSURE) = 1"
    by (rule ov7251_vblank_limit [OF ov7251_core.ctrl_core_axioms r _ _ _ sample7(1)])
      (simp_all add: ov7251_sample_def std_ctrl_def low_ok_def)
  with r show ?thesis by auto
qed

text \<open>The firmware asks for 319.2 MHz alone and the driver programs 240 MHz.\<close>

lemma link_freq_mismatch_witness:
  "\<exists>d'. ov7251_check_hwcfg ov7251_env (ov7251_cfg [319200000]) ov7251_sample = (0, d') \<and>
     link_freq ! link_freq_idx d' = 240000000"
proof -
  obtain d' where r: "ov7251_check_hwcfg ov7251_env (ov7251_cfg [319200000]) ov7251_sample = (0, d')"
    using sample_hwcfg [of "[319200000]" 0] by (auto simp: link_freq_def)
  from link_freq_mismatch [OF _ r] r show ?thesis by (simp add: ov7251_cfg_def)
qed

text \<open>Two frequencies the driver does not support, then one it does.\<close>

lemma probe_faults_iff_witness:
  "\<exists>e. ov7251_probe (ov7251_services ov7251_env) first_nearest ov7251_env
     (ov7251_cfg [100000000, 200000000, 240000000]) ov7251_sample = Inl e"
proof -
  let ?c = "ov7251_cfg [100000000, 200000000, 240000000]"
  obtain d1 where h: "ov7251_check_hwcfg ov7251_env ?c (ov7251_zeroed (snd (kcall ov7251_env (Init Devm_kzalloc) ov7251_sample))) = (0, d1)"
    using sample_hwcfg [of "[100000000, 200000000, 240000000]" 2] by (auto simp: link_freq_def)
  obtain d2 where g: "ov7251_get_resources ov7251_env (ov7251_module_params d1) = (0, d2)"
    using sample_resources by blast
  show ?thesis
    by (subst probe_faults_iff [OF _ h g]) (simp_all add: ov7251_env_def ov7251_cfg_def ov7251_sample_def)
qed

text \<open>A chip that answers with its identity, on a bus that works, and a refused registration.\<close>

definition refuse_env :: env where
  "refuse_env = \<lparr>ret_of = (\<lambda>tr e. if e = Init V4l2_async_register_subdev then - ENOMEM else 0),
     val_of = (\<lambda>tr e. if fst (last tr) = Bus (I2c_master_send [0x30, 0x0a]) then 0x77
       else if fst (last tr) = Bus (I2c_master_send [0x30, 0x0b]) then 0x50 else 0)\<rparr>"

lemma refuse_env [simp]: "ret_of refuse_env tr (Bus b) = 0" "ret_of refuse_env tr (Rail a) = 0"
  "ret_of refuse_env tr (Init Media_entity_pads_init) = 0"
  "ret_of refuse_env tr (Init V4l2_async_register_subdev) = - ENOMEM"
  by (simp_all add: refuse_env_def)

lemma refuse_power: "fst (ov7251_set_power_on refuse_env d) = 0"
proof -
  have w: "fst (ov7251_write_reg refuse_env r v d) = 0" for r v and d :: ov7251
    by (simp add: ov7251_write_reg_def Let_def case_prod_beta)
  have "fst (ov7251_set_register_array refuse_env ws d) = 0" for ws and d :: ov7251
    unfolding ov7251_set_register_array_def by (induction ws arbitrary: d) (auto simp: Let_def case_prod_beta w)
  then show ?thesis
    by (simp add: ov7251_set_power_on_def ov7251_regulators_enable_def Let_def case_prod_beta)
qed

lemma refuse_reads: "fst (ov7251_detect_chip refuse_env d) = 0" "fst (ov7251_read_cached refuse_env d) = 0"
proof -
  have r: "fst (ov7251_read_reg refuse_env r d) = 0" "fst (snd (ov7251_read_reg refuse_env r d)) = Some (ucast
      (if [reg_hi r, reg_lo r] = [0x30, 0x0a] then 0x77 else if [reg_hi r, reg_lo r] = [0x30, 0x0b] then 0x50 else 0 :: u64))"
    for r and d :: ov7251
    by (simp_all add: ov7251_read_reg_def Let_def case_prod_beta) (simp_all add: refuse_env_def)
  show "fst (ov7251_detect_chip refuse_env d) = 0" "fst (ov7251_read_cached refuse_env d) = 0"
    by (simp_all add: ov7251_detect_chip_def ov7251_read_cached_def Let_def case_prod_beta r)
      (simp_all add: ov7251_regs reg_hi_def reg_lo_def)
qed

lemma ov7251_probe_ledger_witness:
  "\<exists>d'. ov7251_probe_start refuse_env ov7251_sample = (- ENOMEM, d') \<and>
     weigh rpm_weight (trace d') = 1 \<and> weigh clk_weight (trace d') = 1"
proof -
  let ?s = "ov7251_probe_start refuse_env ov7251_sample"
  have "probe_returns refuse_env" by (simp add: probe_returns_def rails_return_def ENOMEM_def)
  note led = ov7251_probe_ledger [OF this, of ov7251_sample, simplified Let_def case_prod_beta]
  have ret: "fst ?s = - ENOMEM"
    by (simp add: ov7251_probe_start_def Let_def case_prod_beta refuse_power refuse_reads ENOMEM_def)
  have "weigh refused_weight (trace (snd ?s)) = 1"
    by (simp add: ov7251_probe_start_def unwind_defs Let_def case_prod_beta refuse_power refuse_reads ENOMEM_def
        power_no_rail_weigh reads_weigh) (simp add: ov7251_sample_def)
  then show ?thesis using led ret by (cases ?s) (simp add: ov7251_sample_def ENOMEM_def)
qed

lemma module_params_modes_witness:
  "modes_ok ((ov7251_module_params (ov7251_sample\<lparr>vts_boost := 3448\<rparr>))\<lparr>current_mode := 0\<rparr>)"
  by (rule module_params_modes) (simp add: ov7251_sample_def)

lemma boosted_format_refused_witness:
  "\<exists>d'. ov7251_set_format (ov7251_ctrl_services sample_env) first_nearest
      (ov7251_module_params (ov7251_sample\<lparr>vts_boost := 700\<rparr>)) sample7_state sample7_fmt =
    Inr (- ERANGE, d', sample7_state, sample7_fmt)"
proof -
  let ?d = "ov7251_sample\<lparr>vts_boost := 700\<rparr>"
  have "near_mode first_nearest (ov7251_module_params ?d) (sf_format sample7_fmt) = 0"
    by (simp add: near_mode_def ov7251_module_params_def ov7251_boosted_def ov7251_sample_def sample7_fmt_def
        ov7251_mode_info_data_def size_dist_def ov7251_consts)
  from boosted_format_refused [OF ov7251_core.ctrl_core_axioms sample7(5) _ _ _ _ this] show ?thesis
    by (auto simp: ov7251_sample_def)
qed

section \<open>Calls that do not return\<close>




end
