(* ===== verification/Ov7251_Lifecycle.thy ===== *)
theory Ov7251_Lifecycle
  imports Ov7251_Power Lifecycle
begin

text \<open>
  The life of the OV7251 between probe and remove: the entry points of the driver
  (\<open>dkms/ov7251-surface/ov7251.c\<close>) as the operations of a \<open>camera_driver\<close>, what each of them keeps of
  the mutex, the PM references, the rails and the power state, and the properties of every state
  reachable from a successful probe.
\<close>

section \<open>The control operations are inert\<close>

lemma cache_inert: "cache_step d d' \<Longrightarrow> inert d d'"
proof -
  assume "cache_step d d'"
  then obtain d1 where b: "bus_step d d1" and e: "trace d' = trace d1" "ov7251_keep d' = ov7251_keep d1"
    by (auto simp: cache_step_def)
  show ?thesis using inert_trans [OF inert_bus [OF b] inert_same [OF e(1) keep_fields(8) [OF e(2)]]] .
qed

lemma ov7251_op_inert:
  assumes "\<And>d. inert d (ov7251_follow_vblank S v d)" and "\<forall>tr. 0 \<le> ret_of E tr (Pm Pm_get_if_in_use)"
  shows "inert d (snd (ov7251_op S E c v d))"
proof -
  define d0 where "d0 = (if c = V4L2_CID_VBLANK then ov7251_follow_vblank S v d else d)"
  let ?d1 = "snd (kcall E (Pm Pm_get_if_in_use) d0)"
  obtain p where p: "ov7251_apply_ctrl E c v ?d1 = Inr p" "cache_step ?d1 (snd p)"
    using apply_total by blast
  have "snd (ov7251_op S E c v d) =
      (if ret_of E (trace d0) (Pm Pm_get_if_in_use) = 0 then ?d1 else kdo (Pm Pm_put) (snd p))"
    using p(1) by (simp add: ov7251_op_def ov7251_s_ctrl_def Let_def case_prod_beta flip: d0_def)
  moreover have "inert d d0" using assms(1) by (simp add: d0_def)
  ultimately show ?thesis
    using inert_trans [OF _ inert_in_use [OF spec [OF assms(2)] cache_inert [OF p(2)]]] by simp
qed

lemma ov7251_services_inert:
  defines "A \<equiv> \<lambda>E. ov7251_services (pm_on_env E)"
  shows "inert_services (A E)" "inert d (snd (handler_setup (A E) d))"
proof -
  let ?E = "pm_on_env E"
  have use: "\<forall>tr. 0 \<le> ret_of ?E tr (Pm Pm_get_if_in_use)" by (simp add: pm_on_env_nonneg)
  have 0: "inert d (snd (ov7251_op no_services ?E c v d))" for c v d
    by (rule ov7251_op_inert [OF _ use]) (simp add: ov7251_follow_vblank_def no_services_def Let_def)
  have 1: "inert d (snd (ov7251_op (ov7251_inner_services ?E) ?E c v d))" for c v d
    by (rule ov7251_op_inert [OF _ use])
      (simp add: ov7251_follow_vblank_def ov7251_inner_services_def Let_def inert_core(1) [OF 0])
  show "inert_services (A E)" "inert d (snd (handler_setup (A E) d))"
    using inert_core [OF 1]
    by (simp_all add: A_def inert_services_def ov7251_services_def ov7251_ctrl_services_def Let_def)
qed

section \<open>The power services\<close>

text \<open>The rails of the OV7251: its three supplies and its clock.\<close>

abbreviation ov7251_rails :: "(ev \<Rightarrow> int \<Rightarrow> int) list" where
  "ov7251_rails \<equiv> map supply_weight enum_class.enum @ [clk_weight]"

declare enum_regulator_def [simp]

text \<open>An environment whose clock and regulator calls return as documented.\<close>

definition rails_env :: "env \<Rightarrow> env" where
  "rails_env E = E\<lparr>ret_of := (\<lambda>tr e. case e of Rail a \<Rightarrow> min 0 (ret_of E tr e) | _ \<Rightarrow> ret_of E tr e)\<rparr>"

lemma rails_env_return: "rails_return (pm_on_env (rails_env E))"
  by (simp add: rails_return_def pm_on_env_def rails_env_def)

lemma pm_get_rails:
  assumes "rails_return E"
  shows "rail_slack ov7251_rails (snd (ov7251_pm_get E d)) = rail_slack ov7251_rails d"
  using quiet_fields(3) [OF power_frame(1) [of E d]]
  by (simp add: ov7251_pm_get_def klog_def rail_slack_def Let_def case_prod_beta supply_power_on [OF assms])

lemma pm_get_active: "fst (ov7251_pm_get E d) = 0 \<Longrightarrow> rpm_active (snd (ov7251_pm_get E d))"
  by (simp add: ov7251_pm_get_def klog_def Let_def case_prod_beta split: if_splits)

text \<open>The lock and the references need no assumption on the rails; the rails need theirs.\<close>

interpretation ov7251_use: stream_power "ov7251_services (pm_on_env E)" True "[]" for E
  by unfold_locales (use ov7251_services_inert [where E = E] pm_get_active [of "pm_on_env E"] in
    \<open>auto simp: rail_slack_def ov7251_resume prod_eq_iff\<close>)

interpretation ov7251_power: stream_power "ov7251_services (pm_on_env (rails_env E))" True ov7251_rails for E
  by unfold_locales (use ov7251_services_inert [where E = "rails_env E"] pm_get_active [of "pm_on_env (rails_env E)"]
      pm_get_rails [OF rails_env_return, of E] in \<open>auto simp: ov7251_resume prod_eq_iff\<close>)

section \<open>The operations\<close>

lemma take_exposure_inert:
  assumes "inert_services S"
  shows "inert d (snd (ov7251_take_exposure S m d))"
  using inert_servicesD [OF assms] inert_trans [OF inert_servicesD(1) inert_servicesD(2), OF assms assms]
    inert_trans [OF inert_trans [OF inert_servicesD(1) inert_servicesD(2)] inert_servicesD(2), OF assms assms assms]
  by (simp add: ov7251_take_exposure_def Let_def case_prod_beta)

lemma put_pad_frame [simp]:
  "trace (fst (put_pad_crop w c ds)) = trace (fst ds)" "trace (fst (put_pad_format w g ds)) = trace (fst ds)"
  "rpm_active (fst (put_pad_crop w c ds)) = rpm_active (fst ds)"
  "rpm_active (fst (put_pad_format w g ds)) = rpm_active (fst ds)"
  by (simp_all add: put_pad_crop_def put_pad_format_def split: whence.split)

lemma set_format_critical:
  assumes S: "inert_services S" and r: "ov7251_set_format S N d st f = Inr (ret, d', st', f')"
  shows "critical d d'"
proof -
  let ?l = "kdo Mutex_lock d"
  obtain c0 where c0: "ov7251_get_pad_crop ?l st (sf_which f) = Some c0"
    using r by (auto simp: ov7251_set_format_def Let_def split: option.splits)
  define m where "m = modes ?l ! N (map (\<lambda>m. (md_width m, md_height m)) (modes ?l)) (f_width (sf_format f)) (f_height (sf_format f))"
  obtain x st1 where x: "put_pad_crop (sf_which f) (c0\<lparr>r_width := md_width m, r_height := md_height m\<rparr>) (?l, st) = (x, st1)"
    by fastforce
  obtain ry y where y: "ov7251_take_exposure S m x = (ry, y)" by fastforce
  obtain rz z where z: "modify_range S V4L2_CID_VBLANK OV7251_TIMING_MIN_VTS
    (s32_of_u32 (OV7251_TIMING_MAX_VTS - md_height m)) 1 (s32_of_u32 (md_vts m - md_height m)) y = (rz, z)" by fastforce
  have xi: "inert ?l x" using put_pad_frame(1,3) [of "sf_which f" _ "(?l, st)", unfolded x] by (intro inert_same) (metis x fst_conv put_pad_frame)+
  have yi: "inert ?l y" using inert_trans [OF xi take_exposure_inert [OF S]] y by (metis snd_conv)
  have zi: "inert ?l z" using inert_trans [OF yi inert_servicesD(1) [OF S]] z by (metis snd_conv)
  have "trace d' = trace w @ [(Mutex_unlock, 0)] \<and> rpm_active d' = rpm_active w"
    if "w = (if sf_which f \<noteq> V4L2_SUBDEV_FORMAT_ACTIVE then x else if ry < 0 then y else z)" for w
  proof (cases "sf_which f = V4L2_SUBDEV_FORMAT_ACTIVE")
    case True
    then show ?thesis
      using r that x c0 z by (auto simp: ov7251_set_format_def y Let_def case_prod_beta simp flip: m_def split: option.splits if_splits)
  next
    case False
    then show ?thesis
      using r that x c0 by (auto simp: ov7251_set_format_def Let_def case_prod_beta simp flip: m_def split: option.splits)
  qed
  then show ?thesis using criticalI xi yi zi by (auto split: if_splits)
qed

lemma set_frame_interval_critical:
  assumes S: "inert_services S" and r: "ov7251_set_frame_interval S d w t = Inr (ret, d', t')"
  shows "d' = d \<or> critical d d'"
proof (cases "w = V4L2_SUBDEV_FORMAT_ACTIVE")
  case True
  let ?l = "kdo Mutex_lock d"
  obtain i where i: "ov7251_find_mode_by_ival ?l t = Inr i"
    using r True by (auto simp: ov7251_set_frame_interval_def Let_def split: sum.splits)
  obtain q x where x: "ov7251_take_exposure S (modes ?l ! i) ?l = (q, x)" by fastforce
  have xi: "inert ?l x" using take_exposure_inert [OF S, of ?l "modes ?l ! i"] x by simp
  have "\<exists>y \<in> {?l, x}. trace d' = trace y @ [(Mutex_unlock, 0)] \<and> rpm_active d' = rpm_active y"
    using r True i x by (auto simp: ov7251_set_frame_interval_def Let_def split: if_splits)
  then show ?thesis using criticalI [OF inert_refl] criticalI [OF xi] by blast
next
  case False
  then show ?thesis using r by (simp add: ov7251_set_frame_interval_def)
qed

lemma getters_critical:
  "ov7251_get_format d st f = Inr (ret, d', f') \<Longrightarrow> critical d d'"
  "ov7251_get_selection d st sel = Inr (ret, d', sel') \<Longrightarrow> d' = d \<or> critical d d'"
  "ov7251_get_frame_interval d w = (ret, ival, d') \<Longrightarrow> d' = d \<or> critical d d'"
proof -
  have k: "critical d (kdo Mutex_unlock (kdo Mutex_lock d))" by (rule criticalI [OF inert_refl]) simp_all
  then show "ov7251_get_format d st f = Inr (ret, d', f') \<Longrightarrow> critical d d'"
    "ov7251_get_selection d st sel = Inr (ret, d', sel') \<Longrightarrow> d' = d \<or> critical d d'"
    "ov7251_get_frame_interval d w = (ret, ival, d') \<Longrightarrow> d' = d \<or> critical d d'"
    by (auto simp: ov7251_get_format_def ov7251_get_selection_def ov7251_get_frame_interval_def Let_def
        split: option.splits if_splits)
qed

section \<open>The life of the camera\<close>

definition ov7251_user_ctrl :: "env \<Rightarrow> cid \<Rightarrow> int \<Rightarrow> ov7251 \<Rightarrow> int \<times> ov7251" where
  "ov7251_user_ctrl E c v d =
     (let (ret, d) = set_ctrl (ov7251_services E) c v (kdo Mutex_lock d) in (ret, kdo Mutex_unlock d))"

definition ov7251_runtime_suspend :: "env \<Rightarrow> ov7251 \<Rightarrow> ov7251" where
  "ov7251_runtime_suspend E d = (snd (ov7251_set_power_off E d))\<lparr>rpm_active := False\<rparr>"

inductive ov7251_client :: "env \<Rightarrow> ((u32 \<times> u32) list \<Rightarrow> u32 \<Rightarrow> u32 \<Rightarrow> nat) \<Rightarrow> ov7251 \<Rightarrow> ov7251 \<Rightarrow> bool"
  for E N where
  set_format: "ov7251_set_format (ov7251_services E) N d st f = Inr (ret, d', st', f') \<Longrightarrow> ov7251_client E N d d'"
| get_format: "ov7251_get_format d st f = Inr (ret, d', f') \<Longrightarrow> ov7251_client E N d d'"
| get_selection: "ov7251_get_selection d st sel = Inr (ret, d', sel') \<Longrightarrow> ov7251_client E N d d'"
| set_interval: "ov7251_set_frame_interval (ov7251_services E) d w t = Inr (ret, d', t') \<Longrightarrow> ov7251_client E N d d'"
| get_interval: "ov7251_get_frame_interval d w = (ret, ival, d') \<Longrightarrow> ov7251_client E N d d'"
| set_control: "ov7251_user_ctrl E c v d = (ret, d') \<Longrightarrow> ov7251_client E N d d'"

definition ov7251_ops :: "env \<Rightarrow> ((u32 \<times> u32) list \<Rightarrow> u32 \<Rightarrow> u32 \<Rightarrow> nat) \<Rightarrow> ov7251 camera_ops" where
  "ov7251_ops E N =
     \<lparr>start_op = (\<lambda>d ret d'. ov7251_s_stream (ov7251_services E) E True d = Inr (ret, d')),
      stop_op = (\<lambda>d d'. \<exists>ret. ov7251_s_stream (ov7251_services E) E False d = Inr (ret, d')),
      client_op = ov7251_client E N,
      suspend_op = (\<lambda>d d'. d' = ov7251_runtime_suspend E d)\<rparr>"

abbreviation ov7251_step where
  "ov7251_step E N \<equiv> camera_step (ov7251_ops E N)"

text \<open>Starting moves no rail but by a resume, and leaves the device active when it succeeds.\<close>

lemma ov7251_start_rails:
  assumes S: "stream_power S True W" and res: "ov7251_s_stream S E True d = Inr (ret, d')"
  shows "rail_slack W d' = rail_slack W d \<and> (ret = 0 \<longrightarrow> rpm_active d')"
proof -
  note k = stream_power.slack_kdo [OF S] and b = stream_power.slack_bus [OF S]
    and h = stream_power.slack_setup [OF S] and re = stream_power.resume_rails [OF S]
  show ?thesis
  proof (cases rule: s_stream_start [OF res])
    case 1
    then show ?thesis using re [OF 1(1)] by (simp add: k)
  next
    case (2 d1 x)
    then show ?thesis using re [OF 2(1)] b [OF 2(2)] by (simp add: k)
  next
    case (3 d1 d2 r3 d3 x)
    then show ?thesis using re [OF 3(1)] b [OF 3(2)] b [OF 3(4)] h [OF 3(3)] by (simp add: k)
  next
    case (4 d1 d2 r3 d3 x)
    note i = inert_bus [OF 4(2)] stream_power.setup_inert [OF S 4(4)] inert_bus [OF 4(6)]
    show ?thesis
      using 4 re [OF 4(1)] b [OF 4(2)] b [OF 4(6)] h [OF 4(4)] i by (simp add: k inert_def)
  qed
qed

lemma ov7251_stop_rails:
  assumes S: "stream_power S True W" and res: "ov7251_s_stream S E False d = Inr (ret, d')"
  shows "rail_slack W d' = rail_slack W d"
proof -
  obtain ra da where a: "ov7251_ir_led_set E False (kdo Mutex_lock d) = (ra, da)" by fastforce
  obtain rb db where b: "ov7251_write_reg E OV7251_SC_MODE_SELECT OV7251_SC_MODE_SELECT_SW_STANDBY da = (rb, db)" by fastforce
  have "bus_step (kdo Mutex_lock d) db"
    using bus_step_trans [OF led_set(1) [of "kdo Mutex_lock d" E False, unfolded a snd_conv] write_reg(2) [OF b]] .
  from stream_power.slack_bus [OF S this] res show ?thesis
    by (auto simp: ov7251_s_stream_def a b Let_def stream_power.slack_kdo [OF S])
qed

lemma ov7251_client_keeps:
  assumes S: "stream_power (ov7251_services E) True W" and cl: "ov7251_client E N d d'" and free: "mutex_free d"
  shows "mutex_free d' \<and> rail_slack W d' = rail_slack W d \<and> pm_usage (trace d') = pm_usage (trace d) \<and>
    rpm_active d' = rpm_active d"
proof -
  note i = stream_power.controls_inert [OF S]
  have "d' = d \<or> critical d d'"
    using cl
  proof cases
    case (set_control c v ret)
    then show ?thesis using stream_power.user_ctrl_critical [OF S, of d c v]
      by (auto simp: ov7251_user_ctrl_def Let_def case_prod_beta)
  next
    case set_format
    then show ?thesis by (rule set_format_critical [OF i, THEN disjI2])
  next
    case get_format
    then show ?thesis by (rule getters_critical(1) [THEN disjI2])
  next
    case get_selection
    then show ?thesis by (rule getters_critical(2))
  next
    case set_interval
    then show ?thesis by (rule set_frame_interval_critical [OF i])
  next
    case get_interval
    then show ?thesis by (rule getters_critical(3))
  qed
  then show ?thesis using stream_power.critical_keeps [OF S _ free] free by blast
qed

lemma ov7251_suspend_pm: "pm_usage (trace (ov7251_runtime_suspend E d)) = pm_usage (trace d)"
  using power_no_rail_weigh(2) [where f = pm_weight, folded pm_usage_def] by (simp add: ov7251_runtime_suspend_def)

lemma ov7251_suspend_rails:
  "rpm_active d \<Longrightarrow> rail_slack ov7251_rails (ov7251_runtime_suspend E d) = rail_slack ov7251_rails d"
  by (simp add: ov7251_runtime_suspend_def rail_slack_def supply_power_off)

text \<open>The driver honours the contract for every list of rails its services keep to.\<close>

lemma ov7251_driver:
  assumes S: "stream_power (ov7251_services E) True W"
    and su: "\<And>d. rpm_active d \<Longrightarrow> rail_slack W (ov7251_runtime_suspend E d) = rail_slack W d"
  shows "camera_driver (ov7251_ops E N) W"
proof
  have core: "stream_core (ov7251_services E) True" using S by (simp add: stream_power_def)
  fix d d' :: ov7251 and r
  assume "start_op (ov7251_ops E N) d r d'" and free: "mutex_free d"
  then have s: "ov7251_s_stream (ov7251_services E) E True d = Inr (r, d')" by (simp add: ov7251_ops_def)
  show "mutex_free d' \<and> rail_slack W d' = rail_slack W d \<and>
      pm_usage (trace d') = pm_usage (trace d) + (if r = 0 then 1 else 0) \<and> (r = 0 \<longrightarrow> rpm_active d')"
    using stream_on_state [OF core free s] ov7251_start_rails [OF S s] by (auto split: if_splits)
next
  fix d d' :: ov7251
  assume "stop_op (ov7251_ops E N) d d'" and free: "mutex_free d"
  then obtain r where s: "ov7251_s_stream (ov7251_services E) E False d = Inr (r, d')" by (auto simp: ov7251_ops_def)
  then show "mutex_free d' \<and> rail_slack W d' = rail_slack W d \<and> pm_usage (trace d') = pm_usage (trace d) - 1"
    using stream_off_state [of "ov7251_services E" E d] ov7251_stop_rails [OF S s] free by auto
next
  fix d d' :: ov7251
  assume "client_op (ov7251_ops E N) d d'" and "mutex_free d"
  then show "mutex_free d' \<and> rail_slack W d' = rail_slack W d \<and> pm_usage (trace d') = pm_usage (trace d) \<and>
      rpm_active d' = rpm_active d"
    using ov7251_client_keeps [OF S] by (simp add: ov7251_ops_def)
next
  fix d d' :: ov7251
  assume "suspend_op (ov7251_ops E N) d d'" "rpm_active d" "mutex_free d"
  then show "mutex_free d' \<and> rail_slack W d' = rail_slack W d \<and> pm_usage (trace d') = pm_usage (trace d)"
    using su [of d] power_frame(4) [of E d] ov7251_suspend_pm [of E d]
    by (simp add: ov7251_ops_def ov7251_runtime_suspend_def)
next
  fix d :: ov7251
  show "\<exists>d'. stop_op (ov7251_ops E N) d d'"
    using stream_off_state [of "ov7251_services E" E d] by (auto simp: ov7251_ops_def)
qed

interpretation ov7251_life: camera_driver "ov7251_ops (pm_on_env E) N" "[]" for E N
  by (rule ov7251_driver [OF ov7251_use.stream_power_axioms]) (simp add: rail_slack_def)

interpretation ov7251_powered: camera_driver "ov7251_ops (pm_on_env (rails_env E)) N" ov7251_rails for E N
  by (rule ov7251_driver [OF ov7251_power.stream_power_axioms ov7251_suspend_rails])

section \<open>From the probe on\<close>

text \<open>What the probe does before it powers the sensor up.\<close>

lemma ov7251_inert_fields [simp]:
  "inert d (d\<lparr>link_freq_idx := i\<rparr>)" "inert d (d\<lparr>modes := ms\<rparr>)" "inert d (d\<lparr>current_mode := n\<rparr>)"
  "inert d (d\<lparr>xclk_freq := f\<rparr>)" "inert d (d\<lparr>pll_cfgs := c\<rparr>)" "inert d (d\<lparr>ctrl_ptr := q\<rparr>)" for d :: ov7251
  by (rule inert_same; simp)+

lemma ov7251_hwcfg_inert: "inert d (snd (ov7251_check_hwcfg E cfg d))"
  by (auto simp: ov7251_check_hwcfg_def inert_def rail_onlyD Let_def case_prod_beta split: option.splits)

lemma ov7251_resources_inert: "inert d (snd (ov7251_get_resources E d))"
  by (auto simp: ov7251_get_resources_def inert_def rail_onlyD Let_def case_prod_beta split: option.splits)

lemma ov7251_init_ctrls_inert:
  assumes "ov7251_init_ctrls E d = Inr p"
  shows "inert d (snd p)"
proof -
  have "inert d (snd (kcall E (Init V4l2_ctrl_handler_init) d))" by (rule inert_init) simp
  then show ?thesis
    using assms by (auto simp: ov7251_init_ctrls_def Let_def case_prod_beta split: if_splits
      intro!: ctrl_new_inert set_read_only_inert inert_init)
qed

lemma ov7251_detect_lock:
  "lock_run (trace (snd (ov7251_detect_chip E d))) x = lock_run (trace d) x"
  "lock_run (trace (snd (ov7251_read_cached E d))) x = lock_run (trace d) x"
proof -
  have r: "lock_run (trace (snd (snd (ov7251_read_reg E g y)))) x = lock_run (trace y) x" for g and y :: ov7251
    by (simp add: ov7251_read_reg_def Let_def case_prod_beta)
  have o: "trace (case v of Some b \<Rightarrow> x\<lparr>pre_isp_00 := b\<rparr> | None \<Rightarrow> x) = trace x"
    "trace (case v of Some b \<Rightarrow> x\<lparr>timing_format1 := b\<rparr> | None \<Rightarrow> x) = trace x"
    "trace (case v of Some b \<Rightarrow> x\<lparr>timing_format2 := b\<rparr> | None \<Rightarrow> x) = trace x" for v and x :: ov7251
    by (cases v; simp)+
  show "lock_run (trace (snd (ov7251_detect_chip E d))) x = lock_run (trace d) x"
    "lock_run (trace (snd (ov7251_read_cached E d))) x = lock_run (trace d) x"
    by (simp_all add: ov7251_detect_chip_def ov7251_read_cached_def Let_def case_prod_beta r o)
qed

lemma ov7251_probe_start_state:
  assumes ret: "probe_returns E" and ok: "ov7251_probe_start E d = (0, d')"
  shows "lock_run (trace d') x = lock_run (trace d) x" "pm_usage (trace d') = pm_usage (trace d)" "rpm_active d'"
    "f \<in> set ov7251_rails \<Longrightarrow> weigh f (trace d') = weigh f (trace d) + 1"
proof -
  have rails: "rails_return E" using ret by (simp add: probe_returns_def)
  show "lock_run (trace d') x = lock_run (trace d) x" "rpm_active d'"
    using ok by (auto simp: ov7251_probe_start_def Let_def case_prod_beta power_frame ov7251_detect_lock split: if_splits)
  show "pm_usage (trace d') = pm_usage (trace d)"
    using probe_start_weigh7(1) [OF ret, of pm_weight 0 0 0 1 0 0 0 d] ok by (simp add: power_no_rail_weigh pm_usage_def)
  have "weigh (supply_weight v) (trace d') = weigh (supply_weight v) (trace d) + 1" for v
    using probe_start_weigh7(1) [OF ret, of "supply_weight v" 1 0 0 0 0 0 0 d] ok
    by (simp add: supply_power_on [OF rails] supply_power_off)
  moreover have "weigh clk_weight (trace d') = weigh clk_weight (trace d) + 1"
    using probe_start_weigh7(1) [OF ret, of clk_weight 1 0 0 0 0 0 0 d] ok
    by (simp add: supply_power_on [OF rails] supply_power_off)
  ultimately show "f \<in> set ov7251_rails \<Longrightarrow> weigh f (trace d') = weigh f (trace d) + 1" by auto
qed

text \<open>The steps of a probe that succeeds.\<close>

lemma ov7251_probe_ok:
  assumes S: "inert_services S" and ok: "ov7251_probe S N E cfg d = Inr (0, d')"
  obtains d1 d2 where "inert (d\<lparr>rpm_active := False\<rparr>) d1" "ov7251_probe_start E d1 = (0, d2)" "critical d2 d'"
proof -
  obtain dk where k: "kcall E (Init Devm_kzalloc) d = (0, dk)"
    using ok by (auto simp: ov7251_probe_def errno_defs split: prod.splits if_splits)
  obtain da where a: "ov7251_check_hwcfg E cfg (ov7251_zeroed dk) = (0, da)"
    using ok by (auto simp: ov7251_probe_def k errno_defs split: prod.splits if_splits)
  obtain db where b: "ov7251_get_resources E (ov7251_module_params da) = (0, db)"
    using ok by (auto simp: ov7251_probe_def k a errno_defs split: prod.splits if_splits)
  let ?p = "(kdo (Init Mutex_init) db)\<lparr>current_mode := 0\<rparr>"
  obtain dc where c: "ov7251_init_ctrls E ?p = Inr (0, dc)"
    using ok by (auto simp: ov7251_probe_def k a b Let_def split: if_splits sum.splits)
  let ?q = "kdo (Init V4l2_i2c_subdev_init) dc"
  obtain dd where s: "ov7251_probe_start E ?q = (0, dd)"
    using ok by (auto simp: ov7251_probe_def k a b c Let_def split: prod.splits if_splits sum.splits)
  obtain x y st f where i: "ov7251_set_format S N dd st f = Inr (x, d', y)"
    using ok by (auto simp: ov7251_probe_def ov7251_init_state_def k a b c s Let_def split: sum.splits)
  have z: "inert (d\<lparr>rpm_active := False\<rparr>) (ov7251_zeroed dk)"
    using kcall_trace [of E "Init Devm_kzalloc" d] k
    by (simp add: inert_def ov7251_zeroed_def rail_onlyD)
  have m: "inert da (ov7251_module_params da)" by (simp add: ov7251_module_params_def inert_def)
  have "inert (ov7251_zeroed dk) da" "inert (ov7251_module_params da) db"
    using ov7251_hwcfg_inert [of "ov7251_zeroed dk" E cfg] ov7251_resources_inert [of "ov7251_module_params da" E] a b by simp_all
  then have "inert (d\<lparr>rpm_active := False\<rparr>) db" using z m by (blast intro: inert_trans)
  moreover have "inert db ?q"
    using inert_trans [OF inert_trans [OF inert_init(2) [OF inert_refl] ov7251_inert_fields(3)] ov7251_init_ctrls_inert [OF c, simplified]]
    by (rule inert_init)
  ultimately have "inert (d\<lparr>rpm_active := False\<rparr>) ?q" by (rule inert_trans)
  moreover have "critical dd d'"
    using i by (cases y) (auto intro: set_format_critical [OF S])
  ultimately show ?thesis using s that by blast
qed

lemma ov7251_remove_rails:
  "f \<in> set ov7251_rails \<Longrightarrow>
     weigh f (trace (ov7251_remove E d)) = weigh f (trace d) - (if remove_status E d = 0 then 1 else 0)"
  by (auto simp: ov7251_remove_def remove_status_def supply_power_off Let_def case_prod_beta)

lemma rails_id: "rails_return E \<Longrightarrow> rails_env E = E"
  by (rule env.equality) (auto simp: rails_env_def rails_return_def fun_eq_iff min_absorb2 split: ev.split)

text \<open>What a ov7251_probed device holds.\<close>

lemma ov7251_probed:
  assumes S: "inert_services S" and ret: "probe_returns E" and "trace d = []"
    and ok: "ov7251_probe S N E cfg d = Inr (0, d')"
  shows "mutex_free d'" "pm_usage (trace d') = 0" "rpm_active d'" "rail_slack ov7251_rails d' = [0, 0, 0, 0]"
proof -
  obtain d1 d2 where 1: "inert (d\<lparr>rpm_active := False\<rparr>) d1" and 2: "ov7251_probe_start E d1 = (0, d2)"
    and 3: "critical d2 d'"
    using ov7251_probe_ok [OF S ok] by blast
  note ps = ov7251_probe_start_state [OF ret 2]
  obtain x where x: "inert (kdo Mutex_lock d2) x" "inert (kdo Mutex_unlock x) d'" using 3 by (auto simp: critical_def)
  have a: "mutex_free d1" "pm_usage (trace d1) = 0" "f \<in> set ov7251_rails \<Longrightarrow> weigh f (trace d1) = 0" for f
    using 1 assms(3) by (auto simp: inert_def)
  then show "mutex_free d'" "pm_usage (trace d') = 0" "rpm_active d'"
    using x ps(1-3) by (simp_all add: inert_def)
  have "weigh f (trace d') = 1" if "f \<in> set ov7251_rails" for f
  proof -
    have "rail_only f" using that by auto
    then show ?thesis using x ps(4) [OF that] a(3) [OF that] by (simp add: inert_def rail_onlyD)
  qed
  then show "rail_slack ov7251_rails d' = [0, 0, 0, 0]"
    using x ps(3) by (simp add: rail_slack_def inert_def)
qed

text \<open>The references held on the rails.\<close>

abbreviation ov7251_rail_refs :: "ov7251 \<Rightarrow> int list" where
  "ov7251_rail_refs d \<equiv> map (\<lambda>f. weigh f (trace d))
     [supply_weight Vdddo, supply_weight Vdda, supply_weight Vddd, clk_weight]"

text \<open>
  C3: From a successful probe of the OV7251 on, through every sequence of starts, stops, client
  calls and runtime suspends, while pm_runtime_get_if_in_use reports no error and the rail, media
  and registration calls return zero or a negative error, and whichever of these or of the bus
  calls fail: the mutex is free between calls, one PM reference is held exactly while the sensor
  streams, the clock and each supply are held once exactly while the device is active, a streaming
  device is active, and removal gives the rails back when the PM core tells it the state of the
  device.
\<close>

theorem ov7251_lifetime:
  assumes "\<forall>tr. 0 \<le> ret_of E tr (Pm Pm_get_if_in_use)" and "probe_returns E" and "trace d = []"
    and "ov7251_probe (ov7251_services E) N E cfg d = Inr (0, d1)"
    and "(ov7251_step E N)\<^sup>*\<^sup>* (False, d1) (on, d2)"
  shows "lock_run (trace d2) (Some False) = Some False \<and> pm_usage (trace d2) = (if on then 1 else 0) \<and>
    ov7251_rail_refs d2 = (if rpm_active d2 then [1, 1, 1, 1] else [0, 0, 0, 0]) \<and> (on \<longrightarrow> rpm_active d2) \<and>
    ((remove_status E d2 = 0 \<longleftrightarrow> rpm_active d2) \<longrightarrow> ov7251_rail_refs (ov7251_remove E d2) = [0, 0, 0, 0])"
proof -
  have rails: "rails_return E" using assms(2) by (simp add: probe_returns_def)
  have E: "pm_on_env (rails_env E) = E" by (simp add: rails_id [OF rails] pm_on_id [OF assms(1)])
  have S: "inert_services (ov7251_services E)" using ov7251_services_inert(1) [of "rails_env E"] by (simp add: E)
  note p = ov7251_probed [OF S assms(2-4)]
  note r = ov7251_powered.reachable [of E N, unfolded E, OF assms(5) p(1)]
  have w: "ov7251_rail_refs d2 = (if rpm_active d2 then [1, 1, 1, 1] else [0, 0, 0, 0])"
    using r(2) p(4) by (simp add: rail_slack_def)
  then have "(remove_status E d2 = 0 \<longleftrightarrow> rpm_active d2) \<longrightarrow> ov7251_rail_refs (ov7251_remove E d2) = [0, 0, 0, 0]"
    by (cases "rpm_active d2") (simp_all add: ov7251_remove_rails)
  then show ?thesis using r(1,3,4) p(2) w by simp
qed

section \<open>A machine with an OV7251\<close>

definition live7_env :: env where
  "live7_env = \<lparr>ret_of = (\<lambda>tr e. if e = Init Fwnode_graph_get_next_endpoint then 1 else 0),
     val_of = (\<lambda>tr e. if e = Init Clk_get_rate then 19200000
       else if fst (last tr) = Bus (I2c_master_send [0x30, 0x0a]) then 0x77
       else if fst (last tr) = Bus (I2c_master_send [0x30, 0x0b]) then 0x50 else 0)\<rparr>"

lemma live7_env [simp]: "ret_of live7_env tr (Bus b) = 0" "ret_of live7_env tr (Rail a) = 0"
  "ret_of live7_env tr (Pm p) = 0" "i \<noteq> Fwnode_graph_get_next_endpoint \<Longrightarrow> ret_of live7_env tr (Init i) = 0"
  "ret_of live7_env tr (Init Fwnode_graph_get_next_endpoint) = 1" "val_of live7_env tr (Init Clk_get_rate) = 19200000"
  by (simp_all add: live7_env_def)

lemma live7_power: "fst (ov7251_set_power_on live7_env d) = 0"
proof -
  have w: "fst (ov7251_write_reg live7_env r v d) = 0" for r v and d :: ov7251
    by (simp add: ov7251_write_reg_def Let_def case_prod_beta)
  have "fst (ov7251_set_register_array live7_env ws d) = 0" for ws and d :: ov7251
    unfolding ov7251_set_register_array_def by (induction ws arbitrary: d) (auto simp: Let_def case_prod_beta w)
  then show ?thesis
    by (simp add: ov7251_set_power_on_def ov7251_regulators_enable_def Let_def case_prod_beta)
qed

lemma live7_reads: "fst (ov7251_detect_chip live7_env d) = 0" "fst (ov7251_read_cached live7_env d) = 0"
proof -
  have r: "fst (ov7251_read_reg live7_env r d) = 0" "fst (snd (ov7251_read_reg live7_env r d)) = Some (ucast
      (if [reg_hi r, reg_lo r] = [0x30, 0x0a] then 0x77 else if [reg_hi r, reg_lo r] = [0x30, 0x0b] then 0x50 else 0 :: u64))"
    for r and d :: ov7251
    by (simp_all add: ov7251_read_reg_def Let_def case_prod_beta) (simp_all add: live7_env_def)
  show "fst (ov7251_detect_chip live7_env d) = 0" "fst (ov7251_read_cached live7_env d) = 0"
    by (simp_all add: ov7251_detect_chip_def ov7251_read_cached_def Let_def case_prod_beta r)
      (simp_all add: ov7251_regs reg_hi_def reg_lo_def)
qed

lemma live7_probe: "\<exists>d1. ov7251_probe S N live7_env (ov7251_cfg [240000000]) ov7251_sample = Inr (0, d1)"
proof -
  let ?E = live7_env
  have h: "fst (ov7251_check_hwcfg ?E (ov7251_cfg [240000000]) x) = 0" "link_freq_idx (snd (ov7251_check_hwcfg ?E (ov7251_cfg [240000000]) x)) = 0"
    "win_timing (snd (ov7251_check_hwcfg ?E (ov7251_cfg [240000000]) x)) = win_timing x" for x
    by (simp_all add: ov7251_check_hwcfg_def ov7251_cfg_def Let_def case_prod_beta first_supported link_freq_def kcall_def kdo_def)
  have g: "fst (ov7251_get_resources ?E x) = 0" "link_freq_idx (snd (ov7251_get_resources ?E x)) = link_freq_idx x" for x
    by (simp_all add: ov7251_get_resources_def supported_xclk_rates_def Let_def case_prod_beta kcall_def kread_def)
  have n: "fst (v4l2_ctrl_new ?E c k s) = fst s" for c k and s :: "int \<times> ov7251"
    by (simp add: v4l2_ctrl_new_def Let_def case_prod_beta)
  have r: "fst (set_read_only c s) = fst s" for c and s :: "int \<times> ov7251"
    by (simp add: set_read_only_def)
  have c: "\<exists>y. ov7251_init_ctrls ?E x = Inr (0, y)" if "link_freq_idx x = 0" for x
    using that by (auto simp: ov7251_init_ctrls_def pixel_rates_def Let_def case_prod_beta n r prod_eq_iff)
  have p: "fst (ov7251_probe_start ?E x) = 0" for x
    by (simp add: ov7251_probe_start_def Let_def case_prod_beta live7_power live7_reads)
  have m: "link_freq_idx (ov7251_module_params x) = link_freq_idx x" if "win_timing x = 0" for x
    using that by (simp add: ov7251_module_params_def)
  have w: "win_timing (ov7251_zeroed x) = win_timing x" for x by (simp add: ov7251_zeroed_def)
  let ?k = "snd (kcall ?E (Init Devm_kzalloc) ov7251_sample)"
  let ?b = "snd (ov7251_get_resources ?E (ov7251_module_params (snd (ov7251_check_hwcfg ?E (ov7251_cfg [240000000]) (ov7251_zeroed ?k)))))"
  have "win_timing ?k = 0" by (simp add: kcall_def ov7251_sample_def Let_def)
  then have "link_freq_idx ((kdo (Init Mutex_init) ?b)\<lparr>current_mode := 0\<rparr>) = 0"
    by (simp add: kdo_def g h m w)
  then obtain y where y: "ov7251_init_ctrls ?E ((kdo (Init Mutex_init) ?b)\<lparr>current_mode := 0\<rparr>) = Inr (0, y)"
    using c by blast
  obtain q where q: "ov7251_init_state S N (snd (ov7251_probe_start ?E (kdo (Init V4l2_i2c_subdev_init) y))) None = Inr q"
    using init_state_total by blast
  show ?thesis by (cases q) (simp add: ov7251_probe_def h g Let_def case_prod_beta y p q)
qed

lemma ov7251_lifetime_witness:
  "\<exists>d1. ov7251_probe (ov7251_services live7_env) first_nearest live7_env (ov7251_cfg [240000000]) ov7251_sample = Inr (0, d1) \<and>
     ov7251_rail_refs d1 = [1, 1, 1, 1] \<and> ov7251_rail_refs (ov7251_runtime_suspend live7_env d1) = [0, 0, 0, 0]"
proof -
  let ?E = live7_env
  obtain d1 where p: "ov7251_probe (ov7251_services ?E) first_nearest ?E (ov7251_cfg [240000000]) ov7251_sample = Inr (0, d1)"
    using live7_probe by blast
  have e: "\<forall>tr. 0 \<le> ret_of ?E tr (Pm Pm_get_if_in_use)" "probe_returns ?E" "trace ov7251_sample = []"
    by (simp_all add: probe_returns_def rails_return_def ov7251_sample_def)
  note l = ov7251_lifetime [OF e p]
  have a: "rpm_active d1" "pm_usage (trace d1) = 0"
    using ov7251_probed [OF _ e(2,3) p] ov7251_services_inert(1) [of ?E] pm_on_id [OF e(1)] by simp_all
  then have "(ov7251_step ?E first_nearest)\<^sup>*\<^sup>* (False, d1) (False, ov7251_runtime_suspend ?E d1)"
    by (intro r_into_rtranclp camera_step.suspend) (simp_all add: ov7251_ops_def)
  from l [OF this] l [OF rtranclp.rtrancl_refl] a p
  show ?thesis by (simp add: ov7251_runtime_suspend_def)
qed

section \<open>Reachable states without assumptions on the rails\<close>

text \<open>
  In every state reachable by starting and stopping the stream, setting formats, intervals and
  controls in any order, the mutex is free and exactly one runtime PM reference is held while the
  sensor streams, none otherwise.
\<close>

theorem ov7251_reachable_balanced:
  assumes "\<forall>tr. 0 \<le> ret_of E tr (Pm Pm_get_if_in_use)" and "(ov7251_step E N)\<^sup>*\<^sup>* (False, d) (on, d')"
    and "lock_run (trace d) (Some False) = Some False"
  shows "lock_run (trace d') (Some False) = Some False \<and>
    pm_usage (trace d') = pm_usage (trace d) + (if on then 1 else 0)"
  using ov7251_life.reachable(1,3) [of E N, unfolded pm_on_id [OF assms(1)], OF assms(2,3)] ..

text \<open>
  C37: From every reachable streaming state the stream can be stopped, also when the sensor does
  not answer, and the mutex is free and the runtime PM references are those of the start.
\<close>

theorem ov7251_can_stop:
  assumes "\<forall>tr. 0 \<le> ret_of E tr (Pm Pm_get_if_in_use)" and "(ov7251_step E N)\<^sup>*\<^sup>* (False, d) (True, d')"
    and "lock_run (trace d) (Some False) = Some False"
  shows "\<exists>d''. ov7251_step E N (True, d') (False, d'') \<and> pm_usage (trace d'') = pm_usage (trace d) \<and>
    lock_run (trace d'') (Some False) = Some False"
  using ov7251_life.can_stop [of E N, unfolded pm_on_id [OF assms(1)], OF assms(2,3)] by blast

lemma sample7_started: "\<exists>d'. (ov7251_step use_env N)\<^sup>*\<^sup>* (False, ov7251_sample) (True, d')"
proof -
  obtain d' where "ov7251_s_stream (ov7251_services use_env) use_env True ov7251_sample = Inr (0, d')"
    using sample7_stream by blast
  then have "start_op (ov7251_ops use_env N) ov7251_sample 0 d'" by (simp add: ov7251_ops_def)
  from camera_step.start [OF this] show ?thesis by auto
qed

lemma use_env_on: "\<forall>tr. 0 \<le> ret_of use_env tr (Pm Pm_get_if_in_use)"
  by (simp add: use_env_def)

theorem ov7251_reachable_balanced_witness:
  "\<exists>d'. (ov7251_step use_env (\<lambda>_ _ _. 0))\<^sup>*\<^sup>* (False, ov7251_sample) (True, d') \<and>
     pm_usage (trace d') = pm_usage (trace ov7251_sample) + 1"
proof -
  obtain d' where r: "(ov7251_step use_env (\<lambda>_ _ _. 0))\<^sup>*\<^sup>* (False, ov7251_sample) (True, d')"
    using sample7_started by blast
  from ov7251_reachable_balanced [OF use_env_on r sample7(2)] r show ?thesis by auto
qed

theorem ov7251_can_stop_witness:
  "\<exists>d' d''. (ov7251_step use_env (\<lambda>_ _ _. 0))\<^sup>*\<^sup>* (False, ov7251_sample) (True, d') \<and>
     ov7251_step use_env (\<lambda>_ _ _. 0) (True, d') (False, d'')"
proof -
  obtain d' where r: "(ov7251_step use_env (\<lambda>_ _ _. 0))\<^sup>*\<^sup>* (False, ov7251_sample) (True, d')"
    using sample7_started by blast
  from ov7251_can_stop [OF use_env_on r sample7(2)] r show ?thesis by blast
qed

end
