(* ===== verification/Ov7251_Stream.thy ===== *)
theory Ov7251_Stream
  imports Ov7251_Power
begin

text \<open>
  What the OV7251 is programmed with when a stream starts (\<open>ov7251.c\<close>, \<open>ov7251_s_stream\<close>): the PLL and
  mode registers, over them the controls that \<open>__v4l2_ctrl_handler_setup\<close> applies, and over those the
  mode register and the illuminator. Each control owns some registers; a step that touches some
  controls leaves the registers of the others as they were.
\<close>

section \<open>The registers of a control\<close>

fun ov7251_ctrl_regs :: "cid \<Rightarrow> u16 set" where
  "ov7251_ctrl_regs V4L2_CID_EXPOSURE = {OV7251_AEC_EXPO_0, OV7251_AEC_EXPO_0 + 1, OV7251_AEC_EXPO_0 + 2}"
| "ov7251_ctrl_regs V4L2_CID_ANALOGUE_GAIN = {OV7251_AEC_AGC_ADJ_0, OV7251_AEC_AGC_ADJ_0 + 1}"
| "ov7251_ctrl_regs V4L2_CID_TEST_PATTERN = {OV7251_PRE_ISP_00}"
| "ov7251_ctrl_regs V4L2_CID_HFLIP = {OV7251_TIMING_FORMAT2}"
| "ov7251_ctrl_regs V4L2_CID_VFLIP = {OV7251_TIMING_FORMAT1}"
| "ov7251_ctrl_regs V4L2_CID_VBLANK = {OV7251_TIMING_VTS_REG, OV7251_TIMING_VTS_REG + 1}"
| "ov7251_ctrl_regs _ = {}"

text \<open>The cached register of a control, if it has one.\<close>

fun ov7251_cached :: "ov7251 \<Rightarrow> cid \<Rightarrow> u8" where
  "ov7251_cached d V4L2_CID_TEST_PATTERN = pre_isp_00 d"
| "ov7251_cached d V4L2_CID_HFLIP = timing_format2 d"
| "ov7251_cached d V4L2_CID_VFLIP = timing_format1 d"
| "ov7251_cached _ _ = 0"

text \<open>The bit of that register the control is about.\<close>

fun ov7251_ctrl_bit :: "cid \<Rightarrow> u8" where
  "ov7251_ctrl_bit V4L2_CID_TEST_PATTERN = OV7251_PRE_ISP_00_TEST_PATTERN"
| "ov7251_ctrl_bit V4L2_CID_HFLIP = OV7251_TIMING_FORMAT2_MIRROR"
| "ov7251_ctrl_bit V4L2_CID_VFLIP = OV7251_TIMING_FORMAT1_VFLIP"
| "ov7251_ctrl_bit _ = 0"

definition with_bit :: "u8 \<Rightarrow> u8 \<Rightarrow> int \<Rightarrow> u8" where
  "with_bit b k v = (if v \<noteq> 0 then b OR k else b AND NOT k)"

text \<open>The registers \<open>R\<close> of the sensor show the value \<open>v\<close> of a control.\<close>

fun ctrl_shown :: "regmem \<Rightarrow> ov7251 \<Rightarrow> cid \<Rightarrow> int \<Rightarrow> bool" where
  "ctrl_shown R d V4L2_CID_EXPOSURE v = (exposure_of R = take_bit 16 (u32_of_int v))"
| "ctrl_shown R d V4L2_CID_ANALOGUE_GAIN v = (gain_of R = take_bit 10 (u32_of_int v))"
| "ctrl_shown R d V4L2_CID_VBLANK v = (vts_of R = take_bit 16 (md_height (cur_mode d) + u32_of_int v))"
| "ctrl_shown R d V4L2_CID_HFLIP v = (R OV7251_TIMING_FORMAT2 = with_bit (timing_format2 d) OV7251_TIMING_FORMAT2_MIRROR v)"
| "ctrl_shown R d V4L2_CID_VFLIP v = (R OV7251_TIMING_FORMAT1 = with_bit (timing_format1 d) OV7251_TIMING_FORMAT1_VFLIP v)"
| "ctrl_shown R d V4L2_CID_TEST_PATTERN v = (R OV7251_PRE_ISP_00 = with_bit (pre_isp_00 d) OV7251_PRE_ISP_00_TEST_PATTERN v)"
| "ctrl_shown R d _ v = True"

lemma with_bit [simp]:
  "with_bit (with_bit b k v) k v = with_bit b k v" "with_bit b k v AND NOT k = b AND NOT k"
  by (rule bit_word_eqI; auto simp: with_bit_def bit_simps)+

lemma with_bit_cong: "b AND NOT k = b' AND NOT k \<Longrightarrow> with_bit b k v = with_bit b' k v"
proof -
  have "with_bit b k v = (b AND NOT k) OR (if v \<noteq> 0 then k else 0)" for b
    by (rule bit_word_eqI) (auto simp: with_bit_def bit_simps)
  then show "b AND NOT k = b' AND NOT k \<Longrightarrow> with_bit b k v = with_bit b' k v" by simp
qed

text \<open>A step that touches only the registers and caches of the controls \<open>C\<close>.\<close>

definition touches :: "cid set \<Rightarrow> ov7251 \<Rightarrow> ov7251 \<Rightarrow> bool" where
  "touches C d d' \<longleftrightarrow> (\<forall>m a. a \<notin> \<Union> (ov7251_ctrl_regs ` C) \<longrightarrow> i2c_chip m d' a = i2c_chip m d a) \<and>
     (\<forall>c. c \<notin> C \<longrightarrow> ov7251_cached d' c = ov7251_cached d c) \<and>
     (\<forall>c. ov7251_cached d' c AND NOT (ov7251_ctrl_bit c) = ov7251_cached d c AND NOT (ov7251_ctrl_bit c)) \<and>
     cur_mode d' = cur_mode d"

lemma touches_refl [simp]: "touches C d d"
  by (simp add: touches_def)

lemma touches_trans [trans]: "touches C d x \<Longrightarrow> touches C x d' \<Longrightarrow> touches C d d'"
  by (simp add: touches_def)

lemma touches_mono: "touches C d d' \<Longrightarrow> C \<subseteq> D \<Longrightarrow> touches D d d'"
  unfolding touches_def by (simp add: subset_iff) blast

lemma cached_quiet: "quiet d' = quiet d \<Longrightarrow> ov7251_cached d' c = ov7251_cached d c"
  using quiet_fields(4) [of d' d] by (cases d, cases d', cases c) auto

lemma touches_quiet:
  assumes "quiet d' = quiet d" and "written (trace d') = written (trace d)"
  shows "touches C d d'"
  using cached_quiet [OF assms(1)] keep_fields(10) [OF keep_quiet [OF assms(1)]] assms(2)
  by (simp add: touches_def i2c_chip_def)

text \<open>No two controls share a register, so a control not touched is shown as before.\<close>

lemma ctrl_regs_disjoint: "c \<noteq> q \<Longrightarrow> ov7251_ctrl_regs c \<inter> ov7251_ctrl_regs q = {}"
  by (cases c; cases q; simp add: ov7251_regs)

lemma shown_cong:
  assumes "\<And>a. a \<in> ov7251_ctrl_regs c \<Longrightarrow> R' a = R a" and "ov7251_cached d' c = ov7251_cached d c"
    and "cur_mode d' = cur_mode d"
  shows "ctrl_shown R' d' c v = ctrl_shown R d c v"
  using assms by (cases c) (simp_all add: exposure_of_def gain_of_def vts_of_def)

lemma shown_cached:
  assumes "ov7251_cached d' c AND NOT (ov7251_ctrl_bit c) = ov7251_cached d c AND NOT (ov7251_ctrl_bit c)"
    and "cur_mode d' = cur_mode d"
  shows "ctrl_shown R d' c v = ctrl_shown R d c v"
  using with_bit_cong [OF assms(1), of v] assms(2) by (cases c) simp_all

lemma touches_shown:
  assumes t: "touches C d d'" and c: "c \<notin> C"
  shows "ctrl_shown (i2c_chip m d') d' c v = ctrl_shown (i2c_chip m d) d c v"
proof (rule shown_cong)
  show "i2c_chip m d' a = i2c_chip m d a" if a: "a \<in> ov7251_ctrl_regs c" for a
  proof -
    have "a \<notin> ov7251_ctrl_regs q" if "q \<in> C" for q
      using ctrl_regs_disjoint [of c q] c a that by (metis disjoint_iff)
    then show ?thesis using t unfolding touches_def by blast
  qed
qed (use t c in \<open>simp_all add: touches_def\<close>)

section \<open>Applying a control\<close>

lemma write_reg_chip:
  assumes "ov7251_write_reg E r b d = (ret, d')"
  shows "i2c_chip m d' = (if ret = 0 then (i2c_chip m d)(r := b) else i2c_chip m d)"
  using write_reg(1,4) [OF assms] by (auto simp: i2c_chip_def)

lemma send_shows:
  fixes d :: ov7251
  assumes k: "kcall E (Bus (I2c_master_send ([reg_hi a, reg_lo a] @ bs))) d = (q, d1)"
    and regs: "\<And>m x. x \<notin> ov7251_ctrl_regs c \<Longrightarrow> mem_after m (send_writes ([reg_hi a, reg_lo a] @ bs)) x = m x"
    and shown: "\<And>R d'. cur_mode d' = cur_mode d \<Longrightarrow>
      ctrl_shown (mem_after R (send_writes ([reg_hi a, reg_lo a] @ bs))) d' c v"
  shows "touches (if q < 0 then {} else {c}) d d1" "\<not> q < 0 \<Longrightarrow> ctrl_shown (i2c_chip m d1) d1 c v"
proof -
  have d1: "q = ret_of E (trace d) (Bus (I2c_master_send ([reg_hi a, reg_lo a] @ bs)))"
    "trace d1 = trace d @ [(Bus (I2c_master_send ([reg_hi a, reg_lo a] @ bs)), q)]" "quiet d1 = quiet d"
    using k by (auto simp: kcall_def Let_def quiet_def)
  have chip: "i2c_chip m d1 = (if q < 0 then i2c_chip m d
      else mem_after (i2c_chip m d) (send_writes ([reg_hi a, reg_lo a] @ bs)))" for m
    by (simp add: i2c_chip_def d1(2))
  note cur = keep_fields(10) [OF keep_quiet [OF d1(3)]]
  show "touches (if q < 0 then {} else {c}) d d1"
    using chip regs cached_quiet [OF d1(3)] cur by (simp add: touches_def)
  show "\<not> q < 0 \<Longrightarrow> ctrl_shown (i2c_chip m d1) d1 c v" using shown [OF cur] chip by simp
qed

text \<open>The three controls of a cached register are one write and, if it succeeds, one cache update.\<close>

lemma cached_result:
  assumes c: "c \<in> {V4L2_CID_HFLIP, V4L2_CID_VFLIP, V4L2_CID_TEST_PATTERN}"
    and ap: "ov7251_apply_ctrl E c v d = Inr (r, d')"
  shows "touches (if r = 0 then {c} else {}) d d'" "r = 0 \<Longrightarrow> ctrl_shown (i2c_chip m d') d' c v"
proof -
  define f where "f = (\<lambda>x :: ov7251. case c of V4L2_CID_HFLIP \<Rightarrow> x\<lparr>timing_format2 := with_bit (timing_format2 d) OV7251_TIMING_FORMAT2_MIRROR v\<rparr>
    | V4L2_CID_VFLIP \<Rightarrow> x\<lparr>timing_format1 := with_bit (timing_format1 d) OV7251_TIMING_FORMAT1_VFLIP v\<rparr>
    | _ \<Rightarrow> x\<lparr>pre_isp_00 := with_bit (pre_isp_00 d) OV7251_PRE_ISP_00_TEST_PATTERN v\<rparr>)"
  define a where "a = (if c = V4L2_CID_HFLIP then OV7251_TIMING_FORMAT2 else if c = V4L2_CID_VFLIP then OV7251_TIMING_FORMAT1
    else OV7251_PRE_ISP_00)"
  obtain r1 d1 where w1: "ov7251_write_reg E a (with_bit (ov7251_cached d c) (ov7251_ctrl_bit c) v) d = (r1, d1)"
    by fastforce
  have r: "r1 = r" and d': "d' = (if r = 0 then f d1 else d1)"
    using c ap w1 by (auto simp: ov7251_apply_ctrl_def ov7251_set_hflip_def ov7251_set_vflip_def
        ov7251_set_test_pattern_def Let_def a_def f_def simp flip: with_bit_def)
  note w = w1 [unfolded r]
  note chip = write_reg_chip [OF w] and q = write_reg(3) [OF w]
  have same: "i2c_chip m (f d1) = i2c_chip m d1" "cur_mode (f d1) = cur_mode d1" for m
    using c by (auto simp: f_def i2c_chip_def cur_mode_def)
  have cache: "ov7251_cached (f d1) k = (if k = c then with_bit (ov7251_cached d c) (ov7251_ctrl_bit c) v else ov7251_cached d1 k)" for k
    using c by (cases k) (auto simp: f_def)
  have regs: "ov7251_ctrl_regs c = {a}" using c by (auto simp: a_def)
  show "touches (if r = 0 then {c} else {}) d d'"
    using chip cached_quiet [OF q] keep_fields(10) [OF keep_quiet [OF q]]
    by (simp add: touches_def d' same cache regs)
  show "r = 0 \<Longrightarrow> ctrl_shown (i2c_chip m d') d' c v"
    using chip [of m] cache [of c] c by (auto simp: d' same a_def)
qed

text \<open>The three others are one transfer to consecutive registers.\<close>

fun ov7251_field :: "ov7251 \<Rightarrow> cid \<Rightarrow> u32 \<Rightarrow> u16 \<times> u8 list" where
  "ov7251_field d V4L2_CID_EXPOSURE e = (OV7251_AEC_EXPO_0,
     [ucast (drop_bit 12 (e AND 0xf000)), ucast (drop_bit 4 (e AND 0x0ff0)), ucast (push_bit 4 (e AND 0x000f))])"
| "ov7251_field d V4L2_CID_ANALOGUE_GAIN e = (OV7251_AEC_AGC_ADJ_0, [ucast (drop_bit 8 (e AND 0x0300)), ucast (e AND 0xff)])"
| "ov7251_field d _ e = (OV7251_TIMING_VTS_REG,
     [ucast (drop_bit 8 ((md_height (cur_mode d) + e) AND 0xff00)), ucast ((md_height (cur_mode d) + e) AND 0x00ff)])"

lemma field_result:
  assumes c: "c = V4L2_CID_EXPOSURE \<or> c = V4L2_CID_ANALOGUE_GAIN \<or> c = V4L2_CID_VBLANK"
    and ap: "ov7251_apply_ctrl E c v d = Inr (r, d')"
  shows "touches (if r = 0 then {c} else {}) d d'" "r = 0 \<Longrightarrow> ctrl_shown (i2c_chip m d') d' c v"
proof -
  obtain a bs where f: "ov7251_field d c (u32_of_int v) = (a, bs)" by fastforce
  have ws: "send_writes ([reg_hi a, reg_lo a] @ bs) = zip [a, a + 1, a + 2] bs"
    using c f by auto
  obtain q x where k: "kcall E (Bus (I2c_master_send ([reg_hi a, reg_lo a] @ bs))) d = (q, x)" by fastforce
  have "ov7251_apply_ctrl E c v d = Inr (if q < 0 then q else 0, x)"
    using c f k by (elim disjE; simp add: ov7251_apply_ctrl_def set_fields_unfold Let_def)
  then have r: "r = (if q < 0 then q else 0)" and x: "x = d'" using ap by simp_all
  have regs: "b \<notin> ov7251_ctrl_regs c \<Longrightarrow> mem_after m (send_writes ([reg_hi a, reg_lo a] @ bs)) b = m b" for m b
    unfolding ws using c f by (elim disjE; simp; elim conjE; hypsubst; simp)
  have shown: "cur_mode y = cur_mode d \<Longrightarrow> ctrl_shown (mem_after R (send_writes ([reg_hi a, reg_lo a] @ bs))) y c v" for R y
    unfolding ws using c f
    by (elim disjE; simp; elim conjE; hypsubst; simp add: exposure_of_def gain_of_def vts_of_def field_bits ov7251_regs)
  show "touches (if r = 0 then {c} else {}) d d'" "r = 0 \<Longrightarrow> ctrl_shown (i2c_chip m d') d' c v"
    using send_shows [OF k [unfolded x] regs shown] by (auto simp: r split: if_splits)
qed

lemma apply_shows:
  assumes ap: "ov7251_apply_ctrl E c v d = Inr (r, d')" and c: "c \<in> set ov7251_setup_order"
  shows "touches (if r = 0 then {c} else {}) d d'" "r = 0 \<Longrightarrow> ctrl_shown (i2c_chip m d') d' c v"
  using c cached_result [OF _ ap] field_result [OF _ ap] by (auto simp: ov7251_setup_order_def)

section \<open>The set-up\<close>

text \<open>The callback on a device in use.\<close>

lemma op7_in_use:
  assumes use: "\<forall>tr. 0 < ret_of E tr (Pm Pm_get_if_in_use)" and op: "ov7251_op S E c v d = (r, d')"
    and c: "c \<in> set ov7251_setup_order"
  defines "d0 \<equiv> (if c = V4L2_CID_VBLANK then ov7251_follow_vblank S v d else d)"
  shows "touches (if r = 0 then {c} else {}) d0 d'" "r = 0 \<Longrightarrow> ctrl_shown (i2c_chip m d') d' c v" "ctrls d' = ctrls d0"
proof -
  let ?d1 = "snd (kcall E (Pm Pm_get_if_in_use) d0)"
  have n: "ret_of E tr (Pm Pm_get_if_in_use) \<noteq> 0" for tr using use by (metis less_irrefl)
  obtain q x where x: "ov7251_apply_ctrl E c v ?d1 = Inr (q, x)" using apply_total [of E c v ?d1] by auto
  have e: "r = q" "d' = kdo (Pm Pm_put) x"
    using op x n by (auto simp: ov7251_op_def ov7251_s_ctrl_def Let_def case_prod_beta simp flip: d0_def)
  have t: "touches C d0 ?d1" "touches C x d'" for C by (rule touches_quiet; simp add: e)+
  show "touches (if r = 0 then {c} else {}) d0 d'"
    using touches_trans [OF touches_trans [OF t(1) apply_shows(1) [OF x c]] t(2)] by (simp add: e(1))
  show "r = 0 \<Longrightarrow> ctrl_shown (i2c_chip m d') d' c v"
    using apply_shows(2) [OF x c, of m] touches_shown [OF t(2) [of "{}"]] by (simp add: e(1))
  show "ctrls d' = ctrls d0" using ov7251_op_after [OF op] by (simp add: d0_def)
qed

lemma touches_ctrls [simp]: "touches C d (x\<lparr>ctrls := k\<rparr>) = touches C d x" "touches C d (d\<lparr>ctrls := k\<rparr>)"
  "ctrl_shown R (x\<lparr>ctrls := k\<rparr>) c v = ctrl_shown R x c v" "i2c_chip m (x\<lparr>ctrls := k\<rparr>) = i2c_chip m x"
proof -
  have c: "ov7251_cached (x\<lparr>ctrls := k\<rparr>) c = ov7251_cached x c" "cur_mode (x\<lparr>ctrls := k\<rparr>) = cur_mode x"
    "i2c_chip m (x\<lparr>ctrls := k\<rparr>) = i2c_chip m x" for c m k x
    by (cases c; simp add: cur_mode_def i2c_chip_def)+
  show "touches C d (x\<lparr>ctrls := k\<rparr>) = touches C d x" "touches C d (d\<lparr>ctrls := k\<rparr>)"
    "i2c_chip m (x\<lparr>ctrls := k\<rparr>) = i2c_chip m x"
    by (simp_all add: touches_def c)
  show "ctrl_shown R (x\<lparr>ctrls := k\<rparr>) c v = ctrl_shown R x c v" by (rule shown_cong) (simp_all add: c)
qed

text \<open>Moving the exposure limit keeps the exposure shown, whether or not it changes it.\<close>

lemma follow_shows:
  fixes E v d
  assumes use: "\<forall>tr. 0 < ret_of E tr (Pm Pm_get_if_in_use)"
  defines "d' \<equiv> ov7251_follow_vblank (ov7251_inner_services E) v d"
  shows "touches {V4L2_CID_EXPOSURE} d d'" "q \<noteq> V4L2_CID_EXPOSURE \<Longrightarrow> ctrls d' q = ctrls d q"
    "ctrl_shown (i2c_chip m d) d V4L2_CID_EXPOSURE (val (ctrls d V4L2_CID_EXPOSURE)) \<Longrightarrow>
     ctrl_shown (i2c_chip m d') d' V4L2_CID_EXPOSURE (val (ctrls d' V4L2_CID_EXPOSURE))"
proof -
  let ?c = V4L2_CID_EXPOSURE and ?cb = "ov7251_op no_services E"
  obtain lo hi st df r where m: "v4l2_modify_range ?cb ?c lo hi st df d = (r, d')"
    by (simp add: d'_def ov7251_follow_vblank_def ov7251_inner_services_def Let_def) (metis prod.collapse)
  define d0 where "d0 = d\<lparr>ctrls := (ctrls d)(?c := (ctrls d ?c)\<lparr>minimum := lo, maximum := hi, step := st,
    default_value := df\<rparr>)\<rparr>"
  have d0 [simp]: "val (ctrls d0 ?c) = val (ctrls d ?c)" "k \<noteq> ?c \<Longrightarrow> ctrls d0 k = ctrls d k" "touches C d d0"
    "ctrl_shown R d0 k w = ctrl_shown R d k w" "i2c_chip m d0 = i2c_chip m d" for k C R w m by (simp_all add: d0_def)
  from m have "touches {?c} d d' \<and> (\<forall>q. q \<noteq> ?c \<longrightarrow> ctrls d' q = ctrls d q) \<and>
      (\<forall>m. ctrl_shown (i2c_chip m d) d ?c (val (ctrls d ?c)) \<longrightarrow> ctrl_shown (i2c_chip m d') d' ?c (val (ctrls d' ?c)))"
  proof (cases rule: ov7251_inner.modify_cases)
    case 3
    define new where "new = clamp_t (val (ctrls d ?c)) lo hi"
    from 3(3) obtain d1 where op: "?cb ?c new d0 = (r, d1)"
      and d': "d' = (if r \<noteq> 0 then d1 else d1\<lparr>ctrls := (ctrls d1)(?c := (ctrls d1 ?c)\<lparr>val := new\<rparr>)\<rparr>)"
      unfolding new_def [symmetric] d0_def [symmetric] by (rule ov7251_inner.apply_result)
    have c: "?c \<in> set ov7251_setup_order" by (simp add: ov7251_setup_order_def)
    note o = op7_in_use [OF use op c, simplified]
    have t: "touches (if r = 0 then {?c} else {}) d d'"
      using touches_trans [OF d0(3) o(1)] by (cases "r = 0") (simp_all add: d')
    show ?thesis
    proof (cases "r = 0")
      case True
      then show ?thesis using t o(2,3) by (simp add: d')
    next
      case False
      then show ?thesis
        using t o(3) touches_shown [of "{}" d d' ?c] touches_mono [of "{}" d d' "{?c}"]
        by (simp add: d' del: ctrl_shown.simps)
    qed
  qed (simp_all flip: d0_def del: ctrl_shown.simps)
  then show "touches {?c} d d'" "q \<noteq> ?c \<Longrightarrow> ctrls d' q = ctrls d q"
    "ctrl_shown (i2c_chip m d) d ?c (val (ctrls d ?c)) \<Longrightarrow> ctrl_shown (i2c_chip m d') d' ?c (val (ctrls d' ?c))"
    by blast+
qed

text \<open>One control of the set-up is shown afterwards, and so is every one shown before.\<close>

definition all_shown :: "regmem \<Rightarrow> ov7251 \<Rightarrow> cid set \<Rightarrow> bool" where
  "all_shown m d D \<longleftrightarrow> (\<forall>c \<in> D. ctrl_shown (i2c_chip m d) d c (val (ctrls d c)))"

lemma op7_step:
  assumes use: "\<forall>tr. 0 < ret_of E tr (Pm Pm_get_if_in_use)"
    and op: "ov7251_op (ov7251_inner_services E) E c (val (ctrls d c)) d = (0, d')"
    and c: "c \<in> set ov7251_setup_order"
  shows "touches (set ov7251_setup_order) d d'" "q \<noteq> V4L2_CID_EXPOSURE \<Longrightarrow> ctrls d' q = ctrls d q"
    "all_shown m d D \<Longrightarrow> all_shown m d' (insert c D)"
proof -
  define x where "x = (if c = V4L2_CID_VBLANK then ov7251_follow_vblank (ov7251_inner_services E) (val (ctrls d c)) d else d)"
  note o = op7_in_use [OF use op c, folded x_def, simplified]
  have x: "touches {V4L2_CID_EXPOSURE} d x" "\<And>q. q \<noteq> V4L2_CID_EXPOSURE \<Longrightarrow> ctrls x q = ctrls d q"
    "c \<noteq> V4L2_CID_VBLANK \<Longrightarrow> x = d"
    "\<And>m. ctrl_shown (i2c_chip m d) d V4L2_CID_EXPOSURE (val (ctrls d V4L2_CID_EXPOSURE)) \<Longrightarrow>
      ctrl_shown (i2c_chip m x) x V4L2_CID_EXPOSURE (val (ctrls x V4L2_CID_EXPOSURE))"
    using follow_shows [OF use] by (simp_all add: x_def del: ctrl_shown.simps)
  show "touches (set ov7251_setup_order) d d'"
    by (rule touches_trans [OF touches_mono [OF x(1)] touches_mono [OF o(1)]])
      (use c in \<open>simp_all add: ov7251_setup_order_def\<close>)
  show "q \<noteq> V4L2_CID_EXPOSURE \<Longrightarrow> ctrls d' q = ctrls d q" using o(3) x(2) by simp
  assume all: "all_shown m d D"
  have own: "ctrl_shown (i2c_chip m d') d' c (val (ctrls d' c))"
    using o(2,3) x(2,3) by (cases "c = V4L2_CID_EXPOSURE") (simp_all del: ctrl_shown.simps)
  have old: "ctrl_shown (i2c_chip m d') d' k (val (ctrls d' k))" if "k \<in> D" "k \<noteq> c" for k
  proof -
    have "ctrl_shown (i2c_chip m x) x k (val (ctrls x k))"
      using all that x(4) [of m] touches_shown [OF x(1), of k m] x(2) [of k]
      by (cases "k = V4L2_CID_EXPOSURE") (simp_all add: all_shown_def del: ctrl_shown.simps)
    then show ?thesis using touches_shown [OF o(1), of k m] o(3) that by simp
  qed
  from own old show "all_shown m d' (insert c D)" by (auto simp: all_shown_def)
qed

lemma setup_shows:
  assumes use: "\<forall>tr. 0 < ret_of E tr (Pm Pm_get_if_in_use)"
  shows "seq_until (\<lambda>r. r \<noteq> 0) (\<lambda>c d. ov7251_op (ov7251_inner_services E) E c (val (ctrls d c)) d) cs d = (0, d') \<Longrightarrow>
    set cs \<subseteq> set ov7251_setup_order \<Longrightarrow> all_shown m d D \<Longrightarrow>
    touches (set ov7251_setup_order) d d' \<and> (\<forall>q. q \<noteq> V4L2_CID_EXPOSURE \<longrightarrow> ctrls d' q = ctrls d q) \<and> all_shown m d' (set cs \<union> D)"
proof (induction cs arbitrary: d D)
  case Nil
  then show ?case by simp
next
  case (Cons c cs)
  obtain r d1 where op: "ov7251_op (ov7251_inner_services E) E c (val (ctrls d c)) d = (r, d1)" by fastforce
  have r: "r = 0" and rest: "seq_until (\<lambda>r. r \<noteq> 0) (\<lambda>c d. ov7251_op (ov7251_inner_services E) E c (val (ctrls d c)) d) cs d1 = (0, d')"
    using Cons.prems(1) op by (auto split: if_splits)
  note s = op7_step [OF use op [unfolded r]]
  have "touches (set ov7251_setup_order) d d1" "all_shown m d1 (insert c D)" using s Cons.prems(2,3) by auto
  then show ?case
    using Cons.IH [OF rest, of "insert c D"] Cons.prems(2) s(2) touches_trans [of "set ov7251_setup_order" d d1 d'] by auto
qed

section \<open>What a start programs\<close>

text \<open>The registers that the controls own, and those of the start itself.\<close>

definition ov7251_control_regs :: "u16 set" where
  "ov7251_control_regs = \<Union> (ov7251_ctrl_regs ` set ov7251_setup_order)"

definition ov7251_start_regs :: "ov7251 \<Rightarrow> u16 set" where
  "ov7251_start_regs d = fst ` set (start_writes d)"

lemma start_not_control: "ov7251_start_regs d \<inter> ov7251_control_regs = {}"
  by (auto simp: ov7251_start_regs_def start_writes_def ov7251_control_regs_def ov7251_setup_order_def ov7251_regs)

lemma mem_after_other: "a \<notin> fst ` set ws \<Longrightarrow> mem_after m ws a = m a"
proof -
  assume "a \<notin> fst ` set ws"
  then have "map_of (rev ws) a = None" by (simp add: map_of_eq_None_iff)
  then show ?thesis by (simp add: mem_after_map_of)
qed

lemma table_byte_append: "table_byte (xs @ ys) a = (case table_byte ys a of None \<Rightarrow> table_byte xs a | Some b \<Rightarrow> Some b)"
  unfolding table_byte_def by (simp add: map_add_def)

lemma pll_writes_quiet: "quiet d' = quiet d \<Longrightarrow> ov7251_pll_writes d' = ov7251_pll_writes d"
  using keep_fields(3,7,9) [OF keep_quiet, of d' d] by (simp add: ov7251_pll_writes_def)

lemma pm_get_tables:
  "ov7251_pll_writes (snd (ov7251_pm_get E d)) = ov7251_pll_writes d" "ov7251_has_ir_led (snd (ov7251_pm_get E d)) = ov7251_has_ir_led d"
  "ov7251_cached (snd (ov7251_pm_get E d)) c = ov7251_cached d c"
proof -
  note q = power_frame(1) [of E d]
  have f: "pll_cfgs x = pll_cfgs d" "link_freq_idx x = link_freq_idx d" "win_timing x = win_timing d"
    "ov7251_has_ir_led x = ov7251_has_ir_led d" "ov7251_cached x c = ov7251_cached d c"
    if "x = snd (ov7251_set_power_on E d)" for x
    using keep_fields(3,7,9) [OF keep_quiet [OF q]] led_quiet [OF q] cached_quiet [OF q] that by simp_all
  have l: "ov7251_has_ir_led (klog e r x) = ov7251_has_ir_led x" "ov7251_has_ir_led (x\<lparr>rpm_active := b\<rparr>) = ov7251_has_ir_led x"
    "ov7251_cached (klog e r x) c = ov7251_cached x c" "ov7251_cached (x\<lparr>rpm_active := b\<rparr>) c = ov7251_cached x c" for e r x b
    by (cases c; simp add: ov7251_has_ir_led_def klog_def)+
  show "ov7251_pll_writes (snd (ov7251_pm_get E d)) = ov7251_pll_writes d" "ov7251_has_ir_led (snd (ov7251_pm_get E d)) = ov7251_has_ir_led d"
    "ov7251_cached (snd (ov7251_pm_get E d)) c = ov7251_cached d c"
    using f by (simp_all add: ov7251_pm_get_def l Let_def case_prod_beta ov7251_pll_writes_def) (simp_all add: klog_def)
qed

text \<open>The device the set-up starts from, and the one it ends with.\<close>

lemma stream_chain:
  assumes use: "\<forall>tr. 0 < ret_of E tr (Pm Pm_get_if_in_use)"
    and res: "ov7251_s_stream (ov7251_services E) E True d = Inr (0, d')"
  obtains d2 d3 m1 where "\<And>m. i2c_chip m d2 = mem_after (m1 m) (ov7251_pll_writes d @ md_data (cur_mode d))"
    "cur_mode d2 = cur_mode d" "ctrls d2 = ctrls d" "\<And>c. ov7251_cached d2 c = ov7251_cached d c"
    "touches (set ov7251_setup_order) d2 d3" "\<And>q. q \<noteq> V4L2_CID_EXPOSURE \<Longrightarrow> ctrls d3 q = ctrls d q"
    "\<And>m. all_shown m d3 (set ov7251_setup_order)"
    "\<And>m. i2c_chip m d' = mem_after (i2c_chip m d3) (start_writes d)"
    "cur_mode d' = cur_mode d3" "ctrls d' = ctrls d3" "\<And>c. ov7251_cached d' c = ov7251_cached d3 c"
proof (cases rule: s_stream_start [OF res])
  case (4 d1 d2 r3 d3 x)
  let ?f = "\<lambda>c d. ov7251_op (ov7251_inner_services E) E c (val (ctrls d c)) d"
  have d1: "d1 = snd (ov7251_pm_get E (kdo Mutex_lock d))" using 4(1) by (simp add: ov7251_resume)
  note q = bus_step_quiet [OF 4(2)] and qx = bus_step_quiet [OF 4(6)]
  have same: "cur_mode d1 = cur_mode d" "ctrls d1 = ctrls d" "ov7251_pll_writes d1 = ov7251_pll_writes d"
    "ov7251_has_ir_led d1 = ov7251_has_ir_led d" "ov7251_cached d1 c = ov7251_cached d c" for c
    using keep_fields [OF keep_quiet [OF kdo_quiet], of Mutex_lock d] led_quiet [OF kdo_quiet, of Mutex_lock d]
      cached_quiet [OF kdo_quiet, of Mutex_lock d c] pll_writes_quiet [OF kdo_quiet, of Mutex_lock d]
    by (simp_all add: d1 pm_get_frame pm_get_tables)
  have hs: "seq_until (\<lambda>r. r \<noteq> 0) ?f ov7251_setup_order d2 = (r3, d3)"
    using 4(4) by (simp add: ov7251_services_def ov7251_ctrl_services_def v4l2_handler_setup_def Let_def)
  have r3: "r3 = 0" using seq_until_zero [OF hs] op_nonpos 4(5) by (metis le_less_linear order_antisym)
  have s: "touches (set ov7251_setup_order) d2 d3 \<and> (\<forall>q. q \<noteq> V4L2_CID_EXPOSURE \<longrightarrow> ctrls d3 q = ctrls d2 q) \<and>
      all_shown m d3 (set ov7251_setup_order)" for m
    using setup_shows [OF use hs [unfolded r3], of m "{}"] by (simp add: all_shown_def)
  have led: "ov7251_has_ir_led d3 = ov7251_has_ir_led d"
  proof -
    have "ov7251_has_ir_led d3 = ov7251_has_ir_led d2"
      using setup_frame(1) [OF hs] by (simp add: ov7251_keep_def ov7251_has_ir_led_def)
    then show ?thesis using led_quiet [OF q] same(4) by simp
  qed
  show ?thesis
  proof (rule that [of d2 "\<lambda>m. i2c_chip m d1" d3])
    show "i2c_chip m d2 = mem_after (i2c_chip m d1) (ov7251_pll_writes d @ md_data (cur_mode d))" for m
      by (simp add: i2c_chip_def 4(3) same)
    show "i2c_chip m d' = mem_after (i2c_chip m d3) (start_writes d)" for m
      by (simp add: i2c_chip_def 4(8,9) start_writes_def led)
    show "cur_mode d2 = cur_mode d" "ctrls d2 = ctrls d" "ov7251_cached d2 c = ov7251_cached d c" for c
      using keep_fields(10) [OF keep_quiet [OF q]] quiet_fields(1) [OF q] cached_quiet [OF q] same by simp_all
    then show "touches (set ov7251_setup_order) d2 d3" "\<And>q. q \<noteq> V4L2_CID_EXPOSURE \<Longrightarrow> ctrls d3 q = ctrls d q"
      "\<And>m. all_shown m d3 (set ov7251_setup_order)" using s by simp_all
    show "cur_mode d' = cur_mode d3" "ctrls d' = ctrls d3" "ov7251_cached d' c = ov7251_cached d3 c" for c
      using keep_fields(10) [OF keep_quiet [OF qx]] quiet_fields(1) [OF qx] cached_quiet [OF qx, of c]
        keep_fields(10) [OF keep_quiet [OF kdo_quiet], of Mutex_unlock x] cached_quiet [OF kdo_quiet, of Mutex_unlock x c]
      by (simp_all add: 4(8))
  qed
qed simp_all

lemma stream_registers:
  fixes d d' :: ov7251 and m
  assumes use: "\<forall>tr. 0 < ret_of E tr (Pm Pm_get_if_in_use)"
    and res: "ov7251_s_stream (ov7251_services E) E True d = Inr (0, d')"
  defines "R \<equiv> i2c_chip m d'"
  shows "cur_mode d' = cur_mode d" "q \<noteq> V4L2_CID_EXPOSURE \<Longrightarrow> ctrls d' q = ctrls d q"
    "c \<in> set ov7251_setup_order \<Longrightarrow> ctrl_shown R d c (val (ctrls d' c))"
    "(a, b) \<in> set (start_writes d) \<Longrightarrow> R a = b"
    "table_byte (ov7251_pll_writes d @ md_data (cur_mode d)) a = Some b \<Longrightarrow>
      a \<notin> ov7251_control_regs \<union> ov7251_start_regs d \<Longrightarrow> R a = b"
proof -
  obtain d2 d3 m1 where 1: "\<And>m. i2c_chip m d2 = mem_after (m1 m) (ov7251_pll_writes d @ md_data (cur_mode d))"
      "cur_mode d2 = cur_mode d" "ctrls d2 = ctrls d" "\<And>c. ov7251_cached d2 c = ov7251_cached d c"
    and 2: "touches (set ov7251_setup_order) d2 d3" "\<And>q. q \<noteq> V4L2_CID_EXPOSURE \<Longrightarrow> ctrls d3 q = ctrls d q"
      "\<And>m. all_shown m d3 (set ov7251_setup_order)"
    and 3: "\<And>m. i2c_chip m d' = mem_after (i2c_chip m d3) (start_writes d)"
      "cur_mode d' = cur_mode d3" "ctrls d' = ctrls d3" "\<And>c. ov7251_cached d' c = ov7251_cached d3 c"
    by (rule stream_chain [OF use res]) (rule that)
  show cur: "cur_mode d' = cur_mode d" using 1 2 3 by (simp add: touches_def)
  show "q \<noteq> V4L2_CID_EXPOSURE \<Longrightarrow> ctrls d' q = ctrls d q" using 2 3 by simp
  show "(a, b) \<in> set (start_writes d) \<Longrightarrow> R a = b"
    by (auto simp: R_def 3(1) start_writes_def ov7251_regs split: if_splits)
  show "R a = b" if t: "table_byte (ov7251_pll_writes d @ md_data (cur_mode d)) a = Some b"
    and a: "a \<notin> ov7251_control_regs \<union> ov7251_start_regs d"
  proof -
    have "R a = i2c_chip m d3 a" using a by (simp add: R_def 3(1) mem_after_other ov7251_start_regs_def)
    also have "\<dots> = i2c_chip m d2 a" using a 2(1) unfolding touches_def ov7251_control_regs_def by blast
    also have "\<dots> = b" using t by (simp only: 1(1) mem_after_map_of table_byte_def option.simps)
    finally show ?thesis .
  qed
  assume c: "c \<in> set ov7251_setup_order"
  have "R a = i2c_chip m d3 a" if "a \<in> ov7251_ctrl_regs c" for a
    using start_not_control [of d] that c unfolding R_def 3(1)
    by (intro mem_after_other) (auto simp: ov7251_start_regs_def ov7251_control_regs_def)
  then have "ctrl_shown R d' c (val (ctrls d' c)) = ctrl_shown (i2c_chip m d3) d3 c (val (ctrls d' c))"
    by (rule shown_cong) (simp_all add: 3)
  then have "ctrl_shown R d' c (val (ctrls d' c))" using 2(3) [of m] c by (simp add: all_shown_def 3)
  moreover have "ov7251_cached d' c AND NOT (ov7251_ctrl_bit c) = ov7251_cached d c AND NOT (ov7251_ctrl_bit c)"
    using 2(1) by (simp add: touches_def 1 3)
  ultimately show "ctrl_shown R d c (val (ctrls d' c))"
    using shown_cached cur by blast
qed

text \<open>
  C15: After a successful start of an OV7251 in use, with the control core and runtime PM on its
  own callbacks and whether or not the device was active before: the mode and every control but
  EXPOSURE are unchanged; the exposure, gain and frame length registers show the controls, the
  flip and test pattern registers show them over the cached bytes, the sensor is streaming, with
  an infrared LED its line and its strobe are enabled, and every other register that the PLL
  configuration or the mode table programs holds the byte of the table.
\<close>

theorem ov7251_stream_programmed:
  fixes d d' :: ov7251 and m
  assumes use: "\<forall>tr. 0 < ret_of E tr (Pm Pm_get_if_in_use)"
    and res: "ov7251_s_stream (ov7251_services E) E True d = Inr (0, d')"
  defines "R \<equiv> i2c_chip m d'" and "v \<equiv> \<lambda>c. val (ctrls d' c)"
  shows "cur_mode d' = cur_mode d \<and> (\<forall>q. q \<noteq> V4L2_CID_EXPOSURE \<longrightarrow> ctrls d' q = ctrls d q) \<and>
    exposure_of R = take_bit 16 (u32_of_int (v V4L2_CID_EXPOSURE)) \<and>
    gain_of R = take_bit 10 (u32_of_int (v V4L2_CID_ANALOGUE_GAIN)) \<and>
    vts_of R = take_bit 16 (md_height (cur_mode d) + u32_of_int (v V4L2_CID_VBLANK)) \<and>
    R OV7251_TIMING_FORMAT1 = with_bit (timing_format1 d) OV7251_TIMING_FORMAT1_VFLIP (v V4L2_CID_VFLIP) \<and>
    R OV7251_TIMING_FORMAT2 = with_bit (timing_format2 d) OV7251_TIMING_FORMAT2_MIRROR (v V4L2_CID_HFLIP) \<and>
    R OV7251_PRE_ISP_00 = with_bit (pre_isp_00 d) OV7251_PRE_ISP_00_TEST_PATTERN (v V4L2_CID_TEST_PATTERN) \<and>
    R OV7251_SC_MODE_SELECT = OV7251_SC_MODE_SELECT_STREAMING \<and>
    (ov7251_has_ir_led d \<longrightarrow> R OV7251_PAD_OUT1 = OV7251_PAD_OUT1_IR_LED \<and>
       R OV7251_STROBE_PATTERN = OV7251_STROBE_EVERY_FRAME) \<and>
    (\<forall>a b. table_byte (ov7251_pll_writes d @ md_data (cur_mode d)) a = Some b \<longrightarrow>
       a \<notin> ov7251_control_regs \<union> ov7251_start_regs d \<longrightarrow> R a = b)"
proof -
  note r0 = stream_registers(1,2) [OF use res] and r = stream_registers(3-5) [OF use res, where m = m, folded R_def]
  have s: "ctrl_shown R d c (v c)" if "c \<in> set ov7251_setup_order" for c using r(1) that by (simp add: v_def)
  have w: "(OV7251_SC_MODE_SELECT, OV7251_SC_MODE_SELECT_STREAMING) \<in> set (start_writes d)"
    "ov7251_has_ir_led d \<Longrightarrow> {(OV7251_PAD_OUT1, OV7251_PAD_OUT1_IR_LED), (OV7251_STROBE_PATTERN, OV7251_STROBE_EVERY_FRAME)}
      \<subseteq> set (start_writes d)"
    by (simp_all add: start_writes_def OV7251_PAD_OUT1_IR_LED_def OV7251_STROBE_EVERY_FRAME_def)
  show ?thesis
    using r0 r(3) r(2) [OF w(1)] r(2) w(2) s [of V4L2_CID_EXPOSURE] s [of V4L2_CID_ANALOGUE_GAIN] s [of V4L2_CID_VBLANK]
      s [of V4L2_CID_VFLIP] s [of V4L2_CID_HFLIP] s [of V4L2_CID_TEST_PATTERN]
    by (simp add: ov7251_setup_order_def)
qed

text \<open>
  The sample with a stale sensor: the 16-bit chip address space full of ones, the device active. The
  output width 640 of the mode table is in the sensor after the start.
\<close>

lemma ov7251_stream_programmed_witness:
  "\<exists>d'. ov7251_s_stream (ov7251_services use_env) use_env True (ov7251_sample\<lparr>rpm_active := True\<rparr>) = Inr (0, d') \<and>
     gain_of (i2c_chip (\<lambda>_. 0xff) d') = 16 \<and> i2c_chip (\<lambda>_. 0xff) d' OV7251_STROBE_PATTERN = 0xff \<and>
     i2c_chip (\<lambda>_. 0xff) d' 0x3808 = 0x02 \<and> i2c_chip (\<lambda>_. 0xff) d' 0x3809 = 0x80"
proof -
  let ?d = "ov7251_sample\<lparr>rpm_active := True\<rparr>"
  have use: "\<forall>tr. 0 < ret_of use_env tr (Pm Pm_get_if_in_use)" by simp
  obtain d' where r: "ov7251_s_stream (ov7251_services use_env) use_env True ?d = Inr (0, d')"
    using use_stream [of ?d] by (auto simp: ov7251_sample_def ov7251_pll_cfgs_19_2_mhz_def)
  note p = ov7251_stream_programmed [OF use r, of "\<lambda>_. 0xff"]
  have f: "cur_mode ?d = ov7251_mode_info_data ! 0" "val (ctrls ?d V4L2_CID_ANALOGUE_GAIN) = 16" "ov7251_has_ir_led ?d"
    by (simp_all add: ov7251_sample_def cur_mode_def std_ctrl_def ov7251_has_ir_led_def)
  have t: "table_byte (ov7251_pll_writes ?d @ md_data (cur_mode ?d)) 0x3808 = Some 0x02"
    "table_byte (ov7251_pll_writes ?d @ md_data (cur_mode ?d)) 0x3809 = Some 0x80"
    using table_timing(1)
    by (simp_all add: programs_timing_def table_byte_append f(1) ov7251_mode_info_data_def)
  have n: "{0x3808, 0x3809} \<inter> (ov7251_control_regs \<union> ov7251_start_regs ?d) = {}"
    by (auto simp: ov7251_control_regs_def ov7251_start_regs_def start_writes_def ov7251_setup_order_def ov7251_regs)
  show ?thesis using r p f t n by (auto simp: u32_of_int_def OV7251_STROBE_EVERY_FRAME_def)
qed

end
