(* ===== verification/Int3472_Device.thy ===== *)
theory Int3472_Device
  imports Kernel
begin

text \<open>
  The state of a discrete INT3472 device and the clock, regulators and LEDs it registers
  (\<open>dkms/int3472-surface/clk_and_regulator.c\<close>, \<open>led.c\<close> and \<open>discrete_quirks.c\<close>). The calls into the
  kernel are recorded in the \<open>log\<close> of the device with the answer of the environment, as in
  \<open>Kernel\<close>. The sizes that the kernel header \<open>platform_data/x86/int3472.h\<close> sets, and the string
  function of the kernel the code calls, are the parameter \<open>int3472_header\<close>.
\<close>

section \<open>Calls\<close>

type_synonym gpio_desc = nat

text \<open>An entry of a GPIO lookup table: the controller, its pin, the name for the consumer and the flags.\<close>

record gpiod_lookup =
  key :: string
  chip_hwnum :: u16
  con_id :: string
  lflags :: u64

text \<open>A lookup table is added with the device it is for and its entries.\<close>

datatype icall =
    Acpi_get_handle string
  | Acpi_fetch_acpi_dev string
  | Acpi_evaluate_dsm_string
  | Acpi_evaluate_dsm_gpio u32
  | Acpi_evaluate_dsm_clk u8 int int
  | Acpi_check_dsm_clk
  | Acpi_get_buffer string
  | Acpi_free
  | Kzalloc_lookup_table
  | Devm_kzalloc_device
  | Kasprintf
  | Kfree
  | Gpiod_add_lookup_table "string option" "gpiod_lookup list"
  | Gpiod_remove_lookup_table
  | Gpiod_get string
  | Gpiod_put "gpio_desc option"
  | Gpiod_set_value gpio_desc int
  | Clk_register
  | Clk_unregister
  | Clkdev_create string
  | Clkdev_drop
  | Regulator_register gpio_desc
  | Regulator_unregister nat
  | Led_classdev_register string
  | Led_classdev_unregister string
  | Led_add_lookup string
  | Led_remove_lookup string
  | Fill_cldb
  | Get_sensor_adev_and_name
  | Acpi_dev_free_resource_list
  | Acpi_dev_clear_dependencies

type_synonym ilog = "(icall \<times> int) list"

text \<open>The result of a call, an integer it also delivers, and the bytes of an ACPI buffer.\<close>

record ienv =
  iret_of :: "ilog \<Rightarrow> icall \<Rightarrow> int"
  ival_of :: "ilog \<Rightarrow> icall \<Rightarrow> u32"
  ibuf_of :: "ilog \<Rightarrow> u8 list"

section \<open>The device\<close>

text \<open>What the kernel headers fix; \<open>linux_7_1\<close> says which branch of the version tests is compiled.\<close>

record int3472_header =
  MAX_SENSOR_GPIOS :: nat
  MAX_REGULATORS :: nat
  MAX_LEDS :: nat
  GPIO_SUPPLY_NAME_LENGTH :: nat
  GPIO_REGULATOR_NAME_LENGTH :: nat
  LED_MAX_NAME_SIZE :: nat
  INT3472_GPIO_TYPE_HANDSHAKE :: u8
  SSDB_MCLKSPEED_OFFSET :: nat
  GPIO_REGULATOR_ENABLE_TIME :: u32
  GPIO_REGULATOR_OFF_ON_DELAY :: u32
  string_upper :: "string \<Rightarrow> string"
  linux_7_1 :: bool

record int3472_clock =
  clk :: int
  cl :: bool
  ena_gpio :: "gpio_desc option"
  frequency :: u32
  imgclk_index :: u8

record int3472_gpio_regulator =
  supply_name_upper :: string
  supply_map :: "(string \<times> string) list"
  regulator_name :: string
  enable_time :: u32
  off_on_delay :: u32
  rdev :: int

text \<open>\<open>led_dev\<close> is the \<open>dev\<close> field of the LED class device: set once it is registered.\<close>

record int3472_led =
  led_name :: string
  led_gpio :: "gpio_desc option"
  led_dev :: bool
  led_lookup :: "(string \<times> string \<times> string) option"

record int3472_discrete_quirks =
  avdd_second_sensor :: "string option"

text \<open>
  The array of lookups ends in a zeroed entry, \<open>None\<close> here; \<open>gpios_dev_id\<close> is the device the lookup
  table is for. \<open>adev_name\<close> and \<open>sensor_adev_name\<close> are what \<open>acpi_dev_name\<close> answers for the two ACPI
  devices, \<open>pdev_name\<close> is the \<open>dev_name\<close> of the platform device, \<open>hid\<close> the hardware id of the sensor.
\<close>

record int3472 =
  log :: ilog
  pdev_name :: string
  adev_name :: string
  sensor_adev_name :: string
  sensor_name :: string
  hid :: string
  ngpios :: u32
  n_sensor_gpios :: nat
  gpios_dev_id :: "string option"
  gpios_table :: "gpiod_lookup option list"
  clock :: int3472_clock
  n_regulator_gpios :: nat
  regulators :: "int3472_gpio_regulator list"
  n_leds :: nat
  leds :: "int3472_led list"
  pled :: int3472_led
  quirks :: int3472_discrete_quirks

definition icall :: "ienv \<Rightarrow> icall \<Rightarrow> int3472 \<Rightarrow> int \<times> int3472" where
  "icall E c s = (let r = iret_of E (log s) c in (r, s\<lparr>log := log s @ [(c, r)]\<rparr>))"

definition iread :: "ienv \<Rightarrow> icall \<Rightarrow> int3472 \<Rightarrow> int \<times> u32 \<times> int3472" where
  "iread E c s = (let r = iret_of E (log s) c in (r, ival_of E (log s) c, s\<lparr>log := log s @ [(c, r)]\<rparr>))"

definition ido :: "icall \<Rightarrow> int3472 \<Rightarrow> int3472" where
  "ido c s = s\<lparr>log := log s @ [(c, 0)]\<rparr>"

section \<open>Clock\<close>

text \<open>The answer of the \<open>_DSM\<close>, an object of the caller, is dropped.\<close>

definition skl_int3472_enable_clk :: "ienv \<Rightarrow> int \<Rightarrow> int3472 \<Rightarrow> int3472" where
  "skl_int3472_enable_clk E enable s =
     (case ena_gpio (clock s) of
        Some g \<Rightarrow> ido (Gpiod_set_value g enable) s
      | None \<Rightarrow> snd (icall E (Acpi_evaluate_dsm_clk (imgclk_index (clock s)) enable 1) s))"

definition skl_int3472_clk_prepare :: "ienv \<Rightarrow> int3472 \<Rightarrow> int \<times> int3472" where
  "skl_int3472_clk_prepare E s = (0, skl_int3472_enable_clk E 1 s)"

definition skl_int3472_clk_unprepare :: "ienv \<Rightarrow> int3472 \<Rightarrow> int3472" where
  "skl_int3472_clk_unprepare E s = skl_int3472_enable_clk E 0 s"

definition skl_int3472_clk_enable :: "int3472 \<Rightarrow> int \<times> int3472" where
  "skl_int3472_clk_enable s = (0, s)"

definition skl_int3472_clk_disable :: "int3472 \<Rightarrow> int3472" where
  "skl_int3472_clk_disable s = s"

text \<open>A little-endian 32-bit load; the caller has checked the length.\<close>

definition load_u32 :: "u8 list \<Rightarrow> nat \<Rightarrow> u32" where
  "load_u32 b i = ucast (b ! i) OR (push_bit 8 (ucast (b ! (i + 1))) OR
     (push_bit 16 (ucast (b ! (i + 2))) OR push_bit 24 (ucast (b ! (i + 3)))))"

definition skl_int3472_get_clk_frequency :: "int3472_header \<Rightarrow> ienv \<Rightarrow> int3472 \<Rightarrow> u32 \<times> int3472" where
  "skl_int3472_get_clk_frequency H E s =
     (let buf = ibuf_of E (log s); (ret, s) = icall E (Acpi_get_buffer ''SSDB'') s
      in if ret < 0 then (0, s)
         else if length buf < SSDB_MCLKSPEED_OFFSET H + 4 then (0, ido Kfree s)
         else (load_u32 buf (SSDB_MCLKSPEED_OFFSET H), ido Kfree s))"

definition skl_int3472_clk_recalc_rate :: "int3472 \<Rightarrow> u32" where
  "skl_int3472_clk_recalc_rate s = frequency (clock s)"

definition skl_int3472_register_clock :: "int3472_header \<Rightarrow> ienv \<Rightarrow> int3472 \<Rightarrow> int \<times> int3472" where
  "skl_int3472_register_clock H E s =
     (let (ret, s) = icall E Kasprintf s
      in if ret < 0 then (- ENOMEM, s)
         else
     (let (freq, s) = skl_int3472_get_clk_frequency H E s;
          s = s\<lparr>clock := (clock s)\<lparr>frequency := freq\<rparr>\<rparr>;
          (ret, s) = icall E Clk_register s;
          s = s\<lparr>clock := (clock s)\<lparr>clk := ret\<rparr>\<rparr>
      in if ret < 0 then (ret, ido Kfree s)
         else
     (let (ret, s) = icall E (Clkdev_create (sensor_name s)) s
      in if ret < 0 then (- ENOMEM, ido Kfree (ido Clk_unregister s))
         else (0, ido Kfree (s\<lparr>clock := (clock s)\<lparr>cl := True\<rparr>\<rparr>)))))"

definition skl_int3472_register_dsm_clock :: "int3472_header \<Rightarrow> ienv \<Rightarrow> int3472 \<Rightarrow> int \<times> int3472" where
  "skl_int3472_register_dsm_clock H E s =
     (if cl (clock s) then (0, s)
      else
        (let (ok, s) = icall E Acpi_check_dsm_clk s
         in if ok = 0 then (0, s) else skl_int3472_register_clock H E s))"

definition skl_int3472_register_gpio_clock :: "int3472_header \<Rightarrow> ienv \<Rightarrow> gpio_desc \<Rightarrow> int3472 \<Rightarrow> int \<times> int3472" where
  "skl_int3472_register_gpio_clock H E gpio s =
     (if cl (clock s) then (- EBUSY, s)
      else skl_int3472_register_clock H E (s\<lparr>clock := (clock s)\<lparr>ena_gpio := Some gpio\<rparr>\<rparr>))"

definition skl_int3472_unregister_clock :: "int3472 \<Rightarrow> int3472" where
  "skl_int3472_unregister_clock s =
     (if \<not> cl (clock s) then s
      else ido (Gpiod_put (ena_gpio (clock s))) (ido Clk_unregister (ido Clkdev_drop s)))"

section \<open>Regulators\<close>

text \<open>The loop that fills \<open>supply_map\<close>: each name for the sensor and, if there is one, the second.\<close>

fun supply_entries :: "string list \<Rightarrow> string \<Rightarrow> string option \<Rightarrow> (string \<times> string) list" where
  "supply_entries [] dev second = []"
| "supply_entries (supply # ss) dev second =
     (supply, dev) # (case second of Some d \<Rightarrow> [(supply, d)] | None \<Rightarrow> []) @ supply_entries ss dev second"

definition skl_int3472_register_regulator ::
    "int3472_header \<Rightarrow> ienv \<Rightarrow> gpio_desc \<Rightarrow> u32 \<Rightarrow> string \<Rightarrow> string option \<Rightarrow> int3472 \<Rightarrow> int \<times> int3472" where
  "skl_int3472_register_regulator H E gpio time_us supply_name second_sensor s =
     (if n_regulator_gpios s \<ge> MAX_REGULATORS H then (- EINVAL, s)
      else if length supply_name \<ge> GPIO_SUPPLY_NAME_LENGTH H then (- E2BIG, s)
      else
        (let n = n_regulator_gpios s;
             upper = string_upper H supply_name;
             name = take (GPIO_REGULATOR_NAME_LENGTH H - 1) (adev_name s @ ''-'' @ supply_name);
             reg = \<lparr>supply_name_upper = upper,
               supply_map = supply_entries [supply_name, upper] (sensor_name s) second_sensor,
               regulator_name = name, enable_time = time_us,
               off_on_delay = GPIO_REGULATOR_OFF_ON_DELAY H, rdev = 0\<rparr>;
             (ret, s) = icall E (Regulator_register gpio) s;
             s = s\<lparr>regulators := (regulators s)[n := reg\<lparr>rdev := ret\<rparr>]\<rparr>
         in if ret < 0 then (ret, s) else (0, s\<lparr>n_regulator_gpios := n + 1\<rparr>)))"

definition skl_int3472_unregister_regulator :: "int3472 \<Rightarrow> int3472" where
  "skl_int3472_unregister_regulator s =
     fold (\<lambda>i. ido (Regulator_unregister i)) [0..<n_regulator_gpios s] s"

section \<open>LEDs\<close>

text \<open>\<open>snprintf\<close> into \<open>name\<close>, then the first \<open>:\<close> becomes \<open>_\<close>.\<close>

fun replace_colon :: "string \<Rightarrow> string" where
  "replace_colon [] = []"
| "replace_colon (c # cs) = (if c = CHR '':'' then CHR ''_'' # cs else c # replace_colon cs)"

definition led_set_name :: "int3472_header \<Rightarrow> int3472 \<Rightarrow> string \<Rightarrow> string" where
  "led_set_name H s con = replace_colon
     (take (LED_MAX_NAME_SIZE H - 1) (sensor_adev_name s @ ''::'' @ con @ ''_led''))"

definition int3472_led_set :: "int3472_led \<Rightarrow> int \<Rightarrow> int3472 \<Rightarrow> int \<times> int3472" where
  "int3472_led_set led brightness s =
     (case led_gpio led of Some g \<Rightarrow> (0, ido (Gpiod_set_value g brightness) s) | None \<Rightarrow> (0, s))"

definition int3472_pled_set :: "int \<Rightarrow> int3472 \<Rightarrow> int \<times> int3472" where
  "int3472_pled_set brightness s = int3472_led_set (pled s) brightness s"

definition skl_int3472_register_led ::
    "int3472_header \<Rightarrow> ienv \<Rightarrow> gpio_desc \<Rightarrow> string \<Rightarrow> int3472 \<Rightarrow> int \<times> int3472" where
  "skl_int3472_register_led H E gpio con s =
     (if n_leds s \<ge> MAX_LEDS H then (- ENOSPC, s)
      else
        (let n = n_leds s;
             name = led_set_name H s con;
             led = \<lparr>led_name = name, led_gpio = Some gpio, led_dev = False, led_lookup = None\<rparr>;
             (ret, s) = icall E (Led_classdev_register name) (s\<lparr>leds := (leds s)[n := led]\<rparr>)
         in if ret \<noteq> 0 then (ret, s)
            else
              (let led = led\<lparr>led_dev := True, led_lookup := Some (name, sensor_name s, con)\<rparr>;
                   s = ido (Led_add_lookup name) (s\<lparr>leds := (leds s)[n := led]\<rparr>)
               in (0, s\<lparr>n_leds := n + 1\<rparr>))))"

definition unregister_led :: "int3472_led \<Rightarrow> int3472 \<Rightarrow> int3472" where
  "unregister_led led s =
     ido (Gpiod_put (led_gpio led)) (ido (Led_classdev_unregister (led_name led))
       (ido (Led_remove_lookup (led_name led)) s))"

definition skl_int3472_unregister_leds :: "int3472 \<Rightarrow> int3472" where
  "skl_int3472_unregister_leds s = fold unregister_led (take (n_leds s) (leds s)) s"

text \<open>The single privacy LED of kernels before 7.1.\<close>

definition skl_int3472_register_pled :: "int3472_header \<Rightarrow> ienv \<Rightarrow> gpio_desc \<Rightarrow> int3472 \<Rightarrow> int \<times> int3472" where
  "skl_int3472_register_pled H E gpio s =
     (if led_dev (pled s) then (- EBUSY, s)
      else
        (let name = led_set_name H s ''privacy'';
             led = (pled s)\<lparr>led_gpio := Some gpio, led_name := name\<rparr>;
             (ret, s) = icall E (Led_classdev_register name) (s\<lparr>pled := led\<rparr>)
         in if ret \<noteq> 0 then (ret, s)
            else
              (0, ido (Led_add_lookup name)
                 (s\<lparr>pled := led\<lparr>led_dev := True, led_lookup := Some (name, sensor_name s, ''privacy'')\<rparr>\<rparr>))))"

definition skl_int3472_unregister_pled :: "int3472 \<Rightarrow> int3472" where
  "skl_int3472_unregister_pled s = (if \<not> led_dev (pled s) then s else unregister_led (pled s) s)"

section \<open>Quirks\<close>

datatype dmi_field = DMI_SYS_VENDOR | DMI_PRODUCT_VERSION

definition lenovo_miix_510_quirks :: int3472_discrete_quirks where
  "lenovo_miix_510_quirks = \<lparr>avdd_second_sensor = Some ''i2c-OVTI2680:00''\<rparr>"

definition skl_int3472_discrete_quirks :: "((dmi_field \<times> string) list \<times> int3472_discrete_quirks) list" where
  "skl_int3472_discrete_quirks =
     [([(DMI_SYS_VENDOR, ''LENOVO''), (DMI_PRODUCT_VERSION, ''MIIX 510-12IKB'')], lenovo_miix_510_quirks)]"

section \<open>What the driver holds\<close>

text \<open>
  The resources a driver has to give back, what each call takes (a failed call takes nothing), and
  what the state of the device says is held. \<open>regulator_register\<close> takes the descriptor it is given over
  from the driver and puts it itself when it fails: either way it is no longer the driver's to put.
\<close>

datatype resource = Memory | Acpi_object | Descriptor | Clk | Clkdev | Regulator | Led | Led_lookup

fun takes :: "resource \<Rightarrow> icall \<Rightarrow> int \<Rightarrow> int" where
  "takes x Kasprintf r = (if x = Memory \<and> 0 \<le> r then 1 else 0)"
| "takes x Kzalloc_lookup_table r = (if x = Memory \<and> 0 \<le> r then 1 else 0)"
| "takes x (Acpi_get_buffer p) r = (if x = Memory \<and> 0 \<le> r then 1 else 0)"
| "takes x Kfree r = (if x = Memory then - 1 else 0)"
| "takes x Acpi_evaluate_dsm_string r = (if x = Acpi_object \<and> 0 \<le> r then 1 else 0)"
| "takes x (Acpi_evaluate_dsm_gpio i) r = (if x = Acpi_object \<and> 0 \<le> r then 1 else 0)"
| "takes x (Acpi_evaluate_dsm_clk i e v) r = (if x = Acpi_object \<and> 0 \<le> r then 1 else 0)"
| "takes x Acpi_free r = (if x = Acpi_object then - 1 else 0)"
| "takes x (Gpiod_get con) r = (if x = Descriptor \<and> 0 \<le> r then 1 else 0)"
| "takes x (Gpiod_put g) r = (if x = Descriptor \<and> g \<noteq> None then - 1 else 0)"
| "takes x Clk_register r = (if x = Clk \<and> 0 \<le> r then 1 else 0)"
| "takes x Clk_unregister r = (if x = Clk then - 1 else 0)"
| "takes x (Clkdev_create dev) r = (if x = Clkdev \<and> 0 \<le> r then 1 else 0)"
| "takes x Clkdev_drop r = (if x = Clkdev then - 1 else 0)"
| "takes x (Regulator_register g) r = (if x = Regulator \<and> 0 \<le> r then 1 else if x = Descriptor then - 1 else 0)"
| "takes x (Regulator_unregister i) r = (if x = Regulator then - 1 else 0)"
| "takes x (Led_classdev_register n) r = (if x = Led \<and> r = 0 then 1 else 0)"
| "takes x (Led_classdev_unregister n) r = (if x = Led then - 1 else 0)"
| "takes x (Led_add_lookup n) r = (if x = Led_lookup then 1 else 0)"
| "takes x (Led_remove_lookup n) r = (if x = Led_lookup then - 1 else 0)"
| "takes x c r = 0"

abbreviation held_by :: "int3472 \<Rightarrow> resource \<Rightarrow> int" where
  "held_by s x \<equiv> weigh (takes x) (log s)"

abbreviation gpio_clock :: "int3472 \<Rightarrow> int" where
  "gpio_clock s \<equiv> (if cl (clock s) \<and> ena_gpio (clock s) \<noteq> None then 1 else 0)"

abbreviation leds_lit :: "int3472 \<Rightarrow> int" where
  "leds_lit s \<equiv> int (n_leds s) + (if led_dev (pled s) then 1 else 0)"

fun owned :: "resource \<Rightarrow> int3472 \<Rightarrow> int" where
  "owned Memory s = 0"
| "owned Acpi_object s = 0"
| "owned Descriptor s = gpio_clock s + leds_lit s"
| "owned Clk s = (if cl (clock s) then 1 else 0)"
| "owned Clkdev s = (if cl (clock s) then 1 else 0)"
| "owned Regulator s = int (n_regulator_gpios s)"
| "owned Led s = leds_lit s"
| "owned Led_lookup s = leds_lit s"

lemma owned_cong:
  assumes "clock s' = clock s" "n_regulator_gpios s' = n_regulator_gpios s" "n_leds s' = n_leds s" "pled s' = pled s"
  shows "owned x s' = owned x s"
  by (cases x) (simp_all add: assms)

text \<open>One descriptor more or less.\<close>

abbreviation desc :: "resource \<Rightarrow> int" where
  "desc x \<equiv> (if x = Descriptor then 1 else 0)"

text \<open>The registrations of a regulator that failed.\<close>

fun refusal :: "icall \<Rightarrow> int \<Rightarrow> int" where
  "refusal (Regulator_register g) r = (if r < 0 then 1 else 0)"
| "refusal c r = 0"

abbreviation refusals :: "int3472 \<Rightarrow> int" where
  "refusals s \<equiv> weigh refusal (log s)"

text \<open>What a log leaves to the driver, not counting the descriptors a refused registration put.\<close>

abbreviation left_by :: "ilog \<Rightarrow> resource \<Rightarrow> int" where
  "left_by l x \<equiv> weigh (takes x) l + desc x * weigh refusal l"

text \<open>
  The \<open>slack\<close> is what nobody will give back: what is held beyond what the state of the device says,
  not counting that the driver puts a descriptor once more after a registration that failed.
\<close>

definition slack :: "resource \<Rightarrow> int3472 \<Rightarrow> int" where
  "slack x s = held_by s x + desc x * refusals s - owned x s"

text \<open>
  The arrays of the device are as long as the header says, the counters are inside them, the entries
  of the lookup table below the counter are set and the rest is the terminator; the LEDs live in the
  array or in \<open>pled\<close>, whichever the kernel version has.
\<close>

definition device_ok :: "int3472_header \<Rightarrow> int3472 \<Rightarrow> bool" where
  "device_ok H s \<longleftrightarrow>
     length (gpios_table s) = MAX_SENSOR_GPIOS H + 1 \<and> n_sensor_gpios s \<le> MAX_SENSOR_GPIOS H \<and>
     (\<forall>i < length (gpios_table s). gpios_table s ! i = None \<longleftrightarrow> n_sensor_gpios s \<le> i) \<and>
     length (regulators s) = MAX_REGULATORS H \<and> n_regulator_gpios s \<le> MAX_REGULATORS H \<and>
     length (leds s) = MAX_LEDS H \<and> n_leds s \<le> MAX_LEDS H \<and>
     (\<forall>i < n_leds s. led_gpio (leds s ! i) \<noteq> None) \<and>
     (led_dev (pled s) \<longrightarrow> led_gpio (pled s) \<noteq> None) \<and>
     (if linux_7_1 H then \<not> led_dev (pled s) else n_leds s = 0)"

text \<open>A clock that is not registered holds no line.\<close>

definition clock_ready :: "int3472 \<Rightarrow> bool" where
  "clock_ready s \<longleftrightarrow> cl (clock s) \<or> ena_gpio (clock s) = None"

named_theorems int3472_calls "how a call moves the ledger"

lemma icall_fields [simp]:
  "log (snd (icall E c s)) = log s @ [(c, iret_of E (log s) c)]"
  "clock (snd (icall E c s)) = clock s" "n_regulator_gpios (snd (icall E c s)) = n_regulator_gpios s"
  "n_leds (snd (icall E c s)) = n_leds s" "leds (snd (icall E c s)) = leds s" "pled (snd (icall E c s)) = pled s"
  by (simp_all add: icall_def Let_def)

lemma ido_fields [simp]:
  "log (ido c s) = log s @ [(c, 0)]"
  "clock (ido c s) = clock s" "n_regulator_gpios (ido c s) = n_regulator_gpios s"
  "n_leds (ido c s) = n_leds s" "leds (ido c s) = leds s" "pled (ido c s) = pled s"
  by (simp_all add: ido_def)

lemma slack_icall [int3472_calls]:
  "slack x (snd (icall E c s)) = slack x s + takes x c (iret_of E (log s) c) + desc x * refusal c (iret_of E (log s) c)"
  using owned_cong [of "snd (icall E c s)" s x] by (simp add: slack_def)

lemma slack_ido [int3472_calls]: "slack x (ido c s) = slack x s + takes x c 0 + desc x * refusal c 0"
  using owned_cong [of "ido c s" s x] by (simp add: slack_def)

lemma icall_frame [simp]:
  "fst (icall E c s) = iret_of E (log s) c"
  "device_ok H (snd (icall E c s)) = device_ok H s" "clock_ready (snd (icall E c s)) = clock_ready s"
  by (simp_all add: icall_def Let_def device_ok_def clock_ready_def)

lemma ido_frame [simp]:
  "device_ok H (ido c s) = device_ok H s" "clock_ready (ido c s) = clock_ready s"
  by (simp_all add: ido_def device_ok_def clock_ready_def)

text \<open>A state that differs in the log only.\<close>

definition silent :: "int3472 \<Rightarrow> int3472" where
  "silent s = s\<lparr>log := []\<rparr>"

lemma silent_calls [simp]:
  "silent (snd (icall E c s)) = silent s" "silent (ido c s) = silent s"
  by (simp_all add: silent_def icall_def ido_def Let_def)

lemma silent_log: "silent s' = silent s \<Longrightarrow> s' = s\<lparr>log := log s'\<rparr>"
  unfolding silent_def by (cases s, cases s') simp

lemma silent_fields:
  assumes "silent s' = silent s"
  shows "clock s' = clock s" "n_sensor_gpios s' = n_sensor_gpios s" "gpios_table s' = gpios_table s"
    "regulators s' = regulators s" "n_regulator_gpios s' = n_regulator_gpios s" "n_leds s' = n_leds s"
    "pled s' = pled s" "ngpios s' = ngpios s" "hid s' = hid s" "quirks s' = quirks s" "sensor_name s' = sensor_name s"
    "gpios_dev_id s' = gpios_dev_id s" "device_ok H s' = device_ok H s" "clock_ready s' = clock_ready s"
  by (subst silent_log [OF assms], simp add: device_ok_def clock_ready_def)+

lemma silent_owned: "silent s' = silent s \<Longrightarrow> owned x s' = owned x s"
  by (rule owned_cong) (auto dest: silent_fields)


section \<open>Registration\<close>

text \<open>
  A registration returns zero exactly when it takes its descriptor over, and otherwise leaves
  nothing behind.
\<close>

lemma clk_frequency_frame:
  assumes "skl_int3472_get_clk_frequency H E s = (f, s')"
  shows "device_ok H s' = device_ok H s" "clock s' = clock s" "slack x s' = slack x s"
  using assms by (auto simp: skl_int3472_get_clk_frequency_def int3472_calls Let_def case_prod_beta split: if_splits)

lemma clock_update:
  "device_ok H (s\<lparr>clock := c\<rparr>) = device_ok H s"
  "slack x (s\<lparr>clock := c\<rparr>) = slack x s + owned x s - owned x (s\<lparr>clock := c\<rparr>)"
  by (simp_all add: device_ok_def slack_def)

lemma owned_clock:
  "\<not> cl (clock s) \<Longrightarrow> \<not> cl c \<Longrightarrow> owned x (s\<lparr>clock := c\<rparr>) = owned x s"
  by (cases x) (simp_all add: owned.simps)

lemma register_clock:
  assumes "\<not> cl (clock s)" and "skl_int3472_register_clock H E s = (ret, s')"
  shows "device_ok H s' = device_ok H s" "ret \<le> 0" "cl (clock s') \<longleftrightarrow> ret = 0"
    "slack x s' = slack x s - (if ret = 0 \<and> ena_gpio (clock s) \<noteq> None then desc x else 0)"
proof -
  obtain f s1 where f: "skl_int3472_get_clk_frequency H E (snd (icall E Kasprintf s)) = (f, s1)" by fastforce
  note fr = clk_frequency_frame [OF f]
  show "device_ok H s' = device_ok H s" "ret \<le> 0" "cl (clock s') \<longleftrightarrow> ret = 0"
    using assms fr by (auto simp: skl_int3472_register_clock_def f clock_update Let_def case_prod_beta
        errno_defs split: if_splits)
  show "slack x s' = slack x s - (if ret = 0 \<and> ena_gpio (clock s) \<noteq> None then desc x else 0)"
    using assms fr(1,2) fr(3) [where x = x]
    by (cases x; auto simp: skl_int3472_register_clock_def f clock_update Let_def case_prod_beta owned.simps
        errno_defs int3472_calls split: if_splits)
qed

lemma register_gpio_clock:
  assumes "skl_int3472_register_gpio_clock H E g s = (ret, s')"
  shows "device_ok H s' = device_ok H s" "ret \<le> 0" "ret = 0 \<Longrightarrow> clock_ready s'"
    "slack x s' = slack x s - (if ret = 0 then desc x else 0)"
  using assms register_clock [of "s\<lparr>clock := (clock s)\<lparr>ena_gpio := Some g\<rparr>\<rparr>" H E ret s']
  by (auto simp: skl_int3472_register_gpio_clock_def clock_update owned_clock clock_ready_def errno_defs
      split: if_splits)

lemma register_dsm_clock:
  assumes "clock_ready s" and "skl_int3472_register_dsm_clock H E s = (ret, s')"
  shows "device_ok H s' = device_ok H s" "ret \<le> 0" "slack x s' = slack x s"
  using assms register_clock [of "snd (icall E Acpi_check_dsm_clk s)" H E ret s']
  by (auto simp: skl_int3472_register_dsm_clock_def clock_ready_def Let_def case_prod_beta int3472_calls
      split: if_splits)

lemma register_regulator:
  assumes "skl_int3472_register_regulator H E g t nm second s = (ret, s')" and "device_ok H s"
  shows "device_ok H s'" "ret \<le> 0" "clock s' = clock s"
    "slack x s' = slack x s - (if ret = 0 then desc x else 0)"
proof -
  show "device_ok H s'" "ret \<le> 0" "clock s' = clock s"
    using assms by (auto simp: skl_int3472_register_regulator_def Let_def icall_def device_ok_def errno_defs
        split: if_splits)
  show "slack x s' = slack x s - (if ret = 0 then desc x else 0)"
    using assms(1) by (cases x) (auto simp: skl_int3472_register_regulator_def Let_def icall_def slack_def
        owned.simps errno_defs split: if_splits)
qed

lemma register_led:
  assumes "skl_int3472_register_led H E g con s = (ret, s')" and "device_ok H s" and "linux_7_1 H"
  shows "device_ok H s'" "clock s' = clock s"
    "slack x s' = slack x s - (if ret = 0 then desc x else 0)"
proof -
  show "device_ok H s'" "clock s' = clock s"
    using assms by (auto simp: skl_int3472_register_led_def Let_def icall_def ido_def device_ok_def nth_list_update
        errno_defs split: if_splits)
  show "slack x s' = slack x s - (if ret = 0 then desc x else 0)"
    using assms(1) by (cases x) (auto simp: skl_int3472_register_led_def Let_def icall_def ido_def slack_def
        owned.simps errno_defs split: if_splits)
qed

lemma register_pled:
  assumes "skl_int3472_register_pled H E g s = (ret, s')" and "device_ok H s" and "\<not> linux_7_1 H"
  shows "device_ok H s'" "clock s' = clock s"
    "slack x s' = slack x s - (if ret = 0 then desc x else 0)"
proof -
  show "device_ok H s'" "clock s' = clock s"
    using assms by (auto simp: skl_int3472_register_pled_def Let_def icall_def ido_def device_ok_def
        errno_defs split: if_splits)
  show "slack x s' = slack x s - (if ret = 0 then desc x else 0)"
    using assms(1) by (cases x) (auto simp: skl_int3472_register_pled_def Let_def icall_def ido_def slack_def
        owned.simps errno_defs split: if_splits)
qed

text \<open>Only the registration of a regulator counts as refused, and only when it returns an error.\<close>

abbreviation refused_once :: "int3472 \<Rightarrow> int \<Rightarrow> int3472 \<Rightarrow> bool" where
  "refused_once s ret s' \<equiv> refusals s' = refusals s \<or> ret < 0 \<and> refusals s' = refusals s + 1"

lemma clock_refusals:
  "refusals (snd (skl_int3472_register_clock H E s)) = refusals s"
  "refusals (snd (skl_int3472_register_gpio_clock H E g s)) = refusals s"
  "refusals (snd (skl_int3472_register_dsm_clock H E s)) = refusals s"
proof -
  have f: "refusals (snd (skl_int3472_get_clk_frequency H E s)) = refusals s" for s
    by (simp add: skl_int3472_get_clk_frequency_def Let_def case_prod_beta)
  show c: "refusals (snd (skl_int3472_register_clock H E s)) = refusals s" for s
    by (simp add: skl_int3472_register_clock_def Let_def case_prod_beta f)
  show "refusals (snd (skl_int3472_register_gpio_clock H E g s)) = refusals s"
    "refusals (snd (skl_int3472_register_dsm_clock H E s)) = refusals s"
    by (simp_all add: skl_int3472_register_gpio_clock_def skl_int3472_register_dsm_clock_def Let_def case_prod_beta c)
qed

lemma led_refusals:
  "refusals (snd (skl_int3472_register_led H E g con s)) = refusals s"
  "refusals (snd (skl_int3472_register_pled H E g s)) = refusals s"
  by (simp_all add: skl_int3472_register_led_def skl_int3472_register_pled_def Let_def case_prod_beta)

lemma regulator_refusals:
  assumes "skl_int3472_register_regulator H E g t nm second s = (ret, s')"
  shows "refused_once s ret s'"
  using assms by (auto simp: skl_int3472_register_regulator_def Let_def icall_def split: if_splits)

section \<open>Release\<close>

text \<open>What each release gives back, counted on the calls alone.\<close>

lemma held_ido [int3472_calls]: "held_by (ido c s) x = held_by s x + takes x c 0"
  by (simp add: ido_def)

lemma unregister_clock:
  "held_by (skl_int3472_unregister_clock s) x = held_by s x -
     (if cl (clock s) then (case x of Clk \<Rightarrow> 1 | Clkdev \<Rightarrow> 1
        | Descriptor \<Rightarrow> (if ena_gpio (clock s) \<noteq> None then 1 else 0) | _ \<Rightarrow> 0) else 0)"
  by (cases x) (auto simp: skl_int3472_unregister_clock_def int3472_calls)

lemma unregister_clock_frame [simp]:
  "n_leds (skl_int3472_unregister_clock s) = n_leds s" "leds (skl_int3472_unregister_clock s) = leds s"
  "pled (skl_int3472_unregister_clock s) = pled s"
  "n_regulator_gpios (skl_int3472_unregister_clock s) = n_regulator_gpios s"
  by (simp_all add: skl_int3472_unregister_clock_def)

definition led_held :: "resource \<Rightarrow> int" where
  "led_held x = (if x \<in> {Descriptor, Led, Led_lookup} then 1 else 0)"

lemma unregister_led:
  "led_gpio l \<noteq> None \<Longrightarrow> held_by (unregister_led l s) x = held_by s x - led_held x"
  by (cases x) (auto simp: unregister_led_def int3472_calls led_held_def)

lemma unregister_led_frame [simp]:
  "n_regulator_gpios (unregister_led l s) = n_regulator_gpios s"
  by (simp add: unregister_led_def)

lemma unregister_led_list:
  "list_all (\<lambda>l. led_gpio l \<noteq> None) ls \<Longrightarrow>
    held_by (fold unregister_led ls s) x = held_by s x - int (length ls) * led_held x"
  by (induction ls arbitrary: s) (simp_all add: unregister_led algebra_simps)

lemma unregister_led_list_frame [simp]:
  "n_regulator_gpios (fold unregister_led ls s) = n_regulator_gpios s"
  by (induction ls arbitrary: s) simp_all

lemma unregister_leds:
  assumes "device_ok H s"
  shows "held_by (if linux_7_1 H then skl_int3472_unregister_leds s else skl_int3472_unregister_pled s) x =
    held_by s x - (int (n_leds s) + (if led_dev (pled s) then 1 else 0)) * led_held x"
proof -
  have l: "length (take (n_leds s) (leds s)) = n_leds s"
      "list_all (\<lambda>l. led_gpio l \<noteq> None) (take (n_leds s) (leds s))"
    using assms by (simp_all add: device_ok_def list_all_length)
  show ?thesis
    using assms unregister_led_list [OF l(2), where s = s and x = x]
      unregister_led [where l = "pled s" and s = s and x = x]
    unfolding l(1) device_ok_def skl_int3472_unregister_leds_def skl_int3472_unregister_pled_def
    by (cases "linux_7_1 H") simp_all
qed

lemma unregister_leds_frame [simp]:
  "n_regulator_gpios (skl_int3472_unregister_leds s) = n_regulator_gpios s"
  "n_regulator_gpios (skl_int3472_unregister_pled s) = n_regulator_gpios s"
  by (simp_all add: skl_int3472_unregister_leds_def skl_int3472_unregister_pled_def)

lemma unregister_regulator:
  "held_by (skl_int3472_unregister_regulator s) x =
     held_by s x - (if x = Regulator then int (n_regulator_gpios s) else 0)"
proof -
  have "held_by (fold (\<lambda>i. ido (Regulator_unregister i)) is s) x =
      held_by s x - (if x = Regulator then int (length is) else 0)" for "is" s
    by (induction "is" arbitrary: s) (simp_all add: int3472_calls)
  then show ?thesis by (simp add: skl_int3472_unregister_regulator_def)
qed

text \<open>A release registers nothing.\<close>

lemma release_refusals:
  "refusals (skl_int3472_unregister_clock s) = refusals s"
  "refusals (if linux_7_1 H then skl_int3472_unregister_leds s else skl_int3472_unregister_pled s) = refusals s"
  "refusals (skl_int3472_unregister_regulator s) = refusals s"
proof -
  have l: "refusals (fold unregister_led ls s) = refusals s" for ls s
    by (induction ls arbitrary: s) (simp_all add: unregister_led_def)
  have r: "refusals (fold (\<lambda>i. ido (Regulator_unregister i)) is s) = refusals s" for "is" s
    by (induction "is" arbitrary: s) simp_all
  show "refusals (skl_int3472_unregister_clock s) = refusals s"
    by (simp add: skl_int3472_unregister_clock_def)
  show "refusals (if linux_7_1 H then skl_int3472_unregister_leds s else skl_int3472_unregister_pled s) = refusals s"
    using l [of "[pled s]" s] by (simp add: skl_int3472_unregister_leds_def skl_int3472_unregister_pled_def l)
  show "refusals (skl_int3472_unregister_regulator s) = refusals s"
    by (simp add: skl_int3472_unregister_regulator_def r)
qed

section \<open>The rate and the switch of the clock\<close>

lemma load_u32:
  "unat (load_u32 b i) = unat (b ! i) + 2 ^ 8 * unat (b ! (i + 1)) + 2 ^ 16 * unat (b ! (i + 2)) +
     2 ^ 24 * unat (b ! (i + 3))"
proof -
  define p where "p = (ucast (b ! i) :: u32)"
  define q where "q = (push_bit 8 (ucast (b ! (i + 1))) :: u32)"
  define r where "r = (push_bit 16 (ucast (b ! (i + 2))) :: u32)"
  define t where "t = (push_bit 24 (ucast (b ! (i + 3))) :: u32)"
  have lt: "unat c < 256" for c :: u8
    using unsigned_less [of c, where ?'a = nat] by simp
  have uc: "unat (ucast c :: u32) = unat c" for c :: u8
    using lt [of c] by (simp add: unsigned_ucast_eq take_bit_nat_eq_self)
  have pb: "unat (push_bit k (ucast c :: u32)) = 2 ^ k * unat c" if "k \<le> 24" for k and c :: u8
  proof -
    have "2 ^ k * unat c < 2 ^ k * 256" using lt by simp
    also have "\<dots> \<le> 2 ^ 24 * 256" using that by (intro mult_le_mono1 power_increasing) simp_all
    finally have small: "unat c * 2 ^ k < 2 ^ LENGTH(32)" by (simp add: mult.commute)
    have "unat (push_bit k (ucast c :: u32)) = take_bit LENGTH(32) (unat c * 2 ^ k)"
      unfolding unsigned_push_bit_eq uc by (simp only: push_bit_eq_mult)
    then show ?thesis using small by (simp only: take_bit_nat_eq_self mult.commute)
  qed
  have u: "unat p = unat (b ! i)" "unat q = 2 ^ 8 * unat (b ! (i + 1))" "unat r = 2 ^ 16 * unat (b ! (i + 2))"
      "unat t = 2 ^ 24 * unat (b ! (i + 3))"
    unfolding p_def q_def r_def t_def by (rule uc | rule pb, simp)+
  have byte: "\<not> bit c n" if "8 \<le> n" for c :: u8 and n
    using that bit_imp_le_length [of c n] by auto
  have d: "p AND (q OR (r OR t)) = 0" "q AND (r OR t) = 0" "r AND t = 0"
    by (rule bit_word_eqI; auto simp: p_def q_def r_def t_def bit_simps byte)+
  have "load_u32 b i = p + (q + (r + t))"
    unfolding load_u32_def p_def [symmetric] q_def [symmetric] r_def [symmetric] t_def [symmetric]
    by (simp only: disjunctive_add_eq_or d)
  moreover have "unat (p + (q + (r + t))) = unat p + (unat q + (unat r + unat t))"
    using lt [of "b ! i"] lt [of "b ! (i + 1)"] lt [of "b ! (i + 2)"] lt [of "b ! (i + 3)"] u
    by (simp add: unat_plus_small)
  ultimately show ?thesis using u by simp
qed

text \<open>
  C39: The clock rate is the little-endian number at the clock offset of the SSDB buffer, read
  only when all four bytes lie in the buffer, and zero otherwise; the buffer is freed on every
  path.
\<close>

theorem clk_frequency:
  "(let (f, s') = skl_int3472_get_clk_frequency H E s; b = ibuf_of E (log s); i = SSDB_MCLKSPEED_OFFSET H
    in unat f = (if iret_of E (log s) (Acpi_get_buffer ''SSDB'') < 0 \<or> length b < i + 4 then 0
         else unat (b ! i) + 2 ^ 8 * unat (b ! (i + 1)) + 2 ^ 16 * unat (b ! (i + 2)) + 2 ^ 24 * unat (b ! (i + 3))) \<and>
       held_by s' Memory = held_by s Memory)"
  by (simp add: skl_int3472_get_clk_frequency_def load_u32 Let_def case_prod_beta)

text \<open>
  Preparing a clock without a GPIO keeps the object the _DSM answers.
\<close>

theorem clk_prepare_leaks:
  "(let (ret, s') = skl_int3472_clk_prepare E s;
        dsm = Acpi_evaluate_dsm_clk (imgclk_index (clock s)) 1 1
    in ret = 0 \<and> held_by s' Acpi_object = held_by s Acpi_object +
         (if ena_gpio (clock s) = None \<and> 0 \<le> iret_of E (log s) dsm then 1 else 0))"
  by (auto simp: skl_int3472_clk_prepare_def skl_int3472_enable_clk_def int3472_calls split: option.split)



end
