(* ===== verification/Int3472_Discrete.thy ===== *)
theory Int3472_Discrete
  imports Int3472_Device
begin

text \<open>
  The discrete INT3472 driver (\<open>dkms/int3472-surface/discrete.c\<close>): the mapping of a GPIO to its
  purpose, the handler that turns each GPIO resource of the firmware into a lookup, a clock, a
  regulator or a LED, the parse of all resources, probe and removal. The walk over the resources,
  \<open>acpi_dev_get_resources\<close>, is a parameter with the contract of the locale \<open>resource_walk\<close>.
\<close>

section \<open>The purpose of a GPIO\<close>

text \<open>
  The GPIO types, by the table in the comment of the handler. That comment leaves out the handshake
  type, which only the kernel header defines: it is a field of \<open>int3472_header\<close>.
\<close>

definition INT3472_GPIO_TYPE_RESET :: u8 where "INT3472_GPIO_TYPE_RESET = 0x00"
definition INT3472_GPIO_TYPE_POWERDOWN :: u8 where "INT3472_GPIO_TYPE_POWERDOWN = 0x01"
definition INT3472_GPIO_TYPE_POWER0 :: u8 where "INT3472_GPIO_TYPE_POWER0 = 0x07"
definition INT3472_GPIO_TYPE_POWER1 :: u8 where "INT3472_GPIO_TYPE_POWER1 = 0x08"
definition INT3472_GPIO_TYPE_POWER_ENABLE :: u8 where "INT3472_GPIO_TYPE_POWER_ENABLE = 0x0b"
definition INT3472_GPIO_TYPE_CLK_ENABLE :: u8 where "INT3472_GPIO_TYPE_CLK_ENABLE = 0x0c"
definition INT3472_GPIO_TYPE_PRIVACY_LED :: u8 where "INT3472_GPIO_TYPE_PRIVACY_LED = 0x0d"
definition INT3472_GPIO_TYPE_HOTPLUG_DETECT :: u8 where "INT3472_GPIO_TYPE_HOTPLUG_DETECT = 0x13"

lemmas gpio_types = INT3472_GPIO_TYPE_RESET_def INT3472_GPIO_TYPE_POWERDOWN_def INT3472_GPIO_TYPE_POWER0_def
  INT3472_GPIO_TYPE_POWER1_def INT3472_GPIO_TYPE_POWER_ENABLE_def INT3472_GPIO_TYPE_CLK_ENABLE_def
  INT3472_GPIO_TYPE_PRIVACY_LED_def INT3472_GPIO_TYPE_HOTPLUG_DETECT_def

definition GPIO_ACTIVE_HIGH :: u64 where "GPIO_ACTIVE_HIGH = 0"
definition GPIO_ACTIVE_LOW :: u64 where "GPIO_ACTIVE_LOW = 1"

lemmas gpio_flags = GPIO_ACTIVE_HIGH_def GPIO_ACTIVE_LOW_def

record int3472_gpio_map =
  map_hid :: string
  type_from :: u8
  type_to :: u8
  polarity_low :: bool
  enable_time_us :: u32
  map_con_id :: string

definition int3472_gpio_map :: "int3472_header \<Rightarrow> int3472_gpio_map list" where
  "int3472_gpio_map H =
     [\<lparr>map_hid = ''INT33F0'', type_from = INT3472_GPIO_TYPE_POWERDOWN, type_to = INT3472_GPIO_TYPE_POWER_ENABLE,
       polarity_low = False, enable_time_us = GPIO_REGULATOR_ENABLE_TIME H, map_con_id = ''vdd''\<rparr>,
      \<lparr>map_hid = ''INT347E'', type_from = INT3472_GPIO_TYPE_RESET, type_to = INT3472_GPIO_TYPE_RESET,
       polarity_low = False, enable_time_us = 0, map_con_id = ''enable''\<rparr>,
      \<lparr>map_hid = ''INT347E'', type_from = INT3472_GPIO_TYPE_POWER_ENABLE, type_to = INT3472_GPIO_TYPE_POWER_ENABLE,
       polarity_low = False, enable_time_us = GPIO_REGULATOR_ENABLE_TIME H, map_con_id = ''vdda''\<rparr>,
      \<lparr>map_hid = ''OVTI08F4'', type_from = INT3472_GPIO_TYPE_HANDSHAKE H, type_to = INT3472_GPIO_TYPE_HANDSHAKE H,
       polarity_low = False, enable_time_us = 45 * 1000, map_con_id = ''dvdd''\<rparr>]"

text \<open>The result of the mapping: type, name, polarity flags and enable time.\<close>

type_synonym gpio_role = "u8 \<times> string \<times> u64 \<times> u32"

text \<open>The \<open>switch\<close> for a GPIO no entry of the table is for; \<open>pwr1\<close> is the module parameter.\<close>

definition default_role :: "int3472_header \<Rightarrow> string \<Rightarrow> u8 \<Rightarrow> gpio_role" where
  "default_role H pwr1 t =
     (let time = GPIO_REGULATOR_ENABLE_TIME H
      in if t = INT3472_GPIO_TYPE_RESET then (t, ''reset'', GPIO_ACTIVE_LOW, time)
         else if t = INT3472_GPIO_TYPE_POWERDOWN then (t, ''powerdown'', GPIO_ACTIVE_LOW, time)
         else if t = INT3472_GPIO_TYPE_CLK_ENABLE then (t, ''clk-enable'', GPIO_ACTIVE_HIGH, time)
         else if t = INT3472_GPIO_TYPE_PRIVACY_LED then (t, ''privacy-led'', GPIO_ACTIVE_HIGH, time)
         else if t = INT3472_GPIO_TYPE_HOTPLUG_DETECT then (t, ''hpd'', GPIO_ACTIVE_HIGH, time)
         else if t = INT3472_GPIO_TYPE_POWER_ENABLE then (t, ''avdd'', GPIO_ACTIVE_HIGH, time)
         else if t = INT3472_GPIO_TYPE_POWER1 then (t, pwr1, GPIO_ACTIVE_HIGH, time)
         else if t = INT3472_GPIO_TYPE_HANDSHAKE H then (t, ''dvdd'', GPIO_ACTIVE_HIGH, 25 * 1000)
         else (t, ''unknown'', GPIO_ACTIVE_HIGH, time))"

fun map_loop :: "int3472_gpio_map list \<Rightarrow> string \<Rightarrow> u8 \<Rightarrow> gpio_role \<Rightarrow> gpio_role" where
  "map_loop [] h t other = other"
| "map_loop (m # ms) h t other =
     (if t \<noteq> type_from m then map_loop ms h t other
      else if h \<noteq> map_hid m then map_loop ms h t other
      else (type_to m, map_con_id m, if polarity_low m then GPIO_ACTIVE_LOW else GPIO_ACTIVE_HIGH,
            enable_time_us m))"

definition int3472_get_con_id_and_polarity :: "int3472_header \<Rightarrow> string \<Rightarrow> int3472 \<Rightarrow> u8 \<Rightarrow> gpio_role" where
  "int3472_get_con_id_and_polarity H pwr1 s t =
     map_loop (int3472_gpio_map H) (hid s) t (default_role H pwr1 t)"

section \<open>GPIO resources\<close>

text \<open>A GPIO I/O resource of the firmware: its controller and its first pin.\<close>

record acpi_gpio =
  source :: string
  pin0 :: u16

text \<open>The controller must be known to ACPI; the entry names it by its device name.\<close>

definition skl_int3472_fill_gpiod_lookup ::
    "ienv \<Rightarrow> (string \<Rightarrow> string) \<Rightarrow> acpi_gpio \<Rightarrow> string \<Rightarrow> u64 \<Rightarrow> int3472 \<Rightarrow> int \<times> gpiod_lookup option \<times> int3472" where
  "skl_int3472_fill_gpiod_lookup E dev_name g con flags s =
     (let (status, s) = icall E (Acpi_get_handle (source g)) s
      in if status \<noteq> 0 then (- EINVAL, None, s)
         else
     (let (ret, s) = icall E (Acpi_fetch_acpi_dev (source g)) s
      in if ret < 0 then (- ENODEV, None, s)
         else (0, Some \<lparr>key = dev_name (source g), chip_hwnum = pin0 g, con_id = con, lflags = flags\<rparr>, s)))"

definition skl_int3472_map_gpio_to_sensor :: "int3472_header \<Rightarrow> ienv \<Rightarrow> (string \<Rightarrow> string) \<Rightarrow> acpi_gpio \<Rightarrow> string \<Rightarrow> u64 \<Rightarrow>
    int3472 \<Rightarrow> int \<times> int3472" where
  "skl_int3472_map_gpio_to_sensor H E dev_name g con flags s =
     (if n_sensor_gpios s \<ge> MAX_SENSOR_GPIOS H then (- EINVAL, s)
      else
        (let (ret, e, s) = skl_int3472_fill_gpiod_lookup E dev_name g con flags s
         in if ret \<noteq> 0 then (ret, s)
            else (0, s\<lparr>gpios_table := (gpios_table s)[n_sensor_gpios s := e],
                       n_sensor_gpios := n_sensor_gpios s + 1\<rparr>)))"

text \<open>
  The temporary table is for the platform device itself and has this one entry; the result is a
  negative error or the descriptor.
\<close>

definition skl_int3472_gpiod_get_from_temp_lookup ::
    "ienv \<Rightarrow> (string \<Rightarrow> string) \<Rightarrow> acpi_gpio \<Rightarrow> string \<Rightarrow> u64 \<Rightarrow> int3472 \<Rightarrow> int \<times> int3472" where
  "skl_int3472_gpiod_get_from_temp_lookup E dev_name g con flags s =
     (let (ret, s) = icall E Kzalloc_lookup_table s
      in if ret < 0 then (- ENOMEM, s)
         else
     (let (ret, entry, s) = skl_int3472_fill_gpiod_lookup E dev_name g con flags s
      in if ret \<noteq> 0 then (ret, ido Kfree s)
         else
     (let s = ido (Gpiod_add_lookup_table (Some (pdev_name s)) [the entry]) s;
          (desc, s) = icall E (Gpiod_get con) s
      in (desc, ido Kfree (ido Gpiod_remove_lookup_table s)))))"

text \<open>The inner \<open>switch\<close>, for a GPIO the driver itself consumes.\<close>

definition register_consumer :: "int3472_header \<Rightarrow> ienv \<Rightarrow> u8 \<Rightarrow> string \<Rightarrow> u32 \<Rightarrow> gpio_desc \<Rightarrow> int3472 \<Rightarrow> int \<times> int3472" where
  "register_consumer H E t con time gpio s =
     (if t = INT3472_GPIO_TYPE_CLK_ENABLE then skl_int3472_register_gpio_clock H E gpio s
      else if t = INT3472_GPIO_TYPE_PRIVACY_LED then
        (if linux_7_1 H then skl_int3472_register_led H E gpio ''privacy'' s
         else skl_int3472_register_pled H E gpio s)
      else if t = INT3472_GPIO_TYPE_POWER_ENABLE then
        skl_int3472_register_regulator H E gpio time con (avdd_second_sensor (quirks s)) s
      else if t = INT3472_GPIO_TYPE_POWER1 \<or> t = INT3472_GPIO_TYPE_HANDSHAKE H then
        skl_int3472_register_regulator H E gpio time con None s
      else (- EINVAL, s))"

definition consumed_types :: "int3472_header \<Rightarrow> u8 set" where
  "consumed_types H = {INT3472_GPIO_TYPE_CLK_ENABLE, INT3472_GPIO_TYPE_PRIVACY_LED, INT3472_GPIO_TYPE_POWER_ENABLE,
     INT3472_GPIO_TYPE_POWER1, INT3472_GPIO_TYPE_HANDSHAKE H}"

text \<open>The outer \<open>switch\<close>: what is done with a GPIO of a type; an unknown one is reported and skipped.\<close>

definition handle_role :: "int3472_header \<Rightarrow> ienv \<Rightarrow> (string \<Rightarrow> string) \<Rightarrow> acpi_gpio \<Rightarrow> gpio_role \<Rightarrow>
    int3472 \<Rightarrow> int \<times> int3472" where
  "handle_role H E dev_name g role s =
     (let (t, con, flags, time) = role
      in if t = INT3472_GPIO_TYPE_RESET \<or> t = INT3472_GPIO_TYPE_POWERDOWN \<or> t = INT3472_GPIO_TYPE_HOTPLUG_DETECT
         then skl_int3472_map_gpio_to_sensor H E dev_name g con flags s
         else if t \<in> consumed_types H then
           (let (desc, s) = skl_int3472_gpiod_get_from_temp_lookup E dev_name g con flags s
            in if desc < 0 then (desc, s)
               else
                 (let (ret, s) = register_consumer H E t con time (nat desc) s
                  in (ret, if ret \<noteq> 0 then ido (Gpiod_put (Some (nat desc))) s else s)))
         else (1, s))"

text \<open>The flags of a role, turned when the firmware says the line is on when low.\<close>

definition turn_polarity :: "u32 \<Rightarrow> gpio_role \<Rightarrow> gpio_role" where
  "turn_polarity v role =
     (let (t, con, flags, time) = role
      in (t, con, if FIELD_GET 31 24 v = 0 then flags XOR GPIO_ACTIVE_LOW else flags, time))"

text \<open>\<open>None\<close> is a resource that is not a GPIO I/O resource.\<close>

definition skl_int3472_handle_gpio_resources :: "int3472_header \<Rightarrow> ienv \<Rightarrow> (string \<Rightarrow> string) \<Rightarrow> string \<Rightarrow>
    acpi_gpio option \<Rightarrow> int3472 \<Rightarrow> int \<times> int3472" where
  "skl_int3472_handle_gpio_resources H E dev_name pwr1 ares s =
     (case ares of
        None \<Rightarrow> (1, s)
      | Some g \<Rightarrow>
        (let (ret, v, s) = iread E (Acpi_evaluate_dsm_gpio (ngpios s + 2)) s
         in if ret < 0 then (1, s)
            else
              (let role = int3472_get_con_id_and_polarity H pwr1 s (ucast (FIELD_GET 7 0 v));
                   (ret, s) = handle_role H E dev_name g (turn_polarity v role) s;
                   s = ido Acpi_free (s\<lparr>ngpios := ngpios s + 1\<rparr>)
               in (if ret < 0 then ret else 1, s))))"

section \<open>All resources\<close>

text \<open>
  \<open>acpi_dev_get_resources\<close>: the walk touches the device only through the callback, stops at the
  first negative result and returns it, and returns no negative value otherwise.
\<close>

type_synonym ('r, 's) walker = "('r \<Rightarrow> 's \<Rightarrow> int \<times> 's) \<Rightarrow> 's \<Rightarrow> int \<times> 's"

definition skl_int3472_log_sensor_module_name :: "ienv \<Rightarrow> int3472 \<Rightarrow> int3472" where
  "skl_int3472_log_sensor_module_name E s =
     (let (ret, s) = icall E Acpi_evaluate_dsm_string s in if 0 \<le> ret then ido Acpi_free s else s)"

text \<open>What the GPIO core reads of the table of the device: the entries before the first zeroed one.\<close>

definition mapped_gpios :: "int3472 \<Rightarrow> gpiod_lookup list" where
  "mapped_gpios s = map the (takeWhile (\<lambda>e. e \<noteq> None) (gpios_table s))"

definition int3472_discrete_parse_crs :: "int3472_header \<Rightarrow> ienv \<Rightarrow> (string \<Rightarrow> string) \<Rightarrow> string \<Rightarrow>
    (acpi_gpio option, int3472) walker \<Rightarrow> int3472 \<Rightarrow> int \<times> int3472" where
  "int3472_discrete_parse_crs H E dev_name pwr1 W s =
     (let s = skl_int3472_log_sensor_module_name E s;
          (ret, s) = W (skl_int3472_handle_gpio_resources H E dev_name pwr1) s
      in if ret < 0 then (ret, s)
         else
     (let s = ido Acpi_dev_free_resource_list s;
          (ret, s) = skl_int3472_register_dsm_clock H E s
      in if ret < 0 then (ret, s)
         else
     (let s = s\<lparr>gpios_dev_id := Some (sensor_name s)\<rparr>
      in (0, ido (Gpiod_add_lookup_table (gpios_dev_id s) (mapped_gpios s)) s))))"

definition int3472_discrete_cleanup :: "int3472_header \<Rightarrow> int3472 \<Rightarrow> int3472" where
  "int3472_discrete_cleanup H s =
     (let s = ido Gpiod_remove_lookup_table s;
          s = skl_int3472_unregister_clock s;
          s = (if linux_7_1 H then skl_int3472_unregister_leds s else skl_int3472_unregister_pled s)
      in skl_int3472_unregister_regulator s)"

definition skl_int3472_discrete_remove :: "int3472_header \<Rightarrow> int3472 \<Rightarrow> int3472" where
  "skl_int3472_discrete_remove H s = int3472_discrete_cleanup H s"

section \<open>Probe\<close>

text \<open>
  What the firmware and the kernel tell the probe: the ACPI companion, the two fields of the CLDB
  buffer it reads, and the names. \<open>M\<close> is \<open>dmi_first_match\<close>.
\<close>

record int3472_firmware =
  has_companion :: bool
  control_logic_type :: u8
  clock_source :: u8
  fw_dev_name :: string
  fw_adev_name :: string
  fw_sensor_adev_name :: string
  fw_sensor_name :: string
  fw_hid :: string

definition zero_clock :: int3472_clock where
  "zero_clock = \<lparr>clk = 0, cl = False, ena_gpio = None, frequency = 0, imgclk_index = 0\<rparr>"

definition zero_led :: int3472_led where
  "zero_led = \<lparr>led_name = [], led_gpio = None, led_dev = False, led_lookup = None\<rparr>"

definition zero_regulator :: int3472_gpio_regulator where
  "zero_regulator = \<lparr>supply_name_upper = [], supply_map = [], regulator_name = [], enable_time = 0,
     off_on_delay = 0, rdev = 0\<rparr>"

text \<open>The zeroed device, with one more lookup entry than it will use.\<close>

definition zero_int3472 :: "int3472_header \<Rightarrow> ilog \<Rightarrow> int3472" where
  "zero_int3472 H l = \<lparr>log = l, pdev_name = [], adev_name = [], sensor_adev_name = [], sensor_name = [], hid = [], ngpios = 0,
     n_sensor_gpios = 0, gpios_dev_id = None, gpios_table = replicate (MAX_SENSOR_GPIOS H + 1) None, clock = zero_clock,
     n_regulator_gpios = 0, regulators = replicate (MAX_REGULATORS H) zero_regulator, n_leds = 0,
     leds = replicate (MAX_LEDS H) zero_led, pled = zero_led, quirks = \<lparr>avdd_second_sensor = None\<rparr>\<rparr>"

definition skl_int3472_discrete_probe :: "int3472_header \<Rightarrow> ienv \<Rightarrow> (string \<Rightarrow> string) \<Rightarrow> string \<Rightarrow>
    (acpi_gpio option, int3472) walker \<Rightarrow>
    (((dmi_field \<times> string) list \<times> int3472_discrete_quirks) list \<Rightarrow> int3472_discrete_quirks option) \<Rightarrow>
    int3472_firmware \<Rightarrow> ilog \<Rightarrow> int \<times> int3472" where
  "skl_int3472_discrete_probe H E dev_name pwr1 W M fw l =
     (let s = zero_int3472 H l
      in if \<not> has_companion fw then (- ENODEV, s)
         else
     (let q = M skl_int3472_discrete_quirks;
          (ret, s) = icall E Fill_cldb s
      in if ret \<noteq> 0 then (ret, s)
         else if control_logic_type fw \<noteq> 1 then (- EINVAL, s)
         else
     (let (ret, s) = icall E Devm_kzalloc_device s
      in if ret < 0 then (- ENOMEM, s)
         else
     (let s = s\<lparr>pdev_name := fw_dev_name fw, adev_name := fw_adev_name fw, clock := (clock s)\<lparr>imgclk_index := clock_source fw\<rparr>,
            quirks := (case q of Some q \<Rightarrow> q | None \<Rightarrow> quirks s)\<rparr>;
          (ret, s) = icall E Get_sensor_adev_and_name s
      in if ret \<noteq> 0 then (ret, s)
         else
     (let s = s\<lparr>sensor_adev_name := fw_sensor_adev_name fw, sensor_name := fw_sensor_name fw, hid := fw_hid fw\<rparr>;
          (ret, s) = int3472_discrete_parse_crs H E dev_name pwr1 W s
      in if ret \<noteq> 0 then (ret, skl_int3472_discrete_remove H s)
         else (0, ido Acpi_dev_clear_dependencies s))))))"

section \<open>The ledger of a GPIO resource\<close>

lemma fill_lookup:
  assumes "skl_int3472_fill_gpiod_lookup E dn g con fl s = (ret, e, s')"
  shows "silent s' = silent s" "slack x s' = slack x s" "ret \<le> 0"
    "e = (if ret = 0 then Some \<lparr>key = dn (source g), chip_hwnum = pin0 g, con_id = con, lflags = fl\<rparr> else None)"
  using assms by (auto simp: skl_int3472_fill_gpiod_lookup_def Let_def case_prod_beta errno_defs int3472_calls
      split: if_splits)

lemma map_gpio:
  assumes "skl_int3472_map_gpio_to_sensor H E dn g con fl s = (ret, s')" and ok: "device_ok H s"
  shows "ret \<le> 0" "device_ok H s'" "clock s' = clock s" "slack x s' = slack x s"
proof -
  obtain r e s1 where f: "skl_int3472_fill_gpiod_lookup E dn g con fl s = (r, e, s1)"
    by (cases "skl_int3472_fill_gpiod_lookup E dn g con fl s") auto
  note fl = fill_lookup [OF f] and fr = silent_fields [OF fill_lookup(1) [OF f]]
  from assms(1) fl(3,4) consider "s' = s" "ret < 0" | "s' = s1" "ret < 0" |
    v where "ret = 0" "n_sensor_gpios s < MAX_SENSOR_GPIOS H" "e = Some v"
    "s' = s1\<lparr>gpios_table := (gpios_table s)[n_sensor_gpios s := Some v], n_sensor_gpios := n_sensor_gpios s + 1\<rparr>"
    by (auto simp: skl_int3472_map_gpio_to_sensor_def f fr errno_defs Let_def split: if_splits)
  then have "ret \<le> 0 \<and> device_ok H s' \<and> clock s' = clock s \<and> slack x s' = slack x s"
  proof cases
    case (3 v)
    have ok1: "device_ok H s1" using ok by (simp only: fr)
    have own: "owned x s' = owned x s1" unfolding 3(4) by (rule owned_cong) simp_all
    have "device_ok H s'" using ok1 3(2) fr(2,3) by (auto simp: 3(4) device_ok_def nth_list_update)
    moreover have "slack x s' = slack x s" using fl(2) [where x = x] own by (simp add: slack_def 3(4))
    ultimately show ?thesis using fr(1) by (simp add: 3(1,4))
  qed (use ok fr fl(2) [where x = x] in simp_all)
  then show "ret \<le> 0" "device_ok H s'" "clock s' = clock s" "slack x s' = slack x s" by simp_all
qed

lemma temp_lookup:
  assumes "skl_int3472_gpiod_get_from_temp_lookup E dn g con fl s = (d, s')"
  shows "silent s' = silent s" "slack x s' = slack x s + (if 0 \<le> d then desc x else 0)"
proof -
  obtain r e s1 where f: "skl_int3472_fill_gpiod_lookup E dn g con fl (snd (icall E Kzalloc_lookup_table s)) = (r, e, s1)"
    by (cases "skl_int3472_fill_gpiod_lookup E dn g con fl (snd (icall E Kzalloc_lookup_table s))") auto
  note fl = fill_lookup [OF f]
  show "silent s' = silent s" "slack x s' = slack x s + (if 0 \<le> d then desc x else 0)"
    using assms fl(1,3) fl(2) [where x = x]
    by (auto simp: skl_int3472_gpiod_get_from_temp_lookup_def f Let_def case_prod_beta errno_defs int3472_calls
      split: if_splits)
qed

lemma register_consumer:
  assumes "register_consumer H E t con time g s = (ret, s')" and ok: "device_ok H s"
  shows "device_ok H s'" "clock_ready s \<Longrightarrow> 0 \<le> ret \<Longrightarrow> clock_ready s'"
    "slack x s' = slack x s - (if ret = 0 then desc x else 0)"
  using assms(1) register_gpio_clock [of H E g s ret s'] register_led [OF _ ok] register_pled [OF _ ok]
    register_regulator [OF _ ok] ok
  by (auto simp: register_consumer_def clock_ready_def errno_defs split: if_splits)

lemma handle_role:
  assumes "handle_role H E dn g role s = (ret, s')" and ok: "device_ok H s"
  shows "device_ok H s'" "clock_ready s \<Longrightarrow> 0 \<le> ret \<Longrightarrow> clock_ready s'" "slack x s' = slack x s"
proof -
  obtain t con fl time where r: "role = (t, con, fl, time)" by (cases role) auto
  obtain d s1 where tl: "skl_int3472_gpiod_get_from_temp_lookup E dn g con fl s = (d, s1)" by fastforce
  obtain rc s2 where rc: "register_consumer H E t con time (nat d) s1 = (rc, s2)" by fastforce
  have fr: "device_ok H s1 = device_ok H s" "clock_ready s1 = clock_ready s"
    using silent_fields [OF temp_lookup(1) [OF tl]] by simp_all
  note tl2 = temp_lookup(2) [OF tl, where x = x]
  let ?sensor = "t = INT3472_GPIO_TYPE_RESET \<or> t = INT3472_GPIO_TYPE_POWERDOWN \<or> t = INT3472_GPIO_TYPE_HOTPLUG_DETECT"
  have eq: "(ret, s') =
      (if ?sensor then skl_int3472_map_gpio_to_sensor H E dn g con fl s
       else if t \<in> consumed_types H then
         (if d < 0 then (d, s1) else (rc, if rc \<noteq> 0 then ido (Gpiod_put (Some (nat d))) s2 else s2))
       else (1, s))"
    unfolding assms(1) [symmetric] handle_role_def r Let_def prod.case tl rc by (rule refl)
  consider
      "skl_int3472_map_gpio_to_sensor H E dn g con fl s = (ret, s')"
    | "d < 0" "ret = d" "s' = s1"
    | "\<not> d < 0" "rc = 0" "ret = 0" "s' = s2"
    | "\<not> d < 0" "rc \<noteq> 0" "ret = rc" "s' = ido (Gpiod_put (Some (nat d))) s2"
    | "ret = 1" "s' = s"
    using eq by (cases "?sensor"; cases "t \<in> consumed_types H"; cases "d < 0"; cases "rc = 0")
      (simp_all only: if_True if_False prod.inject simp_thms)
  then have "device_ok H s' \<and> (clock_ready s \<longrightarrow> 0 \<le> ret \<longrightarrow> clock_ready s') \<and> slack x s' = slack x s"
  proof cases
    case 1
    show ?thesis using map_gpio [OF 1 ok] by (simp add: clock_ready_def)
  next
    case 3
    show ?thesis using register_consumer [OF rc] fr ok tl2 3 by simp
  next
    case 4
    show ?thesis using register_consumer [OF rc] fr ok tl2 4 by (simp add: slack_ido)
  qed (use fr ok tl2 in simp_all)
  then show "device_ok H s'" "clock_ready s \<Longrightarrow> 0 \<le> ret \<Longrightarrow> clock_ready s'" "slack x s' = slack x s"
    by simp_all
qed

lemma iread_frame [simp]:
  "fst (iread E c s) = iret_of E (log s) c" "fst (snd (iread E c s)) = ival_of E (log s) c"
  "silent (snd (snd (iread E c s))) = silent s"
  "log (snd (snd (iread E c s))) = log s @ [(c, iret_of E (log s) c)]"
  by (simp_all add: iread_def Let_def silent_def)

lemma slack_iread [int3472_calls]:
  "slack x (snd (snd (iread E c s))) = slack x s + takes x c (iret_of E (log s) c) + desc x * refusal c (iret_of E (log s) c)"
  using silent_owned [of "snd (snd (iread E c s))" s x] by (simp add: slack_def algebra_simps)

lemma next_gpio [simp]:
  "device_ok H (s\<lparr>ngpios := n\<rparr>) = device_ok H s" "clock_ready (s\<lparr>ngpios := n\<rparr>) = clock_ready s"
  "slack x (s\<lparr>ngpios := n\<rparr>) = slack x s"
  using owned_cong [of "s\<lparr>ngpios := n\<rparr>" s x] by (simp_all add: device_ok_def clock_ready_def slack_def)

lemma handle_gpio_cases:
  assumes "skl_int3472_handle_gpio_resources H E dn pwr1 ares s = (ret, s')"
  defines "c \<equiv> Acpi_evaluate_dsm_gpio (ngpios s + 2)"
  obtains "ares = None" "ret = 1" "s' = s"
  | g where "ares = Some g" "ret = 1" "iret_of E (log s) c < 0" "s' = snd (snd (iread E c s))"
  | g rh s2 where "ares = Some g" "0 \<le> iret_of E (log s) c"
    "handle_role H E dn g (turn_polarity (ival_of E (log s) c)
       (int3472_get_con_id_and_polarity H pwr1 s (ucast (FIELD_GET 7 0 (ival_of E (log s) c)))))
       (snd (snd (iread E c s))) = (rh, s2)"
    "ret = (if rh < 0 then rh else 1)" "s' = ido Acpi_free (s2\<lparr>ngpios := ngpios s2 + 1\<rparr>)"
proof (cases ares)
  case None
  then show ?thesis using assms(1) that(1) by (simp add: skl_int3472_handle_gpio_resources_def)
next
  case (Some g)
  let ?s1 = "snd (snd (iread E c s))" and ?v = "ival_of E (log s) c"
  have hid: "hid ?s1 = hid s" using silent_fields(9) [OF iread_frame(3)] .
  obtain rh s2 where h: "handle_role H E dn g (turn_polarity ?v
      (int3472_get_con_id_and_polarity H pwr1 s (ucast (FIELD_GET 7 0 ?v)))) ?s1 = (rh, s2)" by fastforce
  have "skl_int3472_handle_gpio_resources H E dn pwr1 ares s =
      (if iret_of E (log s) c < 0 then (1, ?s1)
       else (if rh < 0 then rh else 1, ido Acpi_free (s2\<lparr>ngpios := ngpios s2 + 1\<rparr>)))"
    using h hid
    by (simp add: Some skl_int3472_handle_gpio_resources_def c_def [symmetric] Let_def case_prod_beta
        int3472_get_con_id_and_polarity_def)
  then show ?thesis using assms(1) that(2) [OF Some] that(3) [OF Some _ h] by (auto split: if_splits)
qed

lemma handle_gpio:
  assumes "skl_int3472_handle_gpio_resources H E dn pwr1 ares s = (ret, s')" and ok: "device_ok H s"
  shows "device_ok H s'" "clock_ready s \<Longrightarrow> 0 \<le> ret \<Longrightarrow> clock_ready s'" "slack x s' = slack x s"
    "ret = 1 \<or> ret < 0"
proof -
  have fr: "device_ok H (snd (snd (iread E c s))) = device_ok H s" "clock_ready (snd (snd (iread E c s))) = clock_ready s" for c
    using silent_fields(13,14) [OF iread_frame(3) [of E c s]] by simp_all
  have "device_ok H s' \<and> (clock_ready s \<longrightarrow> 0 \<le> ret \<longrightarrow> clock_ready s') \<and> slack x s' = slack x s \<and>
      (ret = 1 \<or> ret < 0)"
    using assms(1)
  proof (cases rule: handle_gpio_cases)
    case 1
    then show ?thesis using ok by simp
  next
    case (2 g)
    then show ?thesis using ok fr slack_iread [of x E "Acpi_evaluate_dsm_gpio (ngpios s + 2)" s] by simp
  next
    case (3 g rh s2)
    then show ?thesis
      using handle_role [OF 3(3)] ok fr slack_iread [of x E "Acpi_evaluate_dsm_gpio (ngpios s + 2)" s]
      by (simp add: slack_ido)
  qed
  then show "device_ok H s'" "clock_ready s \<Longrightarrow> 0 \<le> ret \<Longrightarrow> clock_ready s'" "slack x s' = slack x s"
    "ret = 1 \<or> ret < 0" by simp_all
qed

section \<open>Refused registrations\<close>

text \<open>A resource refuses at most one registration, and then the handler returns an error.\<close>

lemma fill_lookup_refusals: "refusals (snd (snd (skl_int3472_fill_gpiod_lookup E dn g con fl s))) = refusals s"
  by (simp add: skl_int3472_fill_gpiod_lookup_def Let_def case_prod_beta)

lemma temp_lookup_refusals: "refusals (snd (skl_int3472_gpiod_get_from_temp_lookup E dn g con fl s)) = refusals s"
  by (simp add: skl_int3472_gpiod_get_from_temp_lookup_def Let_def case_prod_beta fill_lookup_refusals)

lemma register_consumer_refusals:
  assumes "register_consumer H E t con time g s = (ret, s')"
  shows "refused_once s ret s'"
proof -
  note r = clock_refusals(2) [of H E g s] led_refusals(1) [of H E g "''privacy''" s] led_refusals(2) [of H E g s]
  show ?thesis
    using assms r by (auto simp: register_consumer_def dest: regulator_refusals split: if_splits)
qed

lemma map_gpio_refusals: "refusals (snd (skl_int3472_map_gpio_to_sensor H E dn g con fl s)) = refusals s"
  using fill_lookup_refusals [of E dn g con fl s]
  by (simp add: skl_int3472_map_gpio_to_sensor_def Let_def case_prod_beta)

lemma handle_role_refusals:
  assumes "handle_role H E dn g role s = (ret, s')"
  shows "refused_once s ret s'"
proof -
  obtain t con fl time where r: "role = (t, con, fl, time)" by (cases role) auto
  obtain d s1 where tl: "skl_int3472_gpiod_get_from_temp_lookup E dn g con fl s = (d, s1)" by fastforce
  obtain rc s2 where rc: "register_consumer H E t con time (nat d) s1 = (rc, s2)" by fastforce
  have 1: "refusals s1 = refusals s" using temp_lookup_refusals [of E dn g con fl s] tl by simp
  show ?thesis
    using assms map_gpio_refusals [of H E dn g con fl s] register_consumer_refusals [OF rc] 1
    by (auto simp: handle_role_def r tl rc Let_def split: if_splits)
qed

lemma handle_gpio_refusals:
  assumes "skl_int3472_handle_gpio_resources H E dn pwr1 ares s = (ret, s')"
  shows "refused_once s ret s'"
  using assms
proof (cases rule: handle_gpio_cases)
  case (3 g rh s2)
  then show ?thesis using handle_role_refusals [OF 3(3)] by (auto split: if_splits)
qed simp_all

section \<open>The walk over the resources\<close>

text \<open>
  The contract of \<open>acpi_dev_get_resources\<close>: what every call of the callback that returns no error
  keeps holds after the walk, or a call that returned an error ended it. A walk that the firmware
  ends early also returns an error.
\<close>

locale resource_walk =
  fixes W :: "('r, 's) walker"
  assumes walk: "(\<And>r t q t'. I t \<Longrightarrow> f r t = (q, t') \<Longrightarrow> (if q < 0 then J t' else I t')) \<Longrightarrow>
    I s \<Longrightarrow> W f s = (ret, s') \<Longrightarrow> I s' \<or> ret < 0 \<and> J s'"

text \<open>The documented walk over the resources \<open>rs\<close>, which ends with \<open>end\<close>.\<close>

definition acpi_walk :: "'r list \<Rightarrow> int \<Rightarrow> ('r, 's) walker" where
  "acpi_walk rs ret f s = (let (r, s) = seq_until (\<lambda>r. r < 0) f rs s in (if r < 0 then r else ret, s))"

lemma seq_until_walk:
  assumes "\<And>r t q t'. I t \<Longrightarrow> f r t = (q, t') \<Longrightarrow> (if q < (0::int) then J t' else I t')" and "I s"
    and "seq_until (\<lambda>r. r < 0) f rs s = (ret, s')"
  shows "I s' \<or> ret < 0 \<and> J s'"
  using assms(2,3)
proof (induction rs arbitrary: s)
  case (Cons r rs)
  obtain q t' where "f r s = (q, t')" by fastforce
  then show ?case using Cons assms(1) [of s r q t'] by (auto split: if_splits)
qed simp

interpretation acpi: resource_walk "acpi_walk rs end" for rs "end"
proof
  fix I J :: "'b \<Rightarrow> bool" and f :: "'a \<Rightarrow> 'b \<Rightarrow> int \<times> 'b" and s ret s'
  assume st: "\<And>r t q t'. I t \<Longrightarrow> f r t = (q, t') \<Longrightarrow> (if q < 0 then J t' else I t')" and "I s"
    and w: "acpi_walk rs end f s = (ret, s')"
  obtain r t where t: "seq_until (\<lambda>r. r < 0) f rs s = (r, t)" by fastforce
  with seq_until_walk [where I = I and J = J, OF st \<open>I s\<close> t] w show "I s' \<or> ret < 0 \<and> J s'"
    by (auto simp: acpi_walk_def split: if_splits)
qed

section \<open>The whole firmware table\<close>

lemma log_module_name:
  "silent (skl_int3472_log_sensor_module_name E s) = silent s"
  "slack x (skl_int3472_log_sensor_module_name E s) = slack x s"
  by (simp_all add: skl_int3472_log_sensor_module_name_def Let_def case_prod_beta int3472_calls)

definition settled :: "int3472_header \<Rightarrow> (resource \<Rightarrow> int) \<Rightarrow> int3472 \<Rightarrow> bool" where
  "settled H k s \<longleftrightarrow> device_ok H s \<and> (\<forall>x. slack x s = k x)"

context resource_walk
begin

text \<open>The walk with the handler keeps the device in order and the ledger balanced, however it ends.\<close>

lemma walk_keeps:
  assumes "\<And>r t q t'. K t \<Longrightarrow> f r t = (q, t') \<Longrightarrow> K t' \<and> (0 \<le> q \<longrightarrow> R t \<longrightarrow> R t')"
    and "K s" and "R s" and "W f s = (ret, s')"
  shows "K s'" "0 \<le> ret \<Longrightarrow> R s'"
  using walk [where I = "\<lambda>t. K t \<and> R t" and J = K and f = f, OF _ _ assms(4)] assms(1-3) by fastforce+

end

lemma parse_crs:
  assumes W: "resource_walk W" and "int3472_discrete_parse_crs H E dn pwr1 W s = (ret, s')"
    and s: "settled H k s" "clock_ready s"
  shows "settled H k s'" "ret \<le> 0"
proof -
  let ?s0 = "skl_int3472_log_sensor_module_name E s" and ?f = "skl_int3472_handle_gpio_resources H E dn pwr1"
  obtain r1 s1 where w: "W ?f ?s0 = (r1, s1)" by fastforce
  obtain r2 s2 where c: "skl_int3472_register_dsm_clock H E (ido Acpi_dev_free_resource_list s1) = (r2, s2)" by fastforce
  have 0: "settled H k ?s0" "clock_ready ?s0"
    using s silent_fields(13,14) [OF log_module_name(1)] by (simp_all add: settled_def log_module_name(2))
  have f: "settled H k t' \<and> (0 \<le> q \<longrightarrow> clock_ready t \<longrightarrow> clock_ready t')"
    if "settled H k t" "?f r t = (q, t')" for r t q t'
    using handle_gpio [OF that(2)] that(1) by (simp add: settled_def)
  note w1 = resource_walk.walk_keeps [OF W, where K = "settled H k" and R = clock_ready, OF f 0 w]
  let ?s3 = "s2\<lparr>gpios_dev_id := Some (sensor_name s2)\<rparr>"
  have eq: "(ret, s') = (if r1 < 0 then (r1, s1) else if r2 < 0 then (r2, s2)
      else (0, ido (Gpiod_add_lookup_table (gpios_dev_id ?s3) (mapped_gpios ?s3)) ?s3))"
    unfolding assms(2) [symmetric] int3472_discrete_parse_crs_def Let_def prod.case w c by (rule refl)
  show "ret \<le> 0" using eq by (auto split: if_splits)
  show "settled H k s'"
  proof (cases "r1 < 0")
    case True
    then show ?thesis using eq w1(1) by simp
  next
    case False
    then have "clock_ready (ido Acpi_dev_free_resource_list s1)" using w1(2) by simp
    from register_dsm_clock [OF this c] have "settled H k s2"
      using w1(1) by (simp add: settled_def slack_ido)
    moreover have "settled H k ?s3 = settled H k s2"
      using owned_cong [of ?s3 s2] by (simp add: settled_def slack_def device_ok_def)
    ultimately show ?thesis using eq False by (auto simp: settled_def slack_ido split: if_splits)
  qed
qed

lemma parse_refusals:
  assumes W: "resource_walk W" and "int3472_discrete_parse_crs H E dn pwr1 W s = (ret, s')"
  shows "refused_once s ret s'"
proof -
  let ?s0 = "skl_int3472_log_sensor_module_name E s" and ?f = "skl_int3472_handle_gpio_resources H E dn pwr1"
  obtain r1 s1 where w: "W ?f ?s0 = (r1, s1)" by fastforce
  define s2 where "s2 = ido Acpi_dev_free_resource_list s1"
  obtain r3 s3 where c: "skl_int3472_register_dsm_clock H E s2 = (r3, s3)" by fastforce
  have 0: "refusals ?s0 = refusals s"
    by (simp add: skl_int3472_log_sensor_module_name_def Let_def case_prod_beta)
  have "refusals s1 = refusals s \<or> r1 < 0 \<and> refusals s1 \<in> {refusals s, refusals s + 1}"
  proof (rule resource_walk.walk [OF W _ _ w])
    fix r t q t'
    assume "refusals t = refusals s" and "?f r t = (q, t')"
    then show "if q < 0 then refusals t' \<in> {refusals s, refusals s + 1} else refusals t' = refusals s"
      using handle_gpio_refusals [of H E dn pwr1 r t q t'] by auto
  qed (rule 0)
  moreover have "refusals s3 = refusals s1"
    using clock_refusals(3) [of H E s2] c by (simp add: s2_def)
  ultimately show ?thesis
    using assms(2) by (auto simp: int3472_discrete_parse_crs_def w c Let_def simp flip: s2_def split: if_splits)
qed

lemma settled_held: "settled H k s \<Longrightarrow> held_by s x + desc x * refusals s = k x + owned x s"
  by (simp only: settled_def slack_def diff_eq_eq)

lemma cleanup_held:
  assumes "settled H k s"
  shows "held_by (int3472_discrete_cleanup H s) x = k x - desc x * refusals s"
    "refusals (int3472_discrete_cleanup H s) = refusals s"
proof -
  define s1 where "s1 = skl_int3472_unregister_clock (ido Gpiod_remove_lookup_table s)"
  have f1: "n_regulator_gpios s1 = n_regulator_gpios s" "n_leds s1 = n_leds s" "pled s1 = pled s"
    by (simp_all add: s1_def)
  have ok1: "device_ok H s1"
    using assms by (simp add: s1_def settled_def skl_int3472_unregister_clock_def)
  have c: "held_by (int3472_discrete_cleanup H s) x = held_by s x - owned x s"
    using unregister_leds [OF ok1, of x] f1
    by (cases x; cases "linux_7_1 H") (auto simp: int3472_discrete_cleanup_def Let_def s1_def [symmetric] unregister_regulator
        led_held_def; simp add: s1_def unregister_clock)+
  then show "held_by (int3472_discrete_cleanup H s) x = k x - desc x * refusals s"
    using settled_held [OF assms, of x] by simp
  show "refusals (int3472_discrete_cleanup H s) = refusals s"
    by (simp add: int3472_discrete_cleanup_def Let_def release_refusals del: if_split)
qed


section \<open>Probe\<close>

lemma zero_settled: "settled H (left_by l) (zero_int3472 H l)" "clock_ready (zero_int3472 H l)"
proof -
  have "owned x (zero_int3472 H l) = 0" for x
    by (cases x) (simp_all add: zero_int3472_def zero_clock_def zero_led_def)
  then show "settled H (left_by l) (zero_int3472 H l)"
    by (simp add: settled_def slack_def device_ok_def zero_int3472_def zero_led_def del: replicate.simps)
  show "clock_ready (zero_int3472 H l)" by (simp add: clock_ready_def zero_int3472_def zero_clock_def)
qed

lemma settled_icall: "(\<And>x r. takes x c r = 0) \<Longrightarrow> (\<And>r. refusal c r = 0) \<Longrightarrow> settled H k (snd (icall E c s)) = settled H k s"
  by (simp add: settled_def slack_icall)

lemma settled_ido: "(\<And>x. takes x c 0 = 0) \<Longrightarrow> refusal c 0 = 0 \<Longrightarrow> settled H k (ido c s) = settled H k s"
  by (simp add: settled_def slack_ido)

text \<open>The fields that say what the device is, not what it holds.\<close>

lemma identity_fields:
  assumes "cl c = cl (clock s)" "ena_gpio c = ena_gpio (clock s)"
  shows "settled H k (s\<lparr>pdev_name := p, adev_name := a, clock := c, quirks := q\<rparr>) = settled H k s"
    "clock_ready (s\<lparr>pdev_name := p, adev_name := a, clock := c, quirks := q\<rparr>) = clock_ready s"
proof -
  have "owned x (s\<lparr>pdev_name := p, adev_name := a, clock := c, quirks := q\<rparr>) = owned x s" for x
    by (cases x) (simp_all add: assms)
  then show "settled H k (s\<lparr>pdev_name := p, adev_name := a, clock := c, quirks := q\<rparr>) = settled H k s"
    by (simp add: settled_def slack_def device_ok_def)
qed (simp add: clock_ready_def assms)

lemma sensor_fields:
  "settled H k (s\<lparr>sensor_adev_name := a, sensor_name := n, hid := h\<rparr>) = settled H k s"
  "clock_ready (s\<lparr>sensor_adev_name := a, sensor_name := n, hid := h\<rparr>) = clock_ready s"
  using owned_cong [of "s\<lparr>sensor_adev_name := a, sensor_name := n, hid := h\<rparr>" s]
  by (simp_all add: settled_def slack_def device_ok_def clock_ready_def)

text \<open>Every way out of the probe, with the device as the parse found it.\<close>

lemma probe_cases:
  assumes "skl_int3472_discrete_probe H E dn pwr1 W M fw l = (ret, s)"
  obtains "ret \<noteq> 0" "settled H (left_by l) s" "n_regulator_gpios s = 0"
      "n_leds s = 0" "\<not> led_dev (pled s)" "\<not> cl (clock s)" "refusals s = weigh refusal l"
  | s1 r s2 where "settled H (left_by l) s1" "clock_ready s1" "refusals s1 = weigh refusal l"
      "int3472_discrete_parse_crs H E dn pwr1 W s1 = (r, s2)" "ret = r"
      "s = (if r \<noteq> 0 then skl_int3472_discrete_remove H s2 else ido Acpi_dev_clear_dependencies s2)"
proof -
  let ?k = "left_by l"
  define s0 where "s0 = zero_int3472 H l"
  define s1 where "s1 = snd (icall E Fill_cldb s0)"
  define s2 where "s2 = snd (icall E Devm_kzalloc_device s1)"
  define s3 where "s3 = s2\<lparr>pdev_name := fw_dev_name fw, adev_name := fw_adev_name fw, clock := (clock s2)\<lparr>imgclk_index := clock_source fw\<rparr>,
    quirks := (case M skl_int3472_discrete_quirks of Some q \<Rightarrow> q | None \<Rightarrow> quirks s2)\<rparr>"
  define s4 where "s4 = snd (icall E Get_sensor_adev_and_name s3)"
  define s5 where "s5 = s4\<lparr>sensor_adev_name := fw_sensor_adev_name fw, sensor_name := fw_sensor_name fw,
    hid := fw_hid fw\<rparr>"
  obtain r s6 where p: "int3472_discrete_parse_crs H E dn pwr1 W s5 = (r, s6)" by fastforce
  define none where "none s \<longleftrightarrow> n_regulator_gpios s = 0 \<and> n_leds s = 0 \<and> \<not> led_dev (pled s) \<and> \<not> cl (clock s)" for s :: int3472
  have f: "refusals s0 = weigh refusal l" "refusals s1 = weigh refusal l" "refusals s2 = weigh refusal l"
      "refusals s4 = weigh refusal l" "refusals s5 = weigh refusal l"
    unfolding s5_def s4_def s3_def s2_def s1_def s0_def by (simp_all add: zero_int3472_def)
  have st: "settled H ?k s0" "settled H ?k s1" "settled H ?k s2" "settled H ?k s3" "settled H ?k s4" "settled H ?k s5"
    unfolding s5_def s4_def s3_def s2_def s1_def s0_def
    by (simp_all add: settled_icall identity_fields sensor_fields zero_settled)
  have cr: "clock_ready s5"
    unfolding s5_def s4_def s3_def s2_def s1_def s0_def by (simp add: identity_fields sensor_fields zero_settled)
  have n: "none s0" "none s1" "none s2" "none s4"
    unfolding s4_def s3_def s2_def s1_def s0_def none_def
    by (simp_all add: zero_int3472_def zero_led_def zero_clock_def)
  have "(ret, s) =
     (if \<not> has_companion fw then (- ENODEV, s0)
      else if iret_of E (log s0) Fill_cldb \<noteq> 0 then (iret_of E (log s0) Fill_cldb, s1)
      else if control_logic_type fw \<noteq> 1 then (- EINVAL, s1)
      else if iret_of E (log s1) Devm_kzalloc_device < 0 then (- ENOMEM, s2)
      else if iret_of E (log s3) Get_sensor_adev_and_name \<noteq> 0 then (iret_of E (log s3) Get_sensor_adev_and_name, s4)
      else if r \<noteq> 0 then (r, skl_int3472_discrete_remove H s6) else (0, ido Acpi_dev_clear_dependencies s6))"
    unfolding assms(1) [symmetric] skl_int3472_discrete_probe_def
    by (simp add: Let_def case_prod_beta s0_def [symmetric] s1_def [symmetric] s2_def [symmetric]
        s3_def [symmetric] s4_def [symmetric] s5_def [symmetric] p)
  then show ?thesis
    using that(1) st n f that(2) [OF st(6) cr f(5) p]
    by (auto simp: none_def errno_defs split: if_splits)
qed

lemma probe_ledger:
  assumes W: "resource_walk W" and p: "skl_int3472_discrete_probe H E dn pwr1 W M fw l = (ret, s)"
  defines "n \<equiv> refusals s - weigh refusal l"
  shows "n = 0 \<or> ret \<noteq> 0 \<and> n = 1" "ret = 0 \<Longrightarrow> settled H (left_by l) s"
    "ret \<noteq> 0 \<Longrightarrow> held_by s x = weigh (takes x) l - desc x * n"
proof -
  have "(n = 0 \<or> ret \<noteq> 0 \<and> n = 1) \<and> (ret = 0 \<longrightarrow> settled H (left_by l) s) \<and>
      (ret \<noteq> 0 \<longrightarrow> held_by s x = weigh (takes x) l - desc x * n)"
    using p
  proof (cases rule: probe_cases)
    case 1
    then have "owned x s = 0" by (cases x) simp_all
    then show ?thesis using 1 settled_held [OF 1(2), of x] by (simp add: n_def)
  next
    case (2 s1 r s2)
    have st: "settled H (left_by l) s2" using parse_crs [OF W 2(4,1,2)] by simp
    have r: "refusals s2 = weigh refusal l \<or> r < 0 \<and> refusals s2 = weigh refusal l + 1"
      using parse_refusals [OF W 2(4)] 2(3) by simp
    show ?thesis
    proof (cases "r = 0")
      case True
      then show ?thesis using 2 st r by (simp add: settled_ido n_def)
    next
      case False
      then show ?thesis
        using 2 r cleanup_held [OF st] by (auto simp: skl_int3472_discrete_remove_def n_def)
    qed
  qed
  then show "n = 0 \<or> ret \<noteq> 0 \<and> n = 1" "ret = 0 \<Longrightarrow> settled H (left_by l) s"
    "ret \<noteq> 0 \<Longrightarrow> held_by s x = weigh (takes x) l - desc x * n" by simp_all
qed

text \<open>
  C6: Whatever calls fail and wherever the walk ends: a successful probe of the INT3472 holds
  exactly what the device records and its removal gives all of it back; a failed one holds none of
  its resources (memory, ACPI objects, clock, clkdev, regulators, LEDs, LED lookups, descriptors),
  except that, if the regulator core refused a registration, which happens at most once, it has
  put one descriptor once more than it got it, because regulator_register puts the descriptor it
  is given when it fails.
\<close>

theorem int3472_probe_ledger:
  assumes "resource_walk W" and "skl_int3472_discrete_probe H E dn pwr1 W M fw l = (ret, s)"
  shows "(let base = weigh (takes x) l; refused = refusals s - weigh refusal l
    in if ret = 0
       then refused = 0 \<and> held_by s x = base + owned x s \<and> held_by (skl_int3472_discrete_remove H s) x = base
       else refused \<in> {0, 1} \<and> held_by s x = base - (if x = Descriptor then refused else 0))"
proof (cases "ret = 0")
  case True
  have n: "refusals s = weigh refusal l" using probe_ledger(1) [OF assms] True by simp
  have st: "settled H (left_by l) s" using probe_ledger(2) [OF assms True] .
  show ?thesis
    using cleanup_held(1) [OF st, of x] settled_held [OF st, of x] True n
    by (simp add: Let_def skl_int3472_discrete_remove_def)
next
  case False
  then show ?thesis using probe_ledger(1) [OF assms] probe_ledger(3) [OF assms False, of x] by (simp add: Let_def)
qed

text \<open>
  C36: After a successful probe the arrays of the INT3472 device have their size, every counter is
  inside its array, the lookup entries below the counter are set and the next one is the
  terminator.
\<close>

theorem int3472_probe_device_ok:
  assumes "resource_walk W" and "skl_int3472_discrete_probe H E dn pwr1 W M fw l = (0, s)"
  shows "device_ok H s \<and> gpios_table s ! n_sensor_gpios s = None"
  using probe_ledger(2) [OF assms] by (simp add: settled_def device_ok_def)

end
