(* ===== verification/Int3472_Refine.thy ===== *)
theory Int3472_Refine
  imports Int3472_Discrete
begin

text \<open>
  What the discrete INT3472 device becomes for the sensor: the mapping table as a lookup, an abstract
  state without arrays, counters and calls that every operation on a GPIO refines, the firmware table
  as a function of it, and the refusal of a supply name that does not fit. The last section holds the
  firmware of a Surface Pro 7+ as a concrete instance.
\<close>

section \<open>The mapping table\<close>

text \<open>
  The loop over the mapping table is the search for the first entry of the type and the sensor;
  without one the role is the default of the type.
\<close>

theorem get_con_id_first_match:
  "int3472_get_con_id_and_polarity H pwr1 s t =
     (case find (\<lambda>m. type_from m = t \<and> map_hid m = hid s) (int3472_gpio_map H) of
        Some m \<Rightarrow> (type_to m, map_con_id m, if polarity_low m then GPIO_ACTIVE_LOW else GPIO_ACTIVE_HIGH,
          enable_time_us m)
      | None \<Rightarrow> default_role H pwr1 t)"
proof -
  have "map_loop ms (hid s) t other =
     (case find (\<lambda>m. type_from m = t \<and> map_hid m = hid s) ms of
        Some m \<Rightarrow> (type_to m, map_con_id m, if polarity_low m then GPIO_ACTIVE_LOW else GPIO_ACTIVE_HIGH,
          enable_time_us m)
      | None \<Rightarrow> other)" for ms other
    by (induction ms) auto
  then show ?thesis by (simp only: int3472_get_con_id_and_polarity_def)
qed

section \<open>Refinement\<close>

text \<open>
  What the device is for the sensor, without arrays, counters and calls: the lines mapped and the
  device they are mapped to, its power rails with their enable time and consumers, whether it has a clock, and how many LEDs.
\<close>

record glue =
  g_lookups :: "gpiod_lookup list"
  g_consumer :: "string option"
  g_rails :: "(u32 \<times> (string \<times> string) list) list"
  g_clock :: bool
  g_leds :: nat

definition glue_of :: "int3472 \<Rightarrow> glue" where
  "glue_of s = \<lparr>g_lookups = map the (take (n_sensor_gpios s) (gpios_table s)),
     g_consumer = gpios_dev_id s,
     g_rails = map (\<lambda>r. (enable_time r, supply_map r)) (take (n_regulator_gpios s) (regulators s)),
     g_clock = cl (clock s), g_leds = n_leds s + (if led_dev (pled s) then 1 else 0)\<rparr>"

text \<open>What one GPIO of a role adds.\<close>

definition spec_gpio :: "int3472_header \<Rightarrow> (string \<Rightarrow> string) \<Rightarrow> string \<Rightarrow> int3472_discrete_quirks \<Rightarrow>
    acpi_gpio \<Rightarrow> gpio_role \<Rightarrow> glue \<Rightarrow> glue" where
  "spec_gpio H dev_name sensor q g role G =
     (let (t, con, flags, time) = role;
          rail = (\<lambda>second. (time, supply_entries [con, string_upper H con] sensor second))
      in if t = INT3472_GPIO_TYPE_RESET \<or> t = INT3472_GPIO_TYPE_POWERDOWN \<or> t = INT3472_GPIO_TYPE_HOTPLUG_DETECT
         then G\<lparr>g_lookups := g_lookups G @
           [\<lparr>key = dev_name (source g), chip_hwnum = pin0 g, con_id = con, lflags = flags\<rparr>]\<rparr>
         else if t = INT3472_GPIO_TYPE_CLK_ENABLE then G\<lparr>g_clock := True\<rparr>
         else if t = INT3472_GPIO_TYPE_PRIVACY_LED then G\<lparr>g_leds := g_leds G + 1\<rparr>
         else if t = INT3472_GPIO_TYPE_POWER_ENABLE then G\<lparr>g_rails := g_rails G @ [rail (avdd_second_sensor q)]\<rparr>
         else if t = INT3472_GPIO_TYPE_POWER1 \<or> t = INT3472_GPIO_TYPE_HANDSHAKE H then
           G\<lparr>g_rails := g_rails G @ [rail None]\<rparr>
         else G)"

text \<open>What no operation on a GPIO changes.\<close>

definition ident :: "int3472 \<Rightarrow> u32 \<times> string \<times> string \<times> int3472_discrete_quirks" where
  "ident s = (ngpios s, hid s, sensor_name s, quirks s)"

lemma silent_glue:
  assumes "silent s' = silent s"
  shows "glue_of s' = glue_of s" "ident s' = ident s"
  by (simp_all only: glue_of_def ident_def silent_fields [OF assms])

lemma glue_calls [simp]:
  "glue_of (snd (icall E c s)) = glue_of s" "glue_of (ido c s) = glue_of s"
  "ident (snd (icall E c s)) = ident s" "ident (ido c s) = ident s"
  by (simp_all add: icall_def ido_def glue_of_def ident_def Let_def)

lemma glue_clock:
  "glue_of (s\<lparr>clock := c\<rparr>) = (glue_of s)\<lparr>g_clock := cl c\<rparr>" "ident (s\<lparr>clock := c\<rparr>) = ident s"
  by (simp_all add: glue_of_def ident_def)

lemma register_clock_glue:
  assumes "\<not> cl (clock s)" and "skl_int3472_register_clock H E s = (ret, s')"
  shows "glue_of s' = (glue_of s)\<lparr>g_clock := ret = 0\<rparr>" "ident s' = ident s"
proof -
  have g: "\<not> g_clock (glue_of s)" using assms(1) by (simp add: glue_of_def)
  obtain f s1 where f: "skl_int3472_get_clk_frequency H E (snd (icall E Kasprintf s)) = (f, s1)" by fastforce
  have s1: "glue_of s1 = glue_of s" "ident s1 = ident s" "clock s1 = clock s"
    using f by (auto simp: skl_int3472_get_clk_frequency_def Let_def case_prod_beta split: if_splits)
  have off: "(glue_of s)\<lparr>g_clock := False\<rparr> = glue_of s" using g by (cases "glue_of s") simp
  show "glue_of s' = (glue_of s)\<lparr>g_clock := ret = 0\<rparr>" "ident s' = ident s"
    using assms s1 off
    by (auto simp: skl_int3472_register_clock_def f glue_clock Let_def case_prod_beta errno_defs split: if_splits)
qed

lemma register_gpio_clock_glue:
  assumes "skl_int3472_register_gpio_clock H E g s = (ret, s')"
  shows "glue_of s' = (if ret = 0 then (glue_of s)\<lparr>g_clock := True\<rparr> else glue_of s)" "ident s' = ident s"
proof -
  have off: "\<not> cl (clock s) \<Longrightarrow> (glue_of s)\<lparr>g_clock := False\<rparr> = glue_of s"
    by (simp add: glue_of_def)
  show "glue_of s' = (if ret = 0 then (glue_of s)\<lparr>g_clock := True\<rparr> else glue_of s)" "ident s' = ident s"
    using assms off register_clock_glue [of "s\<lparr>clock := (clock s)\<lparr>ena_gpio := Some g\<rparr>\<rparr>" H E ret s']
    by (auto simp: skl_int3472_register_gpio_clock_def glue_clock errno_defs split: if_splits)
qed

lemma register_dsm_clock_ident:
  assumes "skl_int3472_register_dsm_clock H E s = (0, s')"
  shows "sensor_name s' = sensor_name s"
proof -
  have "ident s' = ident s"
    using assms register_clock_glue(2) [of "snd (icall E Acpi_check_dsm_clk s)" H E 0 s']
    by (auto simp: skl_int3472_register_dsm_clock_def Let_def case_prod_beta split: if_splits)
  then show ?thesis by (simp add: ident_def)
qed

lemma register_dsm_clock_glue:
  assumes "skl_int3472_register_dsm_clock H E s = (0, s')"
  shows "glue_of s' = (glue_of s)\<lparr>g_clock := g_clock (glue_of s) \<or> iret_of E (log s) Acpi_check_dsm_clk \<noteq> 0\<rparr>"
proof -
  have g: "g_clock (glue_of s) = cl (clock s)" by (simp add: glue_of_def)
  have same: "g_clock G = b \<Longrightarrow> G\<lparr>g_clock := b\<rparr> = G" for G b by (cases G) simp
  show ?thesis
  proof (cases "cl (clock s)")
    case True
    then show ?thesis using assms g same [of "glue_of s" True] by (simp add: skl_int3472_register_dsm_clock_def)
  next
    case False
    then show ?thesis
      using assms g same [of "glue_of s" False] register_clock_glue(1) [of "snd (icall E Acpi_check_dsm_clk s)" H E 0 s']
      by (auto simp: skl_int3472_register_dsm_clock_def Let_def case_prod_beta split: if_splits)
  qed
qed

lemma take_update_Suc: "n < length xs \<Longrightarrow> take (Suc n) (xs[n := y]) = take n xs @ [y]"
  by (simp add: take_Suc_conv_app_nth)

lemma register_regulator_glue:
  assumes "skl_int3472_register_regulator H E g t nm second s = (ret, s')" and "device_ok H s"
  shows "glue_of s' = (if ret = 0 then (glue_of s)\<lparr>g_rails := g_rails (glue_of s) @
      [(t, supply_entries [nm, string_upper H nm] (sensor_name s) second)]\<rparr> else glue_of s)" "ident s' = ident s"
  using assms
  by (auto simp: skl_int3472_register_regulator_def Let_def icall_def device_ok_def errno_defs glue_of_def ident_def
      take_update_Suc split: if_splits)

lemma register_led_glue:
  assumes "skl_int3472_register_led H E g con s = (ret, s')"
  shows "glue_of s' = (if ret = 0 then (glue_of s)\<lparr>g_leds := g_leds (glue_of s) + 1\<rparr> else glue_of s)"
    "ident s' = ident s"
  using assms
  by (auto simp: skl_int3472_register_led_def Let_def icall_def ido_def errno_defs glue_of_def ident_def
      split: if_splits)

lemma register_pled_glue:
  assumes "skl_int3472_register_pled H E g s = (ret, s')"
  shows "glue_of s' = (if ret = 0 then (glue_of s)\<lparr>g_leds := g_leds (glue_of s) + 1\<rparr> else glue_of s)"
    "ident s' = ident s"
  using assms
  by (auto simp: skl_int3472_register_pled_def Let_def icall_def ido_def errno_defs glue_of_def ident_def
      split: if_splits)


lemma map_gpio_glue:
  assumes "skl_int3472_map_gpio_to_sensor H E dn g con fl s = (ret, s')" and "device_ok H s"
  shows "glue_of s' = (if ret = 0 then (glue_of s)\<lparr>g_lookups := g_lookups (glue_of s) @
      [\<lparr>key = dn (source g), chip_hwnum = pin0 g, con_id = con, lflags = fl\<rparr>]\<rparr> else glue_of s)" "ident s' = ident s"
proof -
  obtain r e s1 where f: "skl_int3472_fill_gpiod_lookup E dn g con fl s = (r, e, s1)"
    by (cases "skl_int3472_fill_gpiod_lookup E dn g con fl s") auto
  note fl = fill_lookup [OF f] and fr = silent_fields [OF fill_lookup(1) [OF f]]
  have ext: "s1\<lparr>gpios_table := t, n_sensor_gpios := n\<rparr> = s\<lparr>log := log s1, gpios_table := t, n_sensor_gpios := n\<rparr>" for t n
    by (subst silent_log [OF fl(1)]) simp
  show "glue_of s' = (if ret = 0 then (glue_of s)\<lparr>g_lookups := g_lookups (glue_of s) @
      [\<lparr>key = dn (source g), chip_hwnum = pin0 g, con_id = con, lflags = fl\<rparr>]\<rparr> else glue_of s)" "ident s' = ident s"
    using assms silent_glue [OF fl(1)] fl(3,4) fr(2,3)
    by (auto simp: skl_int3472_map_gpio_to_sensor_def f ext errno_defs device_ok_def glue_of_def ident_def
        take_update_Suc Let_def split: if_splits)
qed

text \<open>A kernel whose LED class never answers with a positive number.\<close>

abbreviation led_env :: "ienv \<Rightarrow> bool" where
  "led_env E \<equiv> \<forall>l n. iret_of E l (Led_classdev_register n) \<le> 0"

lemma register_led_ret:
  "led_env E \<Longrightarrow> fst (skl_int3472_register_led H E g con s) \<le> 0"
  "led_env E \<Longrightarrow> fst (skl_int3472_register_pled H E g s) \<le> 0"
  by (auto simp: skl_int3472_register_led_def skl_int3472_register_pled_def Let_def case_prod_beta errno_defs)

lemma ident_fields: "ident s' = ident s \<Longrightarrow> sensor_name s' = sensor_name s \<and> quirks s' = quirks s \<and>
    ngpios s' = ngpios s \<and> hid s' = hid s"
  by (simp add: ident_def)

text \<open>What a consumed GPIO is registered as, and what the specification adds for it.\<close>

lemma consumed_cases:
  assumes t: "t \<in> consumed_types H"
    and nt: "\<not> (t = INT3472_GPIO_TYPE_RESET \<or> t = INT3472_GPIO_TYPE_POWERDOWN \<or> t = INT3472_GPIO_TYPE_HOTPLUG_DETECT)"
  defines "second \<equiv> \<lambda>s. if t = INT3472_GPIO_TYPE_POWER_ENABLE then avdd_second_sensor (quirks s) else None"
  shows "register_consumer H E t con time g s =
      (if t = INT3472_GPIO_TYPE_CLK_ENABLE then skl_int3472_register_gpio_clock H E g s
       else if t = INT3472_GPIO_TYPE_PRIVACY_LED then (if linux_7_1 H then skl_int3472_register_led H E g ''privacy'' s
         else skl_int3472_register_pled H E g s)
       else skl_int3472_register_regulator H E g time con (second s) s)"
    "spec_gpio H dn (sensor_name s) (quirks s) a (t, con, fl, time) G =
      (if t = INT3472_GPIO_TYPE_CLK_ENABLE then G\<lparr>g_clock := True\<rparr>
       else if t = INT3472_GPIO_TYPE_PRIVACY_LED then G\<lparr>g_leds := g_leds G + 1\<rparr>
       else G\<lparr>g_rails := g_rails G @ [(time, supply_entries [con, string_upper H con] (sensor_name s) (second s))]\<rparr>)"
  using t nt by (auto simp: register_consumer_def spec_gpio_def consumed_types_def second_def)

lemma register_consumer_refines:
  assumes rc: "register_consumer H E t con time g s = (ret, s')" and t: "t \<in> consumed_types H"
    and nt: "\<not> (t = INT3472_GPIO_TYPE_RESET \<or> t = INT3472_GPIO_TYPE_POWERDOWN \<or> t = INT3472_GPIO_TYPE_HOTPLUG_DETECT)"
    and ok: "device_ok H s" and led: "led_env E"
  shows "ret \<le> 0 \<and> ident s' = ident s \<and> glue_of s' =
    (if ret = 0 then spec_gpio H dn (sensor_name s) (quirks s) a (t, con, fl, time) (glue_of s) else glue_of s)"
proof -
  let ?C = INT3472_GPIO_TYPE_CLK_ENABLE and ?L = INT3472_GPIO_TYPE_PRIVACY_LED
  note eq = rc [unfolded consumed_cases(1) [OF t nt]] and sp = consumed_cases(2) [OF t nt]
  have le: "skl_int3472_register_led H E g ''privacy'' s = (ret, s') \<Longrightarrow> ret \<le> 0"
      "skl_int3472_register_pled H E g s = (ret, s') \<Longrightarrow> ret \<le> 0"
    using register_led_ret [OF led] by (metis fst_conv)+
  consider (clock) "t = ?C" | (led) "t \<noteq> ?C" "t = ?L" "linux_7_1 H" | (pled) "t \<noteq> ?C" "t = ?L" "\<not> linux_7_1 H"
    | (rail) "t \<noteq> ?C" "t \<noteq> ?L" by blast
  then show ?thesis
  proof cases
    case clock
    with eq have c: "skl_int3472_register_gpio_clock H E g s = (ret, s')" by simp
    show ?thesis unfolding sp using clock register_gpio_clock(2) [OF c] register_gpio_clock_glue [OF c] by simp
  next
    case led
    with eq have c: "skl_int3472_register_led H E g ''privacy'' s = (ret, s')" by simp
    show ?thesis unfolding sp using led le(1) [OF c] register_led_glue [OF c] by simp
  next
    case pled
    with eq have c: "skl_int3472_register_pled H E g s = (ret, s')" by simp
    show ?thesis unfolding sp using pled le(2) [OF c] register_pled_glue [OF c] by simp
  next
    case rail
    with eq have c: "skl_int3472_register_regulator H E g time con
        (if t = INT3472_GPIO_TYPE_POWER_ENABLE then avdd_second_sensor (quirks s) else None) s = (ret, s')"
      by simp
    show ?thesis unfolding sp using rail register_regulator(2) [OF c ok] register_regulator_glue [OF c ok] by simp
  qed
qed

lemma handle_role_refines:
  assumes h: "handle_role H E dn g role s = (ret, s')" and ok: "device_ok H s" and led: "led_env E"
  shows "glue_of s' = (if ret < 0 then glue_of s else spec_gpio H dn (sensor_name s) (quirks s) g role (glue_of s)) \<and>
    ident s' = ident s"
proof -
  obtain t con fl time where r: "role = (t, con, fl, time)" by (cases role) auto
  let ?sensor = "t = INT3472_GPIO_TYPE_RESET \<or> t = INT3472_GPIO_TYPE_POWERDOWN \<or> t = INT3472_GPIO_TYPE_HOTPLUG_DETECT"
  obtain d s1 where tl: "skl_int3472_gpiod_get_from_temp_lookup E dn g con fl s = (d, s1)" by fastforce
  note q = temp_lookup(1) [OF tl]
  obtain rc s2 where rc: "register_consumer H E t con time (nat d) s1 = (rc, s2)" by fastforce
  have eq: "(ret, s') =
      (if ?sensor then skl_int3472_map_gpio_to_sensor H E dn g con fl s
       else if t \<in> consumed_types H then
         (if d < 0 then (d, s1) else (rc, if rc \<noteq> 0 then ido (Gpiod_put (Some (nat d))) s2 else s2))
       else (1, s))"
    unfolding h [symmetric] handle_role_def r Let_def prod.case tl rc by (rule refl)
  consider "?sensor" | "\<not> ?sensor" "t \<in> consumed_types H" | "\<not> ?sensor" "t \<notin> consumed_types H" by blast
  then show ?thesis
  proof cases
    case 1
    with eq have m: "skl_int3472_map_gpio_to_sensor H E dn g con fl s = (ret, s')" by simp
    have "spec_gpio H dn (sensor_name s) (quirks s) g role G = G\<lparr>g_lookups := g_lookups G @
        [\<lparr>key = dn (source g), chip_hwnum = pin0 g, con_id = con, lflags = fl\<rparr>]\<rparr>" for G
      using 1 by (auto simp: spec_gpio_def r)
    then show ?thesis using map_gpio(1) [OF m ok] map_gpio_glue [OF m ok] by simp
  next
    case 2
    have ok1: "device_ok H s1" using ok silent_fields(13) [OF q] by simp
    note c = register_consumer_refines [OF rc 2(2,1) ok1 led, of dn g fl]
    show ?thesis
      using c eq 2 silent_glue [OF q] ident_fields [OF silent_glue(2) [OF q]]
      by (cases "d < 0"; cases "rc = 0") (simp_all add: r)
  next
    case 3
    then have "spec_gpio H dn (sensor_name s) (quirks s) g role G = G" for G
      by (simp add: spec_gpio_def r consumed_types_def)
    then show ?thesis using eq 3 by simp
  qed
qed

section \<open>What the firmware table becomes\<close>

text \<open>The role of a GPIO with the \<open>_DSM\<close> answer \<open>v\<close>.\<close>

definition gpio_role_of :: "int3472_header \<Rightarrow> string \<Rightarrow> int3472 \<Rightarrow> u32 \<Rightarrow> gpio_role" where
  "gpio_role_of H pwr1 s v =
     turn_polarity v (int3472_get_con_id_and_polarity H pwr1 s (ucast (FIELD_GET 7 0 v)))"

text \<open>
  The resources of a firmware whose \<open>_DSM\<close> answers by the table \<open>dsm\<close>: the GPIOs in order, each with
  the next answer; a missing answer skips the GPIO and does not move on.
\<close>

fun crs_spec :: "int3472_header \<Rightarrow> (string \<Rightarrow> string) \<Rightarrow> string \<Rightarrow> int3472 \<Rightarrow> (u32 \<Rightarrow> u32 option) \<Rightarrow> u32 \<Rightarrow>
    acpi_gpio option list \<Rightarrow> glue \<Rightarrow> glue" where
  "crs_spec H dn pwr1 s dsm i [] G = G"
| "crs_spec H dn pwr1 s dsm i (None # rs) G = crs_spec H dn pwr1 s dsm i rs G"
| "crs_spec H dn pwr1 s dsm i (Some g # rs) G =
     (case dsm i of
        None \<Rightarrow> crs_spec H dn pwr1 s dsm i rs G
      | Some v \<Rightarrow> crs_spec H dn pwr1 s dsm (i + 1) rs
          (spec_gpio H dn (sensor_name s) (quirks s) g (gpio_role_of H pwr1 s v) G))"

text \<open>The firmware: its answers depend on the question alone, and the LED class is as documented.\<close>

locale gpio_firmware =
  fixes E :: ienv and dsm :: "u32 \<Rightarrow> u32 option" and dsm_clk :: bool
  assumes gpio_answer: "case dsm i of
        None \<Rightarrow> iret_of E l (Acpi_evaluate_dsm_gpio i) < 0
      | Some v \<Rightarrow> 0 \<le> iret_of E l (Acpi_evaluate_dsm_gpio i) \<and> ival_of E l (Acpi_evaluate_dsm_gpio i) = v"
    and clk_answer: "iret_of E l Acpi_check_dsm_clk \<noteq> 0 \<longleftrightarrow> dsm_clk"
    and led_answer: "iret_of E l (Led_classdev_register n) \<le> 0"
begin

lemma no_answer: "dsm i = None \<longleftrightarrow> iret_of E l (Acpi_evaluate_dsm_gpio i) < 0"
  using gpio_answer [where i = i and l = l] by (cases "dsm i") auto

lemma an_answer: "dsm i = Some v \<Longrightarrow> ival_of E l (Acpi_evaluate_dsm_gpio i) = v"
  using gpio_answer [where i = i and l = l] by simp

text \<open>One step of the walk, for a device \<open>s\<close> that is still the device \<open>s0\<close>.\<close>

lemma handle_refines:
  assumes h: "skl_int3472_handle_gpio_resources H E dn pwr1 r s = (ret, s')" and ok: "device_ok H s"
    and id: "hid s = hid s0" "sensor_name s = sensor_name s0" "quirks s = quirks s0" and ret: "0 \<le> ret"
  shows "crs_spec H dn pwr1 s0 dsm (ngpios s' + 2) rs (glue_of s') =
      crs_spec H dn pwr1 s0 dsm (ngpios s + 2) (r # rs) (glue_of s) \<and>
    device_ok H s' \<and> hid s' = hid s0 \<and> sensor_name s' = sensor_name s0 \<and> quirks s' = quirks s0"
  using h
proof (cases rule: handle_gpio_cases)
  case 1
  then show ?thesis using ok id by simp
next
  case (2 g)
  let ?i = "ngpios s + 2"
  have q: "silent s' = silent s" using 2(4) by simp
  have "dsm ?i = None" using 2(3) no_answer by simp
  then show ?thesis using 2(1) ok id silent_glue(1) [OF q] silent_fields [OF q] by simp
next
  case (3 g rh s2)
  let ?i = "ngpios s + 2" and ?s1 = "snd (snd (iread E (Acpi_evaluate_dsm_gpio (ngpios s + 2)) s))"
    and ?v = "ival_of E (log s) (Acpi_evaluate_dsm_gpio (ngpios s + 2))"
  have q: "silent ?s1 = silent s" by simp
  have rh: "\<not> rh < 0" using 3(4) ret by auto
  have led: "led_env E" using led_answer by simp
  obtain v where v: "dsm ?i = Some v" using 3(2) no_answer [where i = ?i and l = "log s"] by (cases "dsm ?i") auto
  have role: "turn_polarity ?v (int3472_get_con_id_and_polarity H pwr1 s (ucast (FIELD_GET 7 0 ?v))) =
      gpio_role_of H pwr1 s0 v"
    using an_answer [OF v] id(1) by (simp add: gpio_role_of_def int3472_get_con_id_and_polarity_def)
  note h2 = 3(3) [unfolded role]
  have ok1: "device_ok H ?s1" using ok silent_fields(13) [OF q] by simp
  from handle_role_refines [OF h2 ok1 led] rh have
    "glue_of s2 = spec_gpio H dn (sensor_name s0) (quirks s0) g (gpio_role_of H pwr1 s0 v) (glue_of s)"
    "ident s2 = ident s"
    using silent_glue [OF q] silent_fields(10,11) [OF q] id by simp_all
  moreover have "glue_of s' = glue_of s2" "ident s' = (ngpios s2 + 1, hid s2, sensor_name s2, quirks s2)"
    by (simp_all add: 3(5)) (simp_all add: glue_of_def ident_def)
  ultimately show ?thesis
    using handle_gpio(1) [OF h ok] id 3(1) v by (simp add: ident_def)
qed

end

context gpio_firmware
begin

lemma walk_refines:
  assumes "seq_until (\<lambda>r. r < 0) (skl_int3472_handle_gpio_resources H E dn pwr1) rs s = (ret, s')"
    and "device_ok H s" and "hid s = hid s0" "sensor_name s = sensor_name s0" "quirks s = quirks s0"
    and "0 \<le> ret"
  shows "glue_of s' = crs_spec H dn pwr1 s0 dsm (ngpios s + 2) rs (glue_of s) \<and> sensor_name s' = sensor_name s0"
  using assms
proof (induction rs arbitrary: s)
  case (Cons r rs)
  obtain q t where h: "skl_int3472_handle_gpio_resources H E dn pwr1 r s = (q, t)" by fastforce
  have q: "0 \<le> q" using Cons.prems(1,6) h by (auto split: if_splits)
  note st = handle_refines [OF h Cons.prems(2-5) q, of rs]
  have "seq_until (\<lambda>r. r < 0) (skl_int3472_handle_gpio_resources H E dn pwr1) rs t = (ret, s')"
    using Cons.prems(1) h q by simp
  from Cons.IH [OF this] Cons.prems(6) st show ?case by simp
qed simp

end

text \<open>An environment with the answers of the table \<open>dsm\<close>, and those of \<open>E\<close> for the rest.\<close>

definition dsm_env :: "(u32 \<Rightarrow> u32 option) \<Rightarrow> bool \<Rightarrow> ienv \<Rightarrow> ienv" where
  "dsm_env dsm dsm_clk E = E\<lparr>
     iret_of := (\<lambda>l c. case c of
         Acpi_evaluate_dsm_gpio i \<Rightarrow> (case dsm i of None \<Rightarrow> - ENODEV | Some v \<Rightarrow> 0)
       | Acpi_check_dsm_clk \<Rightarrow> (if dsm_clk then 1 else 0)
       | Led_classdev_register n \<Rightarrow> min 0 (iret_of E l c)
       | _ \<Rightarrow> iret_of E l c),
     ival_of := (\<lambda>l c. case c of
         Acpi_evaluate_dsm_gpio i \<Rightarrow> (case dsm i of None \<Rightarrow> 0 | Some v \<Rightarrow> v)
       | _ \<Rightarrow> ival_of E l c)\<rparr>"

interpretation table: gpio_firmware "dsm_env dsm dsm_clk E" dsm dsm_clk for dsm dsm_clk E
  by unfold_locales (auto simp: dsm_env_def ENODEV_def split: option.split)

lemma parse_crs_glue:
  assumes "gpio_firmware E dsm dsm_clk" and "device_ok H s"
    and p: "int3472_discrete_parse_crs H E dn pwr1 (acpi_walk rs end) s = (0, s')"
  shows "(let G = crs_spec H dn pwr1 s dsm (ngpios s + 2) rs (glue_of s)
    in glue_of s' = G\<lparr>g_clock := g_clock G \<or> dsm_clk, g_consumer := Some (sensor_name s)\<rparr>)"
proof -
  let ?s0 = "skl_int3472_log_sensor_module_name E s" and ?f = "skl_int3472_handle_gpio_resources H E dn pwr1"
  obtain r1 s1 where w: "seq_until (\<lambda>r. r < 0) ?f rs ?s0 = (r1, s1)" by fastforce
  obtain r2 s2 where c: "skl_int3472_register_dsm_clock H E (ido Acpi_dev_free_resource_list s1) = (r2, s2)" by fastforce
  let ?s3 = "s2\<lparr>gpios_dev_id := Some (sensor_name s2)\<rparr>"
  have eq: "(0, s') = (let r = (if r1 < 0 then r1 else end)
      in if r < 0 then (r, s1) else if r2 < 0 then (r2, s2)
         else (0, ido (Gpiod_add_lookup_table (gpios_dev_id ?s3) (mapped_gpios ?s3)) ?s3))"
    unfolding p [symmetric] int3472_discrete_parse_crs_def acpi_walk_def Let_def w prod.case c by (rule refl)
  then have r: "0 \<le> r1" "r2 \<ge> 0" 
    and s': "s' = ido (Gpiod_add_lookup_table (gpios_dev_id ?s3) (mapped_gpios ?s3)) ?s3" by (auto split: if_splits)
  have r2: "r2 = 0"
  proof (cases "cl (clock s1)")
    case True
    then show ?thesis using c by (simp add: skl_int3472_register_dsm_clock_def)
  next
    case False
    then show ?thesis
      using c r(2) register_clock(2) [of "snd (icall E Acpi_check_dsm_clk (ido Acpi_dev_free_resource_list s1))" H E r2 s2]
      by (auto simp: skl_int3472_register_dsm_clock_def Let_def case_prod_beta split: if_splits)
  qed
  note q = silent_fields [OF log_module_name(1) [of E s]] and g = silent_glue(1) [OF log_module_name(1) [of E s]]
  have ok0: "device_ok H ?s0" using assms(2) q(13) by simp
  have s1: "glue_of s1 = crs_spec H dn pwr1 s dsm (ngpios s + 2) rs (glue_of s)" "sensor_name s1 = sensor_name s"
    using gpio_firmware.walk_refines [OF assms(1) w ok0 q(9,11,10)] g q(8) r(1) by simp_all
  have s2: "sensor_name s2 = sensor_name s1"
    using register_dsm_clock_ident [OF c [unfolded r2]] by (simp add: ido_def)
  have s3: "glue_of ?s3 = (glue_of s2)\<lparr>g_consumer := Some (sensor_name s2)\<rparr>" by (simp add: glue_of_def)
  show ?thesis
    using register_dsm_clock_glue [OF c [unfolded r2]] gpio_firmware.clk_answer [OF assms(1)] s1 s2 s3
    by (simp add: s' Let_def)
qed

text \<open>
  C5: Whenever int3472_discrete_parse_crs succeeds on a firmware whose _DSM answers depend on the
  question alone, the lines, rails, clock and LEDs of the device are those of the abstract
  function of the firmware table: the GPIO resources in order, each with the role of the next _DSM
  answer, a GPIO without an answer skipped, and a _DSM clock in addition if there is one; the
  lookup table is for the sensor.
\<close>

theorem parse_crs_refines:
  assumes "gpio_firmware E dsm dsm_clk" and "device_ok H s"
    and p: "int3472_discrete_parse_crs H E dn pwr1 (acpi_walk rs end) s = (0, s')"
  shows "(let G = crs_spec H dn pwr1 s dsm (ngpios s + 2) rs (glue_of s)
    in glue_of s' = G\<lparr>g_clock := g_clock G \<or> dsm_clk, g_consumer := Some (sensor_name s)\<rparr>)"
  using assms by (rule parse_crs_glue)

section \<open>Errors and limits\<close>

lemma supply_refused:
  assumes "length nm \<ge> GPIO_SUPPLY_NAME_LENGTH H"
  shows "fst (skl_int3472_register_regulator H E g t nm second s) < 0"
    "snd (skl_int3472_register_regulator H E g t nm second s) = s"
  using assms by (simp_all add: skl_int3472_register_regulator_def errno_defs)

text \<open>
  C38: A power GPIO whose supply name does not fit the name field fails with a negative error; the
  device gets no rail and the descriptor is given back.
\<close>

theorem long_supply_refused:
  assumes h: "handle_role H E dn g (t, con, fl, time) s = (ret, s')" and ok: "device_ok H s"
    and t: "t \<in> {INT3472_GPIO_TYPE_POWER_ENABLE, INT3472_GPIO_TYPE_POWER1}"
    and long: "GPIO_SUPPLY_NAME_LENGTH H \<le> length con" and led: "gpio_firmware E dsm dsm_clk"
  shows "ret < 0 \<and> glue_of s' = glue_of s \<and> held_by s' Descriptor = held_by s Descriptor"
proof -
  obtain d s1 where tl: "skl_int3472_gpiod_get_from_temp_lookup E dn g con fl s = (d, s1)" by fastforce
  obtain rc s2 where rc: "register_consumer H E t con time (nat d) s1 = (rc, s2)" by fastforce
  have cons: "t \<in> consumed_types H" and nt: "\<not> (t = INT3472_GPIO_TYPE_RESET \<or> t = INT3472_GPIO_TYPE_POWERDOWN \<or>
      t = INT3472_GPIO_TYPE_HOTPLUG_DETECT)" and nc: "t \<noteq> INT3472_GPIO_TYPE_CLK_ENABLE" "t \<noteq> INT3472_GPIO_TYPE_PRIVACY_LED"
    using t by (auto simp: consumed_types_def gpio_types)
  have refused: "skl_int3472_register_regulator H E (nat d) time con sec s1 = (rc, s2) \<Longrightarrow> rc < 0" for sec
    using supply_refused [OF long] by (metis fst_conv)
  have "rc < 0"
    using refused rc t nc by (auto simp: register_consumer_def split: if_splits)
  then have "ret < 0"
    using h tl rc cons nt by (auto simp: handle_role_def Let_def split: if_splits)
  moreover have "held_by s' Descriptor = held_by s Descriptor"
  proof -
    have "s2 = s1"
      using rc t nc supply_refused(2) [OF long] by (auto simp: register_consumer_def dest!: arg_cong [where f = snd] split: if_splits)
    then have "s' = (if d < 0 then s1 else ido (Gpiod_put (Some (nat d))) s1)"
      using h tl rc cons nt \<open>rc < 0\<close> by (auto simp: handle_role_def Let_def split: if_splits)
    moreover have "held_by s1 Descriptor = held_by s Descriptor + (if 0 \<le> d then 1 else 0)"
      using temp_lookup(2) [OF tl, of Descriptor] silent_owned [OF temp_lookup(1) [OF tl], of Descriptor]
        temp_lookup_refusals [of E dn g con fl s] by (simp add: tl slack_def)
    ultimately show ?thesis by simp
  qed
  ultimately show ?thesis
    using handle_role_refines [OF h ok] gpio_firmware.led_answer [OF led] by simp
qed


section \<open>Concrete instances\<close>

text \<open>
  The firmware of the Surface Pro 7+ front infrared camera: a reset line and a power-enable line,
  with a resource between them that is not a GPIO.
\<close>

definition sample_header :: int3472_header where
  "sample_header = \<lparr>MAX_SENSOR_GPIOS = 3, MAX_REGULATORS = 3, MAX_LEDS = 2, GPIO_SUPPLY_NAME_LENGTH = 5,
     GPIO_REGULATOR_NAME_LENGTH = 21, LED_MAX_NAME_SIZE = 32, INT3472_GPIO_TYPE_HANDSHAKE = 0x12,
     SSDB_MCLKSPEED_OFFSET = 76, GPIO_REGULATOR_ENABLE_TIME = 3000, GPIO_REGULATOR_OFF_ON_DELAY = 2000,
     string_upper = (\<lambda>s. if s = ''vdda'' then ''VDDA'' else s), linux_7_1 = True\<rparr>"

definition sample_dsm :: "u32 \<Rightarrow> u32 option" where
  "sample_dsm i = (if i = 2 then Some 0x01000500 else if i = 3 then Some 0x0100060b else None)"

definition sample_ienv :: ienv where
  "sample_ienv = dsm_env sample_dsm False \<lparr>iret_of = (\<lambda>l c. case c of Gpiod_get con \<Rightarrow> 7 | _ \<Rightarrow> 0),
     ival_of = (\<lambda>l c. 0), ibuf_of = (\<lambda>l. [])\<rparr>"

definition sample_crs :: "acpi_gpio option list" where
  "sample_crs = [Some \<lparr>source = ''GPI0'', pin0 = 5\<rparr>, None, Some \<lparr>source = ''GPI0'', pin0 = 6\<rparr>]"

definition sample_firmware :: int3472_firmware where
  "sample_firmware = \<lparr>has_companion = True, control_logic_type = 1, clock_source = 0,
     fw_dev_name = ''INT3472:01'', fw_adev_name = ''INT3472:01'',
     fw_sensor_adev_name = ''INT347E:00'', fw_sensor_name = ''i2c-INT347E:00'', fw_hid = ''INT347E''\<rparr>"

definition sample_probe :: "int \<times> int3472" where
  "sample_probe = skl_int3472_discrete_probe sample_header sample_ienv id ''dvdd'' (acpi_walk sample_crs 0)
     (\<lambda>q. None) sample_firmware []"

lemma sample_probe_ok: "fst sample_probe = 0" "glue_of (snd sample_probe) = \<lparr>
    g_lookups = [\<lparr>key = ''GPI0'', chip_hwnum = 5, con_id = ''enable'', lflags = 0\<rparr>], g_consumer = Some ''i2c-INT347E:00'',
    g_rails = [(3000, [(''vdda'', ''i2c-INT347E:00''), (''VDDA'', ''i2c-INT347E:00'')])], g_clock = False, g_leds = 0\<rparr>"
  by code_simp+

definition sample_device :: int3472 where
  "sample_device = (zero_int3472 sample_header [])\<lparr>sensor_adev_name := ''INT347E:00'', sensor_name := ''i2c-INT347E:00'',
     hid := ''INT347E''\<rparr>"

lemma sample_device_ok: "device_ok sample_header sample_device"
  using zero_settled(1) [of sample_header "[]"] unfolding sample_device_def
  by (simp add: settled_def device_ok_def)

definition sample_parse :: "int \<times> int3472" where
  "sample_parse = int3472_discrete_parse_crs sample_header sample_ienv id ''dvdd'' (acpi_walk sample_crs 0)
     sample_device"

lemma sample_parse_ok: "fst sample_parse = 0" "g_lookups (glue_of (snd sample_parse)) =
    [\<lparr>key = ''GPI0'', chip_hwnum = 5, con_id = ''enable'', lflags = 0\<rparr>]"
  by code_simp+

lemma sample_firmware_env: "gpio_firmware sample_ienv sample_dsm False"
  unfolding sample_ienv_def by (rule table.gpio_firmware_axioms)

text \<open>The same firmware where the regulator core refuses the rail.\<close>

definition refusing_ienv :: ienv where
  "refusing_ienv = sample_ienv\<lparr>iret_of := (\<lambda>l c. case c of Regulator_register g \<Rightarrow> - 12 | _ \<Rightarrow> iret_of sample_ienv l c)\<rparr>"

definition refused_probe :: "int \<times> int3472" where
  "refused_probe = skl_int3472_discrete_probe sample_header refusing_ienv id ''dvdd'' (acpi_walk sample_crs 0)
     (\<lambda>q. None) sample_firmware []"

lemma refused_probe: "fst refused_probe = - 12" "refusals (snd refused_probe) = 1"
  by code_simp+

text \<open>
  The device of the example is probed, and a removal gives its regulator back; when the rail is
  refused the probe puts the descriptor of the rail once more than it got it.
\<close>

theorem int3472_probe_ledger_witness:
  "held_by (skl_int3472_discrete_remove sample_header (snd sample_probe)) Regulator = 0 \<and>
   held_by (snd sample_probe) Regulator = 1 \<and> held_by (snd refused_probe) Descriptor = - 1"
proof -
  have "owned Regulator (snd sample_probe) = 1" by code_simp
  with int3472_probe_ledger [OF acpi.resource_walk_axioms, of sample_header sample_ienv id "''dvdd''" sample_crs 0
      "\<lambda>q. None" sample_firmware "[]" "fst sample_probe" "snd sample_probe" Regulator] sample_probe_ok(1)
  have "held_by (skl_int3472_discrete_remove sample_header (snd sample_probe)) Regulator = 0 \<and>
      held_by (snd sample_probe) Regulator = 1"
    by (simp add: sample_probe_def Let_def)
  with int3472_probe_ledger [OF acpi.resource_walk_axioms, of sample_header refusing_ienv id "''dvdd''" sample_crs 0
      "\<lambda>q. None" sample_firmware "[]" "fst refused_probe" "snd refused_probe" Descriptor] refused_probe
  show ?thesis by (simp add: refused_probe_def Let_def)
qed

theorem int3472_probe_device_ok_witness:
  "device_ok sample_header (snd sample_probe) \<and> gpios_table (snd sample_probe) ! 1 = None"
proof -
  have "n_sensor_gpios (snd sample_probe) = 1" by code_simp
  with int3472_probe_device_ok [OF acpi.resource_walk_axioms, of sample_header sample_ienv id "''dvdd''"
      sample_crs 0 "\<lambda>q. None" sample_firmware "[]" "snd sample_probe"] sample_probe_ok(1)
  show ?thesis by (simp add: sample_probe_def prod_eq_iff)
qed

theorem parse_crs_refines_witness:
  "g_lookups (crs_spec sample_header id ''dvdd'' sample_device sample_dsm 2 sample_crs (glue_of sample_device)) =
    [\<lparr>key = ''GPI0'', chip_hwnum = 5, con_id = ''enable'', lflags = 0\<rparr>]"
proof -
  have "ngpios sample_device = 0" by code_simp
  with parse_crs_refines [OF sample_firmware_env sample_device_ok, of id "''dvdd''" sample_crs 0 "snd sample_parse"]
    sample_parse_ok
  show ?thesis by (simp add: sample_parse_def prod_eq_iff Let_def)
qed

text \<open>The other name the documentation considers for the second rail of the OV8865 does not fit.\<close>

theorem long_supply_refused_witness:
  "fst (handle_role sample_header sample_ienv id \<lparr>source = ''GPI0'', pin0 = 7\<rparr>
      (INT3472_GPIO_TYPE_POWER1, ''dovdd'', GPIO_ACTIVE_HIGH, 3000) sample_device) < 0"
  using long_supply_refused [OF prod.collapse [symmetric] sample_device_ok, of INT3472_GPIO_TYPE_POWER1 "''dovdd''"
      sample_ienv sample_dsm False id "\<lparr>source = ''GPI0'', pin0 = 7\<rparr>" GPIO_ACTIVE_HIGH 3000] sample_firmware_env
  by (simp add: sample_header_def)

end
