(* ===== verification/Surface_Pro.thy ===== *)
theory Surface_Pro
  imports Int3472_Refine Ov5693_Power Ov7251_Power
begin

text \<open>
  The two cameras of the Surface Pro 7+ behind the INT3472: the names under which the probes of the
  sensor drivers ask for their supplies and lines, against the names the INT3472 registers for the
  GPIOs of the firmware.
\<close>

section \<open>Names\<close>

definition no_glue :: glue where
  "no_glue = \<lparr>g_lookups = [], g_consumer = None, g_rails = [], g_clock = False, g_leds = 0\<rparr>"

definition on_when_high :: "u32 \<Rightarrow> bool" where
  "on_when_high v \<longleftrightarrow> FIELD_GET 31 24 v \<noteq> 0"

text \<open>The names a probe asked for, when \<open>names\<close> says under which names a call asks.\<close>

definition requests :: "(init_call \<Rightarrow> string list) \<Rightarrow> trace \<Rightarrow> string set" where
  "requests names tr = (\<Union>(e, r) \<in> set tr. case e of Init c \<Rightarrow> set (names c) | _ \<Rightarrow> {})"

lemma requests_simps [simp]:
  "requests f [] = {}" "requests f (xs @ ys) = requests f xs \<union> requests f ys"
  "requests f ((Init c, r) # tr) = set (f c) \<union> requests f tr"
  by (simp_all add: requests_def)

lemma crs_spec_gpios:
  "crs_spec H dn pwr1 s dsm i (filter (\<lambda>r. r \<noteq> None) rs) G = crs_spec H dn pwr1 s dsm i rs G"
  by (induction H dn pwr1 s dsm i rs G rule: crs_spec.induct) (auto split: option.split)

section \<open>The OV7251 behind the INT3472\<close>

text \<open>The names under which the probe of the OV7251 asks for its supplies and for its line.\<close>

fun ov7251_requested :: "init_call \<Rightarrow> string list" where
  "ov7251_requested (Devm_regulator_get Vdddo) = [''vdddo'']"
| "ov7251_requested (Devm_regulator_get Vddd) = [''vddd'']"
| "ov7251_requested (Devm_regulator_get Vdda) = [''vdda'']"
| "ov7251_requested (Devm_gpiod_get Gpio_enable) = [''enable'']"
| "ov7251_requested _ = []"

lemma resources_requested:
  assumes "ov7251_get_resources E d = (0, d')"
  shows "{''vdddo'', ''vddd'', ''vdda'', ''enable''} \<subseteq> requests ov7251_requested (trace d')"
  using assms unfolding ov7251_get_resources_def Let_def case_prod_beta
  by (simp add: errno_defs split: option.splits if_splits) (auto simp: kcall_def kread_def Let_def)

lemma ov7251_roles:
  assumes "hid s = ''INT347E''"
  shows "FIELD_GET 7 0 v = 0 \<Longrightarrow> gpio_role_of H pwr1 s v =
      (INT3472_GPIO_TYPE_RESET, ''enable'', if on_when_high v then GPIO_ACTIVE_HIGH else GPIO_ACTIVE_LOW, 0)"
    and "FIELD_GET 7 0 v = 0x0b \<Longrightarrow> gpio_role_of H pwr1 s v =
      (INT3472_GPIO_TYPE_POWER_ENABLE, ''vdda'', if on_when_high v then GPIO_ACTIVE_HIGH else GPIO_ACTIVE_LOW,
       GPIO_REGULATOR_ENABLE_TIME H)"
  using assms
  by (simp_all add: gpio_role_of_def int3472_get_con_id_and_polarity_def int3472_gpio_map_def gpio_types
      turn_polarity_def on_when_high_def gpio_flags)

text \<open>
  C9: For an INT347E firmware with a reset GPIO and a power-enable GPIO, the INT3472 maps the
  first to the sensor under a name, with the polarity the firmware says, and makes the second a
  rail of the sensor under a supply name, in both cases, that the probe of the OV7251 asks for;
  the lookup table is for the sensor, and there is no LED.
\<close>

theorem surface_pro_infrared_camera:
  assumes fw: "gpio_firmware E dsm dsm_clk" and ok: "device_ok H s"
    and fresh: "glue_of s = no_glue" "ngpios s = 0" "hid s = ''INT347E''" "avdd_second_sensor (quirks s) = None"
    and rs: "filter (\<lambda>r. r \<noteq> None) rs = [Some g1, Some g2]"
    and dsm: "dsm 2 = Some v1" "FIELD_GET 7 0 v1 = 0" "dsm 3 = Some v2" "FIELD_GET 7 0 v2 = 0x0b"
    and parse: "int3472_discrete_parse_crs H E dn pwr1 (acpi_walk rs end) s = (0, s')"
    and probe: "ov7251_get_resources E7 d = (0, d')"
  shows "\<exists>line supply. line \<in> requests ov7251_requested (trace d') \<and> supply \<in> requests ov7251_requested (trace d') \<and>
    g_lookups (glue_of s') = [\<lparr>key = dn (source g1), chip_hwnum = pin0 g1, con_id = line,
      lflags = (if on_when_high v1 then GPIO_ACTIVE_HIGH else GPIO_ACTIVE_LOW)\<rparr>] \<and>
    g_rails (glue_of s') = [(GPIO_REGULATOR_ENABLE_TIME H,
      [(supply, sensor_name s), (string_upper H supply, sensor_name s)])] \<and>
    g_consumer (glue_of s') = Some (sensor_name s) \<and> g_clock (glue_of s') = dsm_clk \<and> g_leds (glue_of s') = 0"
proof -
  have "crs_spec H dn pwr1 s dsm 2 rs no_glue = crs_spec H dn pwr1 s dsm 2 [Some g1, Some g2] no_glue"
    using crs_spec_gpios [of H dn pwr1 s dsm 2 rs no_glue] unfolding rs by (rule sym)
  then have "glue_of s' = \<lparr>g_lookups = [\<lparr>key = dn (source g1), chip_hwnum = pin0 g1, con_id = ''enable'',
        lflags = (if on_when_high v1 then GPIO_ACTIVE_HIGH else GPIO_ACTIVE_LOW)\<rparr>],
      g_consumer = Some (sensor_name s), g_rails = [(GPIO_REGULATOR_ENABLE_TIME H,
        [(''vdda'', sensor_name s), (string_upper H ''vdda'', sensor_name s)])],
      g_clock = dsm_clk, g_leds = 0\<rparr>"
    using parse_crs_glue [OF fw ok parse] fresh dsm
    by (simp add: ov7251_roles spec_gpio_def gpio_types no_glue_def)
  then show ?thesis using resources_requested [OF probe] by auto
qed

theorem surface_pro_infrared_camera_witness:
  "\<exists>d' supply. ov7251_get_resources ov7251_env ov7251_sample = (0, d') \<and> supply \<in> requests ov7251_requested (trace d') \<and>
    g_rails (glue_of (snd sample_parse)) =
      [(3000, [(supply, ''i2c-INT347E:00''), (string_upper sample_header supply, ''i2c-INT347E:00'')])]"
proof -
  obtain d' where d': "ov7251_get_resources ov7251_env ov7251_sample = (0, d')"
    using sample_resources by blast
  have s: "glue_of sample_device = no_glue" "ngpios sample_device = 0" "hid sample_device = ''INT347E''"
      "avdd_second_sensor (quirks sample_device) = None" "sensor_name sample_device = ''i2c-INT347E:00''"
    by code_simp+
  have f: "filter (\<lambda>r. r \<noteq> None) sample_crs = [Some \<lparr>source = ''GPI0'', pin0 = 5\<rparr>, Some \<lparr>source = ''GPI0'', pin0 = 6\<rparr>]"
    by (simp add: sample_crs_def)
  have v: "sample_dsm 2 = Some 0x01000500" "FIELD_GET 7 0 (0x01000500 :: u32) = 0" "sample_dsm 3 = Some 0x0100060b"
      "FIELD_GET 7 0 (0x0100060b :: u32) = 0x0b"
    by (simp_all add: sample_dsm_def FIELD_GET_def GENMASK_def mask_eq_exp_minus_1)
  have p: "int3472_discrete_parse_crs sample_header sample_ienv id ''dvdd'' (acpi_walk sample_crs 0) sample_device =
      (0, snd sample_parse)"
    using sample_parse_ok(1) by (simp add: sample_parse_def prod_eq_iff)
  have t: "GPIO_REGULATOR_ENABLE_TIME sample_header = 3000" by (simp add: sample_header_def)
  from surface_pro_infrared_camera [OF sample_firmware_env sample_device_ok s(1-4) f v p d', unfolded s(5) t] d'
  show ?thesis by blast
qed

section \<open>The OV5693 behind the INT3472\<close>

text \<open>The names under which the probe of the OV5693 asks for its supplies and for its lines.\<close>

definition ov5693_supply_names :: "string list" where
  "ov5693_supply_names = [''avdd'', ''dovdd'', ''dvdd'']"

fun ov5693_requested :: "init_call \<Rightarrow> string list" where
  "ov5693_requested Devm_regulator_bulk_get = ov5693_supply_names"
| "ov5693_requested (Devm_gpiod_get Gpio_reset) = [''reset'']"
| "ov5693_requested (Devm_gpiod_get Gpio_powerdown) = [''powerdown'']"
| "ov5693_requested _ = []"

lemma ov5693_resources:
  assumes "ov5693_configure_gpios E d = (0, d1)" and "ov5693_get_regulators E d1 = (0, d2)"
  shows "{''reset'', ''powerdown''} \<union> set ov5693_supply_names \<subseteq> requests ov5693_requested (trace d2)"
  using assms
  by (auto simp: ov5693_configure_gpios_def ov5693_get_regulators_def kcall_def Let_def split: if_splits)

text \<open>The type field of a \<open>_DSM\<close> answer.\<close>

definition gpio_type :: "u32 \<Rightarrow> u8" where
  "gpio_type v = ucast (FIELD_GET 7 0 v)"

text \<open>No entry of the mapping table is for the OV5693.\<close>

lemma ov5693_roles: "hid s = ''INT33BE'' \<Longrightarrow> gpio_role_of H pwr1 s v = turn_polarity v (default_role H pwr1 (gpio_type v))"
  by (simp add: gpio_role_of_def int3472_get_con_id_and_polarity_def int3472_gpio_map_def gpio_type_def)

text \<open>The line a GPIO becomes.\<close>

definition front_line :: "(string \<Rightarrow> string) \<Rightarrow> acpi_gpio \<Rightarrow> u32 \<Rightarrow> gpiod_lookup" where
  "front_line dn g v = \<lparr>key = dn (source g), chip_hwnum = pin0 g,
     con_id = (if gpio_type v = INT3472_GPIO_TYPE_RESET then ''reset'' else ''powerdown''),
     lflags = (if on_when_high v then GPIO_ACTIVE_LOW else GPIO_ACTIVE_HIGH)\<rparr>"

text \<open>A rail whose consumers are one supply of the OV5693, in both cases.\<close>

definition supplies_rail :: "int3472_header \<Rightarrow> string \<Rightarrow> u32 \<times> (string \<times> string) list \<Rightarrow> bool" where
  "supplies_rail H sensor r \<longleftrightarrow>
     (\<exists>supply \<in> set ov5693_supply_names. snd r = [(supply, sensor), (string_upper H supply, sensor)])"

text \<open>One GPIO, and then the whole table.\<close>

lemma spec_gpio_front:
  fixes H dn s g pwr1 v and G G' :: glue
  assumes "hid s = ''INT33BE''" and "gpio_type v \<noteq> INT3472_GPIO_TYPE_HOTPLUG_DETECT" and "pwr1 \<in> set ov5693_supply_names"
    and "avdd_second_sensor (quirks s) = None"
  defines "G' \<equiv> spec_gpio H dn (sensor_name s) (quirks s) g (gpio_role_of H pwr1 s v) G"
  shows "g_lookups G' = g_lookups G @
      (if gpio_type v \<in> {INT3472_GPIO_TYPE_RESET, INT3472_GPIO_TYPE_POWERDOWN} then [front_line dn g v] else [])"
    and "Ball (set (g_rails G)) (supplies_rail H (sensor_name s)) \<Longrightarrow> Ball (set (g_rails G')) (supplies_rail H (sensor_name s))"
proof -
  note d = G'_def ov5693_roles [OF assms(1), of H pwr1 v] default_role_def spec_gpio_def turn_polarity_def Let_def
  show "g_lookups G' = g_lookups G @
      (if gpio_type v \<in> {INT3472_GPIO_TYPE_RESET, INT3472_GPIO_TYPE_POWERDOWN} then [front_line dn g v] else [])"
    using assms(2) unfolding d by (auto simp: front_line_def on_when_high_def gpio_types gpio_flags)
  show "Ball (set (g_rails G)) (supplies_rail H (sensor_name s)) \<Longrightarrow> Ball (set (g_rails G')) (supplies_rail H (sensor_name s))"
    using assms(2-4) unfolding d by (auto simp: gpio_types ov5693_supply_names_def supplies_rail_def)
qed

text \<open>The lines of a firmware table: those of its reset and power-down GPIOs, in order.\<close>

fun front_lines :: "(string \<Rightarrow> string) \<Rightarrow> (u32 \<Rightarrow> u32 option) \<Rightarrow> u32 \<Rightarrow> acpi_gpio option list \<Rightarrow> gpiod_lookup list" where
  "front_lines dn dsm i [] = []"
| "front_lines dn dsm i (None # rs) = front_lines dn dsm i rs"
| "front_lines dn dsm i (Some g # rs) = (case dsm i of
     None \<Rightarrow> front_lines dn dsm i rs
   | Some v \<Rightarrow> (if gpio_type v \<in> {INT3472_GPIO_TYPE_RESET, INT3472_GPIO_TYPE_POWERDOWN} then [front_line dn g v] else []) @
       front_lines dn dsm (i + 1) rs)"

lemma crs_front:
  fixes H :: int3472_header and s :: int3472 and G :: glue
  assumes s: "hid s = ''INT33BE''" and h: "\<And>i v. dsm i = Some v \<Longrightarrow> gpio_type v \<noteq> INT3472_GPIO_TYPE_HOTPLUG_DETECT"
    and p: "pwr1 \<in> set ov5693_supply_names" and q: "avdd_second_sensor (quirks s) = None"
  defines "rails \<equiv> \<lambda>G. Ball (set (g_rails G)) (supplies_rail H (sensor_name s))"
  shows "rails G \<Longrightarrow> g_lookups (crs_spec H dn pwr1 s dsm i rs G) = g_lookups G @ front_lines dn dsm i rs \<and>
    rails (crs_spec H dn pwr1 s dsm i rs G)"
proof (induction rs arbitrary: i G)
  case (Cons r rs)
  then show ?case
  proof (cases "\<exists>g v. r = Some g \<and> dsm i = Some v")
    case True
    then obtain g v where r: "r = Some g" "dsm i = Some v" by blast
    let ?G = "spec_gpio H dn (sensor_name s) (quirks s) g (gpio_role_of H pwr1 s v) G"
    note f = spec_gpio_front [OF s h [OF r(2)] p q, where H = H and dn = dn and g = g and G = G]
    have "rails ?G" using f(2) Cons.prems unfolding rails_def by blast
    from Cons.IH [OF this, of "i + 1"] show ?thesis
      by (simp only: r f(1) crs_spec.simps front_lines.simps option.case append.assoc simp_thms)
  next
    case False
    then show ?thesis using Cons.IH [of G i] Cons.prems by (cases r; cases "dsm i") auto
  qed
qed simp

lemma front_lines_requested:
  "l \<in> set (front_lines dn dsm i rs) \<Longrightarrow> con_id l \<in> {''reset'', ''powerdown''}"
proof (induction rs arbitrary: i)
  case (Cons r rs)
  then show ?case by (cases r) (auto simp: front_line_def split: option.splits if_splits)
qed simp

text \<open>
  C10: For an INT33BE firmware with any GPIO resources but hot-plug ones, the INT3472 maps to the
  sensor exactly the reset and power-down GPIOs, in their order and active low when the firmware
  says the line is on when high, in a lookup table for the sensor, and every line and every rail
  supply, in both cases, goes by a name that the probe of the OV5693 asks for, when the module
  parameter names one of its supplies.
\<close>

theorem surface_pro_front_camera:
  assumes fw: "gpio_firmware E dsm dsm_clk" and ok: "device_ok H s"
    and fresh: "glue_of s = no_glue" "ngpios s = 0" "hid s = ''INT33BE''" "avdd_second_sensor (quirks s) = None"
    and dsm: "\<And>i v. dsm i = Some v \<Longrightarrow> gpio_type v \<noteq> INT3472_GPIO_TYPE_HOTPLUG_DETECT"
    and pwr1: "pwr1 \<in> {''avdd'', ''dovdd'', ''dvdd''}"
    and parse: "int3472_discrete_parse_crs H E dn pwr1 (acpi_walk rs end) s = (0, s')"
    and probe: "ov5693_configure_gpios E5 d = (0, d1)" "ov5693_get_regulators E5 d1 = (0, d2)"
  shows "g_lookups (glue_of s') = front_lines dn dsm 2 rs \<and> g_consumer (glue_of s') = Some (sensor_name s) \<and>
    (\<forall>l \<in> set (g_lookups (glue_of s')). con_id l \<in> requests ov5693_requested (trace d2)) \<and>
    (\<forall>(t, m) \<in> set (g_rails (glue_of s')). \<exists>supply \<in> requests ov5693_requested (trace d2).
       m = [(supply, sensor_name s), (string_upper H supply, sensor_name s)])"
proof -
  have p: "pwr1 \<in> set ov5693_supply_names" using pwr1 by (simp add: ov5693_supply_names_def)
  have "g_lookups (glue_of s') = front_lines dn dsm 2 rs \<and> g_consumer (glue_of s') = Some (sensor_name s) \<and>
      Ball (set (g_rails (glue_of s'))) (supplies_rail H (sensor_name s))"
    using parse_crs_glue [OF fw ok parse] crs_front [OF fresh(3) dsm p fresh(4), where H = H and dn = dn and i = 2 and rs = rs and G = no_glue] fresh(1,2)
    by (simp add: no_glue_def Let_def)
  then show ?thesis
    using ov5693_resources [OF probe] front_lines_requested [of _ dn dsm 2 rs]
    by (fastforce simp: supplies_rail_def)
qed

text \<open>A firmware with a reset, a power-down and a power-enable GPIO.\<close>

definition front_dsm :: "u32 \<Rightarrow> u32 option" where
  "front_dsm i = (if i = 2 then Some 0x01000500 else if i = 3 then Some 0x00000601 else if i = 4 then Some 0x0100070b else None)"

definition front_ienv :: ienv where
  "front_ienv = dsm_env front_dsm False \<lparr>iret_of = (\<lambda>l c. case c of Gpiod_get con \<Rightarrow> 7 | _ \<Rightarrow> 0),
     ival_of = (\<lambda>l c. 0), ibuf_of = (\<lambda>l. [])\<rparr>"

definition front_crs :: "acpi_gpio option list" where
  "front_crs = [Some \<lparr>source = ''GPI0'', pin0 = 5\<rparr>, Some \<lparr>source = ''GPI0'', pin0 = 6\<rparr>, None,
     Some \<lparr>source = ''GPI0'', pin0 = 7\<rparr>]"

definition front_device :: int3472 where
  "front_device = (zero_int3472 sample_header [])\<lparr>sensor_adev_name := ''INT33BE:00'', sensor_name := ''i2c-INT33BE:00'',
     hid := ''INT33BE''\<rparr>"

lemma front_device_ok: "device_ok sample_header front_device"
  using zero_settled(1) [of sample_header "[]"] unfolding front_device_def
  by (simp add: settled_def device_ok_def)

definition front_parse :: "int \<times> int3472" where
  "front_parse = int3472_discrete_parse_crs sample_header front_ienv id ''dvdd'' (acpi_walk front_crs 0) front_device"

lemma front_parse_ok: "fst front_parse = 0" "glue_of (snd front_parse) = \<lparr>
    g_lookups = [\<lparr>key = ''GPI0'', chip_hwnum = 5, con_id = ''reset'', lflags = 1\<rparr>,
      \<lparr>key = ''GPI0'', chip_hwnum = 6, con_id = ''powerdown'', lflags = 0\<rparr>], g_consumer = Some ''i2c-INT33BE:00'',
    g_rails = [(3000, [(''avdd'', ''i2c-INT33BE:00''), (''avdd'', ''i2c-INT33BE:00'')])], g_clock = False, g_leds = 0\<rparr>"
  by code_simp+

lemma front_firmware_env: "gpio_firmware front_ienv front_dsm False"
  unfolding front_ienv_def by (rule table.gpio_firmware_axioms)

lemma front_dsm_types: "front_dsm i = Some v \<Longrightarrow> gpio_type v \<noteq> INT3472_GPIO_TYPE_HOTPLUG_DETECT"
  by (auto simp: front_dsm_def gpio_type_def gpio_types FIELD_GET_def GENMASK_def mask_eq_exp_minus_1 split: if_splits)

theorem surface_pro_front_camera_witness:
  "''powerdown'' \<in> requests ov5693_requested (trace (snd (ov5693_get_regulators sample_env
     (snd (ov5693_configure_gpios sample_env ov5693_sample))))) \<and>
   g_lookups (glue_of (snd front_parse)) = front_lines id front_dsm 2 front_crs"
proof -
  let ?d1 = "snd (ov5693_configure_gpios sample_env ov5693_sample)"
  have p: "ov5693_configure_gpios sample_env ov5693_sample = (0, ?d1)"
      "ov5693_get_regulators sample_env ?d1 = (0, snd (ov5693_get_regulators sample_env ?d1))"
    by (simp_all add: ov5693_configure_gpios_def ov5693_get_regulators_def kcall_def Let_def sample_env_def sim_env_def all_ok_def)
  have s: "glue_of front_device = no_glue" "ngpios front_device = 0" "hid front_device = ''INT33BE''"
      "avdd_second_sensor (quirks front_device) = None"
    by code_simp+
  have q: "int3472_discrete_parse_crs sample_header front_ienv id ''dvdd'' (acpi_walk front_crs 0) front_device =
      (0, snd front_parse)"
    using front_parse_ok(1) by (simp add: front_parse_def prod_eq_iff)
  have n: "''dvdd'' \<in> {''avdd'', ''dovdd'', ''dvdd''}" by simp
  from surface_pro_front_camera [OF front_firmware_env front_device_ok s front_dsm_types n q p] front_parse_ok(2)
  show ?thesis by (simp del: requests_simps)
qed

end
