(* ===== verification/Spec2Isabelle.thy ===== *)
theory Spec2Isabelle
  imports Ov5693_Lifecycle Ov5693_Stream Ov7251_Lifecycle Ov7251_Stream Surface_Pro
begin

text \<open>
  Camera drivers of the Surface Pro 7+ (\<open>dkms/\<close>).

  The repository builds three kernel modules: two image sensor drivers, \<open>ov5693-surface/ov5693.c\<close>
  and \<open>ov7251-surface/ov7251.c\<close>, and the discrete INT3472 glue, \<open>int3472-surface/*.c\<close>, which turns the
  GPIOs of the firmware into the lines, clock, power rails and LED the sensor drivers ask for by
  name. The development models all of their C code but the tables that register the drivers with
  the kernel.

  Layers.

  \<open>Prelude\<close> has the integer types, the macros of the kernel headers at their width, the error numbers,
  the faults (a fault is an oops: the call does not return) and lemmas on words.
  \<open>Kernel\<close> is the kernel as the sensor drivers see it: a call is recorded with its result in the
  \<open>trace\<close> of the device, the results come from an environment \<open>env\<close> that may depend on all calls made
  before, and the four services that call back into the driver (\<open>__v4l2_ctrl_modify_range\<close>,
  \<open>__v4l2_ctrl_s_ctrl\<close>, \<open>__v4l2_ctrl_handler_setup\<close>, \<open>pm_runtime_resume_and_get\<close>) are the record \<open>services\<close>.
  Counts over the trace say what is held: \<open>pm_usage\<close>, \<open>weigh\<close> with a weight per call, and \<open>lock_run\<close> for
  the mutex. What the documentation of the control framework and of runtime PM promises is stated in
  the locales \<open>ctrl_core\<close>, \<open>ctrl_frame\<close> and \<open>stream_core\<close>; \<open>ctrl_driver\<close> is what an \<open>s_ctrl\<close> callback has to
  keep for the documented core to honour the first two, and is interpreted on both drivers.
  \<open>Lifecycle\<close> is the life of a sensor driver between probe and remove: \<open>camera_step\<close> starts, stops, calls
  and suspends a device, the locale \<open>camera_driver\<close> is what the operations of a driver owe to the mutex,
  the PM references and the rails, and \<open>stream_power\<close>, which extends \<open>stream_core\<close>, what they owe it to.
  \<open>V4l2\<close> has the arguments of the pad operations, \<open>Regmap\<close> the CCI register helpers.

  OV5693. \<open>Ov5693_Regs\<close>: registers and tables. \<open>Ov5693_Ctrl\<close>: the device record, each control
  operation, \<open>s_ctrl\<close> and the mode programming. \<open>Ov5693_Format\<close>: the pad operations; their lemmas
  show what \<open>set_fmt\<close> stores for every request, the geometry invariant, and where a width of zero leads
  to a division by zero. \<open>Ov5693_Power\<close>: power sequence, streaming, suspend and resume, probe with its
  unwinding labels, remove; what each path holds when it ends. \<open>Ov5693_Lifecycle\<close>: its operations as a
  \<open>camera_driver\<close>, and what holds from a successful probe to the removal when the rails come up; that
  they do is assumed because a failing power-up drops references it never took. \<open>Ov5693_Stream\<close>: the
  transfers of a start in order, and the registers the sensor streams with.

  OV7251. \<open>Ov7251_Regs\<close>: registers, PLL configurations, mode tables. \<open>Ov7251_Ctrl\<close>: I2C transfers with
  the buffer check, register arrays, controls, \<open>s_ctrl\<close>; the lemmas read the registers of the sensor
  back from the bytes sent. \<open>Ov7251_Mode\<close>: the pad operations and the choice of a mode; the
  \<open>v4l2_find_nearest_size\<close> macro is the locale \<open>size_finder\<close>. \<open>Ov7251_Power\<close>: power, illuminator,
  streaming, firmware configuration, module parameters, probe, remove. \<open>Ov7251_Lifecycle\<close>: its
  operations as a \<open>camera_driver\<close>, and what holds from a successful probe to the removal whichever of the
  calls to the kernel fails; \<open>pm_runtime_get_if_in_use\<close> answers whether the device is in use, never an
  error, as it does while runtime PM is enabled. \<open>Ov7251_Power\<close> also shows which calls return at all.
  \<open>Ov7251_Stream\<close>: what a start leaves in the registers of the sensor, those of the tables, the controls
  and the illuminator; every start programs the mode, also when the device was active.

  INT3472. \<open>Int3472_Device\<close>: the device, its clock, regulators, LEDs and quirks
  (\<open>clk_and_regulator.c\<close>, \<open>led.c\<close>, \<open>discrete_quirks.c\<close>), with a ledger of every resource a call takes
  (\<open>takes\<close>) against what the state says is held (\<open>owned\<close>). \<open>regulator_register\<close> takes over the descriptor
  of the regulator whether it succeeds or not, so that the driver puts one too many after a refusal;
  \<open>refusals\<close> counts these. \<open>Int3472_Discrete\<close>: the mapping of GPIOs,
  the resource handler, parse, probe, removal (\<open>discrete.c\<close>); the walk of the ACPI core is a parameter with
  the contract of the locale \<open>resource_walk\<close>. \<open>Int3472_Refine\<close>: the abstract state \<open>glue\<close>, the function
  \<open>crs_spec\<close> of the firmware table, and the proof that the parse computes it. Sizes and constants of
  \<open>platform_data/x86/int3472.h\<close>, which is not in the repository, are the record \<open>int3472_header\<close>.

  Composition. \<open>Surface_Pro\<close>: the names the INT3472 registers for the lines and rails of the OV7251 and of
  the OV5693 are names their probes ask for; the firmware of each camera is a concrete instance. This
  theory shows that the calls between driver and control core end at the second level in both drivers.

  Conventions. A C \<open>int\<close> is an \<open>int\<close>, unsigned types are words; conversions are written out. An error
  pointer is its negative error number. A \<open>goto\<close> label of a probe is a definition of what runs from it.
  Every loop of the code is bounded by a table or a list and is a structural recursion, so there is no
  fuel. A driver and the control core call each other; the services of the model allow two levels, and
  \<open>control_nesting\<close> shows that more change nothing. The witnesses evaluate the definitions on concrete devices.

  Not modelled: messages (\<open>dev_err\<close>, \<open>dev_dbg\<close>), the match tables and module boilerplate at the end of each
  file, the \<open>dev_pm_ops\<close> and ops structures that only name functions, and the pin number check of the
  INT3472 handler, which only prints. The files under \<open>dkms/ipu6-psys-surface\<close> are vendored headers
  with declarations only. The shell and Python tools, service files, udev rules, configuration and
  patches are not C code. Memory is not modelled as addresses: \<open>devm\<close> allocations succeed or fail.
\<close>

section \<open>Control calls do not nest deeper\<close>

text \<open>
  \<open>s_ctrl\<close> calls the core, which may call \<open>s_ctrl\<close>. Services for \<open>n\<close> levels of such calls; the model uses
  one below the callback itself (\<open>ov5693_inner_services\<close>, \<open>ov7251_inner_services\<close>).
\<close>

primrec nested :: "('a kdev_scheme services \<Rightarrow> 'a kdev_scheme s_ctrl_op) \<Rightarrow> nat \<Rightarrow> 'a kdev_scheme services" where
  "nested op 0 = no_services"
| "nested op (Suc n) = no_services\<lparr>modify_range := v4l2_modify_range (op (nested op n)),
     set_ctrl := v4l2_set_ctrl (op (nested op n))\<rparr>"

text \<open>A control whose callback uses no service is set alike at every depth.\<close>

lemma nested_range:
  assumes "\<And>S S'. op S c = op S' c"
  shows "modify_range (nested op (Suc n)) c = modify_range (nested op (Suc m)) c"
proof -
  have "op (nested op n) c = op (nested op m) c" by (rule assms)
  then show ?thesis by (simp add: fun_eq_iff v4l2_modify_range_def v4l2_apply_def Let_def)
qed

text \<open>
  The calls between a driver and the control core end at the second level: with services for any
  number of levels, applying a control does what it does with one level, in both drivers.
\<close>

theorem control_nesting:
  "ov5693_s_ctrl (nested (\<lambda>S. ov5693_op S E) (Suc n)) E c v d = ov5693_s_ctrl (ov5693_inner_services E) E c v d \<and>
   ov7251_s_ctrl (nested (\<lambda>S. ov7251_op S E) (Suc n)) E c v x = ov7251_s_ctrl (ov7251_inner_services E) E c v x"
proof -
  let ?f = "\<lambda>S. ov5693_op S E" and ?g = "\<lambda>S. ov7251_op S E"
  have i: "ov5693_inner_services E = nested ?f (Suc 0)" "ov7251_inner_services E = nested ?g (Suc 0)"
    by (simp_all add: ov5693_inner_services_def ov7251_inner_services_def)
  have "ov5693_op S E V4L2_CID_EXPOSURE = ov5693_op S' E V4L2_CID_EXPOSURE" for S S'
    by (simp add: fun_eq_iff ov5693_op_def ov5693_s_ctrl_def)
  then have f: "modify_range (nested ?f (Suc n)) V4L2_CID_EXPOSURE = modify_range (nested ?f (Suc 0)) V4L2_CID_EXPOSURE"
    by (rule nested_range)
  have "ov7251_op S E V4L2_CID_EXPOSURE = ov7251_op S' E V4L2_CID_EXPOSURE" for S S'
    by (simp add: fun_eq_iff ov7251_op_def ov7251_s_ctrl_def)
  then have g: "modify_range (nested ?g (Suc n)) V4L2_CID_EXPOSURE = modify_range (nested ?g (Suc 0)) V4L2_CID_EXPOSURE"
    by (rule nested_range)
  show ?thesis
    unfolding i ov5693_s_ctrl_def ov7251_s_ctrl_def ov5693_follow_vblank_def ov7251_follow_vblank_def f g by simp
qed

end
